(* ===== verification/Prelude.thy ===== *)
theory Prelude
  imports Complex_Main "HOL-Library.Sublist"
begin

text \<open>
  Shared vocabulary of the weboob development: the Python values the extraction
  filters pass around (\<open>pyval\<close>), the parsed document tree (\<open>node\<close>), the decimal
  numbers of Python's \<open>decimal\<close> module, the Python exceptions raised by the filters,
  and the string helpers that several components use (whitespace classes, \<open>strip\<close>,
  \<open>' '.join\<close>, the first-match scan). Characters are Unicode code points below 256
  (Latin-1), which is the range every character class of the source mentions.
\<close>

named_theorems text_simps "characteristic equations of the text helpers"
named_theorems scan_simps "facts about first-match scans"

section \<open>Whitespace classes\<close>

text \<open>
  \<open>re_space\<close> is the class \<open>[\s\xa0\t]\<close> of \<^verbatim>\<open>CleanText.clean\<close>: the pattern is a
  unicode literal compiled without \<open>re.UNICODE\<close>, so \<open>\s\<close> is \<open>[ \t\n\r\f\v]\<close>.
  \<open>py_space\<close> is what \<open>unicode.strip()\<close> and \<open>unicode.isspace()\<close> remove, restricted
  to Latin-1: it also holds the separators \<open>\x1c\<close>..\<open>\x1f\<close> and \<open>\x85\<close>.
\<close>

definition re_space :: "char \<Rightarrow> bool" where
  "re_space c \<longleftrightarrow> of_char c \<in> {9, 10, 11, 12, 13, 32, 160 :: nat}"

definition py_space :: "char \<Rightarrow> bool" where
  "py_space c \<longleftrightarrow> of_char c \<in> {9, 10, 11, 12, 13, 28, 29, 30, 31, 32, 133, 160 :: nat}"

lemma re_space_py_space: "re_space c \<Longrightarrow> py_space c"
  by (auto simp: re_space_def py_space_def)

lemma space_re_space [simp]: "re_space (CHR '' '')" and space_py_space [simp]: "py_space (CHR '' '')"
  by (simp_all add: re_space_def py_space_def)

definition py_digit :: "char \<Rightarrow> bool" where
  "py_digit c \<longleftrightarrow> 48 \<le> (of_char c :: nat) \<and> (of_char c :: nat) \<le> 57"

section \<open>strip and join\<close>

text \<open>\<open>s.strip()\<close>: drop \<open>py_space\<close> characters at both ends.\<close>

definition py_strip :: "string \<Rightarrow> string" where
  "py_strip s = rev (dropWhile py_space (rev (dropWhile py_space s)))"

text \<open>\<open>sep.join(xs)\<close>.\<close>

fun py_join :: "string \<Rightarrow> string list \<Rightarrow> string" where
  "py_join sep [] = []"
| "py_join sep [x] = x"
| "py_join sep (x # y # ys) = x @ sep @ py_join sep (y # ys)"

lemma dropWhile_idem [text_simps]: "dropWhile P (dropWhile P xs) = dropWhile P xs"
  by (induction xs) auto

lemma rstrip_Cons:
  "\<not> P c \<Longrightarrow> rev (dropWhile P (rev (c # cs))) = c # rev (dropWhile P (rev cs))"
  by (cases "\<forall>x \<in> set cs. P x") (auto simp: dropWhile_append)

lemma py_strip_idem [text_simps]: "py_strip (py_strip s) = py_strip s"
proof (cases "dropWhile py_space s")
  case Nil
  then have "py_strip s = []" by (simp only: py_strip_def Nil) simp
  moreover have "py_strip [] = []" by (simp add: py_strip_def)
  ultimately show ?thesis by simp
next
  case (Cons c cs)
  then have "\<not> py_space c" by (metis hd_dropWhile list.distinct(1) list.sel(1))
  then have r: "rev (dropWhile py_space (rev (c # cs))) = c # rev (dropWhile py_space (rev cs))"
    by (rule rstrip_Cons)
  have "dropWhile py_space (rev (dropWhile py_space (rev (c # cs)))) =
        rev (dropWhile py_space (rev (c # cs)))"
    by (simp only: r) (simp add: \<open>\<not> py_space c\<close>)
  with Cons show ?thesis by (simp add: py_strip_def dropWhile_idem)
qed

lemma py_strip_hd_last:
  assumes ne: "py_strip s \<noteq> []"
  shows "\<not> py_space (hd (py_strip s)) \<and> \<not> py_space (last (py_strip s))"
proof -
  obtain e es where d: "dropWhile py_space s = e # es"
    using ne by (cases "dropWhile py_space s") (auto simp: py_strip_def)
  then have e: "\<not> py_space e" by (metis hd_dropWhile list.distinct(1) list.sel(1))
  then have "py_strip s = e # rev (dropWhile py_space (rev es))"
    by (simp only: py_strip_def d rstrip_Cons [of py_space e es, OF e])
  then have h: "hd (py_strip s) = e" by simp
  have ne': "dropWhile py_space (rev (dropWhile py_space s)) \<noteq> []"
    using ne by (simp add: py_strip_def)
  have "last (py_strip s) = hd (dropWhile py_space (rev (dropWhile py_space s)))"
    using ne' by (simp add: py_strip_def last_rev)
  with ne' have "\<not> py_space (last (py_strip s))" by (simp add: hd_dropWhile)
  with h e show ?thesis by simp
qed

section \<open>First match of a scan\<close>

text \<open>
  The loops \<^verbatim>\<open>for x in xs: r = f(x); if r: return r\<close> of the source (page lookup in
  \<^verbatim>\<open>_change_location\<close>, column lookup in \<^verbatim>\<open>TableCell\<close>).
\<close>

fun first_some :: "('a \<Rightarrow> 'b option) \<Rightarrow> 'a list \<Rightarrow> 'b option" where
  "first_some f [] = None"
| "first_some f (x # xs) = (case f x of Some y \<Rightarrow> Some y | None \<Rightarrow> first_some f xs)"

lemma first_some_None_iff [scan_simps]: "first_some f xs = None \<longleftrightarrow> (\<forall>x \<in> set xs. f x = None)"
  by (induction xs) (auto split: option.splits)

lemma first_some_Some_iff [scan_simps]:
  "first_some f xs = Some y \<longleftrightarrow>
     (\<exists>us x vs. xs = us @ x # vs \<and> (\<forall>u \<in> set us. f u = None) \<and> f x = Some y)"
proof (induction xs)
  case Nil
  then show ?case by simp
next
  case (Cons a xs)
  show ?case
  proof (cases "f a")
    case None
    have "(\<exists>us x vs. a # xs = us @ x # vs \<and> (\<forall>u \<in> set us. f u = None) \<and> f x = Some y) \<longleftrightarrow>
          (\<exists>us x vs. xs = us @ x # vs \<and> (\<forall>u \<in> set us. f u = None) \<and> f x = Some y)"
    proof
      assume "\<exists>us x vs. a # xs = us @ x # vs \<and> (\<forall>u \<in> set us. f u = None) \<and> f x = Some y"
      then obtain us x vs where h: "a # xs = us @ x # vs" "\<forall>u \<in> set us. f u = None" "f x = Some y"
        by blast
      with None show "\<exists>us x vs. xs = us @ x # vs \<and> (\<forall>u \<in> set us. f u = None) \<and> f x = Some y"
        by (cases us) auto
    next
      assume "\<exists>us x vs. xs = us @ x # vs \<and> (\<forall>u \<in> set us. f u = None) \<and> f x = Some y"
      then obtain us x vs where h: "xs = us @ x # vs" "\<forall>u \<in> set us. f u = None" "f x = Some y"
        by blast
      then have "a # xs = (a # us) @ x # vs" and "\<forall>u \<in> set (a # us). f u = None"
        using None by simp_all
      with h(3) show "\<exists>us x vs. a # xs = us @ x # vs \<and> (\<forall>u \<in> set us. f u = None) \<and> f x = Some y"
        by blast
    qed
    with None Cons.IH show ?thesis by simp
  next
    case (Some b)
    have "(\<exists>us x vs. a # xs = us @ x # vs \<and> (\<forall>u \<in> set us. f u = None) \<and> f x = Some y) \<longleftrightarrow> b = y"
    proof
      assume "\<exists>us x vs. a # xs = us @ x # vs \<and> (\<forall>u \<in> set us. f u = None) \<and> f x = Some y"
      then obtain us x vs where h: "a # xs = us @ x # vs" "\<forall>u \<in> set us. f u = None" "f x = Some y"
        by blast
      with Some show "b = y" by (cases us) auto
    next
      assume "b = y"
      with Some show "\<exists>us x vs. a # xs = us @ x # vs \<and> (\<forall>u \<in> set us. f u = None) \<and> f x = Some y"
        by (intro exI[of _ "[]"] exI[of _ a] exI[of _ xs]) simp
    qed
    with Some show ?thesis by auto
  qed
qed

lemma first_some_append [scan_simps]:
  "first_some f (xs @ ys) = (case first_some f xs of None \<Rightarrow> first_some f ys | Some y \<Rightarrow> Some y)"
  by (induction xs) (auto split: option.splits)

section \<open>Mapping a raising function over a list\<close>

text \<open>
  \<^verbatim>\<open>map(f, xs)\<close> with an \<open>f\<close> that may raise: the elements are visited in order
  and the first exception propagates.
\<close>

fun py_mapM :: "('a \<Rightarrow> 'e + 'b) \<Rightarrow> 'a list \<Rightarrow> 'e + 'b list" where
  "py_mapM f [] = Inr []"
| "py_mapM f (x # xs) =
     (case f x of Inl e \<Rightarrow> Inl e | Inr y \<Rightarrow> (case py_mapM f xs of Inl e \<Rightarrow> Inl e | Inr ys \<Rightarrow> Inr (y # ys)))"

lemma py_mapM_Inr_D: "py_mapM f xs = Inr ys \<Longrightarrow> list_all2 (\<lambda>x y. f x = Inr y) xs ys"
  by (induction xs arbitrary: ys) (auto split: sum.splits)

lemma py_mapM_Inr_I: "list_all2 (\<lambda>x y. f x = Inr y) xs ys \<Longrightarrow> py_mapM f xs = Inr ys"
  by (induction rule: list_all2_induct) auto

lemma py_mapM_Inr_iff [scan_simps]: "py_mapM f xs = Inr ys \<longleftrightarrow> list_all2 (\<lambda>x y. f x = Inr y) xs ys"
  using py_mapM_Inr_D py_mapM_Inr_I by blast

lemma py_mapM_map [scan_simps]: "py_mapM (\<lambda>x. Inr (g x)) xs = Inr (map g xs)"
  by (induction xs) auto

text \<open>
  Statements run in order and the first exception propagates: \<open>ebind m f\<close> runs \<open>f\<close>
  on the value of \<open>m\<close>, or passes on its exception.
\<close>

definition ebind :: "'e + 'a \<Rightarrow> ('a \<Rightarrow> 'e + 'b) \<Rightarrow> 'e + 'b" where
  "ebind m f = (case m of Inl e \<Rightarrow> Inl e | Inr a \<Rightarrow> f a)"

lemma ebind_Inl [simp]: "ebind (Inl e) f = Inl e"
  by (simp add: ebind_def)

lemma ebind_Inr [simp]: "ebind (Inr a) f = f a"
  by (simp add: ebind_def)

lemma ebind_eq_Inr: "ebind m f = Inr b \<longleftrightarrow> (\<exists>a. m = Inr a \<and> f a = Inr b)"
  by (cases m) simp_all

lemma ebind_eq_Inl: "ebind m f = Inl e \<longleftrightarrow> m = Inl e \<or> (\<exists>a. m = Inr a \<and> f a = Inl e)"
  by (cases m) simp_all

text \<open>Recursion under \<open>ebind\<close> calls only on the values \<open>m\<close> can return.\<close>

lemma ebind_cong [fundef_cong]:
  "m1 = m2 \<Longrightarrow> (\<And>y. m2 = Inr y \<Longrightarrow> f1 y = f2 y) \<Longrightarrow> ebind m1 f1 = ebind m2 f2"
  by (cases m2) simp_all

lemma ebind_assoc: "ebind (ebind m f) g = ebind m (\<lambda>x. ebind (f x) g)"
  by (cases m) simp_all


text \<open>
  A \<^verbatim>\<open>for\<close> loop over a list whose body updates a state and may raise: the first
  exception ends the loop.
\<close>

primrec efold :: "('s \<Rightarrow> 'a \<Rightarrow> 'e + 's) \<Rightarrow> 'a list \<Rightarrow> 's \<Rightarrow> 'e + 's" where
  "efold f [] s = Inr s"
| "efold f (x # xs) s = ebind (f s x) (efold f xs)"

text \<open>An invariant every iteration keeps holds after the loop.\<close>

lemma efold_inv:
  assumes "efold f xs s = Inr s'" and "P s"
    and "\<And>s x t. P s \<Longrightarrow> x \<in> set xs \<Longrightarrow> f s x = Inr t \<Longrightarrow> P t"
  shows "P s'"
  using assms
proof (induction xs arbitrary: s)
  case Nil
  then show ?case by simp
next
  case (Cons x xs)
  show ?case
  proof (cases "f s x")
    case (Inl e)
    with Cons.prems(1) show ?thesis by simp
  next
    case (Inr t)
    have r: "efold f xs t = Inr s'" using Cons.prems(1) Inr by simp
    have "P t" by (rule Cons.prems(3) [OF Cons.prems(2) _ Inr]) simp
    then show ?thesis by (rule Cons.IH [OF r]) (rule Cons.prems(3), simp_all)
  qed
qed

lemma efold_append: "efold f (xs @ ys) s = ebind (efold f xs s) (efold f ys)"
  by (induction xs arbitrary: s) (simp_all add: ebind_def split: sum.split)

text \<open>
  A pattern \<open>Inr ()\<close> of a \<open>case\<close> leaves a \<open>case\<close> on the unit value behind; it is
  resolved here once, for all the engine's proofs.
\<close>

lemma case_unit_any [simp]: "case_unit f (u::unit) = f"
  by (cases u) (simp only: old.unit.case)

section \<open>Python values\<close>

text \<open>
  The document tree of lxml: an element with its tag, its attributes and its children,
  text (and tails) kept as \<open>Text\<close> children in document order.
\<close>

datatype node = Text string | Elem string "(string \<times> string) list" "node list"

text \<open>\<^verbatim>\<open>el.itertext()\<close>: every text piece under the node, in document order.\<close>

fun itertext :: "node \<Rightarrow> string list" where
  "itertext (Text s) = [s]"
| "itertext (Elem t as cs) = concat (map itertext cs)"

text \<open>
  A \<^verbatim>\<open>decimal.Decimal\<close> is a sign, a coefficient and an exponent, as Python stores it
  (\<^verbatim>\<open>Decimal.as_tuple()\<close>), or an infinity, or a (signalling) NaN.
\<close>

datatype decimal = Finite bool nat int | Infinity bool | NaN bool

text \<open>The exact rational value of a finite decimal.\<close>

fun dec_value :: "decimal \<Rightarrow> rat option" where
  "dec_value (Finite neg c e) =
     Some ((if neg then -1 else 1) * of_nat c *
           (if 0 \<le> e then 10 ^ nat e else 1 / 10 ^ nat (- e)))"
| "dec_value (Infinity _) = None"
| "dec_value (NaN _) = None"

text \<open>
  The values the filters select and return: strings, integers, decimals, document nodes,
  lists of them (what \<^verbatim>\<open>xpath\<close> returns) and \<open>None\<close>.
\<close>

datatype pyval = PStr string | PInt int | PDec decimal | PNode node | PList "pyval list" | PNone

text \<open>The exceptions raised by the filters, the decimal module and Python's own operations.\<close>

datatype py_error =
    KeyError | IndexError | ValueError | TypeError | AttributeError | StopIteration | UnboundLocalError
  | InvalidOperation | NotImplemented | Unmodelled

section \<open>OrderedDict\<close>

text \<open>\<^verbatim>\<open>od[k] = v\<close> on an \<^verbatim>\<open>OrderedDict\<close>: a new key goes last, an existing one keeps its place.\<close>

definition od_set :: "('k \<times> 'v) list \<Rightarrow> 'k \<Rightarrow> 'v \<Rightarrow> ('k \<times> 'v) list" where
  "od_set m k v = (if k \<in> set (map fst m) then map (\<lambda>(k', v'). if k' = k then (k', v) else (k', v')) m else m @ [(k, v)])"

text \<open>
  A dict or \<^verbatim>\<open>OrderedDict\<close> whose every value is stored under its own id, read by
  \<open>f\<close> (the lists of accounts that the bank modules build by \<^verbatim>\<open>accounts[a.id] = a\<close>).
\<close>

definition keyed_by :: "('v \<Rightarrow> 'k) \<Rightarrow> ('k \<times> 'v) list \<Rightarrow> bool" where
  "keyed_by f m \<longleftrightarrow> distinct (map fst m) \<and> (\<forall>(k, a) \<in> set m. f a = k)"

lemma od_set_keys: "map fst (od_set m k v) = (if k \<in> set (map fst m) then map fst m else map fst m @ [k])"
proof -
  have "map fst (map (\<lambda>(k', v'). if k' = k then (k', v) else (k', v')) m) = map fst m"
    by (induction m) auto
  then show ?thesis by (simp add: od_set_def)

qed

lemma od_set_subset: "set (od_set m k v) \<subseteq> insert (k, v) (set m)"
  by (auto simp: od_set_def split: if_split_asm)

lemma keyed_by_od_set: "keyed_by f m \<Longrightarrow> f v = k \<Longrightarrow> keyed_by f (od_set m k v)"
  using od_set_subset [of m k v] by (fastforce simp: keyed_by_def od_set_keys)

lemma keyed_by_lookup:
  assumes "keyed_by f m" and "k \<in> set (map fst m)"
  shows "f (the (map_of m k)) = k"
proof -
  obtain a where a: "map_of m k = Some a"
    using assms(2) by (cases "map_of m k") (auto simp: map_of_eq_None_iff)
  then have "(k, a) \<in> set m" by (rule map_of_SomeD)
  with assms(1) a show ?thesis by (auto simp: keyed_by_def)

qed

lemma keyed_by_ids: "keyed_by f m \<Longrightarrow> map f (map snd m) = map fst m"
  by (induction m) (auto simp: keyed_by_def)

lemma od_set_all: "\<forall>(k, l) \<in> set m. P l \<Longrightarrow> P v \<Longrightarrow> \<forall>(k, l) \<in> set (od_set m k' v). P l"
  using od_set_subset [of m k' v] by blast


text \<open>Lookup after \<^verbatim>\<open>od[k] = v\<close> is lookup in the updated map.\<close>

lemma map_of_map_upd:
  "map_of (map (\<lambda>(k', v'). if k' = k then (k', v) else (k', v')) m) =
   (if k \<in> set (map fst m) then (map_of m)(k \<mapsto> v) else map_of m)"
  by (induction m) (auto simp: fun_eq_iff)

lemma map_of_od_set: "map_of (od_set m k v) = (map_of m)(k \<mapsto> v)"
proof (cases "k \<in> set (map fst m)")
  case False
  then have "map_of m k = None" by (simp add: map_of_eq_None_iff)
  with False show ?thesis by (auto simp: od_set_def fun_eq_iff map_add_def split: option.split)
qed (simp add: od_set_def map_of_map_upd)

end
