(* ===== verification/TextClean.thy ===== *)
theory TextClean
  imports Prelude
begin

text \<open>
  The text cleaner of \<^verbatim>\<open>src/weboob/tools/browser2/filters.py\<close>, class \<^verbatim>\<open>CleanText\<close>
  (lines 126--157): \<^verbatim>\<open>clean\<close> collapses every run of \<open>[\s\xa0\t]\<close> into one space and
  strips the ends, \<^verbatim>\<open>remove\<close> deletes a set of characters, and \<^verbatim>\<open>filter\<close> applies both
  to a string, a node, or a list of them. The lemmas show that a cleaned text is in normal
  form (no leading or trailing blank, no two blanks in a row, no blank but the space), that
  cleaning is idempotent, and that \<^verbatim>\<open>remove\<close> is a character filter.
\<close>

section \<open>Collapsing blanks\<close>

text \<open>\<^verbatim>\<open>re.sub(u'[\\s\xa0\t]+', u' ', txt)\<close>: each maximal run becomes one space.\<close>

function collapse_ws :: "string \<Rightarrow> string" where
  "collapse_ws [] = []"
| "collapse_ws (c # cs) =
     (if re_space c then CHR '' '' # collapse_ws (dropWhile re_space cs) else c # collapse_ws cs)"
  by pat_completeness auto
termination
  by (relation "measure length") (auto simp: le_imp_less_Suc length_dropWhile_le)

text \<open>\<^verbatim>\<open>CleanText.clean\<close> on a string (line 150--151).\<close>

definition clean_str :: "string \<Rightarrow> string" where
  "clean_str s = py_strip (collapse_ws s)"

text \<open>
  \<^verbatim>\<open>CleanText.clean\<close> on any value (lines 145--151): a string is cleaned as it is; an
  element is first flattened, each of its text pieces stripped and the pieces joined with
  one space. Anything else has no \<^verbatim>\<open>itertext\<close> and raises \<open>AttributeError\<close>.
\<close>

fun py_clean :: "pyval \<Rightarrow> py_error + string" where
  "py_clean (PStr s) = Inr (clean_str s)"
| "py_clean (PNode n) = Inr (clean_str (py_join '' '' (map py_strip (itertext n))))"
| "py_clean _ = Inl AttributeError"

text \<open>\<^verbatim>\<open>CleanText.remove\<close> (lines 153--157): one \<^verbatim>\<open>replace\<close> per symbol.\<close>

definition remove :: "string \<Rightarrow> string \<Rightarrow> string" where
  "remove txt symbols = fold (\<lambda>symbol t. removeAll symbol t) symbols txt"

text \<open>
  \<^verbatim>\<open>CleanText.filter\<close> (lines 138--143): a list is cleaned element by element and
  joined with a space, then the result is cleaned again and the symbols removed.
\<close>

definition clean_text_filter :: "string \<Rightarrow> pyval \<Rightarrow> py_error + string" where
  "clean_text_filter symbols txt =
     (case (case txt of
              PList xs \<Rightarrow>
                (case py_mapM py_clean xs of Inl e \<Rightarrow> Inl e | Inr ys \<Rightarrow> Inr (PStr (py_join '' '' ys)))
            | _ \<Rightarrow> Inr txt) of
        Inl e \<Rightarrow> Inl e
      | Inr v \<Rightarrow> (case py_clean v of Inl e \<Rightarrow> Inl e | Inr t \<Rightarrow> Inr (remove t symbols)))"

section \<open>Normal form of cleaned text\<close>

text \<open>
  A text is collapsed when its only blank is the space and no two spaces are adjacent.
\<close>

definition collapsed :: "string \<Rightarrow> bool" where
  "collapsed s \<longleftrightarrow> (\<forall>c \<in> set s. re_space c \<longrightarrow> c = CHR '' '') \<and> \<not> sublist ''  '' s"

lemma collapsed_Nil [simp]: "collapsed []"
  by (simp add: collapsed_def)

lemma collapsed_Cons:
  "collapsed (c # s) \<longleftrightarrow>
     (re_space c \<longrightarrow> c = CHR '' '') \<and> collapsed s \<and> \<not> (c = CHR '' '' \<and> s \<noteq> [] \<and> hd s = CHR '' '')"
  by (cases s) (auto simp: collapsed_def sublist_Cons_right)

lemma collapsed_sublist: "collapsed s \<Longrightarrow> sublist t s \<Longrightarrow> collapsed t"
  unfolding collapsed_def by (meson sublist_order.order.trans set_mono_sublist subsetD)

lemma collapse_ws_nonspace: "\<not> re_space c \<Longrightarrow> collapse_ws (c # cs) = c # collapse_ws cs"
  by simp

lemma collapse_ws_hd:
  "collapse_ws s = d # ds \<Longrightarrow> re_space d \<longleftrightarrow> re_space (hd s)"
  by (cases s) (auto split: if_splits)

lemma collapse_ws_dropWhile_hd:
  "collapse_ws (dropWhile re_space s) = d # ds \<Longrightarrow> \<not> re_space d"
  by (metis collapse_ws_hd collapse_ws.simps(1) dropWhile_eq_Nil_conv hd_dropWhile list.distinct(1))

lemma collapsed_collapse_ws [text_simps]: "collapsed (collapse_ws s)"
proof (induction s rule: collapse_ws.induct)
  case 1
  then show ?case by simp
next
  case (2 c cs)
  show ?case
  proof (cases "re_space c")
    case True
    let ?R = "collapse_ws (dropWhile re_space cs)"
    from True "2.IH"(1) have R: "collapsed ?R" by simp
    have "?R \<noteq> [] \<Longrightarrow> hd ?R \<noteq> CHR '' ''"
      using collapse_ws_dropWhile_hd by (metis list.exhaust_sel space_re_space)
    with True R show ?thesis by (simp add: collapsed_Cons) blast
  next
    case False
    with "2.IH"(2) show ?thesis by (auto simp: collapsed_Cons)
  qed
qed

lemma collapse_ws_collapsed: "collapsed s \<Longrightarrow> collapse_ws s = s"
proof (induction s rule: collapse_ws.induct)
  case 1
  then show ?case by simp
next
  case (2 c cs)
  show ?case
  proof (cases "re_space c")
    case True
    with "2.prems" have c: "c = CHR '' ''" and cs: "collapsed cs"
      and hd: "cs \<noteq> [] \<Longrightarrow> hd cs \<noteq> CHR '' ''" by (auto simp: collapsed_Cons)
    have "cs \<noteq> [] \<Longrightarrow> \<not> re_space (hd cs)"
      using cs hd by (cases cs) (auto simp: collapsed_Cons)
    then have "dropWhile re_space cs = cs" by (cases cs) auto
    with True c cs "2.IH"(1) show ?thesis by simp
  next
    case False
    with "2.prems" "2.IH"(2) show ?thesis by (simp add: collapsed_Cons)
  qed
qed

lemma py_strip_sublist: "sublist (py_strip s) s"
proof -
  have "prefix (rev (dropWhile py_space (rev (dropWhile py_space s)))) (dropWhile py_space s)"
    by (metis dropWhile_eq_drop prefix_def append_take_drop_id rev_drop rev_rev_ident)
  moreover have "suffix (dropWhile py_space s) s" by (rule suffix_dropWhile)
  ultimately show ?thesis
    unfolding py_strip_def by (meson prefix_imp_sublist suffix_imp_sublist sublist_order.order.trans)
qed

lemma clean_str_collapsed [text_simps]: "collapsed (clean_str s)"
  unfolding clean_str_def by (rule collapsed_sublist [OF collapsed_collapse_ws py_strip_sublist])

text \<open>A text in the normal form that \<^verbatim>\<open>clean\<close> produces.\<close>

definition normal_text :: "string \<Rightarrow> bool" where
  "normal_text t \<longleftrightarrow> collapsed t \<and> (t \<noteq> [] \<longrightarrow> \<not> py_space (hd t) \<and> \<not> py_space (last t))"

lemma normal_text_clean_str [text_simps]: "normal_text (clean_str s)"
  using clean_str_collapsed py_strip_hd_last by (simp add: normal_text_def clean_str_def)

lemma clean_str_normal_text: "normal_text t \<Longrightarrow> clean_str t = t"
proof -
  assume n: "normal_text t"
  then have "collapse_ws t = t" by (simp add: normal_text_def collapse_ws_collapsed)
  moreover have "dropWhile py_space t = t"
    using n by (auto simp: normal_text_def dropWhile_eq_self_iff)
  moreover have "dropWhile py_space (rev t) = rev t"
    using n by (auto simp: normal_text_def dropWhile_eq_self_iff hd_rev)
  ultimately show "clean_str t = t" by (simp add: clean_str_def py_strip_def)
qed

lemma remove_filter [text_simps]: "remove t symbols = filter (\<lambda>c. c \<notin> set symbols) t"
  by (induction symbols arbitrary: t) (auto simp: remove_def removeAll_filter_not_eq intro: filter_cong)

lemma remove_Nil [simp]: "remove txt [] = txt"
  by (simp add: remove_def)

lemma clean_text_filter_Inr_cases:
  assumes "clean_text_filter symbols v = Inr t"
  obtains s where "py_clean (PStr s) = Inr (clean_str s)" and "t = remove (clean_str s) symbols"
  | n where "v = PNode n" and "t = remove (clean_str (py_join '' '' (map py_strip (itertext n)))) symbols"
  using assms by (cases v) (auto simp: clean_text_filter_def split: sum.splits)

section \<open>Properties of the cleaner\<close>

text \<open>
  C2. Without symbols to delete, whatever \<^verbatim>\<open>CleanText\<close> returns (from a string, an
  element or a list of them) is in normal form: no blank at either end, no blank other
  than the space, and no two spaces in a row; with symbols, none of them is left.
\<close>

theorem clean_text_filter_result:
  assumes "clean_text_filter symbols v = Inr t"
  shows "(\<forall>c \<in> set t. c \<notin> set symbols) \<and> (symbols = [] \<longrightarrow> normal_text t)"
  using assms by (cases rule: clean_text_filter_Inr_cases) (auto simp: remove_filter normal_text_clean_str)

theorem clean_text_filter_result_witness:
  "clean_text_filter [] (PList [PStr ('' a'' @ [CHR 0x0A, CHR '' '']), PNode (Elem ''b'' [] [Text '' x '', Text ''y'']), PStr []])
     = Inr ''a x y'' \<and> normal_text ''a x y''"
proof -
  have e: "clean_text_filter [] (PList [PStr ('' a'' @ [CHR 0x0A, CHR '' '']), PNode (Elem ''b'' [] [Text '' x '', Text ''y'']), PStr []])
     = Inr ''a x y''"
    by code_simp
  show ?thesis using e clean_text_filter_result [OF e] by simp
qed

end
