(* ===== verification/Decimal.thy ===== *)
theory Decimal
  imports TextClean
begin

text \<open>
  The decimal filter \<^verbatim>\<open>CleanDecimal\<close> of \<^verbatim>\<open>src/weboob/tools/browser2/filters.py\<close>
  (lines 160--179) and the part of Python's \<^verbatim>\<open>decimal.Decimal\<close> constructor that it
  calls: the string grammar of \<^verbatim>\<open>Decimal(str)\<close> (sign, integer and fractional digits,
  exponent, infinities and NaNs) and the conversion of a configured default. The lemmas
  show that continental amounts are read exactly, that formatting an amount and reading
  it back gives the same decimal, and how the default replaces the exception.
\<close>

section \<open>Python's Decimal constructor\<close>

definition py_lower :: "char \<Rightarrow> char" where
  "py_lower c = (if 65 \<le> (of_char c :: nat) \<and> (of_char c :: nat) \<le> 90 then char_of (of_char c + (32 :: nat)) else c)"

text \<open>The value of a string of ASCII digits, \<^verbatim>\<open>int(ds)\<close>.\<close>

definition digits_val :: "string \<Rightarrow> nat" where
  "digits_val ds = foldl (\<lambda>n c. 10 * n + (of_char c - 48)) 0 ds"

text \<open>An optional sign in front of a number.\<close>

definition split_sign :: "string \<Rightarrow> bool \<times> string" where
  "split_sign s =
     (case s of
        [] \<Rightarrow> (False, [])
      | c # r \<Rightarrow> if c = CHR ''-'' then (True, r) else if c = CHR ''+'' then (False, r) else (False, s))"

text \<open>The exponent after \<open>E\<close>: \<open>[-+]?\d+\<close>.\<close>

definition parse_exp :: "string \<Rightarrow> int option" where
  "parse_exp s =
     (case split_sign s of (neg, r) \<Rightarrow>
        if r \<noteq> [] \<and> list_all py_digit r
        then Some ((if neg then -1 else 1) * int (digits_val r)) else None)"

text \<open>
  A finite number, \<open>(?=\d|\.\d)(\d*)(\.(\d*))?(E[-+]?\d+)?\<close>: the coefficient is the
  integer and fractional digits read together, the exponent is the written exponent less
  the number of fractional digits.
\<close>

definition parse_number :: "bool \<Rightarrow> string \<Rightarrow> decimal option" where
  "parse_number neg s =
     (let ip = takeWhile py_digit s; r1 = dropWhile py_digit s;
          (fp, r2) = (case r1 of
                        [] \<Rightarrow> ([], [])
                      | c # r \<Rightarrow> if c = CHR ''.'' then (takeWhile py_digit r, dropWhile py_digit r)
                                 else ([], r1));
          ex = (case r2 of
                  [] \<Rightarrow> Some 0
                | c # r \<Rightarrow> if py_lower c = CHR ''e'' then parse_exp r else None)
      in if ip = [] \<and> fp = [] then None
         else map_option (\<lambda>e. Finite neg (digits_val (ip @ fp)) (e - int (length fp))) ex)"

text \<open>
  \<^verbatim>\<open>Decimal(s)\<close> for a string: surrounding blanks are ignored; \<open>None\<close> is the
  \<^verbatim>\<open>InvalidOperation\<close> the constructor raises. (The sign and the diagnostic digits of a
  NaN are not kept.)
\<close>

definition parse_decimal_str :: "string \<Rightarrow> decimal option" where
  "parse_decimal_str str =
     (case split_sign (py_strip str) of (neg, body) \<Rightarrow>
        (let lb = map py_lower body in
         if lb = ''inf'' \<or> lb = ''infinity'' then Some (Infinity neg)
         else if take 3 lb = ''nan'' \<and> list_all py_digit (drop 3 lb) then Some (NaN False)
         else if take 4 lb = ''snan'' \<and> list_all py_digit (drop 4 lb) then Some (NaN True)
         else parse_number neg body))"

text \<open>
  \<^verbatim>\<open>Decimal(v)\<close> for the values a filter's default can hold: a decimal is kept, an
  integer is exact, a string is parsed, \<open>None\<close> and a node raise \<open>TypeError\<close>. (A
  tuple is read as a sign-digits-exponent triple by Python; that form is not modelled.)
\<close>

fun py_Decimal :: "pyval \<Rightarrow> py_error + decimal" where
  "py_Decimal (PDec d) = Inr d"
| "py_Decimal (PInt i) = Inr (Finite (i < 0) (nat \<bar>i\<bar>) 0)"
| "py_Decimal (PStr s) = (case parse_decimal_str s of None \<Rightarrow> Inl InvalidOperation | Some d \<Rightarrow> Inr d)"
| "py_Decimal (PList _) = Inl Unmodelled"
| "py_Decimal _ = Inl TypeError"

section \<open>CleanDecimal.filter\<close>

text \<open>The characters kept by \<^verbatim>\<open>re.sub(ur'[^\d\-\.]', '', text)\<close>.\<close>

definition dec_char :: "char \<Rightarrow> bool" where
  "dec_char c \<longleftrightarrow> py_digit c \<or> c = CHR ''-'' \<or> c = CHR ''.''"

text \<open>
  \<^verbatim>\<open>text.replace('.','').replace(',','.')\<close>: continental thousands separators go,
  the decimal comma becomes a point.
\<close>

definition replace_dots :: "string \<Rightarrow> string" where
  "replace_dots t = map (\<lambda>c. if c = CHR '','' then CHR ''.'' else c) (removeAll (CHR ''.'') t)"

text \<open>
  \<^verbatim>\<open>CleanDecimal.filter\<close> (lines 169--179): clean the text, normalise the separators
  when \<^verbatim>\<open>replace_dots\<close>, keep digits, minus and point, and build the decimal. On
  \<^verbatim>\<open>InvalidOperation\<close> the configured default (\<open>None\<close> here is \<^verbatim>\<open>_NO_DEFAULT\<close>) is
  converted by \<^verbatim>\<open>Decimal\<close>, or the exception is raised again.
\<close>

definition clean_decimal :: "bool \<Rightarrow> pyval option \<Rightarrow> pyval \<Rightarrow> py_error + decimal" where
  "clean_decimal rd dflt v =
     (case clean_text_filter [] v of
        Inl e \<Rightarrow> Inl e
      | Inr text \<Rightarrow>
          (let t = (if rd then replace_dots text else text) in
           case parse_decimal_str (filter dec_char t) of
             Some d \<Rightarrow> Inr d
           | None \<Rightarrow> (case dflt of None \<Rightarrow> Inl InvalidOperation | Some dv \<Rightarrow> py_Decimal dv)))"

section \<open>Continental formatting\<close>

text \<open>
  The amounts the bank pages print: the digits of a coefficient with at least \<open>k + 1\<close>
  digits, a point between thousands and a comma before the last \<open>k\<close> digits. This is
  the input side of the round-trip theorem below, not code of the repository.
\<close>

fun digits_of :: "nat \<Rightarrow> string" where
  "digits_of n = (if n < 10 then [char_of (48 + n)] else digits_of (n div 10) @ [char_of (48 + n mod 10)])"

declare digits_of.simps [simp del]

definition pad_digits :: "nat \<Rightarrow> nat \<Rightarrow> string" where
  "pad_digits c k = replicate (Suc k - length (digits_of c)) (CHR ''0'') @ digits_of c"

fun group3 :: "string \<Rightarrow> string" where
  "group3 xs = (if length xs \<le> 3 then xs else group3 (take (length xs - 3) xs) @ CHR ''.'' # drop (length xs - 3) xs)"

declare group3.simps [simp del]

definition format_continental :: "bool \<Rightarrow> nat \<Rightarrow> nat \<Rightarrow> string" where
  "format_continental neg c k =
     (let p = pad_digits c k; ip = take (length p - k) p; fp = drop (length p - k) p in
      (if neg then ''-'' else []) @ group3 ip @ (if k = 0 then [] else CHR '','' # fp))"

section \<open>Reading amounts\<close>

lemma digit_char: "(d::nat) < 10 \<Longrightarrow> py_digit (char_of (48 + d))"
  by (simp add: py_digit_def)

lemma of_char_digit: "(d::nat) < 10 \<Longrightarrow> of_char (char_of (48 + d)) = (48 + d :: nat)"
  by simp

lemma digits_of_digits: "\<forall>ch \<in> set (digits_of n). py_digit ch"
  by (induction n rule: digits_of.induct) (subst digits_of.simps; auto simp: py_digit_def)

lemma digits_of_ne: "digits_of n \<noteq> []"
  by (subst digits_of.simps) simp

lemma foldl_digits:
  "foldl (\<lambda>n c. 10 * n + (of_char c - 48)) a ys = a * 10 ^ length ys + digits_val ys"
proof (induction ys arbitrary: a)
  case Nil
  show ?case by (simp add: digits_val_def)
next
  case (Cons y ys)
  let ?f = "\<lambda>n c. 10 * n + (of_char c - 48)" and ?v = "of_char y - 48 :: nat"
  have "foldl ?f a (y # ys) = (10 * a + ?v) * 10 ^ length ys + digits_val ys"
    using Cons.IH by simp
  moreover have "digits_val (y # ys) = foldl ?f ?v ys"
    by (simp add: digits_val_def)
  moreover have "foldl ?f ?v ys = ?v * 10 ^ length ys + digits_val ys"
    by (rule Cons.IH)
  ultimately show ?case by (simp add: algebra_simps)
qed

lemma digits_val_append: "digits_val (xs @ ys) = digits_val xs * 10 ^ length ys + digits_val ys"
proof -
  have "digits_val (xs @ ys) = foldl (\<lambda>n c. 10 * n + (of_char c - 48)) (digits_val xs) ys"
    by (simp add: digits_val_def)
  then show ?thesis by (simp only: foldl_digits)
qed

lemma digits_val_zeros: "digits_val (replicate m (CHR ''0'')) = 0"
  by (induction m) (simp_all add: digits_val_def)

lemma digits_val_digits_of: "digits_val (digits_of n) = n"
proof (induction n rule: digits_of.induct)
  case (1 n)
  show ?case
  proof (cases "n < 10")
    case True then show ?thesis by (subst digits_of.simps) (simp add: digits_val_def)
  next
    case False
    with "1.IH" have "digits_val (digits_of (n div 10)) = n div 10" by simp
    with False show ?thesis
      by (subst digits_of.simps) (simp add: digits_val_append digits_val_def)
  qed
qed

lemma removeAll_group3: "removeAll (CHR ''.'') (group3 xs) = removeAll (CHR ''.'') xs"
proof (induction xs rule: group3.induct)
  case (1 xs)
  show ?case
  proof (cases "length xs \<le> 3")
    case True then show ?thesis by (subst group3.simps) simp
  next
    case False
    with "1.IH" have "removeAll (CHR ''.'') (group3 (take (length xs - 3) xs)) =
                      removeAll (CHR ''.'') (take (length xs - 3) xs)" by simp
    with False show ?thesis
      by (subst group3.simps) (simp, metis removeAll_append append_take_drop_id)
  qed
qed

lemma group3_hd: "xs \<noteq> [] \<Longrightarrow> group3 xs \<noteq> [] \<and> hd (group3 xs) = hd xs"
proof (induction xs rule: group3.induct)
  case (1 xs)
  show ?case
  proof (cases "length xs \<le> 3")
    case True with "1.prems" show ?thesis by (simp add: group3.simps [of xs])
  next
    case False
    then have ne: "take (length xs - 3) xs \<noteq> []" by (cases xs) auto
    with False "1.IH" have "group3 (take (length xs - 3) xs) \<noteq> [] \<and>
                            hd (group3 (take (length xs - 3) xs)) = hd xs" by simp
    with False show ?thesis by (simp add: group3.simps [of xs])
  qed
qed

lemma set_group3: "set (group3 xs) \<subseteq> insert (CHR ''.'') (set xs)"
proof (induction xs rule: group3.induct)
  case (1 xs)
  show ?case
  proof (cases "length xs \<le> 3")
    case True then show ?thesis by (subst group3.simps) auto
  next
    case False
    with "1.IH" have "set (group3 (take (length xs - 3) xs)) \<subseteq> insert (CHR ''.'') (set xs)"
      using set_take_subset by fastforce
    with False show ?thesis by (subst group3.simps) (auto dest: in_set_dropD)
  qed
qed

lemma digit_not_space: "py_digit ch \<Longrightarrow> \<not> py_space ch"
  by (auto simp: py_digit_def py_space_def)

lemma no_space_clean_str: "\<forall>ch \<in> set t. \<not> py_space ch \<Longrightarrow> clean_str t = t"
proof -
  assume a: "\<forall>ch \<in> set t. \<not> py_space ch"
  then have "\<forall>ch \<in> set t. \<not> re_space ch" using re_space_py_space by blast
  moreover have "\<not> sublist ''  '' t"
    using a set_mono_sublist by fastforce
  ultimately have "collapsed t" by (auto simp: collapsed_def)
  with a show ?thesis
    by (intro clean_str_normal_text) (auto simp: normal_text_def)
qed

lemma dropWhile_none: "\<forall>x \<in> set xs. \<not> P x \<Longrightarrow> dropWhile P xs = xs"
  by (induction xs) auto

lemma no_space_py_strip: "\<forall>ch \<in> set t. \<not> py_space ch \<Longrightarrow> py_strip t = t"
  by (simp add: py_strip_def dropWhile_none)

lemma pad_digits_props:
  "Suc k \<le> length (pad_digits c k) \<and> (\<forall>ch \<in> set (pad_digits c k). py_digit ch) \<and>
   digits_val (pad_digits c k) = c"
  using digits_of_digits [of c]
  by (auto simp: pad_digits_def digits_val_append digits_val_zeros digits_val_digits_of py_digit_def)

lemma digits_only: "\<forall>ch \<in> set xs. py_digit ch \<Longrightarrow>
    removeAll (CHR ''.'') xs = xs \<and> map (\<lambda>c. if c = CHR '','' then CHR ''.'' else c) xs = xs \<and>
    filter dec_char xs = xs \<and> (\<forall>ch \<in> set xs. \<not> py_space ch)"
  by (induction xs) (auto simp: py_digit_def dec_char_def digit_not_space)

lemma py_lower_digit: "py_digit c \<Longrightarrow> py_lower c = c"
  by (simp add: py_lower_def py_digit_def)

lemma parse_number_digits:
  assumes ip: "ip \<noteq> []" "\<forall>ch \<in> set ip. py_digit ch" and fp: "\<forall>ch \<in> set fp. py_digit ch"
  shows "parse_number neg (ip @ CHR ''.'' # fp) = Some (Finite neg (digits_val (ip @ fp)) (- int (length fp)))"
    and "parse_number neg ip = Some (Finite neg (digits_val ip) 0)"
proof -
  have nd: "\<not> py_digit (CHR ''.'')" by (simp add: py_digit_def)
  have t1: "takeWhile py_digit (ip @ CHR ''.'' # fp) = ip"
    and t2: "dropWhile py_digit (ip @ CHR ''.'' # fp) = CHR ''.'' # fp"
    using ip nd by (simp_all add: takeWhile_append2 dropWhile_append2)
  have t3: "takeWhile py_digit fp = fp" and t4: "dropWhile py_digit fp = []"
    using fp by (simp_all add: takeWhile_eq_all_conv)
  show "parse_number neg (ip @ CHR ''.'' # fp) = Some (Finite neg (digits_val (ip @ fp)) (- int (length fp)))"
    using ip(1) by (simp add: parse_number_def t1 t2 t3 t4)
  have t5: "takeWhile py_digit ip = ip" and t6: "dropWhile py_digit ip = []"
    using ip by (simp_all add: takeWhile_eq_all_conv)
  show "parse_number neg ip = Some (Finite neg (digits_val ip) 0)"
    using ip(1) by (simp add: parse_number_def t5 t6)
qed

lemma parse_decimal_signed:
  assumes body: "body \<noteq> []" "py_digit (hd body)" "\<forall>ch \<in> set body. \<not> py_space ch"
  shows "parse_decimal_str ((if neg then ''-'' else []) @ body) = parse_number neg body"
proof -
  have sp: "\<not> py_space (CHR ''-'')" by (simp add: py_space_def)
  have strip: "py_strip ((if neg then ''-'' else []) @ body) = (if neg then ''-'' else []) @ body"
    using body sp by (intro no_space_py_strip) auto
  have "hd body \<noteq> CHR ''-'' \<and> hd body \<noteq> CHR ''+''" using body(2) by (auto simp: py_digit_def)
  then have sign: "split_sign ((if neg then ''-'' else []) @ body) = (neg, body)"
    using body(1) by (cases body) (auto simp: split_sign_def)
  have hl: "hd (map py_lower body) = hd body" using body by (simp add: hd_map py_lower_digit)
  have "\<not> py_digit (CHR ''i'') \<and> \<not> py_digit (CHR ''n'') \<and> \<not> py_digit (CHR ''s'')"
    by (simp add: py_digit_def)
  then have "map py_lower body \<noteq> ''inf'' \<and> map py_lower body \<noteq> ''infinity'' \<and>
             take 3 (map py_lower body) \<noteq> ''nan'' \<and> take 4 (map py_lower body) \<noteq> ''snan''"
    using hl body(1,2) by (cases body) auto
  then show ?thesis using strip sign by (simp add: parse_decimal_str_def Let_def)
qed


lemma parse_number_no_digit:
  assumes nd: "\<forall>ch \<in> set body. \<not> py_digit ch"
  shows "parse_number neg body = None"
proof -
  have ip: "takeWhile py_digit body = []" using nd by (cases body) simp_all
  have r1: "dropWhile py_digit body = body" using nd by (simp add: dropWhile_none)
  have fp: "(case body of [] \<Rightarrow> ([], []) | c # r \<Rightarrow> if c = CHR ''.'' then (takeWhile py_digit r, dropWhile py_digit r) else ([], body))
            = ([], snd (case body of [] \<Rightarrow> ([], []) | c # r \<Rightarrow> if c = CHR ''.'' then (takeWhile py_digit r, dropWhile py_digit r) else ([], body)))"
  proof (cases body)
    case (Cons c r)
    then have "takeWhile py_digit r = []" using nd by (cases r) simp_all
    with Cons show ?thesis by simp
  qed simp
  show ?thesis
    unfolding parse_number_def Let_def ip r1 by (subst fp) simp
qed

lemma only_signs_parse_None:
  assumes u: "set u \<subseteq> {CHR ''-'', CHR ''.''}"
  shows "parse_decimal_str u = None"
proof -
  have c: "\<not> py_space (CHR ''-'')" "\<not> py_space (CHR ''.'')"
    "py_lower (CHR ''-'') = CHR ''-''" "py_lower (CHR ''.'') = CHR ''.''"
    "\<not> py_digit (CHR ''-'')" "\<not> py_digit (CHR ''.'')"
    by (simp_all add: py_space_def py_lower_def py_digit_def)
  have strip: "py_strip u = u" using u c(1,2) by (intro no_space_py_strip) auto
  obtain neg body where sign: "split_sign u = (neg, body)" by fastforce
  have "set body \<subseteq> set u"
    using sign by (auto simp: split_sign_def split: list.splits if_splits)
  with u have bd: "set body \<subseteq> {CHR ''-'', CHR ''.''}" by blast
  have low: "map py_lower body = body"
    using bd c(3,4) by (induction body) auto
  have ni: "CHR ''i'' \<notin> set body" and nn: "CHR ''n'' \<notin> set body" and ns: "CHR ''s'' \<notin> set body"
    using bd by auto
  have lb1: "body \<noteq> ''inf'' \<and> body \<noteq> ''infinity''" using ni by auto
  have lb2: "take 3 body \<noteq> ''nan''"
  proof
    assume "take 3 body = ''nan''"
    then have "CHR ''n'' \<in> set (take 3 body)" by simp
    with nn show False by (auto dest: in_set_takeD)
  qed
  have lb3: "take 4 body \<noteq> ''snan''"
  proof
    assume "take 4 body = ''snan''"
    then have "CHR ''s'' \<in> set (take 4 body)" by simp
    with ns show False by (auto dest: in_set_takeD)
  qed
  have "\<forall>ch \<in> set body. \<not> py_digit ch" using bd c(5,6) by auto
  then have "parse_number neg body = None" by (rule parse_number_no_digit)
  with strip sign low lb1 lb2 lb3 show ?thesis by (simp add: parse_decimal_str_def)
qed

lemma replace_dots_digits: "filter py_digit (replace_dots t) = filter py_digit t"
  by (induction t) (auto simp: replace_dots_def py_digit_def)

lemma list_ex_filter: "list_ex P xs \<longleftrightarrow> filter P xs \<noteq> []"
  by (auto simp: list_ex_iff filter_empty_conv)

lemma filter_dec_char_no_digit:
  "\<not> list_ex py_digit t \<Longrightarrow> set (filter dec_char t) \<subseteq> {CHR ''-'', CHR ''.''}"
  by (auto simp: dec_char_def list_ex_iff)

lemmas clean_decimal_eval = clean_decimal_def clean_text_filter_def clean_str_def py_strip_def
  py_space_def re_space_def replace_dots_def dec_char_def py_digit_def parse_decimal_str_def
  split_sign_def py_lower_def parse_number_def digits_val_def

section \<open>Properties of the decimal filter\<close>

text \<open>
  C4. Reading is exact for every amount: an amount printed in continental notation, with
  any number of fractional digits, is read back by \<^verbatim>\<open>CleanDecimal\<close> (with the default
  \<^verbatim>\<open>replace_dots=True\<close>) as exactly the decimal with that coefficient, sign and
  exponent; no rounding happens anywhere.
\<close>

theorem clean_decimal_continental_roundtrip:
  "clean_decimal True dflt (PStr (format_continental neg c k)) = Inr (Finite neg c (- int k))"
proof -
  define p where "p = pad_digits c k"
  define ip where "ip = take (length p - k) p"
  define fp where "fp = drop (length p - k) p"
  have pd: "Suc k \<le> length p" "\<forall>ch \<in> set p. py_digit ch" "digits_val p = c"
    using pad_digits_props [of k c] by (simp_all add: p_def)
  have ipd: "ip \<noteq> []" "\<forall>ch \<in> set ip. py_digit ch" and fpd: "\<forall>ch \<in> set fp. py_digit ch"
    and lfp: "length fp = k" and ipfp: "ip @ fp = p"
    using pd by (auto simp: ip_def fp_def dest: in_set_takeD in_set_dropD)
  define sgn where "sgn = (if neg then ''-'' else [])"
  define tl where "tl = (if k = 0 then [] else CHR '','' # fp)"
  have s: "format_continental neg c k = sgn @ group3 ip @ tl"
    by (simp add: format_continental_def Let_def p_def ip_def fp_def sgn_def tl_def)
  have g: "set (group3 ip) \<subseteq> insert (CHR ''.'') (set ip)" by (rule set_group3)
  have ns: "\<forall>ch \<in> set (sgn @ group3 ip @ tl). \<not> py_space ch"
    using g digits_only [OF ipd(2)] digits_only [OF fpd]
    by (auto simp: sgn_def tl_def py_space_def)
  then have clean: "clean_text_filter [] (PStr (sgn @ group3 ip @ tl)) = Inr (sgn @ group3 ip @ tl)"
    by (simp add: clean_text_filter_def no_space_clean_str)
  have rd: "replace_dots (sgn @ group3 ip @ tl) = sgn @ ip @ (if k = 0 then [] else CHR ''.'' # fp)"
    using digits_only [OF ipd(2)] digits_only [OF fpd]
    by (simp add: replace_dots_def removeAll_group3 sgn_def tl_def)
  have fl: "filter dec_char (sgn @ ip @ (if k = 0 then [] else CHR ''.'' # fp)) =
            sgn @ ip @ (if k = 0 then [] else CHR ''.'' # fp)"
    using digits_only [OF ipd(2)] digits_only [OF fpd] by (simp add: sgn_def dec_char_def)
  have hd: "py_digit (hd (ip @ (if k = 0 then [] else CHR ''.'' # fp)))" using ipd by simp
  have nsp: "\<forall>ch \<in> set (ip @ (if k = 0 then [] else CHR ''.'' # fp)). \<not> py_space ch"
    using digits_only [OF ipd(2)] digits_only [OF fpd] by (auto simp: py_space_def)
  have pn: "parse_decimal_str (sgn @ ip @ (if k = 0 then [] else CHR ''.'' # fp)) = Some (Finite neg c (- int k))"
  proof (cases "k = 0")
    case True
    then have "fp = []" using lfp by simp
    with True ipfp pd(3) show ?thesis
      using parse_decimal_signed [of "ip" neg] ipd parse_number_digits(2) [OF ipd fpd, of neg] nsp
      by (simp add: sgn_def)
  next
    case False
    with ipfp pd(3) lfp show ?thesis
      using parse_decimal_signed [of "ip @ CHR ''.'' # fp" neg] ipd parse_number_digits(1) [OF ipd fpd, of neg] nsp
      by (simp add: sgn_def)
  qed
  show ?thesis
    using s clean rd fl pn by (simp add: clean_decimal_def)
qed


text \<open>
  C5. The default-versus-raise contract: when the cleaned text holds no digit, the filter
  without a default raises \<^verbatim>\<open>InvalidOperation\<close>, and the same filter with a decimal
  default returns that default.
\<close>

theorem clean_decimal_default_contract:
  assumes "clean_text_filter [] v = Inr t" and "\<not> list_ex py_digit t"
  shows "clean_decimal rd None v = Inl InvalidOperation \<and> clean_decimal rd (Some (PDec d)) v = Inr d"
proof -
  have "filter py_digit (if rd then replace_dots t else t) = filter py_digit t"
    by (simp add: replace_dots_digits)
  then have "\<not> list_ex py_digit (if rd then replace_dots t else t)"
    using assms(2) by (simp add: list_ex_filter)
  then have "parse_decimal_str (filter dec_char (if rd then replace_dots t else t)) = None"
    by (rule only_signs_parse_None [OF filter_dec_char_no_digit])
  with assms(1) show ?thesis by (simp add: clean_decimal_def)
qed


theorem clean_decimal_default_contract_witness:
  "clean_decimal True None (PStr ''n/a'') = Inl InvalidOperation \<and>
   clean_decimal True (Some (PDec (Finite False 0 0))) (PStr ''n/a'') = Inr (Finite False 0 0)"
proof -
  have t: "clean_text_filter [] (PStr ''n/a'') = Inr ''n/a''" by code_simp
  have n: "\<not> list_ex py_digit ''n/a''" by code_simp
  show ?thesis using clean_decimal_default_contract [OF t n] by simp
qed

text \<open>
  A default of \<open>None\<close> is passed to \<^verbatim>\<open>Decimal(None)\<close>, which raises
  \<open>TypeError\<close>: on a text without a number the filter raises instead of returning the
  configured default.
\<close>

lemma clean_decimal_none_default:
  "clean_decimal True (Some PNone) (PStr ''n/a'') = Inl TypeError"
proof -
  have t: "clean_text_filter [] (PStr ''n/a'') = Inr ''n/a''" by code_simp
  have n: "\<not> list_ex py_digit ''n/a''" by code_simp
  have "parse_decimal_str (filter dec_char (replace_dots ''n/a'')) = None"
  proof (rule only_signs_parse_None [OF filter_dec_char_no_digit])
    show "\<not> list_ex py_digit (replace_dots ''n/a'')"
      using n replace_dots_digits [of "''n/a''"] by (simp add: list_ex_filter)
  qed
  with t show ?thesis by (simp add: clean_decimal_def)
qed

text \<open>
  With the default \<^verbatim>\<open>replace_dots=True\<close> an amount written with a decimal point
  and thousands commas, \<^verbatim>\<open>1,234.56\<close>, is read as \<open>1.23456\<close>, without any error.
\<close>

lemma clean_decimal_english_amount:
  "clean_decimal True None (PStr ''1,234.56'') = Inr (Finite False 123456 (-5)) \<and>
   dec_value (Finite False 123456 (-5)) = Some (123456 / 100000)"
proof -
  have "clean_decimal True None (PStr ''1,234.56'') = Inr (Finite False 123456 (-5))"
    by (simp add: clean_decimal_eval)
  then show ?thesis by simp
qed

end
