(* ===== verification/FilterChain.thy ===== *)
theory FilterChain
  imports Decimal
begin

text \<open>
  The filters of \<^verbatim>\<open>src/weboob/tools/browser2/filters.py\<close> other than the text and
  decimal cleaning, and the way they are chained: a filter is built on a selector, an
  XPath expression, another filter or a constant, and \<^verbatim>\<open>Filter.__call__\<close> applies
  its \<^verbatim>\<open>filter\<close> method to what the selector gives on the item (lines 39--75).

  The item is the element an \<^verbatim>\<open>ItemElement\<close> is parsing, with its environment and the
  column numbers of its table. The libraries the filters call are parameters of the
  model (\<open>fenv\<close>): lxml's XPath, the search and template expansion of \<^verbatim>\<open>re\<close>, the
  parser of \<^verbatim>\<open>dateutil\<close> and Python's \<^verbatim>\<open>%\<close> formatting. The two regular expressions
  the source fixes, those of \<^verbatim>\<open>Time\<close> and \<^verbatim>\<open>Duration\<close>, are written out as their
  leftmost, greedy, backtracking matches.
\<close>

section \<open>Values and items\<close>

text \<open>A \<^verbatim>\<open>datetime.datetime\<close> as \<^verbatim>\<open>dateutil\<close> returns it.\<close>

record datetime_val =
  dt_year :: int
  dt_month :: nat
  dt_day :: nat
  dt_hour :: nat
  dt_minute :: nat
  dt_second :: nat

text \<open>
  What a filter returns: a Python value of the other filters, a \<^verbatim>\<open>datetime.time\<close>, a
  \<^verbatim>\<open>datetime.timedelta\<close> (in seconds), a \<^verbatim>\<open>datetime.datetime\<close>, or the bound method
  \<^verbatim>\<open>datetime.date\<close> of one.
\<close>

datatype fval = Val pyval | TimeV nat nat nat | DeltaV int | DateTimeV datetime_val | DateMethod datetime_val

text \<open>The item a filter is applied to: its element, \<^verbatim>\<open>item.env\<close> and \<^verbatim>\<open>item.parent.get_colnum\<close>.\<close>

record item =
  item_el :: node
  item_env :: "string \<Rightarrow> fval option"
  item_colnum :: "string \<Rightarrow> nat option"

record fenv =
  xpath :: "string \<Rightarrow> node \<Rightarrow> pyval"
  re_search :: "string \<Rightarrow> string \<Rightarrow> string option list option"
  re_expand :: "string \<Rightarrow> string \<Rightarrow> string \<Rightarrow> string"
  parse_date :: "fval \<Rightarrow> py_error + datetime_val"
  py_format :: "string \<Rightarrow> fval list \<Rightarrow> py_error + string"

section \<open>The filters\<close>

text \<open>
  One constructor per filter class, with the arguments of its constructor; \<open>None\<close> as
  a default is \<^verbatim>\<open>_NO_DEFAULT\<close>. A selector is an XPath string, another filter (a
  callable), or any other value, which \<^verbatim>\<open>Filter.select\<close> returns as it is.
\<close>

datatype filt =
    FCleanText sel string
  | FCleanDecimal sel bool "pyval option"
  | FAttr sel string "fval option"
  | FLink sel "fval option"
  | FRegexp sel string "string option" "fval option"
  | FMap sel "(pyval \<times> fval) list" "fval option"
  | FDateTime sel
  | FDate sel
  | FTime sel "fval option"
  | FDuration sel "fval option"
  | FFormat string "sel list"
  | FJoin string sel
  | FEnv string
  | FTableCell "string list" "fval option"
  and sel = SXPath string | SFilter filt | SConst fval

text \<open>A missing value: the configured default, or the exception.\<close>

definition or_default :: "fval option \<Rightarrow> py_error \<Rightarrow> py_error + fval" where
  "or_default d e = (case d of Some v \<Rightarrow> Inr v | None \<Rightarrow> Inl e)"

text \<open>
  \<^verbatim>\<open>Attr.filter\<close> (lines 188--199): \<^verbatim>\<open>el[0].attrib[attr]\<close>. An empty selection is an
  \<^verbatim>\<open>IndexError\<close> and a missing attribute a \<^verbatim>\<open>KeyError\<close>, both replaced by the default;
  a text result (an lxml string) has no \<^verbatim>\<open>attrib\<close>.
\<close>

definition attr_filter :: "string \<Rightarrow> fval option \<Rightarrow> fval \<Rightarrow> py_error + fval" where
  "attr_filter a d v =
     (case v of
        Val (PList []) \<Rightarrow> or_default d ValueError
      | Val (PList (PNode (Elem t as cs) # _)) \<Rightarrow>
          (case map_of as a of Some x \<Rightarrow> Inr (Val (PStr x)) | None \<Rightarrow> or_default d KeyError)
      | Val (PList (_ # _)) \<Rightarrow> Inl AttributeError
      | Val (PStr []) \<Rightarrow> or_default d ValueError
      | Val (PStr _) \<Rightarrow> Inl AttributeError
      | _ \<Rightarrow> Inl TypeError)"

text \<open>
  \<^verbatim>\<open>Regexp.filter\<close> (lines 240--254). A list or tuple is meant to be flattened, but the
  code calls \<^verbatim>\<open>txt.itertext()\<close> on the list itself, which has no such method; anything
  but a string is refused by \<^verbatim>\<open>re.search\<close>. Without a template the first group that
  matched is returned: \<^verbatim>\<open>next\<close> raises \<^verbatim>\<open>StopIteration\<close> when there is none.
\<close>

definition regexp_filter :: "fenv \<Rightarrow> string \<Rightarrow> string option \<Rightarrow> fval option \<Rightarrow> fval \<Rightarrow> py_error + fval" where
  "regexp_filter E pat tmpl d v =
     (case v of
        Val (PList _) \<Rightarrow> Inl AttributeError
      | Val (PStr txt) \<Rightarrow>
          (case re_search E pat txt of
             None \<Rightarrow> or_default d KeyError
           | Some groups \<Rightarrow>
               (case tmpl of
                  None \<Rightarrow> (case [g. Some g \<leftarrow> groups] of [] \<Rightarrow> Inl StopIteration | g # _ \<Rightarrow> Inr (Val (PStr g)))
                | Some t \<Rightarrow> Inr (Val (PStr (re_expand E pat txt t)))))
      | _ \<Rightarrow> Inl TypeError)"

text \<open>\<^verbatim>\<open>Map.filter\<close> (lines 263--270): a lookup in the dict; a list is not hashable.\<close>

definition map_filter :: "(pyval \<times> fval) list \<Rightarrow> fval option \<Rightarrow> fval \<Rightarrow> py_error + fval" where
  "map_filter m d v =
     (case v of
        Val (PList _) \<Rightarrow> Inl TypeError
      | Val k \<Rightarrow> (case map_of m k of Some r \<Rightarrow> Inr r | None \<Rightarrow> or_default d KeyError)
      | _ \<Rightarrow> or_default d KeyError)"

text \<open>
  \<^verbatim>\<open>DateTime.filter\<close> (lines 274--277): an empty value (\<open>None\<close>) is returned as it is,
  anything else is parsed. \<^verbatim>\<open>Date.filter\<close> (lines 281--284) returns
  \<^verbatim>\<open>datetime.date\<close>, the bound method, not its result.
\<close>

definition datetime_filter :: "fenv \<Rightarrow> fval \<Rightarrow> py_error + fval" where
  "datetime_filter E v = (if v = Val PNone then Inr v else ebind (parse_date E v) (\<lambda>dt. Inr (DateTimeV dt)))"

definition date_filter :: "fenv \<Rightarrow> fval \<Rightarrow> py_error + fval" where
  "date_filter E v =
     ebind (datetime_filter E v) (\<lambda>r.
       if r \<noteq> Val PNone then (case r of DateTimeV dt \<Rightarrow> Inr (DateMethod dt) | _ \<Rightarrow> Inl AttributeError)
       else Inr (Val PNone))"

section \<open>The regular expressions of Time and Duration\<close>

text \<open>
  \<^verbatim>\<open>(?P<hh>\d+):?(?P<mm>\d+)(:(?P<ss>\d+))?\<close> matched at the start of \<open>s\<close>. The hours
  take the longest run of digits; when no colon and digits follow, the match backtracks
  and the minutes are the last digit of the run, the hours the digits before it.
\<close>

definition colon_rest :: "string \<Rightarrow> string option" where
  "colon_rest t = (case t of c # t' \<Rightarrow> if c = CHR '':'' then Some t' else None | [] \<Rightarrow> None)"

definition opt_seconds :: "string \<Rightarrow> string option" where
  "opt_seconds t =
     (case colon_rest t of
        Some t' \<Rightarrow> (let S = takeWhile py_digit t' in if S \<noteq> [] then Some S else None)
      | None \<Rightarrow> None)"

definition time_at :: "string \<Rightarrow> (string \<times> string \<times> string option) option" where
  "time_at s =
     (let D = takeWhile py_digit s; r = dropWhile py_digit s;
          fallback = (if 2 \<le> length D then Some (butlast D, [last D], opt_seconds r) else None) in
      if D = [] then None
      else case colon_rest r of
        Some r' \<Rightarrow>
          (let M = takeWhile py_digit r' in
           if M \<noteq> [] then Some (D, M, opt_seconds (dropWhile py_digit r')) else fallback)
      | None \<Rightarrow> fallback)"

text \<open>\<^verbatim>\<open>regexp.search\<close>: the match at the leftmost position where there is one.\<close>

fun re_search_at :: "(string \<Rightarrow> 'm option) \<Rightarrow> string \<Rightarrow> 'm option" where
  "re_search_at m [] = m []"
| "re_search_at m (c # cs) = (case m (c # cs) of Some r \<Rightarrow> Some r | None \<Rightarrow> re_search_at m cs)"

text \<open>
  \<^verbatim>\<open>((?P<hh>\d+)[:;])?(?P<mm>\d+)[;:](?P<ss>\d+)\<close> at the start of \<open>s\<close>: with the
  hours group if digits, a separator, digits, a separator and digits follow, else
  without it.
\<close>

definition dur_sep :: "char \<Rightarrow> bool" where
  "dur_sep c \<longleftrightarrow> c = CHR '':'' \<or> c = CHR '';''"

definition digits_sep_digits :: "string \<Rightarrow> (string \<times> string) option" where
  "digits_sep_digits s =
     (let D = takeWhile py_digit s; r = dropWhile py_digit s in
      case r of
        c # r' \<Rightarrow> (let S = takeWhile py_digit r' in if D \<noteq> [] \<and> dur_sep c \<and> S \<noteq> [] then Some (D, S) else None)
      | [] \<Rightarrow> None)"

definition duration_at :: "string \<Rightarrow> (string option \<times> string \<times> string) option" where
  "duration_at s =
     (let D = takeWhile py_digit s; r = dropWhile py_digit s;
          with_hours = (case r of
                          c # r' \<Rightarrow> (if D \<noteq> [] \<and> dur_sep c then
                                       (case digits_sep_digits r' of Some (M, S) \<Rightarrow> Some (Some D, M, S) | None \<Rightarrow> None)
                                     else None)
                        | [] \<Rightarrow> None) in
      case with_hours of
        Some m \<Rightarrow> Some m
      | None \<Rightarrow> (case digits_sep_digits s of Some (M, S) \<Rightarrow> Some (None, M, S) | None \<Rightarrow> None))"

text \<open>
  \<^verbatim>\<open>Time.filter\<close> (lines 296--307): \<^verbatim>\<open>int(group or 0)\<close> for the hours, minutes and
  seconds, given to \<^verbatim>\<open>datetime.time\<close>, which refuses values out of range; and
  \<^verbatim>\<open>Duration\<close> (lines 310--313), whose \<^verbatim>\<open>timedelta\<close> takes any value.
\<close>

definition opt_val :: "string option \<Rightarrow> nat" where
  "opt_val g = (case g of Some ds \<Rightarrow> digits_val ds | None \<Rightarrow> 0)"

definition time_filter :: "fval option \<Rightarrow> fval \<Rightarrow> py_error + fval" where
  "time_filter d v =
     (case v of
        Val (PStr txt) \<Rightarrow>
          (case re_search_at time_at txt of
             Some (hh, mm, ss) \<Rightarrow>
               (let h = digits_val hh; m = digits_val mm; s = opt_val ss in
                if h < 24 \<and> m < 60 \<and> s < 60 then Inr (TimeV h m s) else Inl ValueError)
           | None \<Rightarrow> or_default d ValueError)
      | _ \<Rightarrow> Inl TypeError)"

definition duration_filter :: "fval option \<Rightarrow> fval \<Rightarrow> py_error + fval" where
  "duration_filter d v =
     (case v of
        Val (PStr txt) \<Rightarrow>
          (case re_search_at duration_at txt of
             Some (hh, mm, ss) \<Rightarrow>
               Inr (DeltaV (int (3600 * opt_val hh + 60 * digits_val mm + digits_val ss)))
           | None \<Rightarrow> or_default d ValueError)
      | _ \<Rightarrow> Inl TypeError)"

section \<open>Chaining\<close>

text \<open>
  \<^verbatim>\<open>Join.filter\<close> (lines 342--347): each element of the selection, cleaned by
  \<^verbatim>\<open>CleanText.clean\<close>, formatted into the pattern and appended.
\<close>

fun join_items :: "fenv \<Rightarrow> string \<Rightarrow> pyval list \<Rightarrow> py_error + string" where
  "join_items E pat [] = Inr []"
| "join_items E pat (li # lis) =
     ebind (py_clean li) (\<lambda>c. ebind (py_format E pat [Val (PStr c)]) (\<lambda>p.
       ebind (join_items E pat lis) (\<lambda>rest. Inr (p @ rest))))"

definition join_filter :: "fenv \<Rightarrow> string \<Rightarrow> fval \<Rightarrow> py_error + fval" where
  "join_filter E pat v =
     (case v of
        Val (PList lis) \<Rightarrow> ebind (join_items E pat lis) (\<lambda>r. Inr (Val (PStr r)))
      | Val (PStr s) \<Rightarrow> ebind (join_items E pat (map (\<lambda>c. PStr [c]) s)) (\<lambda>r. Inr (Val (PStr r)))
      | _ \<Rightarrow> Inl TypeError)"

text \<open>
  \<^verbatim>\<open>TableCell.__call__\<close> (lines 115--123): the cells \<^verbatim>\<open>./td[idx + 1]\<close> of the first
  name that is a column of the table, or the default, or \<^verbatim>\<open>KeyError\<close>.
\<close>

definition table_cell :: "fenv \<Rightarrow> string list \<Rightarrow> fval option \<Rightarrow> item \<Rightarrow> py_error + fval" where
  "table_cell E names d it =
     (case first_some (item_colnum it) names of
        Some idx \<Rightarrow> Inr (Val (xpath E (''./td['' @ digits_of (idx + 1) @ '']'') (item_el it)))
      | None \<Rightarrow> or_default d KeyError)"

text \<open>
  \<^verbatim>\<open>Filter.__call__\<close> is \<^verbatim>\<open>self.filter(self.select(self.selector, item))\<close>;
  \<^verbatim>\<open>MultiFilter\<close> selects each of its selectors in order (lines 316--326), and
  \<^verbatim>\<open>Format\<close> is \<^verbatim>\<open>fmt % values\<close>; \<^verbatim>\<open>Env\<close> reads \<^verbatim>\<open>item.env[name]\<close>. The text
  filters are those of the theories \<open>TextClean\<close> and \<open>Decimal\<close>; an input that is not a
  Python value has no \<^verbatim>\<open>itertext\<close>.
\<close>

primrec apply_filter :: "fenv \<Rightarrow> filt \<Rightarrow> item \<Rightarrow> py_error + fval"
  and select :: "fenv \<Rightarrow> sel \<Rightarrow> item \<Rightarrow> py_error + fval"
  and select_all :: "fenv \<Rightarrow> sel list \<Rightarrow> item \<Rightarrow> py_error + fval list" where
  "apply_filter E (FCleanText s sy) it =
     ebind (select E s it) (\<lambda>v. case v of
       Val pv \<Rightarrow> ebind (clean_text_filter sy pv) (\<lambda>t. Inr (Val (PStr t)))
     | _ \<Rightarrow> Inl AttributeError)"
| "apply_filter E (FCleanDecimal s rd d) it =
     ebind (select E s it) (\<lambda>v. case v of
       Val pv \<Rightarrow> ebind (clean_decimal rd d pv) (\<lambda>x. Inr (Val (PDec x)))
     | _ \<Rightarrow> Inl AttributeError)"
| "apply_filter E (FAttr s a d) it = ebind (select E s it) (attr_filter a d)"
| "apply_filter E (FLink s d) it = ebind (select E s it) (attr_filter ''href'' d)"
| "apply_filter E (FRegexp s pat tmpl d) it = ebind (select E s it) (regexp_filter E pat tmpl d)"
| "apply_filter E (FMap s m d) it = ebind (select E s it) (map_filter m d)"
| "apply_filter E (FDateTime s) it = ebind (select E s it) (datetime_filter E)"
| "apply_filter E (FDate s) it = ebind (select E s it) (date_filter E)"
| "apply_filter E (FTime s d) it = ebind (select E s it) (time_filter d)"
| "apply_filter E (FDuration s d) it = ebind (select E s it) (duration_filter d)"
| "apply_filter E (FFormat f ss) it =
     ebind (select_all E ss it) (\<lambda>vs. ebind (py_format E f vs) (\<lambda>r. Inr (Val (PStr r))))"
| "apply_filter E (FJoin pat s) it = ebind (select E s it) (join_filter E pat)"
| "apply_filter E (FEnv n) it = (case item_env it n of Some v \<Rightarrow> Inr v | None \<Rightarrow> Inl KeyError)"
| "apply_filter E (FTableCell names d) it = table_cell E names d it"
| "select E (SXPath p) it = Inr (Val (xpath E p (item_el it)))"
| "select E (SFilter f) it = apply_filter E f it"
| "select E (SConst v) it = Inr v"
| "select_all E [] it = Inr []"
| "select_all E (s # ss) it = ebind (select E s it) (\<lambda>v. ebind (select_all E ss it) (\<lambda>vs. Inr (v # vs)))"

text \<open>The digit of value \<open>n\<close>.\<close>

definition dchar :: "nat \<Rightarrow> char" where
  "dchar n = char_of (48 + n)"

section \<open>Properties of the time filters\<close>

lemma dchar_digit [simp]: "n < 10 \<Longrightarrow> py_digit (dchar n)"
  by (simp add: dchar_def py_digit_def)

lemma of_char_dchar [simp]: "n < 10 \<Longrightarrow> (of_char (dchar n) :: nat) = 48 + n"
  by (simp add: dchar_def)

lemma nondigit_colon [simp]: "\<not> py_digit CHR '':''" and nondigit_h [simp]: "\<not> py_digit CHR ''h''"
  by (simp_all add: py_digit_def)

lemma digits_val_two [simp]: "a < 10 \<Longrightarrow> b < 10 \<Longrightarrow> digits_val [dchar a, dchar b] = 10 * a + b"
  by (simp add: digits_val_def)

lemma digits_val_one [simp]: "a < 10 \<Longrightarrow> digits_val [dchar a] = a"
  by (simp add: digits_val_def)

text \<open>The search skips a prefix where no match can start.\<close>

lemma re_search_at_skip:
  "(\<And>c cs. \<not> py_digit c \<Longrightarrow> m (c # cs) = None) \<Longrightarrow> \<forall>c \<in> set pre. \<not> py_digit c \<Longrightarrow>
     re_search_at m (pre @ s) = re_search_at m s"
  by (induction pre) auto

lemma re_search_at_first: "m s = Some r \<Longrightarrow> re_search_at m s = Some r"
  by (cases s) simp_all

lemma time_at_nondigit: "\<not> py_digit c \<Longrightarrow> time_at (c # cs) = None"
  by (simp add: time_at_def)

lemma duration_at_nondigit: "\<not> py_digit c \<Longrightarrow> duration_at (c # cs) = None"
  by (simp add: duration_at_def digits_sep_digits_def)

lemma time_search_skip:
  "\<forall>c \<in> set pre. \<not> py_digit c \<Longrightarrow> re_search_at time_at (pre @ s) = re_search_at time_at s"
  by (rule re_search_at_skip) (simp_all add: time_at_nondigit)

lemma duration_search_skip:
  "\<forall>c \<in> set pre. \<not> py_digit c \<Longrightarrow> re_search_at duration_at (pre @ s) = re_search_at duration_at s"
  by (rule re_search_at_skip) (simp_all add: duration_at_nondigit)

lemma colon_rest_none: "post = [] \<or> hd post \<noteq> CHR '':'' \<Longrightarrow> colon_rest post = None"
  by (cases post) (auto simp: colon_rest_def)

lemma opt_seconds_none: "post = [] \<or> hd post \<noteq> CHR '':'' \<Longrightarrow> opt_seconds post = None"
  by (simp add: opt_seconds_def colon_rest_none)

lemma takeWhile_append_stop:
  "list_all P X \<Longrightarrow> Y = [] \<or> \<not> P (hd Y) \<Longrightarrow> takeWhile P (X @ Y) = X \<and> dropWhile P (X @ Y) = Y"
proof (induction X)
  case Nil
  then show ?case by (cases Y) auto
qed simp

lemma takeWhile_digits_stop:
  "post = [] \<or> \<not> py_digit (hd post) \<Longrightarrow> takeWhile py_digit post = [] \<and> dropWhile py_digit post = post"
  by (cases post) auto

text \<open>
  C38. On a text with a valid hour written \<^verbatim>\<open>HH:MM\<close> after a prefix without digits
  and before something that is neither a digit nor a colon, \<^verbatim>\<open>Time\<close> returns that
  time.
\<close>

theorem time_filter_hh_mm:
  assumes pre: "\<forall>c \<in> set pre. \<not> py_digit c" and d: "a < 10" "b < 10" "c < 10" "e < 10"
    and hm: "10 * a + b < 24" "10 * c + e < 60"
    and post: "post = [] \<or> (\<not> py_digit (hd post) \<and> hd post \<noteq> CHR '':'')"
  shows "time_filter dflt (Val (PStr (pre @ [dchar a, dchar b, CHR '':'', dchar c, dchar e] @ post))) =
           Inr (TimeV (10 * a + b) (10 * c + e) 0)"
proof -
  have p1: "post = [] \<or> \<not> py_digit (hd post)" and p2: "post = [] \<or> hd post \<noteq> CHR '':''"
    using post by auto
  have p: "takeWhile py_digit post = [] \<and> dropWhile py_digit post = post" "opt_seconds post = None"
    using takeWhile_digits_stop [OF p1] opt_seconds_none [OF p2] by simp_all
  have "time_at ([dchar a, dchar b, CHR '':'', dchar c, dchar e] @ post) =
        Some ([dchar a, dchar b], [dchar c, dchar e], None)"
    using d p by (simp add: time_at_def colon_rest_def Let_def)
  then show ?thesis
    using d hm by (simp add: time_filter_def time_search_skip [OF pre] opt_val_def)
qed

theorem time_filter_hh_mm_witness:
  "time_filter None (Val (PStr (''at '' @ [dchar 1, dchar 4, CHR '':'', dchar 3, dchar 0] @ ''.''))) = Inr (TimeV 14 30 0)"
  using time_filter_hh_mm [of "''at ''" 1 4 3 0 "''.''" None] by (simp add: py_digit_def)

text \<open>
  C39. The French notation \<^verbatim>\<open>14h30\<close> is misread: the greedy hours take both digits,
  the match backtracks to the last of them for the minutes, and \<^verbatim>\<open>Time\<close> returns
  01:04, whatever follows the \<^verbatim>\<open>h\<close>.
\<close>

theorem time_filter_h_notation:
  assumes pre: "\<forall>c \<in> set pre. \<not> py_digit c" and ab: "a < 10" "b < 10"
  shows "time_filter d (Val (PStr (pre @ dchar a # dchar b # CHR ''h'' # rest))) = Inr (TimeV a b 0)"
proof -
  have "time_at (dchar a # dchar b # CHR ''h'' # rest) = Some ([dchar a], [dchar b], None)"
    using ab by (simp add: time_at_def opt_seconds_def colon_rest_def)
  then show ?thesis using ab by (simp add: time_filter_def time_search_skip [OF pre] opt_val_def)
qed

theorem time_filter_h_notation_witness:
  "time_filter None (Val (PStr ([] @ dchar 1 # dchar 4 # CHR ''h'' # [dchar 3, dchar 0]))) = Inr (TimeV 1 4 0)"
  using time_filter_h_notation [of "[]" 1 4 None "[dchar 3, dchar 0]"] by simp

lemma duration_filter_mm_ss:
  assumes pre: "\<forall>c \<in> set pre. \<not> py_digit c" and M: "M \<noteq> []" "list_all py_digit M"
    and S: "S \<noteq> []" "list_all py_digit S" and sep: "dur_sep c"
    and post: "post = [] \<or> (\<not> py_digit (hd post) \<and> \<not> dur_sep (hd post))"
  shows "duration_filter d (Val (PStr (pre @ M @ c # S @ post))) =
           Inr (DeltaV (int (60 * digits_val M + digits_val S)))"
proof -
  have tw: "takeWhile py_digit (X @ Y) = X" "dropWhile py_digit (X @ Y) = Y"
    if "list_all py_digit X" "Y = [] \<or> \<not> py_digit (hd Y)" for X Y :: string
    using takeWhile_append_stop [OF that] by simp_all
  have nd: "\<not> py_digit c" using sep by (auto simp: dur_sep_def py_digit_def)
  have q: "post = [] \<or> \<not> py_digit (hd post)" using post by auto
  have t: "takeWhile py_digit (S @ post) = S" "dropWhile py_digit (S @ post) = post" using tw [OF S(2) q] .
  have sp: "digits_sep_digits (S @ post) = None"
    unfolding digits_sep_digits_def Let_def t using post by (auto split: list.split)
  have tM: "takeWhile py_digit (M @ c # S @ post) = M" "dropWhile py_digit (M @ c # S @ post) = c # S @ post"
    using tw [OF M(2), of "c # S @ post"] nd by simp_all
  have ds: "digits_sep_digits (M @ c # S @ post) = Some (M, S)"
    unfolding digits_sep_digits_def Let_def tM list.case t using M S sep by simp
  have "duration_at (M @ c # S @ post) = Some (None, M, S)"
    unfolding duration_at_def Let_def tM list.case sp ds using M sep by simp
  then show ?thesis
    by (simp add: duration_filter_def duration_search_skip [OF pre] opt_val_def re_search_at_first)
qed

section \<open>Properties of the chaining\<close>

text \<open>
  C40. \<^verbatim>\<open>Regexp\<close> applied to an XPath selection, which lxml returns as a list, always
  raises \<^verbatim>\<open>AttributeError\<close>: the branch meant to flatten a list calls \<^verbatim>\<open>itertext\<close> on
  the list, and no default is used.
\<close>

theorem regexp_xpath_list:
  "xpath E p (item_el it) = PList xs \<Longrightarrow> apply_filter E (FRegexp (SXPath p) pat tmpl d) it = Inl AttributeError"
  by (simp add: regexp_filter_def)

theorem regexp_xpath_list_witness:
  "apply_filter \<lparr>xpath = (\<lambda>p n. PList [PStr ''Date: 13/08/1988'']), re_search = (\<lambda>p t. Some [Some t]),
                  re_expand = (\<lambda>p t tm. tm), parse_date = (\<lambda>v. Inl ValueError), py_format = (\<lambda>f vs. Inr f)\<rparr>
     (FRegexp (SXPath ''//p'') ''Date: ([0-9]+)'' None (Some (Val PNone)))
     \<lparr>item_el = Elem ''p'' [] [], item_env = (\<lambda>n. None), item_colnum = (\<lambda>n. None)\<rparr> = Inl AttributeError"
  by (rule regexp_xpath_list) simp

text \<open>
  \<^verbatim>\<open>Date\<close> never returns a date: what it returns is \<open>None\<close> or the bound method
  \<^verbatim>\<open>date\<close> of the parsed datetime.
\<close>

lemma date_filter_no_date: "date_filter E v = Inr r \<Longrightarrow> r = Val PNone \<or> (\<exists>dt. r = DateMethod dt)"
  by (auto simp: date_filter_def datetime_filter_def ebind_eq_Inr split: if_splits fval.splits)

text \<open>\<^verbatim>\<open>MultiFilter\<close> selects its selectors in order: \<^verbatim>\<open>Format\<close> formats the values of all of them.\<close>

lemma select_all_Inr: "select_all E ss it = Inr vs \<longleftrightarrow> list_all2 (\<lambda>s v. select E s it = Inr v) ss vs"
  by (induction ss arbitrary: vs) (auto simp: ebind_eq_Inr list_all2_Cons1)

end
