(* ===== verification/Dispatch.thy ===== *)
theory Dispatch
  imports Prelude "HOL-Library.Multiset"
begin

text \<open>
  URL dispatch, the page lookup of \<^verbatim>\<open>BaseBrowser._change_location\<close> in
  \<^verbatim>\<open>src/weboob/tools/browser/browser.py\<close> (lines 531--542): the bindings of
  \<^verbatim>\<open>PAGES\<close> are tried in the order \<^verbatim>\<open>PAGES.items()\<close> gives them, each pattern is
  compiled as \<^verbatim>\<open>'^%s$' % key\<close> and matched against the URL of the response, and the
  first match gives the page class and the groups of the match.

  The regular-expression engine is a parameter: a \<open>matcher\<close> returns the groups of an
  anchored match of a pattern against a URL, or \<open>None\<close>. The lemmas hold for every
  matcher: the first binding in order that matches wins; no binding matching is the only
  way to find nothing; and when the URL matches at most one binding, the order of the
  table does not matter.
\<close>

type_synonym groups = "string option list"
type_synonym matcher = "string \<Rightarrow> string \<Rightarrow> groups option"

definition find_page :: "matcher \<Rightarrow> (string \<times> 'k) list \<Rightarrow> string \<Rightarrow> ('k \<times> groups) option" where
  "find_page rmatch pages url =
     first_some (\<lambda>(key, cls). map_option (\<lambda>g. (cls, g)) (rmatch key url)) pages"

text \<open>The bindings of a table whose pattern matches a URL.\<close>

definition matching :: "matcher \<Rightarrow> (string \<times> 'k) list \<Rightarrow> string \<Rightarrow> (string \<times> 'k) list" where
  "matching rmatch pages url = filter (\<lambda>(key, cls). rmatch key url \<noteq> None) pages"

lemma find_page_Nil [simp]: "find_page rmatch [] url = None"
  by (simp add: find_page_def)

lemma find_page_Cons:
  "find_page rmatch ((key, cls) # ps) url =
     (case rmatch key url of Some g \<Rightarrow> Some (cls, g) | None \<Rightarrow> find_page rmatch ps url)"
  by (simp add: find_page_def split: option.splits)

lemma find_page_matching: "find_page rmatch (matching rmatch ps url) url = find_page rmatch ps url"
  by (induction ps) (auto simp: matching_def find_page_Cons split: option.splits)

lemma find_page_single:
  "rmatch key url = Some g \<Longrightarrow> find_page rmatch [(key, cls)] url = Some (cls, g)"
  by (simp add: find_page_Cons)

text \<open>
  C8. Dispatch is first-match-wins in table order: the lookup returns a class and groups
  exactly when some binding matches the URL with those groups and every binding before it
  fails to match.
\<close>

theorem find_page_first_match:
  "find_page rmatch pages url = Some (cls, g) \<longleftrightarrow>
     (\<exists>us key vs. pages = us @ (key, cls) # vs \<and>
        (\<forall>(k', c') \<in> set us. rmatch k' url = None) \<and> rmatch key url = Some g)"
proof -
  have "find_page rmatch pages url = Some (cls, g) \<longleftrightarrow>
        (\<exists>us x vs. pages = us @ x # vs \<and>
           (\<forall>u \<in> set us. (case u of (key, cls) \<Rightarrow> map_option (\<lambda>g. (cls, g)) (rmatch key url)) = None) \<and>
           (case x of (key, cls) \<Rightarrow> map_option (\<lambda>g. (cls, g)) (rmatch key url)) = Some (cls, g))"
    unfolding find_page_def by (rule first_some_Some_iff)
  also have "\<dots> \<longleftrightarrow> (\<exists>us key vs. pages = us @ (key, cls) # vs \<and>
        (\<forall>(k', c') \<in> set us. rmatch k' url = None) \<and> rmatch key url = Some g)"
    by (fastforce split: prod.splits)
  finally show ?thesis .
qed

theorem find_page_first_match_witness:
  "find_page (\<lambda>p u. if p = u then Some [] else None) [(''/a'', 1::nat), (''/b'', 2), (''/b'', 3)] ''/b''
     = Some (2, [])"
proof (rule find_page_first_match [THEN iffD2])
  show "\<exists>us key vs. [(''/a'', 1::nat), (''/b'', 2), (''/b'', 3)] = us @ (key, 2) # vs \<and>
          (\<forall>(k', c') \<in> set us. (if k' = ''/b'' then Some [] else None) = (None :: groups option)) \<and>
          (if key = ''/b'' then Some [] else None) = Some ([] :: groups)"
    by (intro exI [of _ "[(''/a'', 1::nat)]"] exI [of _ "''/b''"] exI [of _ "[(''/b'', 3::nat)]"]) simp
qed

text \<open>
  No page is found exactly when no pattern of the table matches the URL.
\<close>

lemma find_page_none:
  "find_page rmatch pages url = None \<longleftrightarrow> (\<forall>(key, cls) \<in> set pages. rmatch key url = None)"
  by (auto simp: find_page_def first_some_None_iff split: prod.splits)

lemma find_page_at_most_one:
  assumes "length (matching rmatch ps url) \<le> 1"
  shows "find_page rmatch ps url =
           (case matching rmatch ps url of [] \<Rightarrow> None | (key, cls) # _ \<Rightarrow> map_option (\<lambda>g. (cls, g)) (rmatch key url))"
proof -
  have "find_page rmatch ps url = find_page rmatch (matching rmatch ps url) url"
    by (rule find_page_matching [symmetric])
  moreover have "matching rmatch ps url = [] \<or> (\<exists>key cls. matching rmatch ps url = [(key, cls)])"
    using assms by (cases "matching rmatch ps url") auto
  ultimately show ?thesis by (auto simp: find_page_Cons split: option.splits)
qed

lemma matching_mset:
  "mset ps = mset qs \<Longrightarrow> mset (matching rmatch ps url) = mset (matching rmatch qs url)"
  by (simp add: matching_def)

text \<open>
  C10. When the URL matches at most one binding, any reordering of the table (Python 2
  dictionaries give no order) dispatches it to the same page class with the same groups.
\<close>

theorem find_page_order_independent:
  assumes perm: "mset ps = mset qs" and one: "length (matching rmatch ps url) \<le> 1"
  shows "find_page rmatch ps url = find_page rmatch qs url"
proof -
  have m: "mset (matching rmatch ps url) = mset (matching rmatch qs url)"
    using perm by (rule matching_mset)
  then have l: "length (matching rmatch qs url) \<le> 1"
    using one by (metis size_mset)
  have "matching rmatch ps url = matching rmatch qs url"
  proof (cases "matching rmatch ps url")
    case Nil
    with m show ?thesis by simp
  next
    case (Cons a as)
    with one have "as = []" by simp
    with Cons m show ?thesis by simp
  qed
  then show ?thesis using find_page_at_most_one [OF one] find_page_at_most_one [OF l] by simp
qed

theorem find_page_order_independent_witness:
  "find_page (\<lambda>p u. if p = u then Some [] else None) [(''/a'', 1::nat), (''/b'', 2)] ''/b'' =
   find_page (\<lambda>p u. if p = u then Some [] else None) [(''/b'', 2::nat), (''/a'', 1)] ''/b''"
proof (rule find_page_order_independent)
  show "mset [(''/a'', 1::nat), (''/b'', 2)] = mset [(''/b'', 2::nat), (''/a'', 1)]" by simp
  show "length (matching (\<lambda>p u. if p = u then Some [] else None) [(''/a'', 1::nat), (''/b'', 2)] ''/b'') \<le> 1"
    by (simp add: matching_def)
qed

end
