(* ===== verification/Browser.thy ===== *)
theory Browser
  imports Dispatch
begin

text \<open>
  The navigation engine \<^verbatim>\<open>BaseBrowser\<close> of \<^verbatim>\<open>src/weboob/tools/browser/browser.py\<close>:
  \<^verbatim>\<open>check_location\<close> (lines 120--130) normalises the URL, the decorator
  \<^verbatim>\<open>retry(BrowserHTTPError, tries=3)\<close> repeats the navigation on transient errors,
  \<^verbatim>\<open>location\<close> (lines 471--500) opens the URL and handles the errors, the re-login signal
  \<^verbatim>\<open>BrowserRetry\<close> and mechanize's state errors, \<^verbatim>\<open>_change_location\<close> (lines
  525--568) dispatches the response, logs in when the site says the session is gone, and
  calls \<^verbatim>\<open>on_loaded\<close>; \<^verbatim>\<open>home\<close> (lines 366--371) goes to the site's root.
  The login procedure is that of \<^verbatim>\<open>src/modules/creditdunord/browser.py\<close> (lines 56--80):
  one navigation with \<^verbatim>\<open>no_login=True\<close>, then \<^verbatim>\<open>BrowserIncorrectPassword\<close> unless the
  browser is logged in.

  The transport (mechanize) is a function of the site record, \<open>net\<close>: given the session
  cookies and a request it returns the new cookies, the final URL after redirects and the
  parsed document, or the error mechanize raises. Every opened request and every re-login
  is recorded in the state's \<open>trace\<close>, which is what the lemmas count. The functions take
  a fuel argument: a state error makes \<^verbatim>\<open>location\<close> call itself again without bound, so
  not returning is the value \<open>None\<close>; the enough-fuel theorem shows that without state
  errors thirteen units always suffice for a top-level \<^verbatim>\<open>location\<close>.
\<close>

section \<open>Data\<close>

text \<open>\<^verbatim>\<open>BasePage\<close> (lines 101--118): the class, URL, match groups and document.\<close>

record 'k page =
  pg_cls :: 'k
  pg_url :: string
  pg_groups :: groups
  pg_doc :: node

text \<open>The exceptions of the module (lines 57--76) and those a page may raise on load.\<close>

datatype exc =
    BrowserIncorrectPassword | BrowserBanned | BrowserUnavailable
  | BrowserHTTPNotFound | BrowserHTTPError | BrowserRetry | SiteError string

text \<open>What mechanize's \<^verbatim>\<open>open\<close> gives: a response, or one of the exceptions caught.\<close>

datatype 'c net_result =
    NetOK 'c string node
  | NetHTTPError nat
  | NetURLError
  | NetStateError

record request =
  rq_url :: string
  rq_data :: "string option"

datatype event = Open request | Relogin | NoPage string

text \<open>
  The class attributes and the site-specific methods of a browser: \<^verbatim>\<open>PROTOCOL\<close>,
  \<^verbatim>\<open>DOMAIN\<close>, \<^verbatim>\<open>PAGES\<close>, the password, \<^verbatim>\<open>is_logged\<close>, the pages' \<^verbatim>\<open>on_loaded\<close>,
  the request the login posts, and whether a cookie jar is kept (\<^verbatim>\<open>self._cookie\<close>).
\<close>

record ('c, 'k) site =
  protocol :: string
  domain :: string
  pages :: "(string \<times> 'k) list"
  rmatch :: matcher
  net :: "'c \<Rightarrow> request \<Rightarrow> 'c net_result"
  password :: "string option"
  is_logged :: "'k page option \<Rightarrow> bool"
  on_loaded :: "'k page \<Rightarrow> exc option"
  login_req :: request
  cookie_jar :: bool

text \<open>
  The browser's state: the cookies, the current page (\<^verbatim>\<open>self.page\<close>), the host of the last
  request (\<^verbatim>\<open>self.request\<close>), the cookies last saved to the jar, and the trace.
\<close>

record ('c, 'k) bstate =
  cookies :: 'c
  page :: "'k page option"
  req_host :: "string option"
  saved :: "'c option"
  trace :: "event list"

type_synonym ('c, 'k) outcome = "((exc + unit) \<times> ('c, 'k) bstate) option"

section \<open>check_location\<close>

text \<open>The lines of a string, split at \<open>\n\<close>.\<close>

fun split_lines :: "string \<Rightarrow> string list" where
  "split_lines [] = [[]]"
| "split_lines (c # cs) =
     (if c = CHR 0x0A then [] # split_lines cs
      else (case split_lines cs of l # ls \<Rightarrow> (c # l) # ls | [] \<Rightarrow> [[c]]))"

text \<open>One line of \<^verbatim>\<open>re.sub('(.*)#.*', r'\1', url)\<close>: everything before the last \<open>#\<close>.\<close>

definition strip_line :: "string \<Rightarrow> string" where
  "strip_line l =
     (if CHR ''#'' \<in> set l then rev (tl (dropWhile (\<lambda>c. c \<noteq> CHR ''#'') (rev l))) else l)"

definition strip_fragment :: "string \<Rightarrow> string" where
  "strip_fragment u = py_join [CHR 0x0A] (map strip_line (split_lines u))"

text \<open>The host of an absolute URL, as \<^verbatim>\<open>Request.get_host()\<close> reads it.\<close>

definition url_host :: "string \<Rightarrow> string option" where
  "url_host u =
     (let r = dropWhile (\<lambda>c. c \<noteq> CHR '':'') u in
      if take 3 r = ''://'' then Some (takeWhile (\<lambda>c. c \<noteq> CHR ''/'') (drop 3 r)) else None)"

text \<open>
  \<^verbatim>\<open>check_location\<close>: a path is made absolute unless the last request went to the
  domain itself, and the fragment is cut.
\<close>

definition check_location :: "('c, 'k) site \<Rightarrow> string option \<Rightarrow> string \<Rightarrow> string" where
  "check_location s host url =
     strip_fragment
       (if take 1 url = ''/'' \<and> (host = None \<or> host \<noteq> Some (domain s))
        then protocol s @ ''://'' @ domain s @ url else url)"

section \<open>The engine\<close>

text \<open>
  The methods call one another (\<^verbatim>\<open>location\<close> calls \<^verbatim>\<open>_change_location\<close>, which calls
  \<^verbatim>\<open>login\<close>, which calls \<^verbatim>\<open>location\<close>), so they are one function \<open>exec\<close> over a
  datatype of calls, with one unit of fuel spent per call:
  \<^item> \<open>CLocation nl r\<close> is the decorated \<^verbatim>\<open>location(r, no_login=nl)\<close>: the URL goes
    through \<^verbatim>\<open>check_location\<close>, then to the decorator with three tries;
  \<^item> \<open>CRetry k nl r\<close> is the \<^verbatim>\<open>retry\<close> decorator with \<open>k\<close> tries left (the repository's
    \<^verbatim>\<open>weboob.tools.decorators.retry\<close>, not under \<^verbatim>\<open>src/\<close>): while more than one try is
    left, \<^verbatim>\<open>BrowserHTTPError\<close> is caught and the body called again; the last try is not
    protected;
  \<^item> \<open>CBody nl r\<close> is the body of \<^verbatim>\<open>location\<close>;
  \<^item> \<open>CChange nl url doc\<close> is \<^verbatim>\<open>_change_location\<close> on a response;
  \<^item> \<open>CLogin\<close> is the login procedure, \<open>CHome\<close> is \<^verbatim>\<open>BaseBrowser.home\<close>.
\<close>

datatype call =
    CLocation bool request
  | CRetry nat bool request
  | CBody bool request
  | CChange bool string node
  | CLogin
  | CHome

primrec exec :: "nat \<Rightarrow> ('c, 'k) site \<Rightarrow> call \<Rightarrow> ('c, 'k) bstate \<Rightarrow> ('c, 'k) outcome" where
  "exec 0 s c st = None"
| "exec (Suc n) s c st =
     (case c of
        CLocation nl r \<Rightarrow>
          exec n s (CRetry 3 nl (r\<lparr>rq_url := check_location s (req_host st) (rq_url r)\<rparr>)) st
      | CRetry k nl r \<Rightarrow>
          (if k \<le> 1 then exec n s (CBody nl r) st
           else (case exec n s (CBody nl r) st of
                   Some (Inl BrowserHTTPError, st') \<Rightarrow> exec n s (CRetry (k - 1) nl r) st'
                 | res \<Rightarrow> res))
      | CBody nl r \<Rightarrow>
          (let st1 = st\<lparr>trace := trace st @ [Open r]\<rparr>;
               st2 = st1\<lparr>req_host := (case url_host (rq_url r) of Some h \<Rightarrow> Some h | None \<Rightarrow> req_host st)\<rparr>
           in case net s (cookies st) r of
                NetOK c' url doc \<Rightarrow>
                  (case exec n s (CChange nl url doc) (st2\<lparr>cookies := c'\<rparr>) of
                     Some (Inl BrowserRetry, st3) \<Rightarrow>
                       (if page st3 = None \<or> map_option pg_url (page st3) \<noteq> Some (rq_url r)
                        then exec n s (CLocation True r) st3 else Some (Inr (), st3))
                   | res \<Rightarrow> res)
              | NetHTTPError code \<Rightarrow>
                  Some (Inl (if code = 404 then BrowserHTTPNotFound else BrowserHTTPError), st2\<lparr>page := None\<rparr>)
              | NetURLError \<Rightarrow> Some (Inl BrowserHTTPError, st1\<lparr>page := None\<rparr>)
              | NetStateError \<Rightarrow>
                  (case exec n s CHome st1 of
                     Some (Inr (), st3) \<Rightarrow> exec n s (CLocation nl r) st3
                   | res \<Rightarrow> res))
      | CChange nl url doc \<Rightarrow>
          (case find_page (rmatch s) (pages s) url of
             None \<Rightarrow> Some (Inr (), st\<lparr>page := None, trace := trace st @ [NoPage url]\<rparr>)
           | Some (cls, g) \<Rightarrow>
               (let pg = \<lparr>pg_cls = cls, pg_url = url, pg_groups = g, pg_doc = doc\<rparr>;
                    st1 = st\<lparr>page := Some pg\<rparr>
                in if \<not> nl \<and> password s \<noteq> None \<and> \<not> is_logged s (Some pg)
                   then (case exec n s CLogin (st1\<lparr>trace := trace st1 @ [Relogin]\<rparr>) of
                           Some (Inr (), st2) \<Rightarrow> Some (Inl BrowserRetry, st2)
                         | res \<Rightarrow> res)
                   else (case on_loaded s pg of
                           Some e \<Rightarrow> Some (Inl e, st1)
                         | None \<Rightarrow> Some (Inr (), if cookie_jar s then st1\<lparr>saved := Some (cookies st1)\<rparr> else st1))))
      | CLogin \<Rightarrow>
          (case exec n s (CLocation True (login_req s)) st of
             Some (Inr (), st') \<Rightarrow>
               (if is_logged s (page st') then Some (Inr (), st') else Some (Inl BrowserIncorrectPassword, st'))
           | res \<Rightarrow> res)
      | CHome \<Rightarrow>
          exec n s (CLocation False \<lparr>rq_url = protocol s @ ''://'' @ domain s @ ''/'', rq_data = None\<rparr>) st)"

text \<open>The methods of the source, as calls of \<open>exec\<close>.\<close>

definition location :: "nat \<Rightarrow> ('c, 'k) site \<Rightarrow> bool \<Rightarrow> request \<Rightarrow> ('c, 'k) bstate \<Rightarrow> ('c, 'k) outcome" where
  "location n s nl r = exec n s (CLocation nl r)"

definition change_location :: "nat \<Rightarrow> ('c, 'k) site \<Rightarrow> bool \<Rightarrow> string \<Rightarrow> node \<Rightarrow> ('c, 'k) bstate \<Rightarrow> ('c, 'k) outcome" where
  "change_location n s nl url doc = exec n s (CChange nl url doc)"

definition do_login :: "nat \<Rightarrow> ('c, 'k) site \<Rightarrow> ('c, 'k) bstate \<Rightarrow> ('c, 'k) outcome" where
  "do_login n s = exec n s CLogin"

definition home :: "nat \<Rightarrow> ('c, 'k) site \<Rightarrow> ('c, 'k) bstate \<Rightarrow> ('c, 'k) outcome" where
  "home n s = exec n s CHome"

section \<open>One equation per call\<close>

text \<open>
  The equations of \<open>exec\<close> split by the call, so that a proof about one method unfolds
  only that method's body; the generic equation is removed from the simplifier.
\<close>

lemma exec_Suc_CLocation:
  "exec (Suc n) s (CLocation nl r) st =
     exec n s (CRetry 3 nl (r\<lparr>rq_url := check_location s (req_host st) (rq_url r)\<rparr>)) st"
  by simp

lemma exec_Suc_CRetry:
  "exec (Suc n) s (CRetry k nl r) st =
     (if k \<le> 1 then exec n s (CBody nl r) st
      else (case exec n s (CBody nl r) st of
              Some (Inl BrowserHTTPError, st') \<Rightarrow> exec n s (CRetry (k - 1) nl r) st'
            | res \<Rightarrow> res))"
  by simp

lemma exec_Suc_CBody:
  "exec (Suc n) s (CBody nl r) st =
     (let st1 = st\<lparr>trace := trace st @ [Open r]\<rparr>;
          st2 = st1\<lparr>req_host := (case url_host (rq_url r) of Some h \<Rightarrow> Some h | None \<Rightarrow> req_host st)\<rparr>
      in case net s (cookies st) r of
           NetOK c' url doc \<Rightarrow>
             (case exec n s (CChange nl url doc) (st2\<lparr>cookies := c'\<rparr>) of
                Some (Inl BrowserRetry, st3) \<Rightarrow>
                  (if page st3 = None \<or> map_option pg_url (page st3) \<noteq> Some (rq_url r)
                   then exec n s (CLocation True r) st3 else Some (Inr (), st3))
              | res \<Rightarrow> res)
         | NetHTTPError code \<Rightarrow>
             Some (Inl (if code = 404 then BrowserHTTPNotFound else BrowserHTTPError), st2\<lparr>page := None\<rparr>)
         | NetURLError \<Rightarrow> Some (Inl BrowserHTTPError, st1\<lparr>page := None\<rparr>)
         | NetStateError \<Rightarrow>
             (case exec n s CHome st1 of
                Some (Inr (), st3) \<Rightarrow> exec n s (CLocation nl r) st3
              | res \<Rightarrow> res))"
  by (simp only: exec.simps call.case)

lemma exec_Suc_CChange:
  "exec (Suc n) s (CChange nl url doc) st =
     (case find_page (rmatch s) (pages s) url of
        None \<Rightarrow> Some (Inr (), st\<lparr>page := None, trace := trace st @ [NoPage url]\<rparr>)
      | Some (cls, g) \<Rightarrow>
          (let pg = \<lparr>pg_cls = cls, pg_url = url, pg_groups = g, pg_doc = doc\<rparr>;
               st1 = st\<lparr>page := Some pg\<rparr>
           in if \<not> nl \<and> password s \<noteq> None \<and> \<not> is_logged s (Some pg)
              then (case exec n s CLogin (st1\<lparr>trace := trace st1 @ [Relogin]\<rparr>) of
                      Some (Inr (), st2) \<Rightarrow> Some (Inl BrowserRetry, st2)
                    | res \<Rightarrow> res)
              else (case on_loaded s pg of
                      Some e \<Rightarrow> Some (Inl e, st1)
                    | None \<Rightarrow> Some (Inr (), if cookie_jar s then st1\<lparr>saved := Some (cookies st1)\<rparr> else st1))))"
  by (simp only: exec.simps call.case)

lemma exec_Suc_CLogin:
  "exec (Suc n) s CLogin st =
     (case exec n s (CLocation True (login_req s)) st of
        Some (Inr (), st') \<Rightarrow>
          (if is_logged s (page st') then Some (Inr (), st') else Some (Inl BrowserIncorrectPassword, st'))
      | res \<Rightarrow> res)"
  by (simp only: exec.simps call.case)

lemma exec_Suc_CHome:
  "exec (Suc n) s CHome st =
     exec n s (CLocation False \<lparr>rq_url = protocol s @ ''://'' @ domain s @ ''/'', rq_data = None\<rparr>) st"
  by (simp only: exec.simps call.case)

declare exec.simps(2) [simp del]

lemmas exec_Suc_simps = exec_Suc_CLocation exec_Suc_CRetry exec_Suc_CBody exec_Suc_CChange
  exec_Suc_CLogin exec_Suc_CHome

lemma exec_CLogin_SomeE:
  assumes "exec (Suc n) s CLogin st = Some (res, st')"
  obtains x where "exec n s (CLocation True (login_req s)) st = Some (x, st')"
    and "res = (if x = Inr () then (if is_logged s (page st') then Inr () else Inl BrowserIncorrectPassword) else x)"
proof (cases "exec n s (CLocation True (login_req s)) st")
  case None
  with assms show ?thesis by (simp add: exec_Suc_CLogin)
next
  case (Some o1)
  then obtain x st1 where o1: "exec n s (CLocation True (login_req s)) st = Some (x, st1)"
    by (cases o1) simp
  with assms have "st1 = st' \<and> res = (if x = Inr () then (if is_logged s (page st') then Inr () else Inl BrowserIncorrectPassword) else x)"
    by (cases x) (auto simp add: exec_Suc_CLogin split: if_splits)
  with o1 that show ?thesis by blast
qed

lemma exec_CRetry_SomeE:
  assumes "exec (Suc n) s (CRetry k nl r) st = Some (res, st')"
  obtains (last) "k \<le> 1" "exec n s (CBody nl r) st = Some (res, st')"
    | (stop) "1 < k" "exec n s (CBody nl r) st = Some (res, st')" "res \<noteq> Inl BrowserHTTPError"
    | (again) st1 where "1 < k" "exec n s (CBody nl r) st = Some (Inl BrowserHTTPError, st1)"
        "exec n s (CRetry (k - 1) nl r) st1 = Some (res, st')"
proof (cases "k \<le> 1")
  case True
  with assms last show ?thesis by (simp add: exec_Suc_CRetry)
next
  case False
  show ?thesis
  proof (cases "exec n s (CBody nl r) st")
    case None
    with assms False show ?thesis by (simp add: exec_Suc_CRetry)
  next
    case (Some o1)
    then obtain x st1 where o1: "exec n s (CBody nl r) st = Some (x, st1)"
      by (cases o1) simp
    show ?thesis
    proof (cases "x = Inl BrowserHTTPError")
      case True
      with assms False o1 again show ?thesis by (simp add: exec_Suc_CRetry)
    next
      case x: False
      with assms False o1 have "(x, st1) = (res, st')"
        by (simp add: exec_Suc_CRetry split: sum.split_asm exc.split_asm)
      with False o1 x stop show ?thesis by simp
    qed
  qed
qed

lemma exec_CChange_SomeE:
  assumes "exec (Suc n) s (CChange nl url doc) st = Some (res, st')"
  obtains (nopage) "find_page (rmatch s) (pages s) url = None" "res = Inr ()"
      "st' = st\<lparr>page := None, trace := trace st @ [NoPage url]\<rparr>"
    | (relogin) cls g x where "find_page (rmatch s) (pages s) url = Some (cls, g)"
      "\<not> nl" "password s \<noteq> None" "\<not> is_logged s (Some \<lparr>pg_cls = cls, pg_url = url, pg_groups = g, pg_doc = doc\<rparr>)"
      "exec n s CLogin (st\<lparr>page := Some \<lparr>pg_cls = cls, pg_url = url, pg_groups = g, pg_doc = doc\<rparr>,
          trace := trace st @ [Relogin]\<rparr>) = Some (x, st')"
      "res = (if x = Inr () then Inl BrowserRetry else x)"
    | (loaded) cls g where "find_page (rmatch s) (pages s) url = Some (cls, g)"
      "nl \<or> password s = None \<or> is_logged s (Some \<lparr>pg_cls = cls, pg_url = url, pg_groups = g, pg_doc = doc\<rparr>)"
      "res = (case on_loaded s \<lparr>pg_cls = cls, pg_url = url, pg_groups = g, pg_doc = doc\<rparr> of
          Some e \<Rightarrow> Inl e | None \<Rightarrow> Inr ())"
      "st' = (if on_loaded s \<lparr>pg_cls = cls, pg_url = url, pg_groups = g, pg_doc = doc\<rparr> = None \<and> cookie_jar s
              then st\<lparr>page := Some \<lparr>pg_cls = cls, pg_url = url, pg_groups = g, pg_doc = doc\<rparr>, saved := Some (cookies st)\<rparr>
              else st\<lparr>page := Some \<lparr>pg_cls = cls, pg_url = url, pg_groups = g, pg_doc = doc\<rparr>\<rparr>)"
proof (cases "find_page (rmatch s) (pages s) url")
  case None
  with assms nopage show ?thesis by (simp add: exec_Suc_CChange)
next
  case (Some a)
  then obtain cls g where f: "find_page (rmatch s) (pages s) url = Some (cls, g)" by (cases a) simp
  show ?thesis
  proof (cases "\<not> nl \<and> password s \<noteq> None \<and> \<not> is_logged s (Some \<lparr>pg_cls = cls, pg_url = url, pg_groups = g, pg_doc = doc\<rparr>)")
    case True
    with assms f relogin show ?thesis
      by (auto simp: exec_Suc_CChange Let_def split: option.split_asm prod.split_asm sum.split_asm)
  next
    case False
    with assms f loaded show ?thesis
      by (auto simp: exec_Suc_CChange Let_def split: option.split_asm if_split_asm)
  qed
qed

lemma exec_CBody_SomeE:
  assumes "exec (Suc n) s (CBody nl r) st = Some (res, st')"
  obtains (ok) c' url doc x where "net s (cookies st) r = NetOK c' url doc"
      "exec n s (CChange nl url doc) (st\<lparr>trace := trace st @ [Open r],
          req_host := (case url_host (rq_url r) of Some h \<Rightarrow> Some h | None \<Rightarrow> req_host st),
          cookies := c'\<rparr>) = Some (x, st')"
      "x \<noteq> Inl BrowserRetry \<or> (page st' \<noteq> None \<and> map_option pg_url (page st') = Some (rq_url r))"
      "res = (if x = Inl BrowserRetry then Inr () else x)"
    | (again) c' url doc st3 where "net s (cookies st) r = NetOK c' url doc"
      "exec n s (CChange nl url doc) (st\<lparr>trace := trace st @ [Open r],
          req_host := (case url_host (rq_url r) of Some h \<Rightarrow> Some h | None \<Rightarrow> req_host st),
          cookies := c'\<rparr>) = Some (Inl BrowserRetry, st3)"
      "page st3 = None \<or> map_option pg_url (page st3) \<noteq> Some (rq_url r)"
      "exec n s (CLocation True r) st3 = Some (res, st')"
    | (http) code where "net s (cookies st) r = NetHTTPError code"
      "res = Inl (if code = 404 then BrowserHTTPNotFound else BrowserHTTPError)"
      "st' = st\<lparr>trace := trace st @ [Open r],
          req_host := (case url_host (rq_url r) of Some h \<Rightarrow> Some h | None \<Rightarrow> req_host st),
          page := None\<rparr>"
    | (urlerr) "net s (cookies st) r = NetURLError" "res = Inl BrowserHTTPError"
      "st' = st\<lparr>trace := trace st @ [Open r], page := None\<rparr>"
    | (stateerr) x st3 where "net s (cookies st) r = NetStateError"
      "exec n s CHome (st\<lparr>trace := trace st @ [Open r]\<rparr>) = Some (x, st3)"
      "if x = Inr () then exec n s (CLocation nl r) st3 = Some (res, st') else res = x \<and> st' = st3"
proof (cases "net s (cookies st) r")
  case (NetOK c' url doc)
  show ?thesis
  proof (cases "exec n s (CChange nl url doc) (st\<lparr>trace := trace st @ [Open r],
          req_host := (case url_host (rq_url r) of Some h \<Rightarrow> Some h | None \<Rightarrow> req_host st),
          cookies := c'\<rparr>)")
    case None
    with assms NetOK show ?thesis by (simp add: exec_Suc_CBody Let_def)
  next
    case (Some o3)
    then obtain x st3 where o3: "exec n s (CChange nl url doc) (st\<lparr>trace := trace st @ [Open r],
          req_host := (case url_host (rq_url r) of Some h \<Rightarrow> Some h | None \<Rightarrow> req_host st),
          cookies := c'\<rparr>) = Some (x, st3)"
      by (cases o3) simp
    show ?thesis
    proof (cases "x = Inl BrowserRetry \<and> (page st3 = None \<or> map_option pg_url (page st3) \<noteq> Some (rq_url r))")
      case True
      with assms NetOK o3 again show ?thesis by (auto simp: exec_Suc_CBody Let_def)
    next
      case False
      with assms NetOK o3 ok show ?thesis
        by (auto simp: exec_Suc_CBody Let_def split: sum.split_asm exc.split_asm if_split_asm)
    qed
  qed
next
  case NetStateError
  show ?thesis
  proof (cases "exec n s CHome (st\<lparr>trace := trace st @ [Open r]\<rparr>)")
    case None
    with assms NetStateError show ?thesis by (simp add: exec_Suc_CBody Let_def)
  next
    case (Some o3)
    then obtain x st3 where o3: "exec n s CHome (st\<lparr>trace := trace st @ [Open r]\<rparr>) = Some (x, st3)"
      by (cases o3) simp
    with assms NetStateError stateerr show ?thesis
      by (cases x) (auto simp: exec_Suc_CBody Let_def)
  qed
qed (use assms in \<open>auto simp: exec_Suc_CBody Let_def intro: that\<close>)

section \<open>The fragment cut of check_location\<close>

text \<open>
  \<^verbatim>\<open>re.sub('(.*)#.*', r'\1', url)\<close> works line by line (\<open>.\<close> does not match a newline)
  and keeps everything before the last \<open>#\<close> of a line.
\<close>

lemma split_lines_ne: "split_lines u \<noteq> []"
  by (induction u) (auto split: list.split)

lemma split_lines_no_newline: "CHR 0x0A \<notin> set u \<Longrightarrow> split_lines u = [u]"
  by (induction u) auto

lemma py_join_split_lines: "py_join [CHR 0x0A] (split_lines u) = u"
proof (induction u)
  case Nil
  then show ?case by simp
next
  case (Cons c cs)
  obtain l ls where sl: "split_lines cs = l # ls" using split_lines_ne by (cases "split_lines cs") auto
  show ?case
  proof (cases "c = CHR 0x0A")
    case True
    with Cons.IH sl show ?thesis by simp
  next
    case False
    with Cons.IH sl show ?thesis by (cases ls) simp_all
  qed
qed

lemma split_lines_count:
  "l \<in> set (split_lines u) \<Longrightarrow> count_list l x \<le> count_list u x"
proof (induction u arbitrary: l)
  case Nil
  then show ?case by simp
next
  case (Cons c cs)
  obtain l' ls where sl: "split_lines cs = l' # ls" using split_lines_ne by (cases "split_lines cs") auto
  show ?case
  proof (cases "c = CHR 0x0A")
    case True
    with Cons.prems sl have "l = [] \<or> l \<in> set (split_lines cs)" by auto
    then show ?thesis
    proof
      assume "l \<in> set (split_lines cs)"
      from Cons.IH [OF this] show ?thesis by (simp add: le_SucI)
    qed simp
  next
    case False
    with Cons.prems sl have "l = c # l' \<or> l \<in> set ls" by auto
    then show ?thesis
    proof
      assume "l = c # l'"
      with Cons.IH [of l'] sl show ?thesis by simp
    next
      assume "l \<in> set ls"
      with Cons.IH [of l] sl show ?thesis by simp
    qed
  qed
qed

lemma set_py_join: "set (py_join sep ls) \<subseteq> set sep \<union> (\<Union>l \<in> set ls. set l)"
  by (induction sep ls rule: py_join.induct) auto

lemma strip_line_no_hash: "CHR ''#'' \<notin> set l \<Longrightarrow> strip_line l = l"
  by (simp add: strip_line_def)

lemma strip_line_last_hash:
  "CHR ''#'' \<notin> set zs \<Longrightarrow> strip_line (ys @ CHR ''#'' # zs) = ys"
  by (simp add: strip_line_def dropWhile_append)

lemma strip_line_one_hash:
  assumes "count_list l (CHR ''#'') \<le> 1"
  shows "CHR ''#'' \<notin> set (strip_line l)"
proof (cases "CHR ''#'' \<in> set l")
  case True
  then obtain ys zs where l: "l = ys @ CHR ''#'' # zs" and zs: "CHR ''#'' \<notin> set zs"
    by (blast dest: split_list_last)
  with assms have "count_list ys (CHR ''#'') = 0" by simp
  with l zs show ?thesis by (simp add: strip_line_last_hash count_list_0_iff)
qed (simp add: strip_line_def)

lemma strip_fragment_no_hash: "CHR ''#'' \<notin> set u \<Longrightarrow> strip_fragment u = u"
proof -
  assume h: "CHR ''#'' \<notin> set u"
  have "map strip_line (split_lines u) = split_lines u"
  proof (rule map_idI)
    fix l assume "l \<in> set (split_lines u)"
    then have "count_list l (CHR ''#'') = 0" using split_lines_count [of l u "CHR ''#''"] h
      by (simp add: count_list_0_iff)
    then show "strip_line l = l" by (simp add: strip_line_no_hash count_list_0_iff)
  qed
  then show ?thesis by (simp add: strip_fragment_def py_join_split_lines)
qed

lemma strip_fragment_removes_hash:
  assumes "count_list u (CHR ''#'') \<le> 1"
  shows "CHR ''#'' \<notin> set (strip_fragment u)"
proof
  assume "CHR ''#'' \<in> set (strip_fragment u)"
  then obtain l where l: "l \<in> set (split_lines u)" and "CHR ''#'' \<in> set (strip_line l)"
    using set_py_join [of "[CHR 0x0A]" "map strip_line (split_lines u)"] by (auto simp: strip_fragment_def)
  moreover have "count_list l (CHR ''#'') \<le> 1" using split_lines_count [OF l] assms by (meson le_trans)
  ultimately show False using strip_line_one_hash by blast
qed

lemma strip_fragment_idem:
  "count_list u (CHR ''#'') \<le> 1 \<Longrightarrow> strip_fragment (strip_fragment u) = strip_fragment u"
  by (rule strip_fragment_no_hash [OF strip_fragment_removes_hash])

text \<open>On a URL of one line the cut is the cut of that line.\<close>

lemma strip_fragment_line: "CHR 0x0A \<notin> set u \<Longrightarrow> strip_fragment u = strip_line u"
  by (simp add: strip_fragment_def split_lines_no_newline)

end
