(* ===== verification/BankSite.thy ===== *)
theory BankSite
  imports Browser
begin

text \<open>
  Concrete sites for the scenarios of the specification (section 8 of \<^verbatim>\<open>spec.md\<close>)
  and for the witnesses of the engine's theorems. The bank has a login page, a welcome
  page and an accounts page; its transport keeps one cookie, set by a successful login.
  Its \<^verbatim>\<open>is_logged\<close> is that of \<^verbatim>\<open>src/modules/creditdunord/browser.py\<close>: a page is
  current and it is not the login page. The URL patterns are matched literally.
\<close>

datatype bank_page = LoginPage | WelcomePage | AccountsPage

definition bank_url :: "string \<Rightarrow> string" where
  "bank_url u = (if take 1 u = ''/'' then ''https://bank.fr'' @ u else u)"

text \<open>
  The transport: the login form posted with the right password sets the cookie and
  redirects to \<open>target\<close>; the accounts need the cookie and redirect to the login page
  otherwise; anything else is a 404.
\<close>

definition bank_net :: "string \<Rightarrow> bool \<Rightarrow> request \<Rightarrow> bool net_result" where
  "bank_net target logged r =
     (let u = bank_url (rq_url r) in
      if u = ''https://bank.fr/login'' then
        (if rq_data r = Some ''password=secret'' then NetOK True target (Text [])
         else NetOK logged ''https://bank.fr/login'' (Text []))
      else if u = ''https://bank.fr/accounts'' then
        (if logged then NetOK True ''https://bank.fr/accounts'' (Text [])
         else NetOK False ''https://bank.fr/login'' (Text []))
      else NetHTTPError 404)"

definition bank_site :: "string \<Rightarrow> string \<Rightarrow> (bool, bank_page) site" where
  "bank_site target pw = \<lparr>protocol = ''https'', domain = ''bank.fr'',
     pages = [(''https://bank.fr/login'', LoginPage), (''https://bank.fr/welcome'', WelcomePage),
              (''https://bank.fr/accounts'', AccountsPage)],
     rmatch = (\<lambda>p u. if p = u then Some [] else None),
     net = bank_net target, password = Some pw,
     is_logged = (\<lambda>p. p \<noteq> None \<and> map_option pg_cls p \<noteq> Some LoginPage),
     on_loaded = (\<lambda>_. None),
     login_req = \<lparr>rq_url = ''/login'', rq_data = Some (''password='' @ pw)\<rparr>,
     cookie_jar = False\<rparr>"

text \<open>The bank whose login lands on the welcome page, with the right password.\<close>

definition bank :: "(bool, bank_page) site" where
  "bank = bank_site ''https://bank.fr/welcome'' ''secret''"

definition st0 :: "(bool, bank_page) bstate" where
  "st0 = \<lparr>cookies = False, page = None, req_host = None, saved = None, trace = []\<rparr>"

definition accounts :: request where
  "accounts = \<lparr>rq_url = ''/accounts'', rq_data = None\<rparr>"

definition missing :: request where
  "missing = \<lparr>rq_url = ''/missing'', rq_data = None\<rparr>"

text \<open>
  A portal whose server redirects every URL to the same URL with a trailing slash, and
  whose only page (pattern \<open>.*\<close>) asks for the navigation to be retried on load.
\<close>

definition portal :: "(unit, unit) site" where
  "portal = \<lparr>protocol = ''https'', domain = ''portal.fr'',
     pages = [(''.*'', ())],
     rmatch = (\<lambda>p u. Some []),
     net = (\<lambda>c r. NetOK c (rq_url r @ ''/'') (Text [])), password = None,
     is_logged = (\<lambda>_. True), on_loaded = (\<lambda>_. Some BrowserRetry),
     login_req = \<lparr>rq_url = ''/'', rq_data = None\<rparr>, cookie_jar = False\<rparr>"

text \<open>A site whose server answers every request with an HTTP error 503.\<close>

definition outage :: "(unit, unit) site" where
  "outage = portal\<lparr>net := (\<lambda>c r. NetHTTPError 503)\<rparr>"

text \<open>The portal with an empty dispatch table.\<close>

definition unmapped :: "(unit, unit) site" where
  "unmapped = portal\<lparr>pages := []\<rparr>"

definition ust0 :: "(unit, unit) bstate" where
  "ust0 = \<lparr>cookies = (), page = None, req_host = None, saved = None, trace = []\<rparr>"

definition root :: request where
  "root = \<lparr>rq_url = ''/'', rq_data = None\<rparr>"

end
