(* ===== verification/Navigation.thy ===== *)
theory Navigation
  imports BankSite
begin

text \<open>
  What the navigation engine of \<^verbatim>\<open>src/weboob/tools/browser/browser.py\<close> guarantees, over
  the model \<open>exec\<close> of theory \<open>Browser\<close>: the trace only grows and the current page is
  always the dispatch of its own URL; a login never starts another login and a top-level
  navigation logs in at most once per try; without state errors thirteen units of
  fuel are enough; transport errors are retried three times; and the behaviours in which the code
  departs from the specification.
\<close>

section \<open>Measures of a run\<close>

text \<open>The number of re-logins a state's trace records.\<close>

definition relogins :: "('c, 'k) bstate \<Rightarrow> nat" where
  "relogins st = count_list (trace st) Relogin"

text \<open>The transport never raises mechanize's \<^verbatim>\<open>BrowserStateError\<close>.\<close>

definition no_state_errors :: "('c, 'k) site \<Rightarrow> bool" where
  "no_state_errors s \<longleftrightarrow> (\<forall>c r. net s c r \<noteq> NetStateError)"

text \<open>
  The re-logins a call may perform: a call with \<^verbatim>\<open>no_login=True\<close> none, one body of
  \<^verbatim>\<open>location\<close> one, the decorator one per try.
\<close>

fun budget :: "call \<Rightarrow> nat" where
  "budget (CLocation nl r) = (if nl then 0 else 3)"
| "budget (CRetry k nl r) = (if nl then 0 else max 1 k)"
| "budget (CBody nl r) = (if nl then 0 else 1)"
| "budget (CChange nl url doc) = (if nl then 0 else 1)"
| "budget CLogin = 0"
| "budget CHome = 3"

text \<open>The current page is the one the dispatch table gives for the page's own URL.\<close>

definition page_dispatched :: "('c, 'k) site \<Rightarrow> ('c, 'k) bstate \<Rightarrow> bool" where
  "page_dispatched s st \<longleftrightarrow>
     (case page st of None \<Rightarrow> True
      | Some pg \<Rightarrow> find_page (rmatch s) (pages s) (pg_url pg) = Some (pg_cls pg, pg_groups pg))"

text \<open>No page's \<^verbatim>\<open>on_loaded\<close> raises \<^verbatim>\<open>BrowserRetry\<close> itself.\<close>

definition loaded_ok :: "('c, 'k) site \<Rightarrow> bool" where
  "loaded_ok s \<longleftrightarrow> (\<forall>pg. on_loaded s pg \<noteq> Some BrowserRetry)"

text \<open>
  The fuel a call needs when there are no state errors: a body with \<^verbatim>\<open>no_login=True\<close>
  opens once and dispatches; one without may log in (seven units) and navigate again
  (six units); the decorator adds one unit per try.
\<close>

fun fuel :: "call \<Rightarrow> nat" where
  "fuel (CLocation nl r) = (if nl then 6 else 13)"
| "fuel (CRetry k nl r) = max 1 k + (if nl then 2 else 9)"
| "fuel (CBody nl r) = (if nl then 2 else 9)"
| "fuel (CChange nl url doc) = (if nl then 1 else 8)"
| "fuel CLogin = 7"
| "fuel CHome = 14"

text \<open>
  The response is always redirected away from the requested URL to a page the table
  knows.
\<close>

definition redirects_away :: "('c, 'k) site \<Rightarrow> bool" where
  "redirects_away s \<longleftrightarrow>
     (\<forall>c r. \<exists>c' u doc. net s c r = NetOK c' u doc \<and> u \<noteq> rq_url r \<and> find_page (rmatch s) (pages s) u \<noteq> None)"

section \<open>Invariants of every run\<close>

lemma relogins_upd [simp]:
  "relogins (st\<lparr>trace := trace st @ [e]\<rparr>) = relogins st + (if e = Relogin then 1 else 0)"
  "relogins (st\<lparr>page := p\<rparr>) = relogins st"
  "relogins (st\<lparr>cookies := c\<rparr>) = relogins st"
  "relogins (st\<lparr>req_host := h\<rparr>) = relogins st"
  "relogins (st\<lparr>saved := sv\<rparr>) = relogins st"
  "relogins (st\<lparr>page := p, trace := trace st @ [e]\<rparr>) = relogins st + (if e = Relogin then 1 else 0)"
  by (simp_all add: relogins_def)

lemma exec_trace_prefix:
  "exec n s c st = Some (res, st') \<Longrightarrow> prefix (trace st) (trace st')"
proof (induction n arbitrary: c st res st')
  case 0
  then show ?case by simp
next
  case (Suc n)
  note IH = Suc.IH
  show ?case
  proof (cases c)
    case (CLocation nl r)
    with Suc.prems show ?thesis by (auto simp: exec_Suc_CLocation dest: IH)
  next
    case (CRetry k nl r)
    from Suc.prems [unfolded CRetry] show ?thesis
      by (cases rule: exec_CRetry_SomeE) (auto dest!: IH intro: prefix_order.trans)
  next
    case (CBody nl r)
    from Suc.prems [unfolded CBody] show ?thesis
      by (cases rule: exec_CBody_SomeE)
         (auto dest!: IH simp: prefix_def split: if_splits)
  next
    case (CChange nl url doc)
    from Suc.prems [unfolded CChange] show ?thesis
      by (cases rule: exec_CChange_SomeE) (auto dest!: IH simp: prefix_def)
  next
    case CLogin
    from Suc.prems [unfolded CLogin] show ?thesis
      by (cases rule: exec_CLogin_SomeE) (auto dest: IH)
  next
    case CHome
    with Suc.prems show ?thesis by (auto simp: exec_Suc_CHome dest: IH)
  qed
qed

lemma page_dispatched_upd [simp]:
  "page_dispatched s (st\<lparr>trace := t\<rparr>) = page_dispatched s st"
  "page_dispatched s (st\<lparr>cookies := c\<rparr>) = page_dispatched s st"
  "page_dispatched s (st\<lparr>req_host := h\<rparr>) = page_dispatched s st"
  "page_dispatched s (st\<lparr>saved := sv\<rparr>) = page_dispatched s st"
  "page_dispatched s (st\<lparr>page := None\<rparr>)"
  by (simp_all add: page_dispatched_def)

lemma exec_page_dispatched:
  "exec n s c st = Some (res, st') \<Longrightarrow> page_dispatched s st \<Longrightarrow> page_dispatched s st'"
proof (induction n arbitrary: c st res st')
  case 0
  then show ?case by simp
next
  case (Suc n)
  note IH = Suc.IH
  show ?case
  proof (cases c)
    case (CLocation nl r)
    with Suc.prems show ?thesis by (auto simp: exec_Suc_CLocation dest: IH)
  next
    case (CRetry k nl r)
    from Suc.prems(1) [unfolded CRetry] show ?thesis
      by (cases rule: exec_CRetry_SomeE) (auto dest!: IH intro: Suc.prems(2))
  next
    case (CBody nl r)
    from Suc.prems(1) [unfolded CBody] show ?thesis
    proof (cases rule: exec_CBody_SomeE)
      case (ok c' url doc x)
      then show ?thesis using IH Suc.prems(2) by simp
    next
      case (again c' url doc st3)
      then show ?thesis using IH [OF again(2)] IH [OF again(4)] Suc.prems(2) by simp
    next
      case (stateerr x st3)
      then show ?thesis using IH [OF stateerr(2)] IH Suc.prems(2) by (simp split: if_splits)
    qed simp_all
  next
    case (CChange nl url doc)
    from Suc.prems(1) [unfolded CChange] show ?thesis
    proof (cases rule: exec_CChange_SomeE)
      case (relogin cls g x)
      then show ?thesis using IH [OF relogin(5)] by (simp add: page_dispatched_def)
    qed (use Suc.prems(2) in \<open>simp_all add: page_dispatched_def\<close>)
  next
    case CLogin
    from Suc.prems(1) [unfolded CLogin] show ?thesis
      by (cases rule: exec_CLogin_SomeE) (auto dest: IH intro: Suc.prems(2))
  next
    case CHome
    with Suc.prems show ?thesis by (auto simp: exec_Suc_CHome dest: IH)
  qed
qed

lemma exec_relogins_budget:
  "no_state_errors s \<Longrightarrow> exec n s c st = Some (res, st') \<Longrightarrow> relogins st' \<le> relogins st + budget c"
proof (induction n arbitrary: c st res st')
  case 0
  then show ?case by simp
next
  case (Suc n)
  note IH = Suc.IH [OF Suc.prems(1)]
  show ?case
  proof (cases c)
    case (CLocation nl r)
    with Suc.prems(2) show ?thesis by (auto simp: exec_Suc_CLocation dest: IH)
  next
    case (CRetry k nl r)
    from Suc.prems(2) [unfolded CRetry] show ?thesis
    proof (cases rule: exec_CRetry_SomeE)
      case last
      then show ?thesis using IH [OF last(2)] CRetry by auto
    next
      case stop
      then show ?thesis using IH [OF stop(2)] CRetry by auto
    next
      case (again st1)
      then show ?thesis using IH [OF again(2)] IH [OF again(3)] CRetry by auto
    qed
  next
    case (CBody nl r)
    from Suc.prems(2) [unfolded CBody] show ?thesis
    proof (cases rule: exec_CBody_SomeE)
      case (ok c' url doc x)
      then show ?thesis using IH [OF ok(2)] CBody by simp
    next
      case (again c' url doc st3)
      then show ?thesis using IH [OF again(2)] IH [OF again(4)] CBody by auto
    next
      case (stateerr x st3)
      then show ?thesis using Suc.prems(1) by (simp add: no_state_errors_def)
    qed simp_all
  next
    case (CChange nl url doc)
    from Suc.prems(2) [unfolded CChange] show ?thesis
    proof (cases rule: exec_CChange_SomeE)
      case (relogin cls g x)
      then show ?thesis using IH [OF relogin(5)] CChange by simp
    qed (simp_all add: relogins_def CChange)
  next
    case CLogin
    from Suc.prems(2) [unfolded CLogin] show ?thesis
      by (cases rule: exec_CLogin_SomeE) (auto dest: IH)
  next
    case CHome
    with Suc.prems(2) show ?thesis by (auto simp: exec_Suc_CHome dest: IH)
  qed
qed

section \<open>Termination\<close>

lemma exec_CChange_True_no_retry:
  "loaded_ok s \<Longrightarrow> exec n s (CChange True url doc) st = Some (res, st') \<Longrightarrow> res \<noteq> Inl BrowserRetry"
proof (cases n)
  case (Suc m)
  assume ok: "loaded_ok s" and e: "exec n s (CChange True url doc) st = Some (res, st')"
  from e [unfolded Suc] show ?thesis
    by (cases rule: exec_CChange_SomeE) (use ok in \<open>auto simp: loaded_ok_def split: option.splits\<close>)
qed simp

lemma exec_total:
  "no_state_errors s \<Longrightarrow> loaded_ok s \<Longrightarrow> fuel c \<le> n \<Longrightarrow> \<exists>res st'. exec n s c st = Some (res, st')"
proof (induction n arbitrary: c st)
  case 0
  then show ?case by (cases c) (auto split: if_splits)
next
  case (Suc n)
  note IH = Suc.IH [OF Suc.prems(1,2)]
  show ?case
  proof (cases c)
    case (CLocation nl r)
    with Suc.prems(3) show ?thesis
      using IH [of "CRetry 3 nl (r\<lparr>rq_url := check_location s (req_host st) (rq_url r)\<rparr>)" st]
      by (auto simp: exec_Suc_CLocation split: if_splits)
  next
    case (CRetry k nl r)
    have "fuel (CBody nl r) \<le> n" using Suc.prems(3) CRetry by (auto split: if_splits)
    then obtain x st1 where b: "exec n s (CBody nl r) st = Some (x, st1)" using IH by blast
    show ?thesis
    proof (cases "k \<le> 1")
      case True
      with CRetry b show ?thesis by (simp add: exec_Suc_CRetry)
    next
      case False
      then have "fuel (CRetry (k - 1) nl r) \<le> n" using Suc.prems(3) CRetry by (auto split: if_splits)
      then obtain y st2 where "exec n s (CRetry (k - 1) nl r) st1 = Some (y, st2)" using IH by blast
      with CRetry b False show ?thesis by (auto simp: exec_Suc_CRetry split: sum.split exc.split)
    qed
  next
    case (CBody nl r)
    show ?thesis
    proof (cases "net s (cookies st) r")
      case (NetOK c' url doc)
      let ?st2 = "st\<lparr>trace := trace st @ [Open r],
          req_host := (case url_host (rq_url r) of Some h \<Rightarrow> Some h | None \<Rightarrow> req_host st),
          cookies := c'\<rparr>"
      obtain x st3 where ch: "exec n s (CChange nl url doc) ?st2 = Some (x, st3)"
        using IH [of "CChange nl url doc" ?st2] Suc.prems(3) CBody by (cases nl) auto
      show ?thesis
      proof (cases "x = Inl BrowserRetry")
        case True
        have "\<not> nl"
        proof
          assume nl
          with ch have "exec n s (CChange True url doc) ?st2 = Some (x, st3)" by simp
          from exec_CChange_True_no_retry [OF Suc.prems(2) this] True show False by simp
        qed
        then obtain y st4 where "exec n s (CLocation True r) st3 = Some (y, st4)"
          using IH [of "CLocation True r" st3] Suc.prems(3) CBody by auto
        with CBody NetOK ch True show ?thesis by (auto simp: exec_Suc_CBody)
      next
        case False
        with CBody NetOK ch show ?thesis by (auto simp: exec_Suc_CBody split: sum.split exc.split)
      qed
    next
      case NetStateError
      with Suc.prems(1) show ?thesis by (simp add: no_state_errors_def)
    qed (simp_all add: CBody exec_Suc_CBody)
  next
    case (CChange nl url doc)
    show ?thesis
    proof (cases "find_page (rmatch s) (pages s) url")
      case (Some a)
      obtain cls g where f: "a = (cls, g)" by (cases a)
      let ?pg = "\<lparr>pg_cls = cls, pg_url = url, pg_groups = g, pg_doc = doc\<rparr>"
      show ?thesis
      proof (cases "\<not> nl \<and> password s \<noteq> None \<and> \<not> is_logged s (Some ?pg)")
        case True
        moreover have "fuel CLogin \<le> n" using True Suc.prems(3) CChange by simp
        ultimately obtain y st2 where "exec n s CLogin (st\<lparr>page := Some ?pg, trace := trace st @ [Relogin]\<rparr>) = Some (y, st2)"
          using IH [of CLogin "st\<lparr>page := Some ?pg, trace := trace st @ [Relogin]\<rparr>"] by blast
        with CChange Some f True show ?thesis by (auto simp: exec_Suc_CChange Let_def split: sum.split)
      next
        case False
        with CChange Some f show ?thesis by (auto simp: exec_Suc_CChange Let_def split: option.split)
      qed
    qed (simp add: CChange exec_Suc_CChange)
  next
    case CLogin
    have "fuel (CLocation True (login_req s)) \<le> n" using Suc.prems(3) CLogin by simp
    then obtain y st2 where "exec n s (CLocation True (login_req s)) st = Some (y, st2)"
      using IH by blast
    with CLogin show ?thesis by (auto simp: exec_Suc_CLogin split: sum.split)
  next
    case CHome
    with Suc.prems(3) show ?thesis
      using IH [of "CLocation False \<lparr>rq_url = protocol s @ ''://'' @ domain s @ ''/'', rq_data = None\<rparr>" st]
      by (simp add: exec_Suc_CHome)
  qed
qed

lemma exec_mono:
  "exec n s c st = Some (res, st') \<Longrightarrow> n \<le> m \<Longrightarrow> exec m s c st = Some (res, st')"
proof (induction n arbitrary: m c st res st')
  case 0
  then show ?case by simp
next
  case (Suc n)
  obtain k where m: "m = Suc k" using Suc.prems(2) by (cases m) simp_all
  have nk: "n \<le> k" using Suc.prems(2) m by simp
  have IH: "exec n s c' st1 = Some (x, st2) \<Longrightarrow> exec k s c' st1 = Some (x, st2)" for c' st1 x st2
    by (rule Suc.IH [OF _ nk])
  show ?case
  proof (cases c)
    case (CLocation nl r)
    with Suc.prems(1) have "exec n s (CRetry 3 nl (r\<lparr>rq_url := check_location s (req_host st) (rq_url r)\<rparr>)) st = Some (res, st')"
      by (simp add: exec_Suc_CLocation)
    from IH [OF this] CLocation show ?thesis by (simp add: m exec_Suc_CLocation)
  next
    case (CRetry j nl r)
    from Suc.prems(1) [unfolded CRetry] show ?thesis
    proof (cases rule: exec_CRetry_SomeE)
      case last
      then show ?thesis using IH [OF last(2)] by (simp add: m CRetry exec_Suc_CRetry)
    next
      case stop
      then show ?thesis using IH [OF stop(2)] by (auto simp: m CRetry exec_Suc_CRetry split: sum.split exc.split)
    next
      case (again st1)
      then show ?thesis using IH [OF again(2)] IH [OF again(3)] by (simp add: m CRetry exec_Suc_CRetry)
    qed
  next
    case (CBody nl r)
    from Suc.prems(1) [unfolded CBody] show ?thesis
    proof (cases rule: exec_CBody_SomeE)
      case (ok c' url doc x)
      then show ?thesis using IH [OF ok(2)]
        by (auto simp: m CBody exec_Suc_CBody split: sum.split exc.split)
    next
      case (again c' url doc st3)
      then show ?thesis using IH [OF again(2)] IH [OF again(4)] by (auto simp: m CBody exec_Suc_CBody)
    next
      case (stateerr x st3)
      then show ?thesis
      proof (cases "x = Inr ()")
        case True
        then show ?thesis using stateerr IH [OF stateerr(2)] IH [of "CLocation nl r" st3 res st']
          by (simp add: m CBody exec_Suc_CBody)
      next
        case False
        then show ?thesis using stateerr IH [OF stateerr(2)]
          by (auto simp: m CBody exec_Suc_CBody split: sum.split)
      qed
    qed (simp_all add: m CBody exec_Suc_CBody)
  next
    case (CChange nl url doc)
    from Suc.prems(1) [unfolded CChange] show ?thesis
    proof (cases rule: exec_CChange_SomeE)
      case (relogin cls g x)
      then show ?thesis using IH [OF relogin(5)] by (auto simp: m CChange exec_Suc_CChange Let_def split: sum.split)
    next
      case (loaded cls g)
      then show ?thesis by (auto simp: m CChange exec_Suc_CChange Let_def split: option.split)
    qed (simp add: m CChange exec_Suc_CChange)
  next
    case CLogin
    from Suc.prems(1) [unfolded CLogin] show ?thesis
    proof (cases rule: exec_CLogin_SomeE)
      case (1 x)
      then show ?thesis using IH [OF 1(1)] by (auto simp: m CLogin exec_Suc_CLogin split: sum.split)
    qed
  next
    case CHome
    with Suc.prems(1) have "exec n s (CLocation False \<lparr>rq_url = protocol s @ ''://'' @ domain s @ ''/'', rq_data = None\<rparr>) st = Some (res, st')"
      by (simp add: exec_Suc_CHome)
    from IH [OF this] CHome show ?thesis by (simp add: m exec_Suc_CHome)
  qed
qed

section \<open>Properties of a navigation\<close>

lemma prefix_relogins: "prefix (trace st) (trace st') \<Longrightarrow> relogins st \<le> relogins st'"
  by (auto simp: prefix_def relogins_def)

lemma bank_no_state_errors: "no_state_errors bank"
  by (simp add: no_state_errors_def bank_def bank_site_def bank_net_def Let_def)

lemma bank_loaded_ok: "loaded_ok bank"
  by (simp add: loaded_ok_def bank_def bank_site_def)

lemma bank_run:
  "location 13 bank False accounts st0 =
     Some (Inr (), \<lparr>cookies = True,
       page = Some \<lparr>pg_cls = AccountsPage, pg_url = ''https://bank.fr/accounts'', pg_groups = [], pg_doc = Text []\<rparr>,
       req_host = Some ''bank.fr'', saved = None,
       trace = [Open \<lparr>rq_url = ''https://bank.fr/accounts'', rq_data = None\<rparr>, Relogin,
                Open \<lparr>rq_url = ''/login'', rq_data = Some ''password=secret''\<rparr>,
                Open \<lparr>rq_url = ''https://bank.fr/accounts'', rq_data = None\<rparr>]\<rparr>)"
  by code_simp

text \<open>
  C11. Re-login non-recursion: without state errors, the login procedure records no
  re-login, whatever the pages it passes through look like, because every navigation it
  makes has \<^verbatim>\<open>no_login=True\<close>.
\<close>

theorem do_login_no_nested_relogin:
  assumes "no_state_errors s" and "do_login n s st = Some (res, st')"
  shows "relogins st' = relogins st"
proof -
  have e: "exec n s CLogin st = Some (res, st')" using assms(2) by (simp add: do_login_def)
  have "relogins st' \<le> relogins st + budget CLogin" by (rule exec_relogins_budget [OF assms(1) e])
  moreover have "relogins st \<le> relogins st'" by (rule prefix_relogins [OF exec_trace_prefix [OF e]])
  ultimately show ?thesis by simp
qed

theorem do_login_no_nested_relogin_witness:
  "\<exists>res st'. do_login 8 bank st0 = Some (res, st') \<and> relogins st' = relogins st0"
proof -
  obtain res st' where e: "exec 8 bank CLogin st0 = Some (res, st')"
    using exec_total [OF bank_no_state_errors bank_loaded_ok, of CLogin 8 st0] by auto
  then have "do_login 8 bank st0 = Some (res, st')" by (simp add: do_login_def)
  with do_login_no_nested_relogin [OF bank_no_state_errors this] show ?thesis by blast
qed

text \<open>
  C12. Re-login bound: without state errors, a top-level \<^verbatim>\<open>location\<close> logs in at most
  once per try of the retry decorator, so at most three times.
\<close>

theorem location_relogin_bound:
  assumes "no_state_errors s" and "location n s False r st = Some (res, st')"
  shows "relogins st' \<le> relogins st + 3"
  using exec_relogins_budget [OF assms(1)] assms(2) by (fastforce simp: location_def)

theorem location_relogin_bound_witness:
  "relogins (snd (the (location 13 bank False accounts st0))) \<le> relogins st0 + 3"
  using location_relogin_bound [OF bank_no_state_errors bank_run] by (simp add: bank_run)

text \<open>
  C13. Termination: when the transport raises no state error and no page's
  \<^verbatim>\<open>on_loaded\<close> asks for a retry, \<^verbatim>\<open>location\<close> returns (a result or an
  exception) with thirteen units of fuel, whatever the site, the request and the state.
\<close>

theorem location_terminates:
  assumes "no_state_errors s" and "loaded_ok s" and "13 \<le> n"
  shows "\<exists>res st'. location n s nl r st = Some (res, st')"
proof -
  have "fuel (CLocation nl r) \<le> n" using assms(3) by simp
  from exec_total [OF assms(1,2) this] show ?thesis by (simp add: location_def)
qed

theorem location_terminates_witness:
  "\<exists>res st'. location 13 bank False accounts st0 = Some (res, st')"
  using location_terminates [OF bank_no_state_errors bank_loaded_ok, of 13] by simp

text \<open>
  C14. The current page is always in sync with the dispatch table: after a navigation,
  the current page (if any) is the class and groups that dispatch gives for its URL.
\<close>

theorem location_page_dispatched:
  assumes "location n s nl r st = Some (res, st')" and "page_dispatched s st"
  shows "page_dispatched s st'"
  using exec_page_dispatched assms by (metis location_def)

theorem location_page_dispatched_witness:
  "page_dispatched bank (snd (the (location 13 bank False accounts st0)))"
proof -
  have "page_dispatched bank st0" by (simp add: page_dispatched_def st0_def)
  from location_page_dispatched [OF bank_run this] show ?thesis by (simp add: bank_run)
qed

text \<open>
  The trace is append-only: a navigation extends the trace of requests and re-logins
  it started from.
\<close>

lemma location_trace_extends:
  assumes "location n s nl r st = Some (res, st')"
  shows "prefix (trace st) (trace st')"
  using exec_trace_prefix assms by (metis location_def)

lemma le_Suc5: "5 \<le> n \<Longrightarrow> \<exists>m. n = Suc (Suc (Suc (Suc (Suc m))))"
  by presburger

lemma le_Suc4: "4 \<le> n \<Longrightarrow> \<exists>m. n = Suc (Suc (Suc (Suc m)))"
  by presburger

lemma le_Suc3: "3 \<le> n \<Longrightarrow> \<exists>m. n = Suc (Suc (Suc m))"
  by presburger

text \<open>
  C16. Transient transport failure: when the server answers the (normalised) request with
  an HTTP error other than 404, \<^verbatim>\<open>location\<close> opens it exactly three times and then
  raises \<^verbatim>\<open>BrowserHTTPError\<close> (a \<^verbatim>\<open>BrowserUnavailable\<close>), with no current page.
\<close>

theorem location_http_error:
  assumes r': "r' = r\<lparr>rq_url := check_location s (req_host st) (rq_url r)\<rparr>"
    and err: "\<forall>c. net s c r' = NetHTTPError code" and code: "code \<noteq> 404" and fuel: "5 \<le> n"
  shows "\<exists>st'. location n s nl r st = Some (Inl BrowserHTTPError, st') \<and>
           trace st' = trace st @ [Open r', Open r', Open r'] \<and> page st' = None"
proof -
  obtain m where n: "n = Suc (Suc (Suc (Suc (Suc m))))" using le_Suc5 [OF fuel] by blast
  show ?thesis using err code by (simp add: n r' [symmetric] location_def exec_Suc_simps Let_def)
qed

theorem location_http_error_witness:
  "\<exists>st'. location 5 outage False root ust0 = Some (Inl BrowserHTTPError, st') \<and>
     trace st' = [Open \<lparr>rq_url = ''https://portal.fr/'', rq_data = None\<rparr>,
                  Open \<lparr>rq_url = ''https://portal.fr/'', rq_data = None\<rparr>,
                  Open \<lparr>rq_url = ''https://portal.fr/'', rq_data = None\<rparr>] \<and> page st' = None"
proof -
  have r': "\<lparr>rq_url = ''https://portal.fr/'', rq_data = None\<rparr> =
      root\<lparr>rq_url := check_location outage (req_host ust0) (rq_url root)\<rparr>"
    by code_simp
  have err: "\<forall>c. net outage c \<lparr>rq_url = ''https://portal.fr/'', rq_data = None\<rparr> = NetHTTPError 503"
    by (simp add: outage_def portal_def)
  from location_http_error [OF r' err, where n = 5 and nl = False] show ?thesis by (simp add: ust0_def)
qed

text \<open>
  C17. A 404 is not transient: \<^verbatim>\<open>location\<close> opens the request once and raises
  \<^verbatim>\<open>BrowserHTTPNotFound\<close>, with no current page.
\<close>

theorem location_not_found:
  assumes r': "r' = r\<lparr>rq_url := check_location s (req_host st) (rq_url r)\<rparr>"
    and err: "net s (cookies st) r' = NetHTTPError 404" and fuel: "3 \<le> n"
  shows "\<exists>st'. location n s nl r st = Some (Inl BrowserHTTPNotFound, st') \<and>
           trace st' = trace st @ [Open r'] \<and> page st' = None"
proof -
  obtain m where n: "n = Suc (Suc (Suc m))" using le_Suc3 [OF fuel] by blast
  show ?thesis using err by (simp add: n r' [symmetric] location_def exec_Suc_simps Let_def)
qed

theorem location_not_found_witness:
  "\<exists>st'. location 3 bank False missing st0 =
      Some (Inl BrowserHTTPNotFound, st') \<and>
     trace st' = [Open \<lparr>rq_url = ''https://bank.fr/missing'', rq_data = None\<rparr>] \<and> page st' = None"
proof -
  have r': "\<lparr>rq_url = ''https://bank.fr/missing'', rq_data = None\<rparr> =
      missing\<lparr>rq_url := check_location bank (req_host st0) (rq_url missing)\<rparr>"
    by code_simp
  have err: "net bank (cookies st0) \<lparr>rq_url = ''https://bank.fr/missing'', rq_data = None\<rparr> = NetHTTPError 404"
    by code_simp
  from location_not_found [OF r' err, where n = 3 and nl = False]
  show ?thesis by (simp add: st0_def)
qed

text \<open>
  C18. No matching page is not a failure: when the response's URL matches no pattern of
  \<^verbatim>\<open>PAGES\<close>, \<^verbatim>\<open>location\<close> returns normally with no current page (the code only logs
  a warning), where the specification asks for a hard failure.
\<close>

theorem location_no_page:
  assumes r': "r' = r\<lparr>rq_url := check_location s (req_host st) (rq_url r)\<rparr>"
    and ok: "net s (cookies st) r' = NetOK c' u doc"
    and none: "find_page (rmatch s) (pages s) u = None" and fuel: "4 \<le> n"
  shows "\<exists>st'. location n s nl r st = Some (Inr (), st') \<and> page st' = None \<and>
           trace st' = trace st @ [Open r', NoPage u]"
proof -
  obtain m where n: "n = Suc (Suc (Suc (Suc m)))" using le_Suc4 [OF fuel] by blast
  show ?thesis using ok none by (simp add: n r' [symmetric] location_def exec_Suc_simps Let_def)
qed

theorem location_no_page_witness:
  "\<exists>st'. location 4 unmapped False root ust0 = Some (Inr (), st') \<and> page st' = None \<and>
     trace st' = [Open \<lparr>rq_url = ''https://portal.fr/'', rq_data = None\<rparr>, NoPage ''https://portal.fr//'']"
proof -
  have r': "\<lparr>rq_url = ''https://portal.fr/'', rq_data = None\<rparr> =
      root\<lparr>rq_url := check_location unmapped (req_host ust0) (rq_url root)\<rparr>"
    by code_simp
  have ok: "net unmapped (cookies ust0) \<lparr>rq_url = ''https://portal.fr/'', rq_data = None\<rparr> =
      NetOK () ''https://portal.fr//'' (Text [])"
    by (simp add: unmapped_def portal_def)
  have none: "find_page (rmatch unmapped) (pages unmapped) ''https://portal.fr//'' = None"
    by (simp add: unmapped_def portal_def)
  from location_no_page [OF r' ok none, where n = 4 and nl = False] show ?thesis by (simp add: ust0_def)
qed

lemma exec_retry_loop:
  assumes away: "redirects_away s" and retry: "\<forall>pg. on_loaded s pg = Some BrowserRetry"
  shows "(\<forall>c st. (\<forall>nl u doc. c \<noteq> CChange nl u doc) \<longrightarrow> exec n s c st = None) \<and>
         (\<forall>nl u doc st res st3. find_page (rmatch s) (pages s) u \<noteq> None \<longrightarrow>
            exec n s (CChange nl u doc) st = Some (res, st3) \<longrightarrow>
            res = Inl BrowserRetry \<and> map_option pg_url (page st3) = Some u)"
proof (induction n)
  case 0
  then show ?case by simp
next
  case (Suc n)
  have none: "exec n s c st = None" if "\<forall>nl u doc. c \<noteq> CChange nl u doc" for c st
    using Suc.IH that by blast
  have change: "res = Inl BrowserRetry \<and> map_option pg_url (page st3) = Some u"
    if "find_page (rmatch s) (pages s) u \<noteq> None" "exec n s (CChange nl u doc) st = Some (res, st3)"
    for nl u doc st res st3
    using Suc.IH that by blast
  have body: "exec (Suc n) s (CBody nl r) st = None" for nl r st
  proof -
    obtain c' u doc where ok: "net s (cookies st) r = NetOK c' u doc" and u: "u \<noteq> rq_url r"
      and f: "find_page (rmatch s) (pages s) u \<noteq> None"
      using away [unfolded redirects_away_def, rule_format, of "cookies st" r] by blast
    show ?thesis
    proof (cases "exec n s (CChange nl u doc) (st\<lparr>trace := trace st @ [Open r],
          req_host := (case url_host (rq_url r) of Some h \<Rightarrow> Some h | None \<Rightarrow> req_host st),
          cookies := c'\<rparr>)")
      case (Some o3)
      then obtain x st3 where o3: "exec n s (CChange nl u doc) (st\<lparr>trace := trace st @ [Open r],
          req_host := (case url_host (rq_url r) of Some h \<Rightarrow> Some h | None \<Rightarrow> req_host st),
          cookies := c'\<rparr>) = Some (x, st3)" by (cases o3) simp
      from change [OF f o3] u have "x = Inl BrowserRetry" "map_option pg_url (page st3) \<noteq> Some (rq_url r)"
        by auto
      with o3 ok none [of "CLocation True r" st3] show ?thesis by (simp add: exec_Suc_CBody)
    qed (simp add: exec_Suc_CBody ok)
  qed
  have "exec (Suc n) s c st = None" if "\<forall>nl u doc. c \<noteq> CChange nl u doc" for c st
  proof (cases c)
    case (CRetry k nl r)
    then show ?thesis using none [of "CBody nl r" st] by (simp add: exec_Suc_CRetry)
  next
    case CLogin
    then show ?thesis using none [of "CLocation True (login_req s)" st] by (simp add: exec_Suc_CLogin)
  qed (use that none body in \<open>simp_all add: exec_Suc_CLocation exec_Suc_CHome\<close>)
  moreover have "res = Inl BrowserRetry \<and> map_option pg_url (page st3) = Some u"
    if f: "find_page (rmatch s) (pages s) u \<noteq> None" and e: "exec (Suc n) s (CChange nl u doc) st = Some (res, st3)"
    for nl u doc st res st3
    using e
  proof (cases rule: exec_CChange_SomeE)
    case (relogin cls g x)
    with none [of CLogin] show ?thesis by simp
  qed (use retry f in simp_all)
  ultimately show ?case by blast
qed

text \<open>
  C19. The retry signal is not bounded: when every response is redirected away from the
  requested URL to a page whose \<^verbatim>\<open>on_loaded\<close> raises \<^verbatim>\<open>BrowserRetry\<close>,
  \<^verbatim>\<open>location\<close> calls itself again on every attempt and never returns, whatever the fuel
  (in Python, until the recursion limit). The specification allows one retry per call.
\<close>

theorem location_retry_unbounded:
  assumes "redirects_away s" and "\<forall>pg. on_loaded s pg = Some BrowserRetry"
  shows "location n s nl r st = None"
  using exec_retry_loop [OF assms, of n] by (simp add: location_def)

theorem location_retry_unbounded_witness:
  "\<forall>n. location n portal False root ust0 = None"
proof
  fix n
  have "redirects_away portal" by (simp add: redirects_away_def portal_def find_page_Cons)
  moreover have "\<forall>pg. on_loaded portal pg = Some BrowserRetry" by (simp add: portal_def)
  ultimately show "location n portal False root ust0 = None" by (rule location_retry_unbounded)
qed

text \<open>
  The fuel only bounds the run: once a navigation returns with some fuel, it returns
  the same result and state with any larger fuel, so the bound chosen for the theorems
  does not change what they say.
\<close>

lemma location_fuel_mono:
  assumes "location n s nl r st = Some (res, st')" and "n \<le> m"
  shows "location m s nl r st = Some (res, st')"
  using exec_mono assms by (metis location_def)

end
