(* ===== verification/Scenarios.thy ===== *)
theory Scenarios
  imports Navigation
begin

text \<open>
  The scenarios of the specification (\<^verbatim>\<open>spec.md\<close>, section 8) run on the concrete
  sites of theory \<open>BankSite\<close>, and the URL normalisation of \<^verbatim>\<open>check_location\<close>
  (\<^verbatim>\<open>src/weboob/tools/browser/browser.py\<close>, lines 120--130).
\<close>

section \<open>Re-login\<close>

text \<open>
  End-to-end scenario: an anonymous \<^verbatim>\<open>location('/accounts')\<close> lands on the login
  page, the engine logs in once (posting the credentials, with no nested login), retries
  the original navigation once, and the accounts page becomes the current page.
\<close>

lemma bank_relogin_scenario:
  "\<exists>st'. location 13 bank False accounts st0 = Some (Inr (), st') \<and>
     map_option pg_cls (page st') = Some AccountsPage \<and> relogins st' = 1 \<and>
     trace st' = [Open \<lparr>rq_url = ''https://bank.fr/accounts'', rq_data = None\<rparr>, Relogin,
                  Open \<lparr>rq_url = ''/login'', rq_data = Some ''password=secret''\<rparr>,
                  Open \<lparr>rq_url = ''https://bank.fr/accounts'', rq_data = None\<rparr>]"
  by (simp add: bank_run relogins_def)

text \<open>
  When the login procedure itself lands on the requested URL, the engine performs
  no retried navigation: the page the login reached stays current. The specification
  asks for exactly one retried navigation after a successful login.
\<close>

lemma login_landing_skips_retry:
  "location 13 (bank_site ''https://bank.fr/accounts'' ''secret'') False accounts st0 =
     Some (Inr (), \<lparr>cookies = True,
       page = Some \<lparr>pg_cls = AccountsPage, pg_url = ''https://bank.fr/accounts'', pg_groups = [], pg_doc = Text []\<rparr>,
       req_host = Some ''bank.fr'', saved = None,
       trace = [Open \<lparr>rq_url = ''https://bank.fr/accounts'', rq_data = None\<rparr>, Relogin,
                Open \<lparr>rq_url = ''/login'', rq_data = Some ''password=secret''\<rparr>]\<rparr>)"
  by code_simp

text \<open>
  A failed login propagates: with a wrong password the login navigation lands on the
  login page again, \<^verbatim>\<open>login\<close> raises \<^verbatim>\<open>BrowserIncorrectPassword\<close> and \<^verbatim>\<open>location\<close>
  raises it to its caller, without retrying.
\<close>

lemma wrong_password_fails:
  "location 13 (bank_site ''https://bank.fr/welcome'' ''wrong'') False accounts st0 =
     Some (Inl BrowserIncorrectPassword, \<lparr>cookies = False,
       page = Some \<lparr>pg_cls = LoginPage, pg_url = ''https://bank.fr/login'', pg_groups = [], pg_doc = Text []\<rparr>,
       req_host = Some ''bank.fr'', saved = None,
       trace = [Open \<lparr>rq_url = ''https://bank.fr/accounts'', rq_data = None\<rparr>, Relogin,
                Open \<lparr>rq_url = ''/login'', rq_data = Some ''password=wrong''\<rparr>]\<rparr>)"
  by code_simp

section \<open>URL normalisation\<close>

text \<open>
  C23. A path is made absolute with the site's protocol and domain when the last request
  did not go to the domain itself; a URL without fragment is otherwise kept.
\<close>

theorem check_location_absolute:
  assumes "take 1 url = ''/''" and "host \<noteq> Some (domain s)"
    and "CHR ''#'' \<notin> set (protocol s @ domain s @ url)"
  shows "check_location s host url = protocol s @ ''://'' @ domain s @ url"
  using assms by (simp add: check_location_def strip_fragment_no_hash)

theorem check_location_absolute_witness:
  "check_location bank None ''/accounts'' = ''https://bank.fr/accounts''"
  using check_location_absolute [of "''/accounts''" None bank] by (simp add: bank_def bank_site_def)

text \<open>
  C24. On a URL of one line, the fragment cut of \<^verbatim>\<open>check_location\<close>
  (\<^verbatim>\<open>re.sub('(.*)#.*', r'\1', url)\<close>) keeps exactly what comes before the last \<open>#\<close>:
  the marker and the fragment after it are both removed.
\<close>

theorem strip_fragment_last_hash:
  assumes "CHR 0x0A \<notin> set (p @ f)" and "CHR ''#'' \<notin> set f"
  shows "strip_fragment (p @ CHR ''#'' # f) = p"
  using assms by (simp add: strip_fragment_line strip_line_last_hash)

theorem strip_fragment_last_hash_witness:
  "strip_fragment ''https://bank.fr/p#top'' = ''https://bank.fr/p''"
  using strip_fragment_last_hash [of "''https://bank.fr/p''" "''top''"] by simp

text \<open>
  C25. With two \<open>#\<close> in a URL of one line, \<^verbatim>\<open>check_location\<close> keeps the first: it
  turns \<open>p#q#f\<close> into \<open>p#q\<close>, and that URL, checked again as the navigation retried
  after a re-login is, into \<open>p\<close>. The check is not idempotent, so the retried navigation
  requests another URL than the first attempt.
\<close>

theorem check_location_not_idempotent:
  assumes "CHR 0x0A \<notin> set (p @ q @ f)" and "CHR ''#'' \<notin> set (q @ f)" and "take 1 p \<noteq> ''/''"
  shows "check_location s h (p @ CHR ''#'' # q @ CHR ''#'' # f) = p @ CHR ''#'' # q \<and>
         check_location s h (p @ CHR ''#'' # q) = p"
proof -
  have t: "take 1 (p @ CHR ''#'' # x) \<noteq> ''/''" for x using assms(3) by (cases p) simp_all
  have "CHR 0x0A \<notin> set ((p @ CHR ''#'' # q) @ CHR ''#'' # f)" using assms(1) by simp
  then have "strip_fragment ((p @ CHR ''#'' # q) @ CHR ''#'' # f) = strip_line ((p @ CHR ''#'' # q) @ CHR ''#'' # f)"
    by (rule strip_fragment_line)
  also have "\<dots> = p @ CHR ''#'' # q" by (rule strip_line_last_hash) (use assms(2) in simp)
  finally have "strip_fragment ((p @ CHR ''#'' # q) @ CHR ''#'' # f) = p @ CHR ''#'' # q" .
  moreover have "strip_fragment (p @ CHR ''#'' # q) = p"
    using assms(1,2) by (simp add: strip_fragment_line strip_line_last_hash)
  ultimately show ?thesis using t [of "q @ CHR ''#'' # f"] t [of q] by (simp add: check_location_def)
qed

theorem check_location_not_idempotent_witness:
  "check_location bank None ''https://bank.fr/p#a#b'' = ''https://bank.fr/p#a'' \<and>
   check_location bank None ''https://bank.fr/p#a'' = ''https://bank.fr/p''"
  using check_location_not_idempotent [of "''https://bank.fr/p''" "''a''" "''b''" bank None] by simp

end
