(* ===== verification/BankRetry.thy ===== *)
theory BankRetry
  imports Prelude
begin

text \<open>
  The retry helpers of \<^verbatim>\<open>src/modules/banquepopulaire/browser.py\<close>: the decorator
  \<^verbatim>\<open>retry(exc_check, tries=4)\<close> (lines 72--103) calls a browser method again while it
  raises an exception of the class \<^verbatim>\<open>exc_check\<close>; when the method returns an iterator,
  the decorator returns an \<^verbatim>\<open>iter_retry\<close> (lines 1539--1598), which re-creates the
  iterator on such an exception, consumes and compares the items it has already yielded,
  and goes on from there.

  A Python iterator is a finite list of items followed by its end: \<^verbatim>\<open>StopIteration\<close>
  (\<open>None\<close>) or an exception (\<open>Some e\<close>). The decorated method is the callback \<open>cb\<close>;
  as the site may answer differently each time, \<open>cb k\<close> is the outcome of its \<open>k\<close>-th call.
  In this module \<^verbatim>\<open>exc_check\<close> is one of \<^verbatim>\<open>TemporaryBrowserUnavailable\<close>,
  \<^verbatim>\<open>BrokenPageError\<close>, \<^verbatim>\<open>LoggedOut\<close> and \<^verbatim>\<open>ClientError\<close>, none of which is a
  superclass of \<^verbatim>\<open>BrowserUnavailable\<close>: the helpers' own \<^verbatim>\<open>BrowserUnavailable\<close> is
  never caught by them, and \<open>exc_check\<close> is a predicate on the callback's exceptions.
\<close>

section \<open>Data\<close>

datatype ('a, 'e) pyiter = PyIter "'a list" "'e option"

text \<open>What the decorated method returns: a plain value or an iterator.\<close>

datatype ('v, 'a, 'e) ret = RValue 'v | RIter "('a, 'e) pyiter"

text \<open>
  The exceptions the helpers raise: the three \<^verbatim>\<open>BrowserUnavailable\<close> of the module
  (no reply after the tries, an inconsistent reply, fewer elements, with the two counts of
  its message), an exception of the callback passed on, the end of the iteration, and the
  \<^verbatim>\<open>TypeError\<close> of \<^verbatim>\<open>next()\<close> on a value that is not an iterator.
\<close>

datatype 'e bp_err =
    SiteDidNotReply | Inconsistent | Fewer int nat | Raised 'e | StopIter | NotIterator

record ('v, 'a, 'e) retry_cfg =
  cb :: "nat \<Rightarrow> 'e + ('v, 'a, 'e) ret"
  exc_check :: "'e \<Rightarrow> bool"
  same :: "'a \<Rightarrow> 'a \<Rightarrow> bool"

text \<open>
  The attributes of an \<^verbatim>\<open>iter_retry\<close>: the current iterator (\<^verbatim>\<open>self.it\<close>), the items
  yielded so far (\<^verbatim>\<open>self.items\<close>), the tries left (\<^verbatim>\<open>self.remaining\<close>), and the number
  of calls of the callback made so far.
\<close>

record ('a, 'e) iter_state =
  it :: "('a, 'e) pyiter option"
  items :: "'a list"
  remaining :: int
  ncalls :: nat

section \<open>iter_retry\<close>

text \<open>
  The loop \<^verbatim>\<open>for sent in self.items: new = next(self.it) ...\<close> of \<^verbatim>\<open>__next__\<close> on a
  re-created iterator; \<open>nb\<close> is the variable \<^verbatim>\<open>nb = -1\<close> of the source, which the loop
  never updates, and \<open>n\<close> is \<^verbatim>\<open>len(self.items)\<close>.
\<close>

datatype ('a, 'e) consumed = Consumed "('a, 'e) pyiter" | ConsumeFail "'e bp_err" | ConsumeRetry

fun consume :: "('v, 'a, 'e) retry_cfg \<Rightarrow> int \<Rightarrow> nat \<Rightarrow> 'a list \<Rightarrow> ('a, 'e) pyiter \<Rightarrow> ('a, 'e) consumed" where
  "consume c nb n [] p = Consumed p"
| "consume c nb n (sent # ss) (PyIter (new # ys) e) =
     (if same c sent new then consume c nb n ss (PyIter ys e) else ConsumeFail Inconsistent)"
| "consume c nb n (sent # ss) (PyIter [] None) = ConsumeFail (Fewer (nb + 1) n)"
| "consume c nb n (sent # ss) (PyIter [] (Some e)) =
     (if exc_check c e then ConsumeRetry else ConsumeFail (Raised e))"

text \<open>\<^verbatim>\<open>obj = next(self.it)\<close> and its handler.\<close>

datatype ('a, 'e) took = Took 'a "('a, 'e) pyiter" | TookFail "'e bp_err" | TookRetry

fun take_one :: "('v, 'a, 'e) retry_cfg \<Rightarrow> ('a, 'e) pyiter \<Rightarrow> ('a, 'e) took" where
  "take_one c (PyIter (y # ys) e) = Took y (PyIter ys e)"
| "take_one c (PyIter [] None) = TookFail StopIter"
| "take_one c (PyIter [] (Some e)) = (if exc_check c e then TookRetry else TookFail (Raised e))"

text \<open>
  \<^verbatim>\<open>iter_retry.__next__\<close>. On a retry the method calls itself with one try less
  (\<^verbatim>\<open>self.remaining -= 1; return next(self)\<close>); \<^verbatim>\<open>self.it = self.cb()\<close> is outside the
  \<^verbatim>\<open>try\<close>, so an exception of the callback there is passed on.
\<close>

function iter_next :: "('v, 'a, 'e) retry_cfg \<Rightarrow> ('a, 'e) iter_state \<Rightarrow> 'e bp_err + ('a \<times> ('a, 'e) iter_state)" where
  "iter_next c st =
     (if remaining st \<le> 0 then Inl SiteDidNotReply
      else case it st of
        Some p \<Rightarrow>
          (case take_one c p of
             Took y p' \<Rightarrow> Inr (y, st\<lparr>it := Some p', items := items st @ [y]\<rparr>)
           | TookFail err \<Rightarrow> Inl err
           | TookRetry \<Rightarrow> iter_next c (st\<lparr>it := None, remaining := remaining st - 1\<rparr>))
      | None \<Rightarrow>
          (case cb c (ncalls st) of
             Inl e \<Rightarrow> Inl (Raised e)
           | Inr (RValue v) \<Rightarrow> Inl NotIterator
           | Inr (RIter p0) \<Rightarrow>
               (case consume c (-1) (length (items st)) (items st) p0 of
                  ConsumeFail err \<Rightarrow> Inl err
                | ConsumeRetry \<Rightarrow> iter_next c (st\<lparr>it := None, remaining := remaining st - 1, ncalls := Suc (ncalls st)\<rparr>)
                | Consumed p \<Rightarrow>
                    (case take_one c p of
                       Took y p' \<Rightarrow> Inr (y, st\<lparr>it := Some p', items := items st @ [y], ncalls := Suc (ncalls st)\<rparr>)
                     | TookFail err \<Rightarrow> Inl err
                     | TookRetry \<Rightarrow>
                         iter_next c (st\<lparr>it := None, remaining := remaining st - 1, ncalls := Suc (ncalls st)\<rparr>)))))"
  by pat_completeness auto
termination
  by (relation "measure (\<lambda>(c, st). nat (remaining st))") auto

declare iter_next.simps [simp del]

text \<open>
  The order in which a step of \<^verbatim>\<open>__next__\<close> goes down: the tries left, then whether
  the current iterator is still to be re-created, then the length of what it has left.
\<close>

definition iter_rank :: "(('a, 'e) iter_state \<Rightarrow> nat) list" where
  "iter_rank = [\<lambda>st. nat (remaining st), \<lambda>st. if it st = None then 1 else 0,
                \<lambda>st. case it st of None \<Rightarrow> 0 | Some (PyIter ys e) \<Rightarrow> length ys]"

text \<open>
  \<^verbatim>\<open>list(it)\<close> on an \<^verbatim>\<open>iter_retry\<close>: \<^verbatim>\<open>__next__\<close> until \<^verbatim>\<open>StopIteration\<close>; any
  other exception is passed on.
\<close>

function iter_all :: "('v, 'a, 'e) retry_cfg \<Rightarrow> ('a, 'e) iter_state \<Rightarrow> 'e bp_err + 'a list" where
  "iter_all c st =
     (case iter_next c st of
        Inl StopIter \<Rightarrow> Inr []
      | Inl err \<Rightarrow> Inl err
      | Inr (y, st') \<Rightarrow> (case iter_all c st' of Inl err \<Rightarrow> Inl err | Inr ys \<Rightarrow> Inr (y # ys)))"
  by pat_completeness auto

text \<open>
  The wrapper of \<^verbatim>\<open>retry\<close>: \<^verbatim>\<open>for i in range(tries, 0, -1)\<close> calls the method
  (\<open>k\<close> calls so far), goes on while it raises \<^verbatim>\<open>exc_check\<close>, returns a plain value,
  and wraps an iterator in an \<^verbatim>\<open>iter_retry\<close> with \<^verbatim>\<open>remaining=i\<close>.
\<close>

fun retry_loop :: "('v, 'a, 'e) retry_cfg \<Rightarrow> nat \<Rightarrow> nat \<Rightarrow> 'e bp_err + ('v + ('a, 'e) iter_state)" where
  "retry_loop c 0 k = Inl SiteDidNotReply"
| "retry_loop c (Suc j) k =
     (case cb c k of
        Inl e \<Rightarrow> (if exc_check c e then retry_loop c j (Suc k) else Inl (Raised e))
      | Inr (RValue v) \<Rightarrow> Inr (Inl v)
      | Inr (RIter p) \<Rightarrow> Inr (Inr \<lparr>it = Some p, items = [], remaining = int (Suc j), ncalls = Suc k\<rparr>))"

definition retry :: "('v, 'a, 'e) retry_cfg \<Rightarrow> nat \<Rightarrow> 'e bp_err + ('v + ('a, 'e) iter_state)" where
  "retry c tries = retry_loop c tries 0"

text \<open>A decorated method whose result is consumed by \<^verbatim>\<open>list()\<close>.\<close>

definition retry_list :: "('v, 'a, 'e) retry_cfg \<Rightarrow> nat \<Rightarrow> 'e bp_err + ('v + 'a list)" where
  "retry_list c tries =
     (case retry c tries of
        Inl err \<Rightarrow> Inl err
      | Inr (Inl v) \<Rightarrow> Inr (Inl v)
      | Inr (Inr st) \<Rightarrow> (case iter_all c st of Inl err \<Rightarrow> Inl err | Inr ys \<Rightarrow> Inr (Inr ys)))"

text \<open>
  \<^verbatim>\<open>no_need_login\<close>: the counter \<^verbatim>\<open>browser.no_login\<close> (class attribute, initially 0)
  is raised around the call and lowered in a \<^verbatim>\<open>finally\<close>, so on a return and on an
  exception alike. The method works on the browser state and returns a value or an
  exception.
\<close>

record bp_browser =
  no_login :: int

definition no_need_login ::
  "('z bp_browser_scheme \<Rightarrow> ('e + 'r) \<times> 'z bp_browser_scheme) \<Rightarrow> 'z bp_browser_scheme \<Rightarrow> ('e + 'r) \<times> 'z bp_browser_scheme" where
  "no_need_login f b =
     (let (res, b') = f (b\<lparr>no_login := no_login b + 1\<rparr>) in (res, b'\<lparr>no_login := no_login b' - 1\<rparr>))"

section \<open>A site that answers consistently\<close>

text \<open>
  The contract of \<^verbatim>\<open>retry\<close> (its docstring: the method must always return its values
  in the same order): the \<open>k\<close>-th call of the site yields the first \<open>m k\<close> items of one
  list \<open>L\<close> and then fails with the transient exception \<open>err k\<close>, or yields all of
  \<open>L\<close>.
\<close>

definition site_call :: "'a list \<Rightarrow> nat \<Rightarrow> 'e \<Rightarrow> 'e + ('v, 'a, 'e) ret" where
  "site_call L m e = Inr (RIter (if m < length L then PyIter (take m L) (Some e) else PyIter L None))"

text \<open>What is left of the iterator of such a call after \<open>n\<close> items.\<close>

definition site_rest :: "'a list \<Rightarrow> nat \<Rightarrow> 'e \<Rightarrow> nat \<Rightarrow> ('a, 'e) pyiter" where
  "site_rest L m e n = (if m < length L then PyIter (drop n (take m L)) (Some e) else PyIter (drop n L) None)"

text \<open>
  The invariant of an \<^verbatim>\<open>iter_retry\<close> on such a site: the items yielded are a prefix of
  \<open>L\<close>, and the current iterator is what is left of the last call after them.
\<close>

definition consistent_state :: "'a list \<Rightarrow> (nat \<Rightarrow> nat) \<Rightarrow> (nat \<Rightarrow> 'e) \<Rightarrow> ('a, 'e) iter_state \<Rightarrow> bool" where
  "consistent_state L m err st \<longleftrightarrow>
     items st = take (length (items st)) L \<and> length (items st) \<le> length L \<and>
     (case it st of
        None \<Rightarrow> True
      | Some p \<Rightarrow> 0 < ncalls st \<and> 0 < remaining st \<and>
          p = site_rest L (m (ncalls st - 1)) (err (ncalls st - 1)) (length (items st)) \<and>
          (m (ncalls st - 1) < length L \<longrightarrow> length (items st) \<le> m (ncalls st - 1)))"

text \<open>A call that yields all of \<open>L\<close> is still within the tries left.\<close>

definition success_in_reach :: "'a list \<Rightarrow> (nat \<Rightarrow> nat) \<Rightarrow> ('a, 'e) iter_state \<Rightarrow> bool" where
  "success_in_reach L m st \<longleftrightarrow>
     (case it st of
        Some p \<Rightarrow> length L \<le> m (ncalls st - 1) \<or>
          (\<exists>j. ncalls st \<le> j \<and> int j < int (ncalls st) + remaining st - 1 \<and> length L \<le> m j)
      | None \<Rightarrow> (\<exists>j. ncalls st \<le> j \<and> int j < int (ncalls st) + remaining st \<and> length L \<le> m j))"

text \<open>
  Runs of an \<^verbatim>\<open>iter_retry\<close>: the states reached by successful calls of
  \<^verbatim>\<open>__next__\<close>.
\<close>

inductive iter_steps :: "('v, 'a, 'e) retry_cfg \<Rightarrow> ('a, 'e) iter_state \<Rightarrow> ('a, 'e) iter_state \<Rightarrow> bool"
  for c where
  iter_refl: "iter_steps c st st"
| iter_step: "iter_next c st = Inr (y, st1) \<Longrightarrow> iter_steps c st1 st2 \<Longrightarrow> iter_steps c st st2"

text \<open>
  The accounting of tries: every call of the callback has used one of the \<open>tries\<close>,
  counting the one the current iterator came from.
\<close>

definition calls_inv :: "nat \<Rightarrow> ('a, 'e) iter_state \<Rightarrow> bool" where
  "calls_inv tries st \<longleftrightarrow>
     0 \<le> remaining st \<and> (it st \<noteq> None \<longrightarrow> 0 < remaining st) \<and>
     int (ncalls st) + remaining st + (if it st = None then 1 else 0) \<le> int tries + 1"

text \<open>
  Sites for the witnesses: one that fails after two items, then after one, then answers
  in full; one that answers fewer items after a failure; and one whose callback raises
  when the iterator is re-created.
\<close>

definition flaky_site :: "(unit, nat, unit) retry_cfg" where
  "flaky_site = \<lparr>cb = (\<lambda>k. site_call [1, 2, 3] (if k = 0 then 2 else if k = 1 then 1 else 5) ()),
     exc_check = (\<lambda>_. True), same = (=)\<rparr>"

definition shrinking_site :: "(unit, nat, unit) retry_cfg" where
  "shrinking_site = \<lparr>cb = (\<lambda>k. Inr (RIter (if k = 0 then PyIter [1, 2, 3] (Some ()) else PyIter [1] None))),
     exc_check = (\<lambda>_. True), same = (=)\<rparr>"

definition raising_site :: "(unit, nat, unit) retry_cfg" where
  "raising_site = \<lparr>cb = (\<lambda>k. if k = 0 then Inr (RIter (PyIter [1] (Some ()))) else Inl ()),
     exc_check = (\<lambda>_. True), same = (=)\<rparr>"

section \<open>Termination of the iteration\<close>

lemma iter_next_InrE:
  assumes "iter_next c st = Inr (y, st')"
  obtains (took) p p' where "0 < remaining st" "it st = Some p" "take_one c p = Took y p'"
      "st' = st\<lparr>it := Some p', items := items st @ [y]\<rparr>"
    | (retry) p where "0 < remaining st" "it st = Some p" "take_one c p = TookRetry"
      "iter_next c (st\<lparr>it := None, remaining := remaining st - 1\<rparr>) = Inr (y, st')"
    | (fresh) p0 p p' where "0 < remaining st" "it st = None" "cb c (ncalls st) = Inr (RIter p0)"
      "consume c (-1) (length (items st)) (items st) p0 = Consumed p" "take_one c p = Took y p'"
      "st' = st\<lparr>it := Some p', items := items st @ [y], ncalls := Suc (ncalls st)\<rparr>"
    | (cretry) p0 where "0 < remaining st" "it st = None" "cb c (ncalls st) = Inr (RIter p0)"
      "consume c (-1) (length (items st)) (items st) p0 = ConsumeRetry"
      "iter_next c (st\<lparr>it := None, remaining := remaining st - 1, ncalls := Suc (ncalls st)\<rparr>) = Inr (y, st')"
    | (tretry) p0 p where "0 < remaining st" "it st = None" "cb c (ncalls st) = Inr (RIter p0)"
      "consume c (-1) (length (items st)) (items st) p0 = Consumed p" "take_one c p = TookRetry"
      "iter_next c (st\<lparr>it := None, remaining := remaining st - 1, ncalls := Suc (ncalls st)\<rparr>) = Inr (y, st')"
  using assms unfolding iter_next.simps [of c st]
  by (auto split: if_splits option.splits sum.splits ret.splits consumed.splits took.splits
           intro: took retry fresh cretry tretry)

lemma take_one_shorter:
  "take_one c p = Took y p' \<Longrightarrow> (case p' of PyIter ys e \<Rightarrow> length ys) < (case p of PyIter ys e \<Rightarrow> length ys)"
  by (cases "(c, p)" rule: take_one.cases) (auto split: if_splits)

lemma iter_next_decreases:
  "iter_next c st = Inr (y, st') \<Longrightarrow> (st', st) \<in> measures iter_rank"
proof (induction "nat (remaining st)" arbitrary: st rule: less_induct)
  case less
  from less.prems show ?case
  proof (cases rule: iter_next_InrE)
    case (took p p')
    then show ?thesis using take_one_shorter [OF took(3)] by (auto simp: iter_rank_def split: pyiter.splits)
  next
    case (retry p)
    then have "(st', st\<lparr>it := None, remaining := remaining st - 1\<rparr>) \<in> measures iter_rank"
      by (intro less.hyps) simp_all
    with retry(1) show ?thesis by (auto simp: iter_rank_def)
  next
    case (fresh p0 p p')
    then show ?thesis by (auto simp: iter_rank_def)
  next
    case (cretry p0)
    then have "(st', st\<lparr>it := None, remaining := remaining st - 1, ncalls := Suc (ncalls st)\<rparr>) \<in> measures iter_rank"
      by (intro less.hyps) simp_all
    with cretry(1) show ?thesis by (auto simp: iter_rank_def)
  next
    case (tretry p0 p)
    then have "(st', st\<lparr>it := None, remaining := remaining st - 1, ncalls := Suc (ncalls st)\<rparr>) \<in> measures iter_rank"
      by (intro less.hyps) simp_all
    with tretry(1) show ?thesis by (auto simp: iter_rank_def)
  qed
qed

termination iter_all
  by (relation "inv_image (measures iter_rank) snd") (auto intro: iter_next_decreases)

section \<open>Properties\<close>

lemma consume_Fewer:
  "consume c nb n ss p = ConsumeFail (Fewer a m) \<Longrightarrow> a = nb + 1 \<and> m = n"
  by (induction c nb n ss p rule: consume.induct) (auto split: if_splits)

lemma iter_next_InlE:
  assumes "iter_next c st = Inl err"
  obtains (exhausted) "remaining st \<le> 0" "err = SiteDidNotReply"
    | (took) p where "0 < remaining st" "it st = Some p" "take_one c p = TookFail err"
    | (retry) p where "0 < remaining st" "it st = Some p" "take_one c p = TookRetry"
      "iter_next c (st\<lparr>it := None, remaining := remaining st - 1\<rparr>) = Inl err"
    | (raised) e where "0 < remaining st" "it st = None" "cb c (ncalls st) = Inl e" "err = Raised e"
    | (plain) v where "0 < remaining st" "it st = None" "cb c (ncalls st) = Inr (RValue v)" "err = NotIterator"
    | (cfail) p0 where "0 < remaining st" "it st = None" "cb c (ncalls st) = Inr (RIter p0)"
      "consume c (-1) (length (items st)) (items st) p0 = ConsumeFail err"
    | (cretry) p0 where "0 < remaining st" "it st = None" "cb c (ncalls st) = Inr (RIter p0)"
      "consume c (-1) (length (items st)) (items st) p0 = ConsumeRetry"
      "iter_next c (st\<lparr>it := None, remaining := remaining st - 1, ncalls := Suc (ncalls st)\<rparr>) = Inl err"
    | (tfail) p0 p where "0 < remaining st" "it st = None" "cb c (ncalls st) = Inr (RIter p0)"
      "consume c (-1) (length (items st)) (items st) p0 = Consumed p" "take_one c p = TookFail err"
    | (tretry) p0 p where "0 < remaining st" "it st = None" "cb c (ncalls st) = Inr (RIter p0)"
      "consume c (-1) (length (items st)) (items st) p0 = Consumed p" "take_one c p = TookRetry"
      "iter_next c (st\<lparr>it := None, remaining := remaining st - 1, ncalls := Suc (ncalls st)\<rparr>) = Inl err"
  using assms unfolding iter_next.simps [of c st]
  by (auto split: if_splits option.splits sum.splits ret.splits consumed.splits took.splits
           intro: exhausted took retry raised plain cfail cretry tfail tretry)

text \<open>
  C28. The count of the \<^verbatim>\<open>'fewer elements'\<close> error is always 0: the loop that
  consumes the items already yielded never updates \<^verbatim>\<open>nb\<close>, so the message reports
  \<^verbatim>\<open>nb + 1 = 0\<close> whatever the re-created iterator produced.
\<close>

theorem iter_next_fewer_count:
  "iter_next c st = Inl (Fewer a m) \<Longrightarrow> a = 0"
proof (induction "nat (remaining st)" arbitrary: st rule: less_induct)
  case less
  from less.prems show ?case
  proof (cases rule: iter_next_InlE)
    case (took p)
    then show ?thesis by (cases "(c, p)" rule: take_one.cases) (auto split: if_splits)
  next
    case (retry p)
    then show ?thesis by (intro less.hyps [of "st\<lparr>it := None, remaining := remaining st - 1\<rparr>"]) simp_all
  next
    case (cfail p0)
    then show ?thesis using consume_Fewer by fastforce
  next
    case (cretry p0)
    then show ?thesis
      by (intro less.hyps [of "st\<lparr>it := None, remaining := remaining st - 1, ncalls := Suc (ncalls st)\<rparr>"]) simp_all
  next
    case (tfail p0 p)
    then show ?thesis by (cases "(c, p)" rule: take_one.cases) (auto split: if_splits)
  next
    case (tretry p0 p)
    then show ?thesis
      by (intro less.hyps [of "st\<lparr>it := None, remaining := remaining st - 1, ncalls := Suc (ncalls st)\<rparr>"]) simp_all
  qed simp_all
qed

lemma consume_prefix:
  "\<forall>x. same c x x \<Longrightarrow> consume c nb n xs (PyIter (xs @ ys) e) = Consumed (PyIter ys e)"
  by (induction xs) simp_all

lemma consume_short:
  "\<forall>x. same c x x \<Longrightarrow> exc_check c e \<Longrightarrow> consume c nb n (xs @ z # zs) (PyIter xs (Some e)) = ConsumeRetry"
  by (induction xs) simp_all

lemma take_split: "a \<le> b \<Longrightarrow> take b L = take a L @ drop a (take b L)"
  by (metis append_take_drop_id take_take min.absorb1)

lemma site_call_rest: "site_call L mk e = Inr (RIter (site_rest L mk e 0))"
  by (simp add: site_call_def site_rest_def)

lemma consume_site:
  assumes refl: "\<forall>x. same c x x" and chk: "exc_check c e" and n: "n \<le> length L"
  shows "consume c nb N (take n L) (site_rest L mk e 0) =
           (if mk < length L \<and> mk < n then ConsumeRetry else Consumed (site_rest L mk e n))"
proof (cases "mk < length L")
  case True
  show ?thesis
  proof (cases "mk < n")
    case less: True
    have "take n L = take mk L @ drop mk (take n L)" using less by (simp add: take_split)
    moreover have "drop mk (take n L) \<noteq> []" using less n True by simp
    then obtain z zs where "drop mk (take n L) = z # zs" by (cases "drop mk (take n L)") auto
    ultimately have "take n L = take mk L @ z # zs" by simp
    then show ?thesis using True less consume_short [OF refl chk] by (simp add: site_rest_def)
  next
    case False
    then have "take mk L = take n L @ drop n (take mk L)" by (simp add: take_split)
    then show ?thesis using True False consume_prefix [OF refl] by (simp add: site_rest_def) (metis)
  qed
next
  case False
  have "L = take n L @ drop n L" by simp
  then show ?thesis using False consume_prefix [OF refl, of nb N "take n L" "drop n L" None]
    by (simp add: site_rest_def)
qed

lemma take_one_site:
  "n < length L \<Longrightarrow> (mk < length L \<longrightarrow> n < mk) \<Longrightarrow>
     take_one c (site_rest L mk e n) = Took (L ! n) (site_rest L mk e (Suc n))"
  by (auto simp: site_rest_def Cons_nth_drop_Suc [symmetric])

lemma take_one_site_end:
  "mk < length L \<Longrightarrow> exc_check c e \<Longrightarrow> take_one c (site_rest L mk e mk) = TookRetry"
  by (simp add: site_rest_def)

lemma take_one_site_stop:
  "length L \<le> mk \<Longrightarrow> take_one c (site_rest L mk e (length L)) = TookFail StopIter"
  by (simp add: site_rest_def)

lemma site_retry_state:
  assumes "consistent_state L m err st" "success_in_reach L m st" "it st = Some p" "m (ncalls st - 1) < length L"
  shows "consistent_state L m err (st\<lparr>it := None, remaining := remaining st - 1\<rparr>) \<and>
         success_in_reach L m (st\<lparr>it := None, remaining := remaining st - 1\<rparr>)"
  using assms by (auto simp: consistent_state_def success_in_reach_def)

lemma site_fresh_retry_state:
  assumes "consistent_state L m err st" "success_in_reach L m st" "it st = None" "m (ncalls st) < length L"
  shows "consistent_state L m err (st\<lparr>it := None, remaining := remaining st - 1, ncalls := Suc (ncalls st)\<rparr>) \<and>
         success_in_reach L m (st\<lparr>it := None, remaining := remaining st - 1, ncalls := Suc (ncalls st)\<rparr>)"
proof -
  obtain j where j: "ncalls st \<le> j" "int j < int (ncalls st) + remaining st" "length L \<le> m j"
    using assms(2,3) by (auto simp: success_in_reach_def)
  with assms(4) have "Suc (ncalls st) \<le> j" using j(1) by (cases "j = ncalls st") auto
  with j assms(1,3) show ?thesis
    by (auto simp: consistent_state_def success_in_reach_def intro: exI [of _ j])
qed

lemma site_fresh_took_state:
  assumes "consistent_state L m err st" "success_in_reach L m st" "it st = None"
    and "n = length (items st)" "n < length L" "m (ncalls st) < length L \<longrightarrow> n < m (ncalls st)"
  shows "consistent_state L m err (st\<lparr>it := Some (site_rest L (m (ncalls st)) (err (ncalls st)) (Suc n)),
             items := items st @ [L ! n], ncalls := Suc (ncalls st)\<rparr>) \<and>
         success_in_reach L m (st\<lparr>it := Some (site_rest L (m (ncalls st)) (err (ncalls st)) (Suc n)),
             items := items st @ [L ! n], ncalls := Suc (ncalls st)\<rparr>)"
proof -
  obtain j where j: "ncalls st \<le> j" "int j < int (ncalls st) + remaining st" "length L \<le> m j"
    using assms(2,3) by (auto simp: success_in_reach_def)
  have pos: "0 < remaining st" using j by linarith
  have its: "items st @ [L ! n] = take (Suc n) L"
    using assms(1,4,5) by (simp add: consistent_state_def take_Suc_conv_app_nth)
  show ?thesis
  proof (cases "m (ncalls st) < length L")
    case True
    with j have "Suc (ncalls st) \<le> j" by (cases "j = ncalls st") auto
    with j True assms(4,5,6) its pos show ?thesis
      by (auto simp: consistent_state_def success_in_reach_def intro: exI [of _ j])
  next
    case False
    with assms(4,5) its pos show ?thesis by (auto simp: consistent_state_def success_in_reach_def)
  qed
qed

lemma site_step:
  assumes cb: "\<forall>k. cb c k = site_call L (m k) (err k)" and chk: "\<forall>k. exc_check c (err k)"
    and refl: "\<forall>x. same c x x"
  shows "consistent_state L m err st \<Longrightarrow> success_in_reach L m st \<Longrightarrow> length (items st) < length L \<Longrightarrow>
         \<exists>st'. iter_next c st = Inr (L ! length (items st), st') \<and> consistent_state L m err st' \<and>
               success_in_reach L m st' \<and> length (items st') = Suc (length (items st))"
proof (induction "nat (remaining st)" arbitrary: st rule: less_induct)
  case less
  define n where "n = length (items st)"
  show ?case
  proof (cases "it st")
    case (Some p)
    define k where "k = ncalls st - 1"
    from less.prems(1) Some have pos: "0 < remaining st" and p: "p = site_rest L (m k) (err k) n"
      and le: "m k < length L \<longrightarrow> n \<le> m k"
      by (simp_all add: consistent_state_def k_def n_def)
    show ?thesis
    proof (cases "m k < length L \<and> n = m k")
      case True
      define st1 where "st1 = st\<lparr>it := None, remaining := remaining st - 1\<rparr>"
      have "take_one c p = TookRetry" using True p chk take_one_site_end [of "m k" L c "err k"] by simp
      then have e: "iter_next c st = iter_next c st1" using pos Some by (simp add: iter_next.simps [of c st] st1_def)
      have inv: "consistent_state L m err st1 \<and> success_in_reach L m st1"
        unfolding st1_def using site_retry_state [OF less.prems(1,2) Some] True by (simp add: k_def)
      have d: "nat (remaining st1) < nat (remaining st)" using pos by (simp add: st1_def)
      have l1: "length (items st1) < length L" using less.prems(3) by (simp add: st1_def)
      from less.hyps [OF d conjunct1 [OF inv] conjunct2 [OF inv] l1] show ?thesis by (simp add: e st1_def)
    next
      case False
      then have t: "take_one c p = Took (L ! n) (site_rest L (m k) (err k) (Suc n))"
        using p le less.prems(3) take_one_site [of n L "m k"] by (auto simp: n_def)
      show ?thesis using less.prems pos Some t False le
        by (auto simp: iter_next.simps [of c st] consistent_state_def success_in_reach_def
                 take_Suc_conv_app_nth n_def k_def)
    qed
  next
    case None
    define k where "k = ncalls st"
    obtain j where j: "k \<le> j" "int j < int k + remaining st" "length L \<le> m j"
      using less.prems(2) None by (auto simp: success_in_reach_def k_def)
    have pos: "0 < remaining st" using j by linarith
    have nL: "n \<le> length L" using less.prems(3) by (simp add: n_def)
    have con: "consume c (-1) (length (items st)) (items st) (site_rest L (m k) (err k) 0) =
        (if m k < length L \<and> m k < n then ConsumeRetry else Consumed (site_rest L (m k) (err k) n))"
      using consume_site [OF refl chk [rule_format] nL] less.prems(1) by (simp add: consistent_state_def n_def)
    show ?thesis
    proof (cases "m k < length L \<and> n \<ge> m k")
      case True
      define st1 where "st1 = st\<lparr>it := None, remaining := remaining st - 1, ncalls := Suc (ncalls st)\<rparr>"
      have "iter_next c st = iter_next c st1"
      proof (cases "m k < n")
        case True
        with con \<open>m k < length L \<and> n \<ge> m k\<close> show ?thesis using pos None cb
          by (simp add: iter_next.simps [of c st] st1_def site_call_rest k_def)
      next
        case False
        with True have "n = m k" by simp
        with con True chk take_one_site_end [of "m k" L c "err k"] show ?thesis using pos None cb
          by (simp add: iter_next.simps [of c st] st1_def site_call_rest k_def)
      qed
      moreover have inv: "consistent_state L m err st1 \<and> success_in_reach L m st1"
        unfolding st1_def using site_fresh_retry_state [OF less.prems(1,2) None] True by (simp add: k_def)
      moreover have d: "nat (remaining st1) < nat (remaining st)" using pos by (simp add: st1_def)
      moreover have l1: "length (items st1) < length L" using less.prems(3) by (simp add: st1_def)
      ultimately show ?thesis using less.hyps [OF d conjunct1 [OF inv] conjunct2 [OF inv] l1] by (simp add: st1_def)
    next
      case False
      then have t: "take_one c (site_rest L (m k) (err k) n) = Took (L ! n) (site_rest L (m k) (err k) (Suc n))"
        using less.prems(3) take_one_site [of n L "m k"] by (auto simp: n_def)
      have "iter_next c st = Inr (L ! n, st\<lparr>it := Some (site_rest L (m k) (err k) (Suc n)),
             items := items st @ [L ! n], ncalls := Suc (ncalls st)\<rparr>)"
        using pos None cb con False t by (auto simp: iter_next.simps [of c st] site_call_rest k_def)
      moreover have "m k < length L \<longrightarrow> n < m k" using False by auto
      ultimately show ?thesis
        using site_fresh_took_state [OF less.prems(1,2) None n_def] less.prems(3) by (simp add: k_def n_def)
    qed
  qed
qed

lemma site_stop:
  assumes cb: "\<forall>k. cb c k = site_call L (m k) (err k)" and chk: "\<forall>k. exc_check c (err k)"
    and refl: "\<forall>x. same c x x"
  shows "consistent_state L m err st \<Longrightarrow> success_in_reach L m st \<Longrightarrow> length (items st) = length L \<Longrightarrow>
         iter_next c st = Inl StopIter"
proof (induction "nat (remaining st)" arbitrary: st rule: less_induct)
  case less
  show ?case
  proof (cases "it st")
    case (Some p)
    define k where "k = ncalls st - 1"
    from less.prems(1) Some have pos: "0 < remaining st"
      and p: "p = site_rest L (m k) (err k) (length L)" and le: "m k < length L \<longrightarrow> length L \<le> m k"
      using less.prems(3) by (simp_all add: consistent_state_def k_def)
    then have "length L \<le> m k" by linarith
    with p have "take_one c p = TookFail StopIter" by (simp add: take_one_site_stop)
    with pos Some show ?thesis by (simp add: iter_next.simps [of c st])
  next
    case None
    define k where "k = ncalls st"
    obtain j where j: "k \<le> j" "int j < int k + remaining st" "length L \<le> m j"
      using less.prems(2) None by (auto simp: success_in_reach_def k_def)
    have pos: "0 < remaining st" using j by linarith
    have con: "consume c (-1) (length (items st)) (items st) (site_rest L (m k) (err k) 0) =
        (if m k < length L \<and> m k < length L then ConsumeRetry else Consumed (site_rest L (m k) (err k) (length L)))"
      using consume_site [OF refl chk [rule_format], where n = "length L" and L = L and mk = "m k" and nb = "-1" and N = "length (items st)"] less.prems(1,3)
      by (simp add: consistent_state_def)
    show ?thesis
    proof (cases "m k < length L")
      case True
      define st1 where "st1 = st\<lparr>it := None, remaining := remaining st - 1, ncalls := Suc (ncalls st)\<rparr>"
      have e: "iter_next c st = iter_next c st1"
        using con True pos None cb by (simp add: iter_next.simps [of c st] st1_def site_call_rest k_def)
      have inv: "consistent_state L m err st1 \<and> success_in_reach L m st1"
        unfolding st1_def using site_fresh_retry_state [OF less.prems(1,2) None] True by (simp add: k_def)
      have d: "nat (remaining st1) < nat (remaining st)" using pos by (simp add: st1_def)
      have l1: "length (items st1) = length L" using less.prems(3) by (simp add: st1_def)
      from less.hyps [OF d conjunct1 [OF inv] conjunct2 [OF inv] l1] show ?thesis by (simp add: e)
    next
      case False
      then have "take_one c (site_rest L (m k) (err k) (length L)) = TookFail StopIter"
        by (simp add: take_one_site_stop)
      with con False pos None cb show ?thesis by (simp add: iter_next.simps [of c st] site_call_rest k_def)
    qed
  qed
qed

lemma site_iter_all:
  assumes cb: "\<forall>k. cb c k = site_call L (m k) (err k)" and chk: "\<forall>k. exc_check c (err k)"
    and refl: "\<forall>x. same c x x"
  shows "consistent_state L m err st \<Longrightarrow> success_in_reach L m st \<Longrightarrow>
         iter_all c st = Inr (drop (length (items st)) L)"
proof (induction "length L - length (items st)" arbitrary: st)
  case 0
  then have "length (items st) = length L" by (simp add: consistent_state_def)
  with site_stop [OF cb chk refl "0.prems"] show ?case by (subst iter_all.simps) simp
next
  case (Suc d)
  then have lt: "length (items st) < length L" by simp
  from site_step [OF cb chk refl Suc.prems lt] obtain st' where
    e: "iter_next c st = Inr (L ! length (items st), st')" and inv: "consistent_state L m err st'"
      "success_in_reach L m st'" and l: "length (items st') = Suc (length (items st))"
    by blast
  have "d = length L - length (items st')" using Suc.hyps(2) l by simp
  from Suc.hyps(1) [OF this inv] e l lt show ?case
    by (subst iter_all.simps) (simp add: Cons_nth_drop_Suc)
qed

lemma retry_site:
  "\<forall>k. cb c k = site_call L (m k) (err k) \<Longrightarrow> 0 < tries \<Longrightarrow>
     retry c tries = Inr (Inr \<lparr>it = Some (site_rest L (m 0) (err 0) 0), items = [], remaining = int tries, ncalls = 1\<rparr>)"
  by (cases tries) (simp_all add: retry_def site_call_rest)

text \<open>
  C27. The retry contract: when each call of the site yields a prefix of the same list and
  then fails with a transient exception, and a call within the tries yields it in full,
  \<^verbatim>\<open>list()\<close> of the decorated method returns exactly that list, each item once and
  in order, as a reliable site would.
\<close>

theorem retry_list_consistent_site:
  assumes cb: "\<forall>k. cb c k = site_call L (m k) (err k)" and chk: "\<forall>k. exc_check c (err k)"
    and refl: "\<forall>x. same c x x" and j: "j < tries" "length L \<le> m j"
  shows "retry_list c tries = Inr (Inr L)"
proof -
  define st0 where "st0 = \<lparr>it = Some (site_rest L (m 0) (err 0) 0), items = [], remaining = int tries, ncalls = 1\<rparr>"
  have r: "retry c tries = Inr (Inr st0)" using retry_site [OF cb] j(1) by (simp add: st0_def)
  have "consistent_state L m err st0" using j(1) by (simp add: consistent_state_def st0_def)
  moreover have "success_in_reach L m st0"
    using j by (cases j) (auto simp: success_in_reach_def st0_def)
  ultimately have "iter_all c st0 = Inr L" using site_iter_all [OF cb chk refl] by (simp add: st0_def)
  with r show ?thesis by (simp add: retry_list_def)
qed

theorem retry_list_consistent_site_witness:
  "retry_list flaky_site 4 = Inr (Inr [1, 2, 3])"
proof (rule retry_list_consistent_site)
  show "\<forall>k. cb flaky_site k = site_call [1, 2, 3] ((\<lambda>k. if k = 0 then 2 else if k = 1 then 1 else 5) k) ((\<lambda>k. ()) k)"
    by (simp add: flaky_site_def)
  show "\<forall>k. exc_check flaky_site ((\<lambda>k. ()) k)" by (simp add: flaky_site_def)
  show "\<forall>x. same flaky_site x x" by (simp add: flaky_site_def)
  show "2 < (4::nat)" by simp
  show "length [1, 2, 3::nat] \<le> (\<lambda>k::nat. if k = 0 then 2 else if k = 1 then 1 else 5::nat) 2" by simp
qed

text \<open>
  C28 witness: a site that yielded three items and failed, then yields one item and
  stops; the error reports 0 as its count.
\<close>

theorem iter_next_fewer_count_witness:
  "iter_next shrinking_site \<lparr>it = Some (PyIter [] (Some ())), items = [1, 2, 3], remaining = 3, ncalls = 1\<rparr>
     = Inl (Fewer 0 3) \<and> (0::int) = 0"
proof -
  have e: "iter_next shrinking_site \<lparr>it = Some (PyIter [] (Some ())), items = [1, 2, 3], remaining = 3, ncalls = 1\<rparr>
     = Inl (Fewer 0 3)"
    by (simp add: iter_next.simps shrinking_site_def)
  show ?thesis using iter_next_fewer_count [OF e] e by simp
qed

text \<open>
  C29. Re-creating the iterator is outside the \<^verbatim>\<open>try\<close> of \<^verbatim>\<open>__next__\<close>: an exception
  of the callback there is passed on as it is, even one that \<^verbatim>\<open>exc_check\<close> accepts
  and while tries remain.
\<close>

theorem iter_next_recreate_raises:
  "it st = None \<Longrightarrow> 0 < remaining st \<Longrightarrow> cb c (ncalls st) = Inl e \<Longrightarrow>
     iter_next c st = Inl (Raised e)"
  by (simp add: iter_next.simps [of c st])

theorem iter_next_recreate_raises_witness:
  "exc_check raising_site () \<and>
   iter_next raising_site \<lparr>it = None, items = [1], remaining = 3, ncalls = 1\<rparr> = Inl (Raised ())"
  using iter_next_recreate_raises [of "\<lparr>it = None, items = [1], remaining = 3, ncalls = 1\<rparr>" raising_site "()"]
  by (simp add: raising_site_def)

text \<open>
  For the decorated method as a whole: on the site whose first iterator fails
  after one item and whose callback then raises a transient exception,
  \<^verbatim>\<open>list()\<close> raises that exception although three tries are left.
\<close>

lemma retry_list_recreate_raises:
  "retry_list raising_site 4 = Inl (Raised ())"
  by code_simp

text \<open>
  C31. When every call of the decorated method raises an exception that
  \<^verbatim>\<open>exc_check\<close> accepts, \<^verbatim>\<open>retry\<close> gives up with \<^verbatim>\<open>BrowserUnavailable('Site did not
  reply successfully after multiple tries')\<close>.
\<close>

theorem retry_exhausted:
  assumes "\<forall>k. \<exists>e. cb c k = Inl e \<and> exc_check c e"
  shows "retry c tries = Inl SiteDidNotReply"
proof -
  have "retry_loop c i k = Inl SiteDidNotReply" for i k
  proof (induction i arbitrary: k)
    case (Suc i)
    from assms obtain e where "cb c k = Inl e" "exc_check c e" by blast
    then show ?case by (simp add: Suc.IH)
  qed simp
  then show ?thesis by (simp add: retry_def)
qed

theorem retry_exhausted_witness:
  "retry \<lparr>cb = (\<lambda>k::nat. Inl ()), exc_check = (\<lambda>_. True), same = (=)\<rparr> 3 = (Inl SiteDidNotReply :: (unit bp_err + (unit + (nat, unit) iter_state)))"
  using retry_exhausted [of "\<lparr>cb = (\<lambda>k::nat. Inl ()), exc_check = (\<lambda>_. True), same = (=)\<rparr> :: (unit, nat, unit) retry_cfg" 3]
  by simp

section \<open>The accounting of tries\<close>

lemma retry_loop_calls:
  "retry_loop c i k = Inr (Inr st) \<Longrightarrow>
     int (ncalls st) + remaining st = int k + int i + 1 \<and> it st \<noteq> None \<and> 0 < remaining st"
  by (induction c i k rule: retry_loop.induct) (auto split: sum.splits ret.splits if_splits)

lemma retry_calls_inv:
  "retry c tries = Inr (Inr st) \<Longrightarrow> calls_inv tries st"
  using retry_loop_calls [of c tries 0 st] by (simp add: retry_def calls_inv_def)

lemma iter_next_calls_inv:
  "iter_next c st = Inr (y, st') \<Longrightarrow> calls_inv tries st \<Longrightarrow> calls_inv tries st'"
proof (induction "nat (remaining st)" arbitrary: st rule: less_induct)
  case less
  from less.prems(1) show ?case
  proof (cases rule: iter_next_InrE)
    case (took p p')
    then show ?thesis using less.prems(2) by (simp add: calls_inv_def)
  next
    case (retry p)
    then show ?thesis using less.prems(2)
      by (intro less.hyps [of "st\<lparr>it := None, remaining := remaining st - 1\<rparr>"]) (simp_all add: calls_inv_def)
  next
    case (fresh p0 p p')
    then show ?thesis using less.prems(2) by (simp add: calls_inv_def)
  next
    case (cretry p0)
    then show ?thesis using less.prems(2)
      by (intro less.hyps [of "st\<lparr>it := None, remaining := remaining st - 1, ncalls := Suc (ncalls st)\<rparr>"])
         (simp_all add: calls_inv_def)
  next
    case (tretry p0 p)
    then show ?thesis using less.prems(2)
      by (intro less.hyps [of "st\<lparr>it := None, remaining := remaining st - 1, ncalls := Suc (ncalls st)\<rparr>"])
         (simp_all add: calls_inv_def)
  qed
qed

lemma iter_steps_calls_inv:
  "iter_steps c st st' \<Longrightarrow> calls_inv tries st \<Longrightarrow> calls_inv tries st'"
  by (induction rule: iter_steps.induct) (auto intro: iter_next_calls_inv)

lemma calls_inv_bound: "calls_inv tries st \<Longrightarrow> ncalls st \<le> tries"
  by (auto simp: calls_inv_def split: if_splits)

text \<open>
  C32. However the iteration goes, the decorated method is called at most \<open>tries\<close>
  times: the first call of \<^verbatim>\<open>retry\<close> and every re-creation of the iterator in
  \<^verbatim>\<open>__next__\<close> use one of the tries.
\<close>

theorem iter_steps_calls_bound:
  "retry c tries = Inr (Inr st0) \<Longrightarrow> iter_steps c st0 st \<Longrightarrow> ncalls st \<le> tries"
  by (rule calls_inv_bound) (blast intro: iter_steps_calls_inv retry_calls_inv)

theorem iter_steps_calls_bound_witness:
  "retry flaky_site 4 = Inr (Inr \<lparr>it = Some (PyIter [1, 2] (Some ())), items = [], remaining = 4, ncalls = 1\<rparr>) \<and>
   iter_steps flaky_site \<lparr>it = Some (PyIter [1, 2] (Some ())), items = [], remaining = 4, ncalls = 1\<rparr>
     \<lparr>it = Some (PyIter [] None), items = [1, 2, 3], remaining = 2, ncalls = 3\<rparr> \<and>
   ncalls \<lparr>it = Some (PyIter [] None), items = [1, 2, 3::nat], remaining = 2, ncalls = 3\<rparr> \<le> (4::nat)"
proof -
  have r: "retry flaky_site 4 = Inr (Inr \<lparr>it = Some (PyIter [1, 2] (Some ())), items = [], remaining = 4, ncalls = 1\<rparr>)"
    by code_simp
  have s1: "iter_next flaky_site \<lparr>it = Some (PyIter [1, 2] (Some ())), items = [], remaining = 4, ncalls = 1\<rparr> =
      Inr (1, \<lparr>it = Some (PyIter [2] (Some ())), items = [1], remaining = 4, ncalls = 1\<rparr>)"
    by code_simp
  have s2: "iter_next flaky_site \<lparr>it = Some (PyIter [2] (Some ())), items = [1], remaining = 4, ncalls = 1\<rparr> =
      Inr (2, \<lparr>it = Some (PyIter [] (Some ())), items = [1, 2], remaining = 4, ncalls = 1\<rparr>)"
    by code_simp
  have s3: "iter_next flaky_site \<lparr>it = Some (PyIter [] (Some ())), items = [1, 2], remaining = 4, ncalls = 1\<rparr> =
      Inr (3, \<lparr>it = Some (PyIter [] None), items = [1, 2, 3], remaining = 2, ncalls = 3\<rparr>)"
    by code_simp
  have steps: "iter_steps flaky_site \<lparr>it = Some (PyIter [1, 2] (Some ())), items = [], remaining = 4, ncalls = 1\<rparr>
     \<lparr>it = Some (PyIter [] None), items = [1, 2, 3], remaining = 2, ncalls = 3\<rparr>"
    by (rule iter_step [OF s1, OF iter_step [OF s2, OF iter_step [OF s3 iter_refl]]])
  show ?thesis using r steps iter_steps_calls_bound [OF r steps] by simp
qed

section \<open>The login counter\<close>

text \<open>
  C33. \<^verbatim>\<open>no_need_login\<close> runs the method on the browser with \<^verbatim>\<open>no_login\<close> one higher,
  so what the method computes is what it computes with logins disabled; when the method
  leaves the counter as it found it, the counter is given back unchanged, whether the
  method returns or raises.
\<close>

theorem no_need_login_restores:
  assumes "\<forall>c. no_login (snd (f c)) = no_login c"
  shows "fst (no_need_login f b) = fst (f (b\<lparr>no_login := no_login b + 1\<rparr>)) \<and>
         no_login (snd (no_need_login f b)) = no_login b"
  using assms by (simp add: no_need_login_def split_beta)

theorem no_need_login_restores_witness:
  "(\<forall>c. no_login (snd ((\<lambda>c. (Inr (no_login c), c)) c :: (unit + int) \<times> bp_browser)) = no_login c) \<and>
   no_need_login (\<lambda>c. (Inr (no_login c), c) :: (unit + int) \<times> bp_browser) \<lparr>no_login = 0\<rparr> = (Inr 1, \<lparr>no_login = 0\<rparr>)"
proof -
  let ?f = "\<lambda>c. (Inr (no_login c), c) :: (unit + int) \<times> bp_browser"
  have h: "\<forall>c. no_login (snd (?f c)) = no_login c" by simp
  show ?thesis using no_need_login_restores [OF h, of "\<lparr>no_login = 0\<rparr>"] h by (simp add: no_need_login_def)
qed

end
