(* ===== verification/JsonValue.thy ===== *)
theory JsonValue
  imports Prelude
begin

text \<open>
  The decoded JSON documents the site modules read (\<^verbatim>\<open>json.loads\<close>), Python's
  operations on them raising as Python does, the exceptions of the woob library the
  pages raise (\<open>auth_exc\<close>), and the woob filters \<^verbatim>\<open>Dict\<close>, \<^verbatim>\<open>Coalesce\<close> and
  \<^verbatim>\<open>MapIn\<close>. The woob library is not part of the sources; its filters are modelled
  from their documented behaviour.
\<close>

section \<open>JSON documents\<close>

text \<open>
  A decoded value. A JSON number with a fraction or an exponent is a Python float,
  kept as its \<^verbatim>\<open>repr\<close> (the shortest string that reads back as the same float), which
  is what \<^verbatim>\<open>str\<close> gives and what \<^verbatim>\<open>Decimal(str(x))\<close> reads.
\<close>

datatype json = JNull | JBool bool | JInt int | JFloat string | JStr string | JList "json list" | JObj "(string \<times> json) list"

text \<open>
  \<^verbatim>\<open>json.loads\<close> keeps the last value of a repeated key, at the place of its first
  occurrence.
\<close>

definition jlookup :: "(string \<times> json) list \<Rightarrow> string \<Rightarrow> json option" where
  "jlookup kvs k = map_of (rev kvs) k"

definition jkeys :: "(string \<times> json) list \<Rightarrow> string list" where
  "jkeys kvs = rev (remdups (rev (map fst kvs)))"

text \<open>Python's truth value of a decoded JSON value.\<close>

fun truthy :: "json \<Rightarrow> bool" where
  "truthy JNull = False"
| "truthy (JBool b) = b"
| "truthy (JInt i) = (i \<noteq> 0)"
| "truthy (JFloat r) = (r \<notin> {''0.0'', ''-0.0''})"
| "truthy (JStr s) = (s \<noteq> [])"
| "truthy (JList xs) = (xs \<noteq> [])"
| "truthy (JObj kvs) = (kvs \<noteq> [])"

fun hashable :: "json \<Rightarrow> bool" where
  "hashable (JList xs) = False"
| "hashable (JObj kvs) = False"
| "hashable v = True"

text \<open>
  The exceptions of these pages: Python's own, the library's \<^verbatim>\<open>ItemNotFound\<close> of a
  filter without default, \<^verbatim>\<open>AssertionError\<close> with its format string and arguments
  (\<^verbatim>\<open>msg % args\<close>), the browser, transfer and authentication exceptions of
  woob, its \<^verbatim>\<open>DataError\<close>, \<^verbatim>\<open>ClientError\<close> with the status code of its response
  (\<^verbatim>\<open>HTTPNotFound\<close> is \<open>ClientError 404\<close>), \<^verbatim>\<open>ServerError\<close> with the status code and the
  text of its response, \<^verbatim>\<open>FormNotFound\<close> and \<^verbatim>\<open>BrokenPageError\<close>.
\<close>

datatype auth_exc =
    PyExc py_error | ItemNotFound | AssertionError string "json list"
  | BrowserUnavailable json | BrowserIncorrectPassword "string option" | BrowserUserBanned string
  | BrowserPasswordExpired | TransferInvalidOTP string | TransferError string
  | RecipientInvalidOTP string | AddRecipientBankError string | ClientError nat | ActionNeeded string
  | AuthMethodNotImplemented string | DataError string | ServerError nat string | FormNotFound
  | BrokenPageError string

section \<open>Python operations on JSON values\<close>

text \<open>\<^verbatim>\<open>xs[i]\<close> on a list, negative indices counting from the end.\<close>

definition py_index :: "'a list \<Rightarrow> int \<Rightarrow> auth_exc + 'a" where
  "py_index xs i =
     (if 0 \<le> i then (if nat i < length xs then Inr (xs ! nat i) else Inl (PyExc IndexError))
      else if nat (- i) \<le> length xs then Inr (xs ! (length xs - nat (- i))) else Inl (PyExc IndexError))"

text \<open>\<^verbatim>\<open>v[key]\<close>; the keys of a decoded object are strings, and \<open>True\<close> is the index 1.\<close>

definition json_getitem :: "json \<Rightarrow> json \<Rightarrow> auth_exc + json" where
  "json_getitem v key =
     (case v of
        JObj kvs \<Rightarrow>
          (if \<not> hashable key then Inl (PyExc TypeError)
           else case key of
             JStr k \<Rightarrow> (case jlookup kvs k of Some w \<Rightarrow> Inr w | None \<Rightarrow> Inl (PyExc KeyError))
           | _ \<Rightarrow> Inl (PyExc KeyError))
      | JList xs \<Rightarrow>
          (case key of
             JInt i \<Rightarrow> py_index xs i
           | JBool b \<Rightarrow> py_index xs (if b then 1 else 0)
           | _ \<Rightarrow> Inl (PyExc TypeError))
      | JStr s \<Rightarrow>
          (case key of
             JInt i \<Rightarrow> py_index (map (\<lambda>c. JStr [c]) s) i
           | JBool b \<Rightarrow> py_index (map (\<lambda>c. JStr [c]) s) (if b then 1 else 0)
           | _ \<Rightarrow> Inl (PyExc TypeError))
      | _ \<Rightarrow> Inl (PyExc TypeError))"

text \<open>\<^verbatim>\<open>d['k']\<close>.\<close>

definition py_item :: "string \<Rightarrow> json \<Rightarrow> auth_exc + json" where
  "py_item k d = json_getitem d (JStr k)"

text \<open>\<^verbatim>\<open>d.get('k', dflt)\<close> (\<open>dflt\<close> is \<open>JNull\<close> for \<^verbatim>\<open>d.get('k')\<close>); only a dict has \<^verbatim>\<open>get\<close>.\<close>

definition py_get :: "string \<Rightarrow> json \<Rightarrow> json \<Rightarrow> auth_exc + json" where
  "py_get k dflt d =
     (case d of JObj kvs \<Rightarrow> Inr (case jlookup kvs k of Some v \<Rightarrow> v | None \<Rightarrow> dflt)
      | _ \<Rightarrow> Inl (PyExc AttributeError))"

text \<open>\<^verbatim>\<open>'k' in v\<close>: a key of a dict, an element of a list, a substring of a string.\<close>

definition py_in :: "string \<Rightarrow> json \<Rightarrow> auth_exc + bool" where
  "py_in k v =
     (case v of
        JObj kvs \<Rightarrow> Inr (k \<in> set (map fst kvs))
      | JList xs \<Rightarrow> Inr (JStr k \<in> set xs)
      | JStr s \<Rightarrow> Inr (sublist k s)
      | _ \<Rightarrow> Inl (PyExc TypeError))"

text \<open>\<^verbatim>\<open>list(v)\<close> and \<^verbatim>\<open>for x in v\<close>: the keys of a dict, the elements of a list, the characters of a string.\<close>

definition py_iter :: "json \<Rightarrow> auth_exc + json list" where
  "py_iter v =
     (case v of
        JObj kvs \<Rightarrow> Inr (map JStr (jkeys kvs))
      | JList xs \<Rightarrow> Inr xs
      | JStr s \<Rightarrow> Inr (map (\<lambda>c. JStr [c]) s)
      | _ \<Rightarrow> Inl (PyExc TypeError))"

definition py_len :: "json \<Rightarrow> auth_exc + nat" where
  "py_len v =
     (case v of
        JObj kvs \<Rightarrow> Inr (length (jkeys kvs))
      | JList xs \<Rightarrow> Inr (length xs)
      | JStr s \<Rightarrow> Inr (length s)
      | _ \<Rightarrow> Inl (PyExc TypeError))"

text \<open>\<^verbatim>\<open>str.lower()\<close> on the Latin-1 range (upper-case letters are 65--90 and 192--222 but 215).\<close>

definition lower_char :: "char \<Rightarrow> char" where
  "lower_char c =
     (let n = (of_char c :: nat) in
      if (65 \<le> n \<and> n \<le> 90) \<or> (192 \<le> n \<and> n \<le> 222 \<and> n \<noteq> 215) then char_of (n + 32) else c)"

definition json_lower :: "json \<Rightarrow> auth_exc + string" where
  "json_lower v = (case v of JStr s \<Rightarrow> Inr (map lower_char s) | _ \<Rightarrow> Inl (PyExc AttributeError))"

text \<open>\<^verbatim>\<open>s.split('/')\<close>.\<close>

fun py_split :: "char \<Rightarrow> string \<Rightarrow> string list" where
  "py_split c [] = [[]]"
| "py_split c (x # xs) = (let r = py_split c xs in if x = c then [] # r else (x # hd r) # tl r)"

section \<open>Filters of the woob library\<close>

text \<open>
  \<^verbatim>\<open>Dict('a/b')\<close> walks the path; in a list a component is converted by \<^verbatim>\<open>int()\<close>
  (which raises \<^verbatim>\<open>ValueError\<close> on a name), and a \<^verbatim>\<open>KeyError\<close>, \<^verbatim>\<open>IndexError\<close> or
  \<^verbatim>\<open>TypeError\<close> on the way means not found (\<open>None\<close>). The conversion accepts an
  optional sign and decimal digits.
\<close>

definition int_digits :: "string \<Rightarrow> nat" where
  "int_digits ds = foldl (\<lambda>n c. 10 * n + (of_char c - 48)) 0 ds"

definition py_int_key :: "string \<Rightarrow> int option" where
  "py_int_key s =
     (let (sg, ds) = (case s of CHR ''-'' # r \<Rightarrow> (-1, r) | CHR ''+'' # r \<Rightarrow> (1, r) | _ \<Rightarrow> (1, s)) in
      if ds \<noteq> [] \<and> list_all py_digit ds then Some (sg * int (int_digits ds)) else None)"

fun dict_select :: "string list \<Rightarrow> json \<Rightarrow> auth_exc + json option" where
  "dict_select [] v = Inr (Some v)"
| "dict_select (k # ks) v =
     (case v of
        JList xs \<Rightarrow>
          (case py_int_key k of
             None \<Rightarrow> Inl (PyExc ValueError)
           | Some i \<Rightarrow> (case py_index xs i of Inl _ \<Rightarrow> Inr None | Inr w \<Rightarrow> dict_select ks w))
      | _ \<Rightarrow> (case json_getitem v (JStr k) of Inl _ \<Rightarrow> Inr None | Inr w \<Rightarrow> dict_select ks w))"

definition dict_path :: "string \<Rightarrow> json \<Rightarrow> auth_exc + json option" where
  "dict_path p doc = dict_select (py_split CHR ''/'' p) doc"

text \<open>\<^verbatim>\<open>Dict(p)\<close> without default, and \<^verbatim>\<open>Dict(p, default=d)\<close>.\<close>

definition dict_req :: "string \<Rightarrow> json \<Rightarrow> auth_exc + json" where
  "dict_req p doc = ebind (dict_path p doc) (\<lambda>r. case r of Some v \<Rightarrow> Inr v | None \<Rightarrow> Inl ItemNotFound)"

definition dict_or :: "string \<Rightarrow> json \<Rightarrow> json \<Rightarrow> auth_exc + json" where
  "dict_or p d doc = ebind (dict_path p doc) (\<lambda>r. Inr (case r of Some v \<Rightarrow> v | None \<Rightarrow> d))"

text \<open>
  \<^verbatim>\<open>Coalesce(f1, f2, default=d)\<close> evaluates every filter, then returns the first truthy
  value, or the default.
\<close>

fun coalesce :: "json list \<Rightarrow> json \<Rightarrow> json" where
  "coalesce [] d = d"
| "coalesce (v # vs) d = (if truthy v then v else coalesce vs d)"

text \<open>\<^verbatim>\<open>MapIn(doc, map).filter(txt)\<close>: the value of the first key of the map that is a substring of \<open>txt\<close>.\<close>

fun map_in :: "(string \<times> 'a) list \<Rightarrow> string \<Rightarrow> auth_exc + 'a" where
  "map_in [] txt = Inl ItemNotFound"
| "map_in ((k, v) # m) txt = (if sublist k txt then Inr v else map_in m txt)"

section \<open>Properties of the JSON operations\<close>

lemma coalesce_truthy: "coalesce vs d = v \<Longrightarrow> truthy v \<or> v = d"
  by (induction vs) (auto split: if_splits)

lemma truthy_py_len: "truthy u \<Longrightarrow> py_len u = Inr n \<Longrightarrow> 0 < n"
  by (cases u) (auto simp: py_len_def jkeys_def split: if_splits)

lemma jkeys_single_iter: "jkeys kvs = [k] \<Longrightarrow> py_iter (JObj kvs) = Inr [JStr k] \<and> py_len (JObj kvs) = Inr 1"
  by (simp add: py_iter_def py_len_def)

lemma filter_Cons_mem: "filter P xs = t # ys \<Longrightarrow> t \<in> set xs"
  by (metis filter_is_subset list.set_intros(1) subsetD)

lemma map_in_value: "map_in m txt = Inr v \<Longrightarrow> v \<in> snd ` set m"
  by (induction rule: map_in.induct) (auto split: if_splits)

end
