(* ===== verification/CaisseAuth.thy ===== *)
theory CaisseAuth
  imports JsonValue
begin

text \<open>
  The JSON pages of the login of \<^verbatim>\<open>src/modules/caissedepargne/pages.py\<close> (lines 90--400):
  \<^verbatim>\<open>LoginPage\<close>, \<^verbatim>\<open>ConfigPage\<close>, \<^verbatim>\<open>AuthenticationMethodPage\<close> (the validation units,
  the phase and its security level, the classification of the authentication errors),
  \<^verbatim>\<open>AuthenticationStepPage\<close>, the token pages and \<^verbatim>\<open>LoginApi\<close> (the choice of the space
  to log in to). A page's \<^verbatim>\<open>self.doc\<close> is the document \<^verbatim>\<open>json.loads\<close> returned; each
  method is a function of it returning its value or the exception it raises.

  The JSON values, Python's operations on them and the woob filters \<^verbatim>\<open>Dict\<close>,
  \<^verbatim>\<open>Coalesce\<close> and \<^verbatim>\<open>MapIn\<close> are those of \<open>JsonValue\<close>.
  \<^verbatim>\<open>datetime.strptime\<close> followed by \<^verbatim>\<open>str\<close> is a parameter \<open>date\<close> of the model
  (\<open>None\<close> when it raises \<^verbatim>\<open>ValueError\<close>). JSON numbers are integers here: no method
  of these pages reads a float.
\<close>

section \<open>LoginPage and ConfigPage\<close>

definition msg_unavailable :: string where
  "msg_unavailable = ''Le service est momentan'' @ [CHR 0xE9] @ ''ment indisponible''"

text \<open>\<^verbatim>\<open>LoginPage.on_load\<close>.\<close>

definition login_on_load :: "json \<Rightarrow> auth_exc + unit" where
  "login_on_load doc =
     ebind (py_get ''error'' JNull doc) (\<lambda>msg.
       if truthy msg then ebind (py_in msg_unavailable msg) (\<lambda>b. if b then Inl (BrowserUnavailable msg) else Inr ())
       else Inr ())"

text \<open>The four messages \<^verbatim>\<open>get_wrongpass_message\<close> recognises, in the order it tests them.\<close>

definition wrongpass_messages :: "string list" where
  "wrongpass_messages =
     [''Nous n'' @ [CHR 0x27] @ ''avons pas r'' @ [CHR 0xE9] @ ''ussi '' @ [CHR 0xE0] @ '' vous authentifier'',
      ''abonnement est bloqu'' @ [CHR 0xE9],
      ''num'' @ [CHR 0xE9] @ ''ro d'' @ [CHR 0x27] @ ''usager est obligatoire'',
      ''D'' @ [CHR 0xE9] @ ''l'' @ [CHR 0xE9] @ ''gu'' @ [CHR 0xE9] @ '' inexistant'']"

text \<open>\<^verbatim>\<open>a in m or b in m or ...\<close>, stopping at the first test that holds.\<close>

fun any_in :: "string list \<Rightarrow> json \<Rightarrow> auth_exc + bool" where
  "any_in [] v = Inr False"
| "any_in (k # ks) v = ebind (py_in k v) (\<lambda>b. if b then Inr True else any_in ks v)"

definition get_wrongpass_message :: "json \<Rightarrow> auth_exc + json" where
  "get_wrongpass_message doc =
     ebind (dict_req ''error'' doc) (\<lambda>msg.
       ebind (any_in wrongpass_messages msg) (\<lambda>b.
         if b then Inr msg else Inl (AssertionError ''Other error message to catch on LoginPage'' [])))"

text \<open>\<^verbatim>\<open>ConfigPage.get_continue_url(cdetab, user_type)\<close>.\<close>

definition get_continue_url :: "json \<Rightarrow> string \<Rightarrow> string \<Rightarrow> auth_exc + json" where
  "get_continue_url doc cdetab user_type =
     ebind (py_item ''continueUrls'' doc) (\<lambda>c. ebind (py_item ''dei'' c) (\<lambda>d.
       ebind (py_get cdetab JNull d) (\<lambda>u.
         if \<not> truthy u then Inl (BrowserIncorrectPassword None) else py_item user_type u)))"

section \<open>AuthenticationMethodPage\<close>

text \<open>\<^verbatim>\<open>IS_SCA_CODE\<close>: the security levels known to need a strong authentication or not.\<close>

definition is_sca_code :: "(json \<times> bool) list" where
  "is_sca_code =
     [(JNull, False), (JStr ''101'', False), (JStr ''103'', False), (JStr ''105'', False),
      (JStr ''245'', False), (JStr ''261'', True), (JStr ''263'', True), (JStr ''265'', True),
      (JStr ''267'', True)]"

text \<open>The property \<^verbatim>\<open>logged\<close>: the only key of \<^verbatim>\<open>context\<close> names a transfer or a new recipient.\<close>

definition logged :: "json \<Rightarrow> auth_exc + bool" where
  "logged doc =
     ebind (py_get ''context'' (JObj []) doc) (\<lambda>ctx. ebind (py_iter ctx) (\<lambda>ks.
       case ks of
         [JStr c] \<Rightarrow> Inr (prefix ''VIR_'' c \<or> c = ''AJOUT_CPT'')
       | [_] \<Rightarrow> Inl (PyExc AttributeError)
       | _ \<Rightarrow> Inr False))"

text \<open>\<^verbatim>\<open>get_validation_id\<close>; \<open>None\<close> is \<^verbatim>\<open>NotAvailable\<close>.\<close>

definition get_validation_id :: "json \<Rightarrow> auth_exc + json option" where
  "get_validation_id doc = dict_path ''id'' doc"

definition get_wrong_pre_login_status :: "json \<Rightarrow> auth_exc + json option" where
  "get_wrong_pre_login_status doc =
     ebind (dict_or ''step/validationUnits'' JNull doc) (\<lambda>a.
       if truthy a then Inr None
       else ebind (dict_or ''validationUnits'' JNull doc) (\<lambda>b.
         if truthy b then Inr None
         else ebind (py_item ''response'' doc) (\<lambda>r. ebind (py_item ''status'' r) (\<lambda>st.
           if st = JStr ''AUTHENTICATION_FAILED'' then Inr (Some st)
           else Inl (AssertionError ''Unhandled status when checking if authentication method is informed: %s'' [st])))))"

definition get_saml_response :: "json \<Rightarrow> auth_exc + json" where
  "get_saml_response doc =
     ebind (py_item ''response'' doc) (\<lambda>r. ebind (py_get ''saml2_post'' (JObj []) r) (py_get ''samlResponse'' (JStr [])))"

text \<open>\<^verbatim>\<open>_safe_validation_units\<close>: the first unit of the list, if any.\<close>

definition safe_validation_units :: "json \<Rightarrow> auth_exc + json option" where
  "safe_validation_units doc =
     ebind (dict_or ''step/validationUnits'' JNull doc) (\<lambda>a.
     ebind (dict_or ''validationUnits'' JNull doc) (\<lambda>b.
       let units = coalesce [a, b] JNull in
       if units = JNull then Inr None
       else ebind (py_len units) (\<lambda>n.
         if 0 < n then ebind (json_getitem units (JInt 0)) (\<lambda>u. Inr (Some u)) else Inr None)))"

definition validation_units :: "json \<Rightarrow> auth_exc + json" where
  "validation_units doc =
     ebind (safe_validation_units doc) (\<lambda>r.
       case r of
         None \<Rightarrow> Inl (AssertionError ''A validation unit exist but it has no required operation.'' [])
       | Some u \<Rightarrow> Inr u)"

definition has_validation_unit :: "json \<Rightarrow> auth_exc + bool" where
  "has_validation_unit doc = ebind (safe_validation_units doc) (\<lambda>r. Inr (r \<noteq> None))"

text \<open>\<^verbatim>\<open>validation_unit_id\<close>: the only key of the unit (the property is evaluated twice).\<close>

definition validation_unit_id :: "json \<Rightarrow> auth_exc + json" where
  "validation_unit_id doc =
     ebind (validation_units doc) (\<lambda>u. ebind (py_len u) (\<lambda>n.
       if n \<noteq> 1 then Inl (AssertionError ''There should be exactly one authentication operation required.'' [])
       else ebind (validation_units doc) (\<lambda>u'. ebind (py_iter u') (\<lambda>ks. Inr (hd ks)))))"

definition get_authentication_method_info :: "json \<Rightarrow> auth_exc + json" where
  "get_authentication_method_info doc =
     ebind (validation_units doc) (\<lambda>u. ebind (validation_unit_id doc) (\<lambda>k.
       ebind (json_getitem u k) (\<lambda>m. json_getitem m (JInt 0))))"

definition phase :: "json \<Rightarrow> auth_exc + json" where
  "phase doc =
     ebind (dict_or ''step/phase'' JNull doc) (\<lambda>a.
     ebind (dict_or ''phase'' JNull doc) (\<lambda>b. Inr (coalesce [a, b] (JObj []))))"

definition is_other_authentication_method :: "json \<Rightarrow> auth_exc + json" where
  "is_other_authentication_method doc = ebind (phase doc) (py_get ''fallbackFactorAvailable'' JNull)"

definition security_level :: "json \<Rightarrow> auth_exc + json" where
  "security_level doc = ebind (phase doc) (py_get ''securityLevel'' JNull)"

text \<open>The result of \<^verbatim>\<open>is_sca_expected\<close>: \<^verbatim>\<open>True\<close>, \<^verbatim>\<open>False\<close> or \<^verbatim>\<open>'unknown'\<close>.\<close>

datatype sca = SCA bool | SCAUnknown

definition is_sca_expected :: "json \<Rightarrow> auth_exc + sca" where
  "is_sca_expected doc =
     ebind (security_level doc) (\<lambda>l.
       if \<not> hashable l then Inl (PyExc TypeError)
       else Inr (case map_of is_sca_code l of Some b \<Rightarrow> SCA b | None \<Rightarrow> SCAUnknown))"

definition get_authentication_method_type :: "json \<Rightarrow> auth_exc + json" where
  "get_authentication_method_type doc = ebind (get_authentication_method_info doc) (py_item ''type'')"

definition msg_locked :: string where
  "msg_locked = ''L'' @ [CHR 0x27] @ ''acc'' @ [CHR 0xE8] @ ''s '' @ [CHR 0xE0] @ '' votre espace a '' @
     [CHR 0xE9] @ ''t'' @ [CHR 0xE9] @ '' bloqu'' @ [CHR 0xE9] @ '' temporairement suite '' @ [CHR 0xE0] @
     '' plusieurs essais infructueux.''"

definition msg_wrong_ids :: string where
  "msg_wrong_ids = ''Les identifiants renseign'' @ [CHR 0xE9] @ ''s sont incorrects.''"

definition msg_banned :: string where
  "msg_banned = ''Vous avez demand'' @ [CHR 0xE9] @ '' un trop grand nombre de SMS en un temps rapproch'' @
     [CHR 0xE9] @ ''. Merci de r'' @ [CHR 0xE9] @ ''essayer dans 10 minutes.''"

definition msg_invalid_otp :: string where
  "msg_invalid_otp = ''Le code que vous avez renseign'' @ [CHR 0xE9] @ '' n'' @ [CHR 0x27] @ ''est pas valide''"

text \<open>\<^verbatim>\<open>login_errors(error)\<close>; \<open>date\<close> is \<^verbatim>\<open>str(datetime.strptime(s, '%Y-%m-%dT%H:%M:%SZ'))\<close>.\<close>

definition login_errors :: "(string \<Rightarrow> string option) \<Rightarrow> json \<Rightarrow> json \<Rightarrow> auth_exc + unit" where
  "login_errors date doc err =
     (if err = JStr ''AUTHENTICATION_LOCKED'' then
        ebind (py_in ''response'' doc) (\<lambda>has.
        ebind (if has then ebind (py_item ''response'' doc) (py_get ''unlockingDate'' JNull) else Inr (JBool False)) (\<lambda>u.
          if truthy u then
            ebind (py_item ''response'' doc) (\<lambda>r. ebind (py_item ''unlockingDate'' r) (\<lambda>d.
              case d of
                JStr s \<Rightarrow>
                  (case date s of
                     Some t \<Rightarrow> Inl (BrowserIncorrectPassword (Some (py_join '' '' [msg_locked, ''Il sera de nouveau disponible le '' @ t])))
                   | None \<Rightarrow> Inl (PyExc ValueError))
              | _ \<Rightarrow> Inl (PyExc TypeError)))
          else Inl (BrowserIncorrectPassword (Some msg_locked))))
      else if err = JStr ''FAILED_AUTHENTICATION'' then Inl (BrowserIncorrectPassword (Some msg_wrong_ids))
      else if err = JStr ''AUTHENTICATION_FAILED'' then Inl (BrowserUserBanned msg_banned)
      else if err = JStr ''ENROLLMENT'' then Inl BrowserPasswordExpired
      else Inr ())"

definition transfer_errors :: "json \<Rightarrow> auth_exc + unit" where
  "transfer_errors err =
     (if err = JStr ''FAILED_AUTHENTICATION'' then Inl (TransferInvalidOTP msg_invalid_otp)
      else if err = JStr ''AUTHENTICATION_CANCELED'' then
        Inl (TransferError (''Le virement a '' @ [CHR 0xE9] @ ''t'' @ [CHR 0xE9] @ '' annul'' @ [CHR 0xE9] @
                            ''e via l'' @ [CHR 0x27] @ ''application mobile.''))
      else Inr ())"

definition recipient_errors :: "json \<Rightarrow> auth_exc + unit" where
  "recipient_errors err =
     (if err = JStr ''FAILED_AUTHENTICATION'' then Inl (RecipientInvalidOTP msg_invalid_otp)
      else if err = JStr ''AUTHENTICATION_CANCELED'' then
        Inl (AddRecipientBankError (''L'' @ [CHR 0x27] @ ''ajout a '' @ [CHR 0xE9] @ ''t'' @ [CHR 0xE9] @
                                    '' annul'' @ [CHR 0xE9] @ ''e via l'' @ [CHR 0x27] @ ''application mobile.''))
      else Inr ())"

text \<open>The status \<^verbatim>\<open>check_errors\<close> reads, from the first of its three places that the document has.\<close>

definition check_result :: "json \<Rightarrow> string \<Rightarrow> auth_exc + json" where
  "check_result doc feature =
     ebind (py_in ''response'' doc) (\<lambda>r1.
       if r1 then ebind (py_item ''response'' doc) (py_item ''status'')
       else ebind (py_in ''step'' doc) (\<lambda>r2.
         if r2 then ebind (py_item ''step'' doc) (\<lambda>s. ebind (py_item ''phase'' s) (py_item ''state''))
         else ebind (py_in ''phase'' doc) (\<lambda>r3.
           ebind (if r3 then ebind (get_authentication_method_type doc) (\<lambda>t.
                    Inr (t \<in> set [JStr ''PASSWORD_ENROLL'', JStr ''PASSWORD'', JStr ''SMS'', JStr ''EMV'']))
                  else Inr False) (\<lambda>r4.
           if r4 then
             ebind (py_item ''phase'' doc) (\<lambda>p. ebind (py_item ''state'' p) (\<lambda>st.
               ebind (dict_or ''phase/previousResult'' JNull doc) (\<lambda>pr. Inr (if truthy pr then pr else st))))
           else Inl (AssertionError ''Unexpected response during %s authentication'' [JStr feature])))))"

text \<open>\<^verbatim>\<open>FEATURES_ERRORS\<close>.\<close>

definition features_errors :: "(string \<Rightarrow> string option) \<Rightarrow> json \<Rightarrow> (string \<times> (json \<Rightarrow> auth_exc + unit)) list" where
  "features_errors date doc =
     [(''login'', login_errors date doc), (''transfer'', transfer_errors), (''recipient'', recipient_errors)]"

definition check_errors :: "(string \<Rightarrow> string option) \<Rightarrow> json \<Rightarrow> string \<Rightarrow> auth_exc + unit" where
  "check_errors date doc feature =
     ebind (check_result doc feature) (\<lambda>result.
       if result \<in> set [JStr ''AUTHENTICATION'', JStr ''AUTHENTICATION_SUCCESS''] then Inr ()
       else case map_of (features_errors date doc) feature of
         None \<Rightarrow> Inl (PyExc KeyError)
       | Some h \<Rightarrow> ebind (h result) (\<lambda>_.
           Inl (AssertionError ''Error during %s authentication is not handled yet: %s'' [JStr feature, result])))"

section \<open>The step and token pages\<close>

text \<open>\<^verbatim>\<open>AuthenticationStepPage.get_redirect_data\<close>; \<open>None\<close> is \<^verbatim>\<open>NotAvailable\<close>.\<close>

definition get_redirect_data :: "json \<Rightarrow> auth_exc + json option" where
  "get_redirect_data doc = dict_path ''response/saml2_post'' doc"

definition token_access_token :: "json \<Rightarrow> auth_exc + json" where
  "token_access_token doc = dict_req ''access_token'' doc"

definition login_tokens_access_token :: "json \<Rightarrow> auth_exc + json" where
  "login_tokens_access_token doc = dict_req ''parameters/access_token'' doc"

definition login_tokens_id_token :: "json \<Rightarrow> auth_exc + json" where
  "login_tokens_id_token doc = dict_req ''parameters/id_token'' doc"

section \<open>LoginApi\<close>

text \<open>\<^verbatim>\<open>LoginApi.user_types\<close>, in its order.\<close>

definition user_types :: "(string \<times> string) list" where
  "user_types =
     [(''abonnement particulier'', ''part''), (''part'', ''part''),
      (''abonnement personne prot'' @ [CHR 0xE9] @ ''g'' @ [CHR 0xE9], ''pp''),
      (''abonnement personne morale (hors sp)'', ''ent''), (''abonnement ei(pro)'', ''pro'')]"

definition get_cdetab :: "json \<Rightarrow> auth_exc + json" where
  "get_cdetab doc = dict_req ''characteristics/bankId'' doc"

definition subscribe_items :: "json \<Rightarrow> auth_exc + json list" where
  "subscribe_items doc =
     ebind (py_item ''characteristics'' doc) (\<lambda>c. ebind (py_item ''subscribeTypeItems'' c) py_iter)"

definition is_auth_type_available :: "json \<Rightarrow> string \<Rightarrow> auth_exc + bool" where
  "is_auth_type_available doc choice =
     (case [k. (k, v) \<leftarrow> user_types, v = choice] of
        [] \<Rightarrow> Inl (PyExc IndexError)
      | user_type # _ \<Rightarrow>
          ebind (subscribe_items doc) (\<lambda>items.
          ebind (py_mapM (\<lambda>a. ebind (py_get ''label'' JNull a) json_lower) items) (\<lambda>available.
            Inr (user_type \<in> set available))))"

text \<open>\<^verbatim>\<open>LoginApi.get_connection_type\<close>; \<open>nuser\<close> is \<^verbatim>\<open>self.browser.nuser\<close>, false when empty.\<close>

definition get_connection_type :: "string \<Rightarrow> json \<Rightarrow> auth_exc + string" where
  "get_connection_type nuser doc =
     ebind (subscribe_items doc) (\<lambda>items.
     ebind (py_mapM (\<lambda>sub. ebind (py_item ''label'' sub) (\<lambda>l. ebind (json_lower l) (map_in user_types))) items) (\<lambda>subs.
       if length subs = 2 then
         (if ''part'' \<in> set subs then
            (if nuser = [] then Inr ''part''
             else case filter (\<lambda>s. s \<noteq> ''part'') subs of [] \<Rightarrow> Inl (PyExc IndexError) | s # _ \<Rightarrow> Inr s)
          else Inl (AssertionError ''There are 2 spaces without part'' []))
       else if 2 < length subs then
         Inl (AssertionError ''There are 3 spaces, need to check how to choose the good one'' [])
       else case subs of [] \<Rightarrow> Inl (PyExc IndexError) | s # _ \<Rightarrow> Inr s))"

text \<open>A document of \<^verbatim>\<open>LoginApi\<close> listing subscriptions with the given labels.\<close>

definition subscriptions :: "string list \<Rightarrow> json" where
  "subscriptions ls =
     JObj [(''characteristics'', JObj [(''subscribeTypeItems'', JList (map (\<lambda>l. JObj [(''label'', JStr l)]) ls))])]"

text \<open>A document of an authentication step asking for an SMS code.\<close>

definition sms_step :: json where
  "sms_step =
     JObj [(''step'', JObj [(''validationUnits'', JList [JObj [(''u1'', JList [JObj [(''type'', JStr ''SMS'')]])]]),
                             (''phase'', JObj [(''state'', JStr ''AUTHENTICATION''), (''securityLevel'', JStr ''265'')])])]"

section \<open>Properties of the authentication pages\<close>

text \<open>
  The test \<^verbatim>\<open>len(units) > 0\<close> of \<^verbatim>\<open>_safe_validation_units\<close> never fails:
  \<^verbatim>\<open>Coalesce\<close> returns only truthy values or its default \<^verbatim>\<open>None\<close>, so there is no unit
  exactly when both places are empty.
\<close>

lemma safe_validation_units_None:
  assumes "dict_or ''step/validationUnits'' JNull doc = Inr a" "dict_or ''validationUnits'' JNull doc = Inr b"
  shows "safe_validation_units doc = Inr None \<longleftrightarrow> \<not> truthy a \<and> \<not> truthy b"
proof -
  let ?u = "coalesce [a, b] JNull"
  have "truthy ?u \<or> ?u = JNull" using coalesce_truthy [of "[a, b]" JNull ?u] by simp
  then show ?thesis using assms truthy_py_len [of ?u]
    by (auto simp: safe_validation_units_def ebind_eq_Inr split: if_splits sum.splits)
qed

lemma validation_unit_id_single:
  "validation_units doc = Inr (JObj kvs) \<Longrightarrow> jkeys kvs = [k] \<Longrightarrow> validation_unit_id doc = Inr (JStr k)"
  by (simp add: validation_unit_id_def jkeys_single_iter)

lemma logged_single:
  "jlookup kvs ''context'' = Some (JObj c) \<Longrightarrow> jkeys c = [k] \<Longrightarrow>
     logged (JObj kvs) = Inr (prefix ''VIR_'' k \<or> k = ''AJOUT_CPT'')"
  by (simp add: logged_def py_get_def py_iter_def)

lemma check_errors_unknown_feature:
  "check_result doc feature = Inr r \<Longrightarrow> r \<notin> set [JStr ''AUTHENTICATION'', JStr ''AUTHENTICATION_SUCCESS''] \<Longrightarrow>
     feature \<notin> set [''login'', ''transfer'', ''recipient''] \<Longrightarrow> check_errors date doc feature = Inl (PyExc KeyError)"
  by (simp add: check_errors_def features_errors_def)

text \<open>
  C34. \<^verbatim>\<open>check_errors\<close> returns normally exactly when the status it reads is
  \<^verbatim>\<open>AUTHENTICATION\<close> or \<^verbatim>\<open>AUTHENTICATION_SUCCESS\<close>: every other status ends in the
  feature's exception, an \<^verbatim>\<open>AssertionError\<close> or a \<^verbatim>\<open>KeyError\<close>, even when the
  feature's handler does not recognise it.
\<close>

theorem check_errors_success_only:
  "check_errors date doc feature = Inr () \<longleftrightarrow>
     (\<exists>r \<in> {JStr ''AUTHENTICATION'', JStr ''AUTHENTICATION_SUCCESS''}. check_result doc feature = Inr r)"
  by (cases "check_result doc feature")
     (auto simp: check_errors_def ebind_eq_Inr split: option.splits)

theorem check_errors_success_only_witness:
  "check_errors (\<lambda>_. None) sms_step ''login'' = Inr () \<and>
   (\<exists>r \<in> {JStr ''AUTHENTICATION'', JStr ''AUTHENTICATION_SUCCESS''}. check_result sms_step ''login'' = Inr r)"
proof -
  have r: "check_result sms_step ''login'' = Inr (JStr ''AUTHENTICATION'')" by code_simp
  then show ?thesis using check_errors_success_only [of "\<lambda>_. None" sms_step "''login''"] by auto
qed

text \<open>
  \<^verbatim>\<open>is_sca_expected\<close> follows the table \<^verbatim>\<open>IS_SCA_CODE\<close>: the levels 261, 263, 265
  and 267 need a strong authentication, no level and 101, 103, 105 and 245 do not, and
  every other level is \<^verbatim>\<open>'unknown'\<close>.
\<close>

lemma is_sca_expected_table:
  "security_level doc = Inr l \<Longrightarrow> hashable l \<Longrightarrow>
     is_sca_expected doc =
       Inr (if l \<in> {JStr ''261'', JStr ''263'', JStr ''265'', JStr ''267''} then SCA True
            else if l \<in> {JNull, JStr ''101'', JStr ''103'', JStr ''105'', JStr ''245''} then SCA False
            else SCAUnknown)"
  by (simp add: is_sca_expected_def is_sca_code_def)

text \<open>
  C36. The space \<^verbatim>\<open>get_connection_type\<close> chooses from the spaces its subscriptions map
  to: the only one when there is one; with two, one of them \<^verbatim>\<open>'part'\<close>, the particular
  space for a user without \<^verbatim>\<open>nuser\<close> and the other space for a user with one.
\<close>

theorem get_connection_type_user_type:
  assumes "subscribe_items doc = Inr items"
    and "py_mapM (\<lambda>sub. ebind (py_item ''label'' sub) (\<lambda>l. ebind (json_lower l) (map_in user_types))) items = Inr subs"
  shows "(subs = [sp] \<longrightarrow> get_connection_type nuser doc = Inr sp) \<and>
         (subs = [x, y] \<and> ''part'' \<in> {x, y} \<and> x \<noteq> y \<longrightarrow>
            get_connection_type nuser doc = Inr (if nuser = [] then ''part'' else if x = ''part'' then y else x))"
  using assms by (auto simp: get_connection_type_def)

theorem get_connection_type_user_type_witness:
  "subscribe_items (subscriptions [''Abonnement Particulier'', ''Abonnement EI(PRO)'']) =
     Inr [JObj [(''label'', JStr ''Abonnement Particulier'')], JObj [(''label'', JStr ''Abonnement EI(PRO)'')]] \<and>
   py_mapM (\<lambda>sub. ebind (py_item ''label'' sub) (\<lambda>l. ebind (json_lower l) (map_in user_types)))
     [JObj [(''label'', JStr ''Abonnement Particulier'')], JObj [(''label'', JStr ''Abonnement EI(PRO)'')]] = Inr [''part'', ''pro''] \<and>
   get_connection_type ''u'' (subscriptions [''Abonnement Particulier'', ''Abonnement EI(PRO)'']) = Inr ''pro''"
proof -
  have i: "subscribe_items (subscriptions [''Abonnement Particulier'', ''Abonnement EI(PRO)'']) =
     Inr [JObj [(''label'', JStr ''Abonnement Particulier'')], JObj [(''label'', JStr ''Abonnement EI(PRO)'')]]"
    by code_simp
  have m: "py_mapM (\<lambda>sub. ebind (py_item ''label'' sub) (\<lambda>l. ebind (json_lower l) (map_in user_types)))
     [JObj [(''label'', JStr ''Abonnement Particulier'')], JObj [(''label'', JStr ''Abonnement EI(PRO)'')]] = Inr [''part'', ''pro'']"
    by code_simp
  have "get_connection_type ''u'' (subscriptions [''Abonnement Particulier'', ''Abonnement EI(PRO)'']) = Inr ''pro''"
    using get_connection_type_user_type [where x = "''part''" and y = "''pro''" and nuser = "''u''", OF i m] by simp
  with i m show ?thesis by blast
qed

text \<open>
  C37. \<^verbatim>\<open>get_connection_type\<close> fails with an \<^verbatim>\<open>IndexError\<close> exactly in two cases: the
  document lists no subscription (\<^verbatim>\<open>user_subscriptions[0]\<close>), or it lists two that both
  map to \<^verbatim>\<open>'part'\<close> for a user with \<^verbatim>\<open>nuser\<close>, where the list of the other spaces is empty.
\<close>

theorem get_connection_type_no_subscription:
  assumes "subscribe_items doc = Inr items"
    and "py_mapM (\<lambda>sub. ebind (py_item ''label'' sub) (\<lambda>l. ebind (json_lower l) (map_in user_types))) items = Inr subs"
  shows "get_connection_type nuser doc = Inl (PyExc IndexError) \<longleftrightarrow>
         subs = [] \<or> (subs = [''part'', ''part''] \<and> nuser \<noteq> [])"
proof -
  have f: "filter (\<lambda>s. s \<noteq> ''part'') [a, b] = [] \<longleftrightarrow> a = ''part'' \<and> b = ''part''" for a b :: string
    by auto
  show ?thesis
  proof (cases subs rule: remdups_adj.cases)
    case (3 a b xs)
    then show ?thesis using assms f by (cases xs) (auto simp: get_connection_type_def split: list.splits)
  qed (use assms in \<open>auto simp: get_connection_type_def\<close>)
qed

theorem get_connection_type_no_subscription_witness:
  "subscribe_items (subscriptions []) = Inr [] \<and>
   py_mapM (\<lambda>sub. ebind (py_item ''label'' sub) (\<lambda>l. ebind (json_lower l) (map_in user_types))) [] = Inr [] \<and>
   get_connection_type ''u'' (subscriptions []) = Inl (PyExc IndexError)"
proof -
  have i: "subscribe_items (subscriptions []) = Inr []" by code_simp
  have m: "py_mapM (\<lambda>sub. ebind (py_item ''label'' sub) (\<lambda>l. ebind (json_lower l) (map_in user_types))) [] = Inr []"
    by simp
  have "get_connection_type ''u'' (subscriptions []) = Inl (PyExc IndexError)"
    using get_connection_type_no_subscription [where nuser = "''u''", OF i m] by simp
  with i m show ?thesis by blast
qed

text \<open>
  With two subscriptions that both map to \<^verbatim>\<open>'part'\<close> and a \<^verbatim>\<open>nuser\<close>, the list of
  the other spaces is empty and \<^verbatim>\<open>get_connection_type\<close> fails with an \<^verbatim>\<open>IndexError\<close>;
  and a subscription labelled \<^verbatim>\<open>'Part'\<close> is the space \<^verbatim>\<open>'part'\<close> for
  \<^verbatim>\<open>get_connection_type\<close> but not for \<^verbatim>\<open>is_auth_type_available\<close>, which looks only
  for the first key of that type.
\<close>

lemma get_connection_type_two_part:
  "get_connection_type ''u'' (subscriptions [''Abonnement Particulier'', ''Part'']) = Inl (PyExc IndexError)"
  by code_simp

lemma part_label_disagreement:
  "get_connection_type [] (subscriptions [''Part'']) = Inr ''part'' \<and>
   is_auth_type_available (subscriptions [''Part'']) ''part'' = Inr False"
  by code_simp

end
