(* ===== verification/HtmlDoc.thy ===== *)
theory HtmlDoc
  imports TextClean
begin

text \<open>
  The part of lxml the site pages use, on the document tree \<open>node\<close> of the prelude:
  children and descendants of an element in document order, the elements of a tag,
  attributes (\<^verbatim>\<open>el.attrib.get\<close>), the leading text \<^verbatim>\<open>el.text\<close>, the previous sibling
  element \<^verbatim>\<open>el.getprevious()\<close>, and \<^verbatim>\<open>CleanText('.')\<close> of an element or of a
  selection. This is lxml's behaviour, not code of the repository; the site theories
  write each XPath expression of the source with these functions.
\<close>

fun node_children :: "node \<Rightarrow> node list" where
  "node_children (Elem t as cs) = cs"
| "node_children (Text s) = []"

fun is_tag :: "string \<Rightarrow> node \<Rightarrow> bool" where
  "is_tag t (Elem t' as cs) = (t' = t)"
| "is_tag t (Text s) = False"

fun is_elem :: "node \<Rightarrow> bool" where
  "is_elem (Elem t as cs) = True"
| "is_elem (Text s) = False"

text \<open>\<^verbatim>\<open>el.attrib.get(a)\<close>.\<close>

fun attr_of :: "string \<Rightarrow> node \<Rightarrow> string option" where
  "attr_of a (Elem t as cs) = map_of as a"
| "attr_of a (Text s) = None"

text \<open>\<^verbatim>\<open>el.text\<close>: the text before the first child element, \<^verbatim>\<open>None\<close> when there is none.\<close>

fun el_text :: "node \<Rightarrow> string option" where
  "el_text (Elem t as (Text s # cs)) = Some s"
| "el_text _ = None"

text \<open>The element and all its descendants, in document order (\<^verbatim>\<open>descendant-or-self\<close>).\<close>

fun descendants :: "node \<Rightarrow> node list" where
  "descendants (Text s) = [Text s]"
| "descendants (Elem t as cs) = Elem t as cs # concat (map descendants cs)"

text \<open>\<^verbatim>\<open>./t\<close> and \<^verbatim>\<open>el.findall('t')\<close>; \<^verbatim>\<open>.//t\<close>; \<^verbatim>\<open>//t\<close> from the document root.\<close>

definition child_elems :: "string \<Rightarrow> node \<Rightarrow> node list" where
  "child_elems t n = filter (is_tag t) (node_children n)"

definition desc_elems :: "string \<Rightarrow> node \<Rightarrow> node list" where
  "desc_elems t n = filter (is_tag t) (concat (map descendants (node_children n)))"

definition doc_elems :: "string \<Rightarrow> node \<Rightarrow> node list" where
  "doc_elems t doc = filter (is_tag t) (descendants doc)"

text \<open>\<^verbatim>\<open>el.find('.//t')\<close>: the first descendant of the tag.\<close>

definition find_desc :: "string \<Rightarrow> node \<Rightarrow> node option" where
  "find_desc t n = (case desc_elems t n of [] \<Rightarrow> None | x # _ \<Rightarrow> Some x)"

text \<open>
  Every element of the document with its previous sibling element
  (\<^verbatim>\<open>getprevious()\<close>, which skips text), the root having none.
\<close>

primrec desc_prev :: "node \<Rightarrow> node option \<Rightarrow> (node \<times> node option) list"
  and desc_prev_list :: "node option \<Rightarrow> node list \<Rightarrow> (node \<times> node option) list" where
  "desc_prev (Text s) p = [(Text s, p)]"
| "desc_prev (Elem t as cs) p = (Elem t as cs, p) # desc_prev_list None cs"
| "desc_prev_list p [] = []"
| "desc_prev_list p (c # cs) = desc_prev c p @ desc_prev_list (if is_elem c then Some c else p) cs"

text \<open>Every node of the document with its parent element, in document order.\<close>

primrec desc_par :: "node \<Rightarrow> node option \<Rightarrow> (node \<times> node option) list"
  and desc_par_list :: "node \<Rightarrow> node list \<Rightarrow> (node \<times> node option) list" where
  "desc_par (Text s) p = [(Text s, p)]"
| "desc_par (Elem t as cs) p = (Elem t as cs, p) # desc_par_list (Elem t as cs) cs"
| "desc_par_list q [] = []"
| "desc_par_list q (c # cs) = desc_par c (Some q) @ desc_par_list q cs"

text \<open>
  The strict descendants of \<open>n\<close> that lie below a descendant satisfying \<open>P\<close>, in document
  order and each once: the nodes of \<^verbatim>\<open>.//x[P]//*\<close>.
\<close>

primrec desc_below :: "(node \<Rightarrow> bool) \<Rightarrow> bool \<Rightarrow> node \<Rightarrow> node list"
  and desc_below_list :: "(node \<Rightarrow> bool) \<Rightarrow> bool \<Rightarrow> node list \<Rightarrow> node list" where
  "desc_below P inside (Text s) = (if inside then [Text s] else [])"
| "desc_below P inside (Elem t as cs) =
     (if inside then [Elem t as cs] else []) @ desc_below_list P (inside \<or> P (Elem t as cs)) cs"
| "desc_below_list P inside [] = []"
| "desc_below_list P inside (c # cs) = desc_below P inside c @ desc_below_list P inside cs"

text \<open>The direct text of an element, \<^verbatim>\<open>./text()\<close>, as \<^verbatim>\<open>CleanText(children=False)\<close> reads it.\<close>

definition own_texts :: "node \<Rightarrow> string list" where
  "own_texts n = [s. Text s \<leftarrow> node_children n]"

text \<open>\<^verbatim>\<open>CleanText('.')(el)\<close> and \<^verbatim>\<open>CleanText(sel)\<close> of a selection of elements.\<close>

definition clean_node :: "node \<Rightarrow> string" where
  "clean_node n = clean_str (py_join '' '' (map py_strip (itertext n)))"

definition clean_sel :: "node list \<Rightarrow> string" where
  "clean_sel ns = clean_str (py_join '' '' (map clean_node ns))"

text \<open>
  \<^verbatim>\<open>CleanText\<close> of the woob library, which the site modules use (with its default
  \<^verbatim>\<open>newlines=True\<close>): each run of Unicode whitespace (\<open>py_space\<close> on Latin-1)
  becomes one space and the result is stripped; an element is first flattened, each of
  its text pieces stripped and the pieces joined with one space. The flag \<open>b\<close> of
  \<open>collapse_acc\<close> says that the previous character was a blank.
\<close>

fun collapse_acc :: "bool \<Rightarrow> string \<Rightarrow> string" where
  "collapse_acc b [] = []"
| "collapse_acc b (c # cs) =
     (if py_space c then (if b then collapse_acc True cs else CHR '' '' # collapse_acc True cs)
      else c # collapse_acc False cs)"

definition woob_clean :: "string \<Rightarrow> string" where
  "woob_clean s = py_strip (collapse_acc False s)"

definition woob_node :: "node \<Rightarrow> string" where
  "woob_node n = woob_clean (py_join '' '' (map py_strip (itertext n)))"

definition woob_sel :: "node list \<Rightarrow> string" where
  "woob_sel ns = woob_clean (py_join '' '' (map woob_node ns))"

lemma py_clean_node: "py_clean (PNode n) = Inr (clean_node n)"
  by (simp add: clean_node_def)

lemma clean_text_filter_sel: "clean_text_filter [] (PList (map PNode ns)) = Inr (clean_sel ns)"
proof -
  have "py_mapM py_clean (map PNode ns) = Inr (map clean_node ns)"
    by (induction ns) (simp_all add: clean_node_def)
  then show ?thesis by (simp add: clean_text_filter_def clean_sel_def remove_def)
qed

lemma child_elems_tag: "x \<in> set (child_elems t n) \<Longrightarrow> is_tag t x"
  by (simp add: child_elems_def)

end
