(* ===== verification/PyNumbers.thy ===== *)
theory PyNumbers
  imports JsonValue HtmlDoc Decimal
begin

text \<open>
  Python's conversions and decimal arithmetic on decoded JSON values, shared by the
  pages: \<^verbatim>\<open>str()\<close>, \<^verbatim>\<open>int()\<close>, \<^verbatim>\<open>Decimal(str(v))\<close> (the \<^verbatim>\<open>float_to_decimal\<close>
  of \<^verbatim>\<open>src/modules/caissedepargne/pages.py\<close>), negation, \<^verbatim>\<open>abs\<close>, subtraction,
  division by 100 and truth value of a decimal in the default context; woob's
  \<^verbatim>\<open>CleanText\<close> of a decoded value; \<^verbatim>\<open>str.replace\<close> and \<^verbatim>\<open>str.split()\<close>.
\<close>

section \<open>Conversions\<close>

text \<open>\<^verbatim>\<open>str(v)\<close> of a decoded value; the \<^verbatim>\<open>repr\<close> of a list or a dict is not modelled.\<close>

definition int_repr :: "int \<Rightarrow> string" where
  "int_repr i = (if i < 0 then ''-'' @ digits_of (nat (- i)) else digits_of (nat i))"

fun py_str :: "json \<Rightarrow> auth_exc + string" where
  "py_str JNull = Inr ''None''"
| "py_str (JBool b) = Inr (if b then ''True'' else ''False'')"
| "py_str (JInt i) = Inr (int_repr i)"
| "py_str (JFloat r) = Inr r"
| "py_str (JStr s) = Inr s"
| "py_str (JList xs) = Inl (PyExc Unmodelled)"
| "py_str (JObj kvs) = Inl (PyExc Unmodelled)"

text \<open>\<^verbatim>\<open>v.strip()\<close>: only a string has it.\<close>

definition json_strip :: "json \<Rightarrow> auth_exc + string" where
  "json_strip v = (case v of JStr s \<Rightarrow> Inr (py_strip s) | _ \<Rightarrow> Inl (PyExc AttributeError))"

text \<open>\<^verbatim>\<open>Decimal(str(v))\<close>.\<close>

definition decimal_str :: "json \<Rightarrow> auth_exc + decimal" where
  "decimal_str v = ebind (py_str v) (\<lambda>s. case py_Decimal (PStr s) of Inl e \<Rightarrow> Inl (PyExc e) | Inr d \<Rightarrow> Inr d)"

text \<open>\<^verbatim>\<open>int(v)\<close> of a string: blanks around, a sign, digits with single underscores between them.\<close>

fun digits_us :: "string \<Rightarrow> bool" where
  "digits_us [] = False"
| "digits_us [c] = py_digit c"
| "digits_us (c # d # cs) = (py_digit c \<and> (if d = CHR ''_'' then cs \<noteq> [] \<and> py_digit (hd cs) \<and> digits_us cs else digits_us (d # cs)))"

definition int_of_string :: "string \<Rightarrow> int option" where
  "int_of_string s =
     (let t = py_strip s;
          (neg, u) = (case t of c # r \<Rightarrow> if c = CHR ''-'' then (True, r) else if c = CHR ''+'' then (False, r) else (False, t)
                      | [] \<Rightarrow> (False, []));
          n = int (foldl (\<lambda>a c. 10 * a + (of_char c - 48)) 0 (filter py_digit u)) in
      if digits_us u then Some (if neg then - n else n) else None)"

text \<open>
  \<^verbatim>\<open>int(v)\<close> of a decoded value; a float is truncated, which the model leaves to
  \<open>Unmodelled\<close>.
\<close>

fun py_int :: "json \<Rightarrow> auth_exc + int" where
  "py_int (JInt i) = Inr i"
| "py_int (JBool b) = Inr (if b then 1 else 0)"
| "py_int (JStr s) = (case int_of_string s of Some i \<Rightarrow> Inr i | None \<Rightarrow> Inl (PyExc ValueError))"
| "py_int (JFloat r) = Inl (PyExc Unmodelled)"
| "py_int _ = Inl (PyExc TypeError)"

text \<open>
  \<^verbatim>\<open>CleanText\<close> of woob on a selected value: a string has its Unicode whitespace
  collapsed and is stripped, a list is joined; anything else is not modelled.
\<close>

definition clean_json :: "json \<Rightarrow> auth_exc + string" where
  "clean_json v =
     (case v of
        JStr s \<Rightarrow> Inr (woob_clean s)
      | JList xs \<Rightarrow>
          ebind (py_mapM (\<lambda>x. case x of JStr s \<Rightarrow> Inr (woob_clean s) | _ \<Rightarrow> Inl (PyExc Unmodelled)) xs)
            (\<lambda>ss. Inr (woob_clean (py_join '' '' ss)))
      | _ \<Rightarrow> Inl (PyExc Unmodelled))"

text \<open>\<^verbatim>\<open>float_to_decimal(f)\<close> of \<^verbatim>\<open>src/modules/caissedepargne/pages.py\<close> (lines 81--82).\<close>

definition float_to_decimal :: "json \<Rightarrow> auth_exc + decimal" where
  "float_to_decimal v = decimal_str v"

text \<open>\<^verbatim>\<open>s.replace(old, new)\<close>: every occurrence, left to right, without overlap.\<close>

function py_replace_ne :: "string \<Rightarrow> string \<Rightarrow> string \<Rightarrow> string" where
  "py_replace_ne old new [] = []"
| "py_replace_ne old new (c # cs) =
     (if old \<noteq> [] \<and> prefix old (c # cs) then new @ py_replace_ne old new (drop (length old) (c # cs))
      else c # py_replace_ne old new cs)"
  by pat_completeness auto
termination
  by (relation "measure (\<lambda>(old, new, s). length s)") auto

definition py_replace :: "string \<Rightarrow> string \<Rightarrow> string \<Rightarrow> string" where
  "py_replace old new s = (if old = [] then new @ concat (map (\<lambda>c. c # new) s) else py_replace_ne old new s)"

text \<open>\<^verbatim>\<open>str.split()\<close>: the words between runs of blanks (\<open>w\<close>: the current word, reversed).\<close>

fun words_acc :: "string \<Rightarrow> string \<Rightarrow> string list" where
  "words_acc w [] = (if w = [] then [] else [rev w])"
| "words_acc w (c # cs) =
     (if py_space c then (if w = [] then words_acc [] cs else rev w # words_acc [] cs) else words_acc (c # w) cs)"

definition py_words :: "string \<Rightarrow> string list" where
  "py_words s = words_acc [] s"

text \<open>
  \<^verbatim>\<open>str.upper()\<close> on the Latin-1 range: ASCII and accented small letters (224--254 but 247);
  \<open>\<ss>\<close> becomes \<^verbatim>\<open>SS\<close>. The upper case of \<open>\<mu>\<close> and \<open>\<yacute>\<close>-diaeresis is outside the
  range and they are kept.
\<close>

definition upper_char :: "char \<Rightarrow> char" where
  "upper_char c =
     (let n = (of_char c :: nat) in
      if (97 \<le> n \<and> n \<le> 122) \<or> (224 \<le> n \<and> n \<le> 254 \<and> n \<noteq> 247) then char_of (n - 32) else c)"

definition py_upper :: "string \<Rightarrow> string" where
  "py_upper s = concat (map (\<lambda>c. if c = CHR 0xDF then ''SS'' else [upper_char c]) s)"

text \<open>
  A word character of Python 3's \<^verbatim>\<open>re\<close> on the Latin-1 range: the ASCII letters and
  digits, the underscore, and the letters and digits of Latin-1.
\<close>

definition word_char :: "char \<Rightarrow> bool" where
  "word_char c \<longleftrightarrow>
     (let n = (of_char c :: nat) in
      (48 \<le> n \<and> n \<le> 57) \<or> (65 \<le> n \<and> n \<le> 90) \<or> (97 \<le> n \<and> n \<le> 122) \<or> n = 95 \<or>
      n \<in> {170, 178, 179, 181, 185, 186, 188, 189, 190} \<or>
      (192 \<le> n \<and> n \<le> 255 \<and> n \<noteq> 215 \<and> n \<noteq> 247))"

text \<open>\<^verbatim>\<open>\b\<close> at position \<open>k\<close> of \<open>s\<close>.\<close>

definition word_boundary :: "string \<Rightarrow> nat \<Rightarrow> bool" where
  "word_boundary s k \<longleftrightarrow> (0 < k \<and> k \<le> length s \<and> word_char (s ! (k - 1))) \<noteq> (k < length s \<and> word_char (s ! k))"

text \<open>A case-insensitive prefix, for the ASCII letters of the pattern.\<close>

definition ci_prefix :: "string \<Rightarrow> string \<Rightarrow> bool" where
  "ci_prefix p s \<longleftrightarrow> length p \<le> length s \<and> map lower_char (take (length p) s) = map lower_char p"

definition titles :: "string list" where
  "titles = [''m'', ''mr'', ''me'', ''mme'', ''mlle'', ''mle'', ''ml'']"

section \<open>Decimal arithmetic\<close>

text \<open>
  Python's \<^verbatim>\<open>-d\<close>, \<^verbatim>\<open>abs(d)\<close>, \<^verbatim>\<open>a - b\<close> and \<^verbatim>\<open>bool(d)\<close> in the default context (28
  digits, \<^verbatim>\<open>ROUND_HALF_EVEN\<close>, \<^verbatim>\<open>InvalidOperation\<close> trapped). A result that the context
  would round or clamp is \<open>Unmodelled\<close>; a signalling NaN raises, a quiet one propagates.
\<close>

definition dec_fits :: "nat \<Rightarrow> int \<Rightarrow> bool" where
  "dec_fits c e \<longleftrightarrow> int c < 10 ^ 28 \<and> -999999 \<le> e \<and> e \<le> 999970"

fun dec_neg :: "decimal \<Rightarrow> auth_exc + decimal" where
  "dec_neg (Finite s c e) = (if dec_fits c e then Inr (Finite (c \<noteq> 0 \<and> \<not> s) c e) else Inl (PyExc Unmodelled))"
| "dec_neg (Infinity s) = Inr (Infinity (\<not> s))"
| "dec_neg (NaN sig) = (if sig then Inl (PyExc InvalidOperation) else Inr (NaN False))"

fun dec_abs :: "decimal \<Rightarrow> auth_exc + decimal" where
  "dec_abs (Finite s c e) = (if dec_fits c e then Inr (Finite False c e) else Inl (PyExc Unmodelled))"
| "dec_abs (Infinity s) = Inr (Infinity False)"
| "dec_abs (NaN sig) = (if sig then Inl (PyExc InvalidOperation) else Inr (NaN False))"

definition dec_signed :: "bool \<Rightarrow> nat \<Rightarrow> int" where
  "dec_signed s c = (if s then - int c else int c)"

fun dec_sub :: "decimal \<Rightarrow> decimal \<Rightarrow> auth_exc + decimal" where
  "dec_sub (NaN True) y = Inl (PyExc InvalidOperation)"
| "dec_sub x (NaN True) = Inl (PyExc InvalidOperation)"
| "dec_sub (NaN False) y = Inr (NaN False)"
| "dec_sub x (NaN False) = Inr (NaN False)"
| "dec_sub (Infinity sx) (Infinity sy) = (if sx = sy then Inl (PyExc InvalidOperation) else Inr (Infinity sx))"
| "dec_sub (Infinity sx) (Finite sy cy ey) = Inr (Infinity sx)"
| "dec_sub (Finite sx cx ex) (Infinity sy) = Inr (Infinity (\<not> sy))"
| "dec_sub (Finite sx cx ex) (Finite sy cy ey) =
     (let e = min ex ey;
          r = dec_signed sx cx * 10 ^ nat (ex - e) - dec_signed sy cy * 10 ^ nat (ey - e);
          c = nat \<bar>r\<bar> in
      if dec_fits c e then Inr (Finite (if r = 0 then sx \<and> \<not> sy else r < 0) c e) else Inl (PyExc Unmodelled))"

fun dec_truthy :: "decimal \<Rightarrow> bool" where
  "dec_truthy (Finite s c e) = (c \<noteq> 0)"
| "dec_truthy _ = True"


text \<open>
  \<^verbatim>\<open>d / 100\<close>: the exact quotient, with as many of its trailing zeros removed (at most
  two) as bring its exponent back towards the ideal one, that of \<open>d\<close>.
\<close>

fun strip_zeros :: "nat \<Rightarrow> nat \<Rightarrow> int \<Rightarrow> nat \<times> int" where
  "strip_zeros 0 c e = (c, e)"
| "strip_zeros (Suc k) c e = (if c mod 10 = 0 then strip_zeros k (c div 10) (e + 1) else (c, e))"

fun dec_div100 :: "decimal \<Rightarrow> auth_exc + decimal" where
  "dec_div100 (Finite s c e) =
     (let (c', e') = strip_zeros 2 c (e - 2) in
      if dec_fits c' e' then Inr (Finite s c' e') else Inl (PyExc Unmodelled))"
| "dec_div100 (Infinity s) = Inr (Infinity s)"
| "dec_div100 (NaN sig) = (if sig then Inl (PyExc InvalidOperation) else Inr (NaN False))"

section \<open>Properties\<close>

lemma pow10_powi: "(if 0 \<le> e then (10::rat) ^ nat e else 1 / 10 ^ nat (- e)) = 10 powi e"
  by (simp add: power_int_def power_int_minus field_simps)

lemma strip_zeros_value:
  "strip_zeros k c e = (c', e') \<Longrightarrow> (of_nat c' :: rat) * 10 powi e' = of_nat c * 10 powi e"
proof (induction k arbitrary: c e)
  case (Suc k)
  show ?case
  proof (cases "c mod 10 = 0")
    case True
    then have c: "c = 10 * (c div 10)" by (metis dvd_mult_div_cancel mod_0_imp_dvd)
    from True Suc.prems have "strip_zeros k (c div 10) (e + 1) = (c', e')" by simp
    then have "(of_nat c' :: rat) * 10 powi e' = of_nat (c div 10) * 10 powi (e + 1)" by (rule Suc.IH)
    also have "\<dots> = of_nat c * 10 powi e"
      by (subst (2) c) (simp add: power_int_add)
    finally show ?thesis .
  qed (use Suc.prems in simp)
qed simp



lemma py_replace_ne_self: "old \<noteq> [] \<Longrightarrow> py_replace_ne old new old = new"
  by (cases old) simp_all

subsection \<open>CleanText and str.split\<close>

text \<open>\<^verbatim>\<open>s.split()\<close> sees the same words in a text before and after \<^verbatim>\<open>CleanText.clean\<close>.\<close>

lemma words_acc_dropWhile:
  "(\<And>c. Q c \<Longrightarrow> py_space c) \<Longrightarrow> words_acc [] (dropWhile Q s) = words_acc [] s"
  by (induction s) auto

lemma words_acc_collapse_ws: "words_acc w (collapse_ws s) = words_acc w s"
proof (induction s arbitrary: w rule: collapse_ws.induct)
  case (2 c cs)
  show ?case
  proof (cases "re_space c")
    case True
    then have "words_acc [] (collapse_ws (dropWhile re_space cs)) = words_acc [] cs"
      using "2.IH"(1) words_acc_dropWhile [of re_space cs] re_space_py_space by simp
    with True re_space_py_space [OF True] show ?thesis by simp
  next
    case False
    with "2.IH"(2) show ?thesis by simp
  qed
qed simp

lemma words_acc_spaces:
  "\<forall>c \<in> set t. py_space c \<Longrightarrow> words_acc w t = (if w = [] then [] else [rev w])"
  by (induction t arbitrary: w) auto

lemma words_acc_append_spaces:
  "\<forall>c \<in> set t. py_space c \<Longrightarrow> words_acc w (s @ t) = words_acc w s"
  by (induction s arbitrary: w) (auto simp: words_acc_spaces)

lemma py_words_py_strip: "py_words (py_strip s) = py_words s"
proof -
  define u where "u = dropWhile py_space s"
  define v where "v = rev (dropWhile py_space (rev u))"
  define t where "t = rev (takeWhile py_space (rev u))"
  have "u = rev (rev u)" by simp
  also have "\<dots> = rev (takeWhile py_space (rev u) @ dropWhile py_space (rev u))"
    by (simp only: takeWhile_dropWhile_id)
  also have "\<dots> = v @ t" by (simp only: rev_append v_def t_def)
  finally have uvt: "u = v @ t" .
  have "\<forall>c \<in> set t. py_space c" by (auto simp: t_def dest: set_takeWhileD)
  then have "words_acc [] u = words_acc [] v" unfolding uvt by (rule words_acc_append_spaces)
  moreover have "words_acc [] u = words_acc [] s" unfolding u_def by (rule words_acc_dropWhile)
  ultimately show ?thesis by (simp add: py_words_def py_strip_def u_def v_def)
qed

lemma py_words_clean_str: "py_words (clean_str s) = py_words s"
  by (simp add: clean_str_def py_words_py_strip) (simp add: py_words_def words_acc_collapse_ws)

lemma set_collapse_ws: "set (collapse_ws s) \<subseteq> insert (CHR '' '') (set s)"
proof (induction s rule: collapse_ws.induct)
  case (2 c cs)
  then show ?case by (auto dest: set_dropWhileD)
qed simp

lemma set_clean_str: "set (clean_str s) \<subseteq> insert (CHR '' '') (set s)"
proof -
  have "set (clean_str s) \<subseteq> set (collapse_ws s)"
    using py_strip_sublist [of "collapse_ws s"] by (auto simp: clean_str_def dest: set_mono_sublist)
  then show ?thesis using set_collapse_ws by blast
qed

lemma words_acc_word:
  "\<forall>c \<in> set a. \<not> py_space c \<Longrightarrow> words_acc w a = (if w = [] \<and> a = [] then [] else [rev w @ a])"
  by (induction a arbitrary: w) auto

lemma words_acc_word_space:
  "\<forall>c \<in> set a. \<not> py_space c \<Longrightarrow> a \<noteq> [] \<Longrightarrow> py_space c \<Longrightarrow> words_acc [] (a @ c # b) = a # words_acc [] b"
proof -
  have "\<forall>c \<in> set a. \<not> py_space c \<Longrightarrow> py_space c \<Longrightarrow>
        words_acc w (a @ c # b) = (if w = [] \<and> a = [] then words_acc [] b else (rev w @ a) # words_acc [] b)" for w
    by (induction a arbitrary: w) auto
  then show "\<forall>c \<in> set a. \<not> py_space c \<Longrightarrow> a \<noteq> [] \<Longrightarrow> py_space c \<Longrightarrow> words_acc [] (a @ c # b) = a # words_acc [] b"
    by simp
qed

lemma join_py_words_normal:
  "normal_text t \<Longrightarrow> \<forall>c \<in> set t. py_space c \<longrightarrow> c = CHR '' '' \<Longrightarrow> py_join '' '' (py_words t) = t"
proof (induction "length t" arbitrary: t rule: less_induct)
  case less
  show ?case
  proof (cases "CHR '' '' \<in> set t")
    case False
    with less.prems(2) have "\<forall>c \<in> set t. \<not> py_space c" by auto
    then show ?thesis by (simp add: py_words_def words_acc_word)
  next
    case True
    then obtain a b where t: "t = a @ CHR '' '' # b" and a: "CHR '' '' \<notin> set a"
      by (blast dest: split_list_first)
    have col: "collapsed t" and ends: "\<not> py_space (hd t)" "\<not> py_space (last t)"
      using less.prems(1) t by (simp_all add: normal_text_def)
    have a_ne: "a \<noteq> []"
    proof
      assume "a = []"
      with t have "hd t = CHR '' ''" by simp
      with ends(1) show False by simp
    qed
    have b_ne: "b \<noteq> []"
    proof
      assume "b = []"
      with t have "last t = CHR '' ''" by simp
      with ends(2) show False by simp
    qed
    have a_ns: "\<forall>c \<in> set a. \<not> py_space c"
    proof
      fix c assume c: "c \<in> set a"
      then have "c \<in> set t" using t by simp
      with less.prems(2) c a show "\<not> py_space c" by blast
    qed
    have hb: "hd b \<noteq> CHR '' ''"
    proof
      assume h: "hd b = CHR '' ''"
      have "b = CHR '' '' # tl b" using b_ne h by (cases b) simp_all
      then have "t = a @ ''  '' @ tl b" using t by simp
      moreover have "sublist ''  '' (a @ ''  '' @ tl b)" by (rule sublist_appendI)
      ultimately have "sublist ''  '' t" by simp
      then show False using col by (simp add: collapsed_def)
    qed
    have nb: "normal_text b"
    proof -
      have "sublist b ((a @ [CHR '' '']) @ b @ [])" by (rule sublist_appendI)
      then have "sublist b t" using t by simp
      then have "collapsed b" using col collapsed_sublist by blast
      moreover have "\<not> py_space (hd b)"
      proof
        assume "py_space (hd b)"
        moreover have "hd b \<in> set t" using t b_ne by simp
        ultimately show False using less.prems(2) hb by blast
      qed
      moreover have "last b = last t" using t b_ne by simp
      ultimately show ?thesis using ends(2) by (simp add: normal_text_def)
    qed
    have sb: "\<forall>c \<in> set b. py_space c \<longrightarrow> c = CHR '' ''" using less.prems(2) t by simp
    have "length b < length t" using t by simp
    then have IH: "py_join '' '' (py_words b) = b" using less.hyps nb sb by blast
    then have "py_words b \<noteq> []" using b_ne by auto
    then obtain w ws where ww: "py_words b = w # ws" by (cases "py_words b") auto
    have "py_words t = a # py_words b"
      unfolding t py_words_def using a_ns a_ne by (rule words_acc_word_space) simp
    with ww IH t show ?thesis by simp
  qed
qed

text \<open>
  C1. \<^verbatim>\<open>CleanText.clean\<close> on a string is \<^verbatim>\<open>' '.join(s.split())\<close> whenever the only
  separators of the string are the blanks of its pattern \<^verbatim>\<open>[\s\xa0\t]\<close>: every run of
  blanks becomes one space and the blanks at both ends go. (\<^verbatim>\<open>str.split\<close> also splits
  at the separators \<^verbatim>\<open>\x1c\<close>..\<^verbatim>\<open>\x1f\<close> and \<^verbatim>\<open>\x85\<close>, which the pattern keeps.)
\<close>

theorem clean_str_split_join:
  assumes "\<forall>c \<in> set s. py_space c \<longrightarrow> re_space c"
  shows "clean_str s = py_join '' '' (py_words s)"
proof -
  have "\<forall>c \<in> set (clean_str s). py_space c \<longrightarrow> c = CHR '' ''"
  proof (intro ballI impI)
    fix c assume c: "c \<in> set (clean_str s)" and sp: "py_space c"
    show "c = CHR '' ''"
    proof (cases "c = CHR '' ''")
      case False
      with c set_clean_str have "c \<in> set s" by blast
      with assms sp have "re_space c" by blast
      with c clean_str_collapsed show ?thesis by (simp add: collapsed_def)
    qed
  qed
  with normal_text_clean_str have "py_join '' '' (py_words (clean_str s)) = clean_str s"
    by (rule join_py_words_normal)
  then show ?thesis by (simp add: py_words_clean_str)
qed

theorem clean_str_split_join_witness:
  "clean_str ('' a '' @ [CHR 0x09] @ '' b'' @ [CHR 0x0A]) = ''a b''"
proof -
  have h: "\<forall>c \<in> set ('' a '' @ [CHR 0x09] @ '' b'' @ [CHR 0x0A]). py_space c \<longrightarrow> re_space c"
    by (simp add: re_space_def py_space_def)
  have "py_join '' '' (py_words ('' a '' @ [CHR 0x09] @ '' b'' @ [CHR 0x0A])) = ''a b''"
    by (simp add: py_words_def py_space_def)
  with clean_str_split_join [OF h] h show ?thesis by simp
qed

end
