(* ===== verification/BankCaps.thy ===== *)
theory BankCaps
  imports Prelude
begin

text \<open>
  The constants of \<^verbatim>\<open>woob.capabilities.bank\<close> the bank modules use: the types of an
  account (\<^verbatim>\<open>Account.TYPE_*\<close>), its ownership (\<^verbatim>\<open>AccountOwnership\<close>) and the type
  of its owner (\<^verbatim>\<open>AccountOwnerType\<close>), the types of a transaction, and dates. The
  library is not part of the sources.
\<close>

datatype acct_type =
    TUnknown | TChecking | TSavings | TDeposit | TCard | TMarket | TLoan | TPea | TLifeInsurance
  | TPerp | TCapitalisation | TMadelin

datatype ownership = CoOwner | Owner | Attorney

datatype owner_type = Private | Organization

text \<open>The types of a transaction (\<^verbatim>\<open>Transaction.TYPE_*\<close> of \<^verbatim>\<open>woob.capabilities.bank\<close>).\<close>

datatype tx_type =
    TxUnknown | TxTransfer | TxOrder | TxCheck | TxDeposit | TxPayback | TxWithdrawal | TxCard
  | TxLoanPayment | TxBank | TxCashDeposit | TxCardSummary | TxDeferredCard

text \<open>A date (\<^verbatim>\<open>datetime.date\<close>) as year, month and day, ordered as Python orders dates.\<close>

type_synonym date = "nat \<times> nat \<times> nat"

definition date_less :: "date \<Rightarrow> date \<Rightarrow> bool" where
  "date_less a b \<longleftrightarrow>
     fst a < fst b \<or> (fst a = fst b \<and> (fst (snd a) < fst (snd b) \<or> (fst (snd a) = fst (snd b) \<and> snd (snd a) < snd (snd b))))"

end
