(* ===== verification/CaisseAccounts.thy ===== *)
theory CaisseAccounts
  imports CaisseAuth HtmlDoc PyNumbers BankCaps
begin

text \<open>
  The list of accounts of \<^verbatim>\<open>IndexPage\<close> in \<^verbatim>\<open>src/modules/caissedepargne/pages.py\<close>
  (lines 563--1098): the tables of account types, the owner type and the ownership of
  an account, the repair of an account id (\<^verbatim>\<open>find_and_replace\<close>), the reading of an
  account link (\<^verbatim>\<open>_get_account_info\<close>), the creation of an account
  (\<^verbatim>\<open>_add_account\<close>), the two layouts of the list (\<^verbatim>\<open>get_list\<close>) and the loans of the old
  layout (\<^verbatim>\<open>get_loan_list\<close>). The page is the document tree; every XPath expression of
  the source is written with the functions of \<open>HtmlDoc\<close>.

  What the code asks of other parts is a parameter (\<open>cde_env\<close>): the regular
  expression on the \<^verbatim>\<open>PostBack\<close> link, the IBAN helpers and the amount and currency
  parsers of the woob library, and the reading of a balance on the history page by
  \<^verbatim>\<open>get_balance\<close>. The accounts are an \<^verbatim>\<open>OrderedDict\<close>, an association list in insertion order.
\<close>

section \<open>Types of accounts\<close>

text \<open>\<^verbatim>\<open>IndexPage.ACCOUNT_TYPES\<close>.\<close>

definition account_types :: "(string \<times> acct_type) list" where
  "account_types =
     [(''Epargne liquide'', TSavings), (''Compte Courant'', TChecking), (''COMPTE A VUE'', TChecking),
      (''COMPTE CHEQUE'', TChecking), (''Mes comptes'', TChecking), (''CPT DEPOT PART.'', TChecking),
      (''CPT DEPOT PROF.'', TChecking), (''Mon '' @ [CHR 0xE9] @ ''pargne'', TSavings),
      (''Mes autres comptes'', TSavings), (''Compte Epargne et DAT'', TSavings),
      (''Plan et Contrat d'' @ [CHR 0x27] @ ''Epargne'', TSavings), (''COMPTE SUR LIVRET'', TSavings),
      (''LIVRET DEV.DURABLE'', TSavings), (''LDD Solidaire'', TSavings), (''LIVRET A'', TSavings),
      (''LIVRET JEUNE'', TSavings), (''LIVRET GRAND PRIX'', TSavings), (''LEP'', TSavings),
      (''L.EPAR POPULAIRE'', TSavings), (''LEL'', TSavings), (''PLAN EPARG. LOGEMENT'', TSavings),
      (''L. EPAR LOGEMENT'', TSavings), (''CPT PARTS SOCIALES'', TMarket), (''PEL'', TSavings),
      (''PEL 16 2013'', TSavings), (''PEL 16 2014'', TSavings), (''PARTS SOCIALES'', TMarket),
      (''Titres'', TMarket), (''Compte titres'', TMarket),
      (''Mes cr'' @ [CHR 0xE9] @ ''dits immobiliers'', TLoan),
      (''Mes cr'' @ [CHR 0xE9] @ ''dits renouvelables'', TLoan),
      (''Mes cr'' @ [CHR 0xE9] @ ''dits consommation'', TLoan),
      (''PEA NUMERAIRE'', TPea), (''COMPTE NUMERAIRE PEA'', TPea), (''PEA'', TPea)]"

text \<open>\<^verbatim>\<open>IndexPage.ACCOUNT_TYPES_LINK\<close>.\<close>

definition account_types_link :: "(string \<times> acct_type) list" where
  "account_types_link =
     [(''SYNTHESE_ASSURANCE_CNP'', TLifeInsurance), (''REDIR_ASS_VIE'', TLifeInsurance),
      (''SYNTHESE_EPARGNE'', TLifeInsurance), (''ASSURANCE_VIE'', TLifeInsurance),
      (''NA_WEB'', TLifeInsurance), (''BOURSE'', TMarket), (''COMPTE_TITRE'', TMarket)]"

text \<open>\<^verbatim>\<open>IndexPage.ACCOUNT_OWNER_TYPE\<close>, in its order (\<^verbatim>\<open>MapIn\<close> scans it).\<close>

definition account_owner_type :: "(string \<times> owner_type) list" where
  "account_owner_type = [(''personnel'', Private), (''particulier'', Private), (''professionnel'', Organization)]"

section \<open>Owner type and ownership\<close>

text \<open>
  \<^verbatim>\<open>deduce_owner_type(text)\<close> (lines 947--958): the lower-cased text through
  \<^verbatim>\<open>MapIn\<close> with the default \<^verbatim>\<open>NotAvailable\<close> (\<open>None\<close>).
\<close>

definition deduce_owner_type :: "string option \<Rightarrow> owner_type option" where
  "deduce_owner_type text =
     (let t = map lower_char (case text of Some s \<Rightarrow> s | None \<Rightarrow> []) in
      case map_in account_owner_type t of Inr ot \<Rightarrow> Some ot | Inl _ \<Rightarrow> None)"

text \<open>
  \<^verbatim>\<open>get_owner_type(text=None)\<close> (lines 936--945): from the text when there is one, else
  from the title of the client space in the page header.
\<close>

definition header_title :: "node \<Rightarrow> string" where
  "header_title doc = woob_sel (filter (\<lambda>n. attr_of ''id'' n = Some ''header-market_title'') (doc_elems ''a'' doc))"

definition get_owner_type :: "node \<Rightarrow> string option \<Rightarrow> owner_type option" where
  "get_owner_type doc text =
     (let ot = (if text \<noteq> None \<and> text \<noteq> Some [] then deduce_owner_type text else None) in
      if ot \<noteq> None then ot else deduce_owner_type (Some (header_title doc)))"

text \<open>
  The pattern \<^verbatim>\<open>(m|mr|me|mme|mlle|mle|ml)\.? ?(.*)\bou (m|mr|me|mme|mlle|mle|ml)\b(.*)\<close>
  searched with \<^verbatim>\<open>re.IGNORECASE\<close> on a text without line breaks: a title anywhere, and
  further on, at a word boundary, \<^verbatim>\<open>ou \<close> and a title ending at a word boundary; the
  optional dot and space are absorbed by \<^verbatim>\<open>(.*)\<close>.
\<close>

definition co_owner_pattern :: "string \<Rightarrow> bool" where
  "co_owner_pattern s \<longleftrightarrow>
     (\<exists>i \<in> set [0..<Suc (length s)]. \<exists>t1 \<in> set titles. ci_prefix t1 (drop i s) \<and>
        (\<exists>j \<in> set [i + length t1..<Suc (length s)]. \<exists>t2 \<in> set titles.
           word_boundary s j \<and> ci_prefix (''ou '' @ t2) (drop j s) \<and> word_boundary s (j + 3 + length t2)))"

text \<open>
  \<^verbatim>\<open>get_ownership(tds, owner_name)\<close> (lines 920--934). The test for a civility is a
  substring test, so any \<^verbatim>\<open>M\<close> of the upper-cased owner text passes it.
\<close>

definition get_ownership :: "node list \<Rightarrow> string \<Rightarrow> ownership option" where
  "get_ownership tds owner_name =
     (if 2 < length tds then
        (let account_owner = py_upper (woob_node (tds ! 2)) in
         if account_owner \<noteq> [] \<and> (\<exists>t \<in> set [''M'', ''MR'', ''MLLE'', ''MLE'', ''MME'']. sublist t account_owner) then
           (if co_owner_pattern account_owner then Some CoOwner
            else if (\<forall>n \<in> set (py_words owner_name). sublist n account_owner) then Some Owner
            else Some Attorney)
         else None)
      else None)"

section \<open>Account links\<close>

text \<open>The \<^verbatim>\<open>info\<close> dict of an account: its keys \<^verbatim>\<open>link\<close>, \<^verbatim>\<open>type\<close>, \<^verbatim>\<open>id\<close>, \<^verbatim>\<open>_id\<close> and \<^verbatim>\<open>acc_type\<close>.\<close>

record acc_info =
  ai_link :: string
  ai_type :: string
  ai_id :: string
  ai_uid :: string
  ai_acc_type :: "acct_type option"

text \<open>
  \<^verbatim>\<open>find_and_replace(info, acc_id)\<close> (lines 670--679): the first window of the id of the
  length of \<open>acc_id\<close> that differs from it in exactly one letter is replaced by
  \<open>acc_id\<close> everywhere in the link and the id; \<^verbatim>\<open>_id\<close> is left as it is.
\<close>

definition one_letter_off :: "string \<Rightarrow> string \<Rightarrow> bool" where
  "one_letter_off sub acc_id \<longleftrightarrow> length (filter (\<lambda>(x, y). x \<noteq> y) (zip sub acc_id)) = 1"

definition find_and_replace :: "acc_info \<Rightarrow> string \<Rightarrow> acc_info" where
  "find_and_replace info acc_id =
     (let idv = ai_id info; k = length acc_id in
      case find (\<lambda>i. one_letter_off (take k (drop i idv)) acc_id)
                [0..<nat (int (length idv) - int k + 1)] of
        None \<Rightarrow> info
      | Some i \<Rightarrow>
          (let sub = take k (drop i idv) in
           info\<lparr>ai_link := py_replace sub acc_id (ai_link info), ai_id := py_replace sub acc_id idv\<rparr>))"

text \<open>\<^verbatim>\<open>re.search(r"([\d]+)", title)\<close>: the first run of digits.\<close>

definition first_digits :: "string \<Rightarrow> string option" where
  "first_digits s = (let t = dropWhile (\<lambda>c. \<not> py_digit c) s in if t = [] then None else Some (takeWhile py_digit t))"

text \<open>An account of the list (the attributes the page sets).\<close>

datatype card_links = CardNone | CardList | CardInfo acc_info

record cde_account =
  acc_id :: string
  acc_iban :: "string option"
  acc_info :: acc_info
  acc_number :: "string option"
  acc_label :: string
  acc_ownership :: "ownership option"
  acc_type :: acct_type
  acc_owner_type :: "owner_type option"
  acc_balance :: "decimal option"
  acc_currency :: "string option"
  acc_card_links :: card_links
  acc_coming :: "decimal option"
  acc_natixis :: "string option"

text \<open>
  What \<^verbatim>\<open>IndexPage\<close> asks of others: group 2 of the \<^verbatim>\<open>PostBack\<close> regular expression on a
  link's \<^verbatim>\<open>href\<close> (\<open>None\<close>: no match, \<open>Some None\<close>: the optional group did not take
  part), \<^verbatim>\<open>is_rib_valid\<close>, \<^verbatim>\<open>rib2iban\<close>, \<^verbatim>\<open>Decimal(FrenchTransaction.clean_amount(b))\<close>,
  \<^verbatim>\<open>Account.get_currency\<close>, and the part of \<^verbatim>\<open>get_balance\<close> that reads the balance of
  an account on its history page (\<open>None\<close>: \<^verbatim>\<open>NotAvailable\<close>), which may raise
  \<^verbatim>\<open>BrowserUnavailable\<close> with the URL of the response.
\<close>

record cde_env =
  postback_group :: "string \<Rightarrow> string option option"
  is_rib_valid :: "string \<Rightarrow> bool"
  rib2iban :: "string \<Rightarrow> string"
  clean_amount :: "string \<Rightarrow> auth_exc + decimal"
  get_currency :: "string \<Rightarrow> string option"
  history_balance :: "cde_account \<Rightarrow> auth_exc + string option"

definition attr_or_empty :: "string \<Rightarrow> node \<Rightarrow> string" where
  "attr_or_empty a n = (case attr_of a n of Some v \<Rightarrow> v | None \<Rightarrow> [])"

definition set_acc_type :: "acc_info \<Rightarrow> acc_info" where
  "set_acc_type info =
     (case map_of account_types_link (ai_type info) of Some t \<Rightarrow> info\<lparr>ai_acc_type := Some t\<rparr> | None \<Rightarrow> info)"

text \<open>
  \<^verbatim>\<open>_get_account_info(a, accounts)\<close> (lines 681--719). An id found in the link but
  not in the title is repaired with the first account already listed under it (the
  source takes an element of a set, whose order Python leaves unspecified).
\<close>

definition get_account_info :: "cde_env \<Rightarrow> node \<Rightarrow> (string \<times> cde_account) list \<Rightarrow> auth_exc + acc_info option" where
  "get_account_info E a accounts =
     (case postback_group E (attr_or_empty ''href'' a) of
        None \<Rightarrow> Inr None
      | Some None \<Rightarrow> Inl (PyExc AttributeError)
      | Some (Some link) \<Rightarrow>
          (let parts = py_split CHR ''&'' link; tid = first_digits (attr_or_empty ''title'' a) in
           if 1 < length parts then
             (let ty = parts ! 0 in
              ebind (py_index parts (if ty \<in> {''REDIR_ASS_VIE'', ''NA_WEB''} then 2 else 1)) (\<lambda>i.
                let info = \<lparr>ai_link = link, ai_type = ty, ai_id = i, ai_uid = i, ai_acc_type = None\<rparr>;
                    known = [k. (k, acc) \<leftarrow> accounts, ai_uid (acc_info acc) = i] in
                if tid \<noteq> None \<or> known \<noteq> [] then
                  Inr (Some (set_acc_type (find_and_replace info (case tid of Some d \<Rightarrow> d | None \<Rightarrow> hd known))))
                else Inr (Some (set_acc_type info))))
           else
             (case tid of
                None \<Rightarrow> Inr None
              | Some d \<Rightarrow> Inr (Some (set_acc_type \<lparr>ai_link = link, ai_type = link, ai_id = d, ai_uid = d, ai_acc_type = None\<rparr>)))))"

section \<open>Adding an account\<close>

text \<open>
  The state \<^verbatim>\<open>get_list\<close> builds: the accounts, its local variable \<^verbatim>\<open>a\<close> (\<open>None\<close>: not
  bound yet, \<open>Some None\<close>: Python's \<^verbatim>\<open>None\<close>), the calls of \<^verbatim>\<open>browser.do_login\<close> and
  \<^verbatim>\<open>browser.new_website\<close>.
\<close>

record cde_state =
  cs_accounts :: "(string \<times> cde_account) list"
  cs_link :: "node option option"
  cs_logins :: nat
  cs_new_website :: bool

text \<open>\<^verbatim>\<open>Decimal('0.0')\<close>.\<close>

definition dec_zero :: decimal where
  "dec_zero = Finite False 0 (-1)"

text \<open>
  The account before its balance (lines 733--749): the type of its label, else the type
  of its link, else the type of the table; a \<^verbatim>\<open>PERP\<close> or capitalisation label overrides
  it, and a life insurance or \<^verbatim>\<open>PERP\<close> belongs to the owner.
\<close>

definition new_account :: "cde_env \<Rightarrow> acc_info \<Rightarrow> string \<Rightarrow> acct_type \<Rightarrow> string option \<Rightarrow> ownership option \<Rightarrow>
                            owner_type option \<Rightarrow> cde_account" where
  "new_account E info label account_type number ownership otype =
     (let t0 = (case map_of account_types label of Some t \<Rightarrow> t
                | None \<Rightarrow> (case ai_acc_type info of Some t \<Rightarrow> t | None \<Rightarrow> account_type));
          t1 = (if sublist ''PERP'' label then TPerp else t0);
          t2 = (if sublist ''NUANCES CAPITALISATI'' label then TCapitalisation else t1) in
      \<lparr>acc_id = ai_id info, acc_iban = (if is_rib_valid E (ai_id info) then Some (rib2iban E (ai_id info)) else None),
       acc_info = info, acc_number = number, acc_label = label,
       acc_ownership = (if t2 \<in> {TLifeInsurance, TPerp} then Some Owner else ownership),
       acc_type = t2, acc_owner_type = otype, acc_balance = None, acc_currency = None,
       acc_card_links = CardNone, acc_coming = None, acc_natixis = None\<rparr>)"

text \<open>
  \<^verbatim>\<open>get_balance(account)\<close> (lines 781--804): only a life insurance, a \<^verbatim>\<open>PERP\<close> or a
  capitalisation contract has its balance read on its history page.
\<close>

definition get_balance :: "cde_env \<Rightarrow> cde_account \<Rightarrow> auth_exc + string option" where
  "get_balance E account =
     (if acc_type account \<notin> {TLifeInsurance, TPerp, TCapitalisation} then Inr None else history_balance E account)"

text \<open>
  The handler of lines 751--761: a \<^verbatim>\<open>BrowserUnavailable\<close> whose response is a technical
  error page skips the account (\<open>Inr None\<close>); any other exception is raised again.
\<close>

definition is_technical :: "auth_exc \<Rightarrow> bool" where
  "is_technical e = (case e of BrowserUnavailable (JStr url) \<Rightarrow> sublist ''erreur_technique'' url | _ \<Rightarrow> False)"

definition technical_skip :: "auth_exc + 'a \<Rightarrow> auth_exc + 'a option" where
  "technical_skip r = (case r of Inr b \<Rightarrow> Inr (Some b) | Inl e \<Rightarrow> if is_technical e then Inr None else Inl e)"

text \<open>Lines 763--767: the balance and its currency, when there is a balance.\<close>

definition set_balance :: "cde_env \<Rightarrow> cde_account \<Rightarrow> string option \<Rightarrow> auth_exc + cde_account" where
  "set_balance E account b =
     (case b of
        Some s \<Rightarrow> ebind (clean_amount E s) (\<lambda>d. Inr (account\<lparr>acc_balance := Some d, acc_currency := get_currency E s\<rparr>))
      | None \<Rightarrow> Inr account)"

text \<open>
  Lines 769--779: a card history line whose id is already listed becomes the coming of
  that account; any other account is stored under its id and returned.
\<close>

definition store_account :: "cde_state \<Rightarrow> cde_account \<Rightarrow> cde_account option \<times> cde_state" where
  "store_account st account =
     (let accounts = cs_accounts st; k = acc_id account in
      if ai_type (acc_info account) = ''HISTORIQUE_CB'' \<and> k \<in> set (map fst accounts) then
        (let a = the (map_of accounts k) in
         (None, st\<lparr>cs_accounts := od_set accounts k (a\<lparr>acc_coming := Some dec_zero, acc_card_links := CardInfo (acc_info account)\<rparr>)\<rparr>))
      else (Some account, st\<lparr>cs_accounts := od_set accounts k account\<rparr>))"

text \<open>
  \<^verbatim>\<open>_add_account\<close> (lines 724--779). A missing balance is asked of \<^verbatim>\<open>get_balance\<close>; a
  technical error page there makes the browser log in again and the account is skipped.
\<close>

definition add_account :: "cde_env \<Rightarrow> cde_state \<Rightarrow> node \<Rightarrow> string \<Rightarrow> acct_type \<Rightarrow> string \<Rightarrow> string option \<Rightarrow>
                           ownership option \<Rightarrow> owner_type option \<Rightarrow> auth_exc + (cde_account option \<times> cde_state)" where
  "add_account E st link label account_type balance number ownership otype =
     ebind (get_account_info E link (cs_accounts st)) (\<lambda>r.
       case r of
         None \<Rightarrow> Inr (None, st)
       | Some info \<Rightarrow>
           (let account = new_account E info label account_type number ownership otype in
            ebind (technical_skip (if balance \<noteq> [] then Inr (Some balance) else get_balance E account)) (\<lambda>sb.
              case sb of
                None \<Rightarrow> Inr (None, st\<lparr>cs_logins := Suc (cs_logins st)\<rparr>)
              | Some b \<Rightarrow>
                  ebind (set_balance E account b) (\<lambda>account.
                    Inr (store_account st (account\<lparr>acc_card_links := CardList\<rparr>))))))"

section \<open>The list of accounts\<close>

text \<open>\<^verbatim>\<open>ACCOUNT_TYPES.get(k)\<close>, and with a default.\<close>

definition type_of_label :: "string \<Rightarrow> acct_type option" where
  "type_of_label k = map_of account_types k"

definition type_or_unknown :: "string \<Rightarrow> acct_type" where
  "type_or_unknown k = (case type_of_label k of Some t \<Rightarrow> t | None \<Rightarrow> TUnknown)"

text \<open>
  The type of a \<^verbatim>\<open>DataGridHeader\<close> row of the old layout (lines 843--848): the text of
  the second cell, else the cleaned third, else the cleaned fourth. A missing cell
  raises \<^verbatim>\<open>IndexError\<close>, a second cell that opens with an element \<^verbatim>\<open>AttributeError\<close>.
\<close>

definition header_type :: "node list \<Rightarrow> auth_exc + acct_type" where
  "header_type tds =
     ebind (py_index tds 1) (\<lambda>td1.
       case el_text td1 of
         None \<Rightarrow> Inl (PyExc AttributeError)
       | Some s \<Rightarrow>
           (case type_of_label (py_strip s) of
              Some t \<Rightarrow> Inr t
            | None \<Rightarrow> ebind (py_index tds 2) (\<lambda>td2.
                case type_of_label (woob_node td2) of
                  Some t \<Rightarrow> Inr t
                | None \<Rightarrow> ebind (py_index tds 3) (\<lambda>td3. Inr (type_or_unknown (woob_node td3))))))"

text \<open>
  The links of one row of the old layout (lines 854--874): the \<open>i\<close>-th link of the
  label cell with the \<open>i\<close>-th link of the balance cell, and for the first link only the
  number, read in \<open>num_td\<close> (absent on the four-cell rows). Each link binds \<^verbatim>\<open>a\<close>.
\<close>

fun link_loop :: "cde_env \<Rightarrow> acct_type \<Rightarrow> ownership option \<Rightarrow> owner_type option \<Rightarrow> node \<Rightarrow> node option \<Rightarrow>
                  nat \<Rightarrow> node list \<Rightarrow> cde_state \<Rightarrow> auth_exc + cde_state" where
  "link_loop E ty own ot bal_td num_td i [] st = Inr st"
| "link_loop E ty own ot bal_td num_td i (a # as) st =
     (let st = st\<lparr>cs_link := Some (Some a)\<rparr>; label = woob_node a in
      ebind (py_index (child_elems ''a'' bal_td) (int i)) (\<lambda>b.
        ebind (case num_td of
                 Some t \<Rightarrow> if i = 0 then ebind (py_index (child_elems ''a'' t) 0) (\<lambda>n. Inr (Some (woob_node n))) else Inr None
               | None \<Rightarrow> Inr None) (\<lambda>number.
          ebind (add_account E st a label ty (woob_node b) number own ot) (\<lambda>(_, st).
            link_loop E ty own ot bal_td num_td (Suc i) as st))))"

text \<open>A row of a table of the old layout (lines 841--874); the state carries the type of the table.\<close>

definition old_row :: "cde_env \<Rightarrow> string \<Rightarrow> owner_type option \<Rightarrow> acct_type \<times> cde_state \<Rightarrow> node \<Rightarrow>
                       auth_exc + acct_type \<times> cde_state" where
  "old_row E owner_name ot tyst tr =
     (let (ty, st) = tyst; tds = child_elems ''td'' tr in
      if attr_or_empty ''class'' tr = ''DataGridHeader'' then ebind (header_type tds) (\<lambda>t. Inr (t, st))
      else
        (let own = get_ownership tds owner_name; n = length tds in
         if 4 < n then
           ebind (link_loop E ty own ot (tds ! (n - 2)) (Some (tds ! (n - 4))) 0 (child_elems ''a'' (tds ! 2)) st)
             (\<lambda>st. Inr (ty, st))
         else if n = 4 then
           ebind (link_loop E ty own ot (tds ! 3) None 0 (child_elems ''a'' (tds ! 1)) st) (\<lambda>st. Inr (ty, st))
         else Inr (ty, st)))"

text \<open>A table \<^verbatim>\<open>//table[@cellpadding="1"]\<close> of the old layout (lines 837--874).\<close>

definition old_table :: "cde_env \<Rightarrow> node \<Rightarrow> string \<Rightarrow> cde_state \<Rightarrow> node \<Rightarrow> auth_exc + cde_state" where
  "old_table E doc owner_name st table =
     (let ot = get_owner_type doc (attr_of ''id'' table) in
      ebind (efold (old_row E owner_name ot) (child_elems ''tr'' table) (TUnknown, st)) (\<lambda>(_, st). Inr st))"

definition old_tables :: "node \<Rightarrow> node list" where
  "old_tables doc = filter (\<lambda>n. attr_of ''cellpadding'' n = Some ''1'') (doc_elems ''table'' doc)"

text \<open>
  The loop \<^verbatim>\<open>for i in range(len(tds))\<close> (lines 892--895): the first link of the first
  cell that has one; cells without one set \<^verbatim>\<open>a\<close> to \<^verbatim>\<open>None\<close>, and a row without cells
  leaves \<^verbatim>\<open>a\<close> as the previous rows left it.
\<close>

fun first_link :: "node list \<Rightarrow> node option option \<Rightarrow> node option option" where
  "first_link [] a = a"
| "first_link (td # tds) a = (case find_desc ''a'' td of Some x \<Rightarrow> Some (Some x) | None \<Rightarrow> first_link tds (Some None))"

text \<open>XPath \<^verbatim>\<open>has-class("c")\<close>.\<close>

definition has_class :: "string \<Rightarrow> node \<Rightarrow> bool" where
  "has_class c n = (c \<in> set (py_words (attr_or_empty ''class'' n)))"

text \<open>
  \<^verbatim>\<open>re.search(r'([A-Z]{3})([A-Z]{2})(\d{6})', number)\<close> and the path
  \<^verbatim>\<open>'/{}/{}/{}'.format(*m.groups())\<close> (lines 915--917).
\<close>

definition ascii_upper :: "char \<Rightarrow> bool" where
  "ascii_upper c \<longleftrightarrow> 65 \<le> (of_char c :: nat) \<and> (of_char c :: nat) \<le> 90"

definition natixis_at :: "string \<Rightarrow> bool" where
  "natixis_at s \<longleftrightarrow> 11 \<le> length s \<and> list_all ascii_upper (take 5 s) \<and> list_all py_digit (take 6 (drop 5 s))"

fun natixis_path :: "string \<Rightarrow> string option" where
  "natixis_path [] = None"
| "natixis_path (c # cs) =
     (if natixis_at (c # cs)
      then Some (''/'' @ take 3 (c # cs) @ ''/'' @ take 2 (drop 3 (c # cs)) @ ''/'' @ take 6 (drop 5 (c # cs)))
      else natixis_path cs)"

text \<open>
  A row \<^verbatim>\<open>.//tr[@class!="en-tetes" and @class!="Inactive"]\<close> of a panel of the new
  layout (lines 890--917). The account just added is the object of the dict, so the
  number set afterwards is set on the stored account.
\<close>

definition new_row :: "cde_env \<Rightarrow> string \<Rightarrow> acct_type \<Rightarrow> owner_type option \<Rightarrow> cde_state \<Rightarrow> node \<Rightarrow>
                       auth_exc + cde_state" where
  "new_row E owner_name ty ot st tr =
     (let tds = child_elems ''td'' tr in
      case first_link tds (cs_link st) of
        None \<Rightarrow> Inl (PyExc UnboundLocalError)
      | Some None \<Rightarrow> Inr (st\<lparr>cs_link := Some None\<rparr>)
      | Some (Some a) \<Rightarrow>
          (let st = st\<lparr>cs_link := Some (Some a)\<rparr> in
           ebind (py_index tds 0) (\<lambda>td0.
             let label = woob_sel (desc_elems ''strong'' td0);
                 balance = woob_sel (filter (has_class ''somme'') (desc_elems ''td'' tr));
                 own = get_ownership tds owner_name in
             ebind (add_account E st a label ty balance None own ot) (\<lambda>(r, st).
               case r of
                 None \<Rightarrow> Inr st
               | Some acc \<Rightarrow>
                   ebind (py_index tds 1) (\<lambda>td1.
                     let number = woob_node td1 in
                     Inr (st\<lparr>cs_accounts := od_set (cs_accounts st) (acc_id acc)
                              (acc\<lparr>acc_number := Some number, acc_natixis := natixis_path number\<rparr>)\<rparr>))))))"

definition row_shown :: "node \<Rightarrow> bool" where
  "row_shown tr = (case attr_of ''class'' tr of Some c \<Rightarrow> c \<noteq> ''en-tetes'' \<and> c \<noteq> ''Inactive'' | None \<Rightarrow> False)"

text \<open>A panel \<^verbatim>\<open>//div[@class="panel"]\<close> with its previous element, the title (lines 885--889).\<close>

definition new_table :: "cde_env \<Rightarrow> string \<Rightarrow> owner_type option \<Rightarrow> cde_state \<Rightarrow> node \<times> node option \<Rightarrow>
                         auth_exc + cde_state" where
  "new_table E owner_name ot st panel =
     (case snd panel of
        None \<Rightarrow> Inr st
      | Some title \<Rightarrow>
          efold (new_row E owner_name (type_or_unknown (woob_node title)) ot)
                (filter row_shown (desc_elems ''tr'' (fst panel))) st)"

definition panels :: "node \<Rightarrow> (node \<times> node option) list" where
  "panels doc = filter (\<lambda>(n, p). is_tag ''div'' n \<and> attr_of ''class'' n = Some ''panel'') (desc_prev doc None)"

text \<open>
  \<^verbatim>\<open>get_list(owner_name)\<close> (lines 832--918): the old layout first; when it gives no
  account, the new one. The result is the accounts in insertion order.
\<close>

definition get_list :: "cde_env \<Rightarrow> node \<Rightarrow> string \<Rightarrow> cde_state \<Rightarrow> auth_exc + cde_account list \<times> cde_state" where
  "get_list E doc owner_name st0 =
     (let st = st0\<lparr>cs_accounts := [], cs_link := None, cs_new_website := False\<rparr> in
      ebind (efold (old_table E doc owner_name) (old_tables doc) st) (\<lambda>st.
        if cs_accounts st \<noteq> [] then Inr (map snd (cs_accounts st), st)
        else
          ebind (efold (new_table E owner_name (get_owner_type doc None)) (panels doc) (st\<lparr>cs_new_website := True\<rparr>))
            (\<lambda>st. Inr (map snd (cs_accounts st), st))))"

section \<open>Loans\<close>

text \<open>A loan of \<^verbatim>\<open>get_loan_list\<close> (an \<^verbatim>\<open>Account\<close> on the old layout, a \<^verbatim>\<open>Loan\<close> on the new one).\<close>

record loan =
  ln_id :: string
  ln_label :: string
  ln_type :: acct_type
  ln_balance :: decimal
  ln_currency :: "string option"
  ln_owner_type :: "owner_type option"
  ln_ownership :: "ownership option"
  ln_card_links :: card_links
  ln_total_amount :: "decimal option"
  ln_available_amount :: "decimal option"
  ln_rate :: "decimal option"
  ln_opening_date :: "date option"
  ln_subscription_date :: "date option"
  ln_maturity_date :: "date option"
  ln_next_payment_amount :: "decimal option"
  ln_next_payment_date :: "date option"

text \<open>
  The woob filters the loans use, on the cleaned text of their selection:
  \<^verbatim>\<open>CleanDecimal(replace_dots=True)\<close>, \<^verbatim>\<open>CleanDecimal.French()\<close>,
  \<^verbatim>\<open>Date(dayfirst=True)\<close>; and the browser: \<^verbatim>\<open>get_form(id="main")\<close>,
  the submission of that form with an \<^verbatim>\<open>__EVENTARGUMENT\<close> (which may raise
  \<^verbatim>\<open>ClientError\<close>), and the JSON of \<^verbatim>\<open>browser.loans_conso()\<close>.
\<close>

record loan_env =
  clean_decimal_dots :: "string \<Rightarrow> auth_exc + decimal"
  clean_decimal_french :: "string \<Rightarrow> auth_exc + decimal"
  parse_date_dayfirst :: "string \<Rightarrow> auth_exc + date"
  get_form_main :: "auth_exc + unit"
  submit_conso :: "string \<Rightarrow> auth_exc + unit"
  loans_conso :: "auth_exc + json"

definition bailleur_msg :: string where
  "bailleur_msg = ''Veuillez contacter le Cr'' @ [CHR 0xE9] @ ''dit Bailleur''"

text \<open>\<^verbatim>\<open>//table[@cellpadding="1"]/tr[not(@class) and td[a]]\<close> (line 984), in document order.\<close>

definition old_loan_rows :: "node \<Rightarrow> node list" where
  "old_loan_rows doc =
     [tr. (tr, Some t) \<leftarrow> desc_par doc None,
          is_tag ''tr'' tr \<and> is_tag ''table'' t \<and> attr_of ''cellpadding'' t = Some ''1'' \<and>
          attr_of ''class'' tr = None \<and> (\<exists>td \<in> set (child_elems ''td'' tr). child_elems ''a'' td \<noteq> [])]"

text \<open>A loan row of the old layout (lines 985--999).\<close>

definition old_loan_row :: "cde_env \<Rightarrow> loan_env \<Rightarrow> node \<Rightarrow> (string \<times> loan) list \<Rightarrow> node \<Rightarrow> auth_exc + (string \<times> loan) list" where
  "old_loan_row E L doc accounts tr =
     (let tds = child_elems ''td'' tr in
      ebind (py_index tds 4) (\<lambda>td4.
        let amount = woob_sel (child_elems ''a'' td4) in
        if sublist bailleur_msg amount then Inr accounts
        else
          ebind (py_index tds 2) (\<lambda>td2.
            let parts = py_split CHR ''-'' (woob_sel (child_elems ''a'' td2)) in
            ebind (clean_decimal_dots L amount) (\<lambda>b. ebind (dec_neg b) (\<lambda>balance.
              let account =
                \<lparr>ln_id = py_strip (hd parts), ln_label = py_strip (last parts), ln_type = TLoan,
                 ln_balance = balance, ln_currency = get_currency E amount,
                 ln_owner_type = get_owner_type doc (attr_of ''id'' tr), ln_ownership = None,
                 ln_card_links = CardNone, ln_total_amount = None, ln_available_amount = None, ln_rate = None,
                 ln_opening_date = None, ln_subscription_date = None, ln_maturity_date = None,
                 ln_next_payment_amount = None, ln_next_payment_date = None\<rparr> in
              Inr (od_set accounts (ln_id account) account))))))"

text \<open>\<^verbatim>\<open>re.search(r'CREDITCONSO&(\w+)', href).group(1)\<close>.\<close>

fun conso_id :: "string \<Rightarrow> string option" where
  "conso_id [] = None"
| "conso_id (c # cs) =
     (let r = drop 12 (c # cs) in
      if take 12 (c # cs) = ''CREDITCONSO&'' \<and> r \<noteq> [] \<and> word_char (hd r) then Some (takeWhile word_char r)
      else conso_id cs)"

text \<open>
  \<^verbatim>\<open>go_loans_conso(tr)\<close> (lines 967--978). The local \<^verbatim>\<open>account\<close> is bound only when the
  link matches, and read after the form is found.
\<close>

definition go_loans_conso :: "loan_env \<Rightarrow> node \<Rightarrow> auth_exc + unit" where
  "go_loans_conso L tr =
     (let link = filter (\<lambda>a. sublist ''IdaCreditPerm'' (attr_or_empty ''id'' a))
                        (concat (map (child_elems ''a'') (child_elems ''td'' tr))) in
      ebind (py_index link 0) (\<lambda>l.
        case attr_of ''href'' l of
          None \<Rightarrow> Inl (PyExc KeyError)
        | Some h \<Rightarrow>
            ebind (get_form_main L) (\<lambda>_.
              case conso_id h of
                None \<Rightarrow> Inl (PyExc UnboundLocalError)
              | Some account \<Rightarrow> submit_conso L (''ACTIVDESACT_CREDITCONSO&'' @ account))))"

definition action_needed_msg :: string where
  "action_needed_msg =
     ''La situation actuelle de votre dossier ne vous permet pas d'' @ [CHR 0x27] @ ''acc'' @ [CHR 0xE9] @
     ''der '' @ [CHR 0xE0] @ '' cette fonctionnalit'' @ [CHR 0xE9] @ ''. '' @
     ''Nous vous invitons '' @ [CHR 0xE0] @ '' contacter votre Centre de relation Client'' @ [CHR 0xE8] @
     ''le pour acc'' @ [CHR 0xE9] @ ''der '' @ [CHR 0xE0] @ '' votre pr'' @ [CHR 0xEA] @ ''t.''"

text \<open>
  \<^verbatim>\<open>value_xpath % k\<close> (line 1045): the cells of the detail rows of key \<open>k\<close>, cleaned;
  \<^verbatim>\<open>CleanDecimal.French\<close> and \<^verbatim>\<open>Date\<close> with the default \<^verbatim>\<open>NotAvailable\<close>.
\<close>

definition detail_text :: "string \<Rightarrow> node \<Rightarrow> string" where
  "detail_text k tr =
     woob_sel (concat (map (child_elems ''td'')
       (filter (\<lambda>n. is_tag ''tr'' n \<and> sublist (''_Id'' @ k @ ''_'') (attr_or_empty ''id'' n))
          (desc_below_list (\<lambda>n. is_tag ''div'' n \<and> sublist ''_IdDivDetail_'' (attr_or_empty ''id'' n)) False
             (node_children tr)))))"

definition or_na :: "auth_exc + 'a \<Rightarrow> 'a option" where
  "or_na r = (case r of Inr v \<Rightarrow> Some v | Inl _ \<Rightarrow> None)"

definition loan_details :: "loan_env \<Rightarrow> node \<Rightarrow> loan \<Rightarrow> loan" where
  "loan_details L tr account =
     account\<lparr>ln_total_amount := or_na (clean_decimal_french L (detail_text ''CapitalEmprunte'' tr)),
             ln_rate := or_na (clean_decimal_french L (detail_text ''Taux'' tr)),
             ln_opening_date := or_na (parse_date_dayfirst L (detail_text ''DateOuverture'' tr)),
             ln_subscription_date := or_na (parse_date_dayfirst L (detail_text ''DateSignature'' tr)),
             ln_maturity_date := or_na (parse_date_dayfirst L (detail_text ''DerniereEcheance'' tr)),
             ln_next_payment_amount := or_na (clean_decimal_french L (detail_text ''MontantEcheance'' tr)),
             ln_next_payment_date := or_na (parse_date_dayfirst L (detail_text ''DateProchaineEcheance'' tr))\<rparr>"

text \<open>\<^verbatim>\<open>d[k1][k2]\<close> on the decoded JSON, through \<^verbatim>\<open>float_to_decimal\<close>.\<close>

definition conso_amount :: "json \<Rightarrow> string \<Rightarrow> string \<Rightarrow> auth_exc + decimal" where
  "conso_amount d k1 k2 = ebind (json_getitem d (JStr k1)) (\<lambda>v. ebind (json_getitem v (JStr k2)) float_to_decimal)"

text \<open>
  The revolving credit (lines 1075--1096): a \<^verbatim>\<open>ClientError\<close> 401 of the navigation is
  \<^verbatim>\<open>ActionNeeded\<close>, any other exception is raised again.
\<close>

definition revolving_details :: "loan_env \<Rightarrow> node \<Rightarrow> loan \<Rightarrow> auth_exc + loan" where
  "revolving_details L tr account =
     ebind (case go_loans_conso L tr of
              Inl e \<Rightarrow> Inl (if e = ClientError 401 then ActionNeeded action_needed_msg else e)
            | Inr u \<Rightarrow> Inr u) (\<lambda>_.
       ebind (loans_conso L) (\<lambda>d.
         if \<not> truthy d then Inr account
         else
           ebind (conso_amount d ''contrat'' ''creditMaxAutorise'') (\<lambda>t.
             ebind (conso_amount d ''situationCredit'' ''disponible'') (\<lambda>a.
               ebind (conso_amount d ''situationCredit'' ''mensualiteEnCours'') (\<lambda>n.
                 Inr (account\<lparr>ln_total_amount := Some t, ln_available_amount := Some a,
                              ln_next_payment_amount := Some n\<rparr>))))))"

text \<open>
  The balance of a loan row (lines 1019--1029): the last cell; on a three-cell row with
  an amount available, other than a real-estate or consumer loan, what was spent.
\<close>

definition loan_balance :: "loan_env \<Rightarrow> node \<Rightarrow> node list \<Rightarrow> auth_exc + decimal" where
  "loan_balance L tr tds =
     ebind (clean_decimal_french L (woob_node (last tds))) (\<lambda>balance.
       if length tds = 3 then
         ebind (clean_decimal_french L (woob_node (tds ! 1))) (\<lambda>available.
           if dec_truthy available \<and> \<not> (\<exists>c \<in> set [''dgImmo'', ''dgConso'']. sublist c (attr_or_empty ''id'' tr))
           then dec_sub available balance else Inr balance)
       else Inr balance)"

text \<open>The label of a loan row, \<^verbatim>\<open>CleanText('(.//a/strong)[1]', children=False)(tds[0])\<close> (line 1018).\<close>

definition loan_label :: "node \<Rightarrow> string" where
  "loan_label td0 =
     woob_clean (py_join '' '' (map (\<lambda>n. woob_clean (py_join '' '' (map py_strip (own_texts n))))
       (take 1 (concat (map (child_elems ''strong'') (desc_elems ''a'' td0))))))"

text \<open>The \<^verbatim>\<open>Loan\<close> of a row (lines 1031--1041).\<close>

definition new_loan :: "cde_env \<Rightarrow> acct_type \<Rightarrow> owner_type option \<Rightarrow> string \<Rightarrow> node list \<Rightarrow> decimal \<Rightarrow> loan" where
  "new_loan E ty ot label tds balance =
     \<lparr>ln_id = last (py_split CHR '' '' label), ln_label = label, ln_type = ty, ln_balance = balance,
      ln_currency = get_currency E (woob_node (last tds)), ln_owner_type = ot, ln_ownership = Some Owner,
      ln_card_links = CardList, ln_total_amount = None, ln_available_amount = None, ln_rate = None,
      ln_opening_date = None, ln_subscription_date = None, ln_maturity_date = None,
      ln_next_payment_amount = None, ln_next_payment_date = None\<rparr>"

text \<open>The details read for the kind of loan the panel title names (lines 1043--1096).\<close>

definition loan_extra :: "loan_env \<Rightarrow> node \<Rightarrow> node \<Rightarrow> loan \<Rightarrow> auth_exc + loan" where
  "loan_extra L title tr account =
     (let t = woob_node title in
      if sublist ''consommation'' t \<or> sublist ''immobiliers'' t then Inr (loan_details L tr account)
      else if sublist ''renouvelables'' t then revolving_details L tr account
      else Inr account)"

text \<open>A loan row of a panel of the new layout (lines 1014--1097).\<close>

definition new_loan_row :: "cde_env \<Rightarrow> loan_env \<Rightarrow> acct_type \<Rightarrow> node \<Rightarrow> owner_type option \<Rightarrow>
                            (string \<times> loan) list \<Rightarrow> node \<Rightarrow> auth_exc + (string \<times> loan) list" where
  "new_loan_row E L ty title ot accounts tr =
     (let tds = child_elems ''td'' tr in
      if tds = [] then Inr accounts
      else
        ebind (loan_balance L tr tds) (\<lambda>balance. ebind (dec_abs balance) (\<lambda>ab. ebind (dec_neg ab) (\<lambda>nb.
          ebind (loan_extra L title tr (new_loan E ty ot (loan_label (hd tds)) tds nb)) (\<lambda>account.
            Inr (od_set accounts (ln_id account) account))))))"

definition loan_rows :: "node \<Rightarrow> node list" where
  "loan_rows panel =
     filter (\<lambda>tr. sublist ''MM_SYNTHESE_CREDITS'' (attr_or_empty ''id'' tr) \<and> sublist ''IdTrGlobal'' (attr_or_empty ''id'' tr))
       (concat (map (child_elems ''tr'') (concat (map (child_elems ''tbody'') (child_elems ''table'' panel)))))"

definition new_loan_table :: "cde_env \<Rightarrow> loan_env \<Rightarrow> owner_type option \<Rightarrow> (string \<times> loan) list \<Rightarrow> node \<times> node option \<Rightarrow>
                              auth_exc + (string \<times> loan) list" where
  "new_loan_table E L ot accounts panel =
     (case snd panel of
        None \<Rightarrow> Inr accounts
      | Some title \<Rightarrow> efold (new_loan_row E L (type_or_unknown (woob_node title)) title ot) (loan_rows (fst panel)) accounts)"

text \<open>\<^verbatim>\<open>get_loan_list()\<close> (lines 980--1098): the old layout, else the panels of the new one.\<close>

definition get_loan_list :: "cde_env \<Rightarrow> loan_env \<Rightarrow> node \<Rightarrow> auth_exc + loan list" where
  "get_loan_list E L doc =
     ebind (efold (old_loan_row E L doc) (old_loan_rows doc) []) (\<lambda>accounts.
       if accounts \<noteq> [] then Inr (map snd accounts)
       else ebind (efold (new_loan_table E L (get_owner_type doc None)) (panels doc) []) (\<lambda>accounts. Inr (map snd accounts)))"

section \<open>Invariants\<close>

text \<open>The state of \<^verbatim>\<open>get_list\<close> keeps its accounts under their ids.\<close>

definition st_inv :: "cde_state \<Rightarrow> bool" where
  "st_inv st \<longleftrightarrow> keyed_by acc_id (cs_accounts st)"

text \<open>A balance that is not positive: at most zero, minus infinity or NaN.\<close>

definition dec_nonpos :: "decimal \<Rightarrow> bool" where
  "dec_nonpos d = (case dec_value d of Some v \<Rightarrow> v \<le> 0 | None \<Rightarrow> d \<noteq> Infinity False)"

text \<open>The loans under their ids, with balances that are not positive when \<open>neg\<close>.\<close>

definition loans_inv :: "bool \<Rightarrow> (string \<times> loan) list \<Rightarrow> bool" where
  "loans_inv neg m \<longleftrightarrow> keyed_by ln_id m \<and> (neg \<longrightarrow> (\<forall>(k, l) \<in> set m. dec_nonpos (ln_balance l)))"

section \<open>Properties\<close>

subsection \<open>Every account is listed under its id\<close>

text \<open>
  Each step of \<^verbatim>\<open>get_list\<close> stores an account under its own id, or updates the account
  already stored there; so the list returned never holds two accounts with one id.
\<close>

lemma store_account_inv: "st_inv st \<Longrightarrow> st_inv (snd (store_account st acc))"
  by (simp add: store_account_def st_inv_def Let_def keyed_by_od_set keyed_by_lookup)

lemma st_inv_upd [simp]:
  "st_inv (st\<lparr>cs_link := l\<rparr>) = st_inv st" "st_inv (st\<lparr>cs_logins := n\<rparr>) = st_inv st"
  "st_inv (st\<lparr>cs_new_website := b\<rparr>) = st_inv st"
  by (simp_all add: st_inv_def)

lemma store_account_inv': "store_account st acc = (r, st') \<Longrightarrow> st_inv st \<Longrightarrow> st_inv st'"
  using store_account_inv [of st acc] by simp

lemma add_account_inv:
  "add_account E st l lab ty b n own ot = Inr (r, st') \<Longrightarrow> st_inv st \<Longrightarrow> st_inv st'"
  unfolding add_account_def
  by (auto simp: ebind_eq_Inr Let_def split: option.splits) (metis store_account_inv')

lemma link_loop_inv:
  "link_loop E ty own ot bt nt i as st = Inr st' \<Longrightarrow> st_inv st \<Longrightarrow> st_inv st'"

proof (induction as arbitrary: i st)
  case (Cons a as)
  then show ?case
    by (auto simp: Let_def ebind_eq_Inr dest: add_account_inv)

qed simp

lemma old_row_inv: "old_row E nm ot tyst tr = Inr tyst' \<Longrightarrow> st_inv (snd tyst) \<Longrightarrow> st_inv (snd tyst')"
  unfolding old_row_def
  by (cases tyst) (auto simp: Let_def ebind_eq_Inr split: if_splits dest: link_loop_inv)

lemma old_table_inv: "old_table E doc nm st t = Inr st' \<Longrightarrow> st_inv st \<Longrightarrow> st_inv st'"

proof -
  assume r: "old_table E doc nm st t = Inr st'" and i: "st_inv st"
  then obtain ty where f: "efold (old_row E nm (get_owner_type doc (attr_of ''id'' t))) (child_elems ''tr'' t) (TUnknown, st) = Inr (ty, st')"
    by (auto simp: old_table_def Let_def ebind_eq_Inr)
  have "st_inv (snd (ty, st'))"
    by (rule efold_inv [OF f, where P = "\<lambda>x. st_inv (snd x)"]) (simp_all add: i old_row_inv)
  then show "st_inv st'" by simp

qed

lemma new_row_inv: "new_row E nm ty ot st tr = Inr st' \<Longrightarrow> st_inv st \<Longrightarrow> st_inv st'"
  unfolding new_row_def
  by (auto simp: Let_def ebind_eq_Inr st_inv_def split: option.splits
           dest!: add_account_inv [unfolded st_inv_def] intro!: keyed_by_od_set)

lemma new_table_inv: "new_table E nm ot st p = Inr st' \<Longrightarrow> st_inv st \<Longrightarrow> st_inv st'"
  unfolding new_table_def
  by (auto split: option.splits elim!: efold_inv dest: new_row_inv)

lemma get_list_inv:
  assumes "get_list E doc nm st0 = Inr (accs, st')"
  shows "st_inv st' \<and> accs = map snd (cs_accounts st')"

proof -
  let ?st = "st0\<lparr>cs_accounts := [], cs_link := None, cs_new_website := False\<rparr>"
  have i0: "st_inv ?st" by (simp add: st_inv_def keyed_by_def)
  from assms obtain st1 where f1: "efold (old_table E doc nm) (old_tables doc) ?st = Inr st1"
    by (auto simp: get_list_def Let_def ebind_eq_Inr)
  have i1: "st_inv st1" by (rule efold_inv [where P = st_inv, OF f1 i0]) (simp add: old_table_inv)
  show ?thesis
  proof (cases "cs_accounts st1 = []")
    case False
    with assms f1 i1 show ?thesis by (auto simp: get_list_def Let_def)
  next
    case True
    with assms f1 obtain st2 where
      f2: "efold (new_table E nm (get_owner_type doc None)) (panels doc) (st1\<lparr>cs_new_website := True\<rparr>) = Inr st2"
      and r: "accs = map snd (cs_accounts st2)" "st' = st2"
      by (auto simp: get_list_def Let_def ebind_eq_Inr)
    have "st_inv st2" by (rule efold_inv [where P = st_inv, OF f2]) (simp_all add: i1 new_table_inv)
    with r show ?thesis by simp
  qed

qed

lemma get_list_distinct_ids:
  "get_list E doc nm st0 = Inr (accs, st') \<Longrightarrow> distinct (map acc_id accs)"

proof -
  assume "get_list E doc nm st0 = Inr (accs, st')"
  then have i: "keyed_by acc_id (cs_accounts st')" and a: "accs = map snd (cs_accounts st')"
    using get_list_inv by (simp_all add: st_inv_def)
  then have "map acc_id accs = map fst (cs_accounts st')" by (simp only: a keyed_by_ids [OF i])
  with i show ?thesis by (simp add: keyed_by_def)

qed

subsection \<open>Behaviour of the account list\<close>

text \<open>The literal \<^verbatim>\<open>ACCOUNT_TYPES\<close> repeats no key, so no entry is overridden.\<close>

lemma account_types_distinct: "distinct (map fst account_types)"
  by (simp add: account_types_def)

text \<open>
  A shown row of the new layout without cells: the loop over the cells never binds
  \<^verbatim>\<open>a\<close>, so \<^verbatim>\<open>a\<close> is unbound on the first such row, or the link of an earlier row,
  and then \<^verbatim>\<open>tds[0]\<close> fails; the row is never skipped.
\<close>

lemma new_row_no_cells_unbound:
  "child_elems ''td'' tr = [] \<Longrightarrow> cs_link st = None \<Longrightarrow> new_row E nm ty ot st tr = Inl (PyExc UnboundLocalError)"
  by (simp add: new_row_def)

lemma new_row_no_cells_stale:
  "child_elems ''td'' tr = [] \<Longrightarrow> cs_link st = Some (Some a) \<Longrightarrow> new_row E nm ty ot st tr = Inl (PyExc IndexError)"
  by (simp add: new_row_def py_index_def)

text \<open>The repair of an id (the source's example: a letter read as a digit).\<close>

lemma find_and_replace_one_letter:
  assumes "length (ai_id info) = length acc" and "one_letter_off (ai_id info) acc"
  shows "ai_id (find_and_replace info acc) = acc"

proof -
  have ne: "ai_id info \<noteq> []" using assms(2) by (auto simp: one_letter_off_def)
  have "[0..<nat (int (length (ai_id info)) - int (length acc) + 1)] = [0]" using assms(1) by simp
  then show ?thesis using assms ne by (simp add: find_and_replace_def Let_def py_replace_def py_replace_ne_self)

qed

text \<open>A technical error page while reading a balance: log in again, add nothing.\<close>

lemma add_account_technical:
  assumes "get_account_info E l (cs_accounts st) = Inr (Some info)"
    and "get_balance E (new_account E info lab ty n own ot) = Inl e" and "is_technical e"
  shows "add_account E st l lab ty [] n own ot = Inr (None, st\<lparr>cs_logins := Suc (cs_logins st)\<rparr>)"
  using assms by (simp add: add_account_def technical_skip_def)

text \<open>
  The test for a civility is a substring test on \<^verbatim>\<open>'M'\<close>, which any owner text with the
  letter M passes: a company is listed as held by attorney.
\<close>

lemma get_ownership_any_m:
  "get_ownership [Elem ''td'' [] [], Elem ''td'' [] [], Elem ''td'' [] [Text ''SARL DUMAS'']] ''JEAN'' = Some Attorney"
  by code_simp

subsection \<open>Loans\<close>

text \<open>
  Loans are stored under their ids as accounts are; on the new layout the balance is
  \<^verbatim>\<open>-abs(balance)\<close>, which is never positive whatever the details read afterwards.
\<close>

lemma dec_neg_abs_nonpos: "dec_abs b = Inr a \<Longrightarrow> dec_neg a = Inr n \<Longrightarrow> dec_nonpos n"
  by (cases b) (auto simp: dec_nonpos_def split: if_splits)

lemma revolving_details_keeps:
  "revolving_details L tr acc = Inr acc' \<Longrightarrow> ln_id acc' = ln_id acc \<and> ln_balance acc' = ln_balance acc"
  by (auto simp: revolving_details_def ebind_eq_Inr split: if_splits sum.splits)

lemma old_loan_row_inv: "old_loan_row E L doc m tr = Inr m' \<Longrightarrow> loans_inv False m \<Longrightarrow> loans_inv False m'"
  by (auto simp: old_loan_row_def Let_def ebind_eq_Inr loans_inv_def split: if_splits intro!: keyed_by_od_set)

lemma loan_extra_keeps: "loan_extra L t tr acc = Inr acc' \<Longrightarrow> ln_balance acc' = ln_balance acc"
  by (auto simp: loan_extra_def Let_def loan_details_def split: if_splits dest: revolving_details_keeps)

lemma new_loan_row_cases:
  assumes "new_loan_row E L ty t ot m tr = Inr m'"
  shows "m' = m \<or> (\<exists>acc. m' = od_set m (ln_id acc) acc \<and> dec_nonpos (ln_balance acc))"

proof (cases "child_elems ''td'' tr = []")
  case False
  with assms obtain b a n acc where
      ab: "dec_abs b = Inr a" and ng: "dec_neg a = Inr n"
      and ex: "loan_extra L t tr (new_loan E ty ot (loan_label (hd (child_elems ''td'' tr))) (child_elems ''td'' tr) n) = Inr acc"
      and r: "m' = od_set m (ln_id acc) acc"
    unfolding new_loan_row_def Let_def by (auto simp: ebind_eq_Inr)
  have "ln_balance acc = n" using loan_extra_keeps [OF ex] by (simp add: new_loan_def)
  with dec_neg_abs_nonpos [OF ab ng] r show ?thesis by auto

qed (use assms in \<open>simp add: new_loan_row_def\<close>)

lemma new_loan_row_inv: "new_loan_row E L ty t ot m tr = Inr m' \<Longrightarrow> loans_inv neg m \<Longrightarrow> loans_inv neg m'"

proof -
  assume r: "new_loan_row E L ty t ot m tr = Inr m'" and i: "loans_inv neg m"
  show "loans_inv neg m'"
  proof (cases "m' = m")
    case False
    then obtain acc where m': "m' = od_set m (ln_id acc) acc" and np: "dec_nonpos (ln_balance acc)"
      using new_loan_row_cases [OF r] by blast
    have "\<forall>(k, l) \<in> set m'. dec_nonpos (ln_balance l)" if "\<forall>(k, l) \<in> set m. dec_nonpos (ln_balance l)"
      unfolding m' by (rule od_set_all [OF that np])
    with i show ?thesis by (auto simp: loans_inv_def m' intro!: keyed_by_od_set)
  qed (use i in simp)

qed

lemma new_loan_table_inv: "new_loan_table E L ot m p = Inr m' \<Longrightarrow> loans_inv neg m \<Longrightarrow> loans_inv neg m'"
  unfolding new_loan_table_def
  by (auto split: option.splits elim!: efold_inv dest: new_loan_row_inv)

lemma loans_inv_Nil: "loans_inv neg []"
  by (simp add: loans_inv_def keyed_by_def)

lemma get_loan_list_inv:
  assumes "get_loan_list E L doc = Inr ls"
  shows "\<exists>m. ls = map snd m \<and> loans_inv (old_loan_rows doc = []) m"

proof -
  from assms obtain m1 where f1: "efold (old_loan_row E L doc) (old_loan_rows doc) [] = Inr m1"
    by (auto simp: get_loan_list_def ebind_eq_Inr)
  have i1: "loans_inv False m1"
    by (rule efold_inv [where P = "loans_inv False", OF f1 loans_inv_Nil]) (simp add: old_loan_row_inv)
  show ?thesis
  proof (cases "m1 = []")
    case False
    then have "old_loan_rows doc \<noteq> []" using f1 by auto
    with False assms f1 i1 show ?thesis by (auto simp: get_loan_list_def)
  next
    case True
    with assms f1 obtain m2 where
      f2: "efold (new_loan_table E L (get_owner_type doc None)) (panels doc) [] = Inr m2" and r: "ls = map snd m2"
      by (auto simp: get_loan_list_def ebind_eq_Inr)
    have "loans_inv (old_loan_rows doc = []) m2"
      by (rule efold_inv [where P = "loans_inv (old_loan_rows doc = [])", OF f2 loans_inv_Nil])
         (simp add: new_loan_table_inv)
    with r show ?thesis by blast
  qed

qed

lemma get_loan_list_distinct_ids:
  assumes "get_loan_list E L doc = Inr ls"
  shows "distinct (map ln_id ls)"
proof -
  obtain m b where ls: "ls = map snd m" and i: "loans_inv b m"
    using get_loan_list_inv [OF assms] by blast
  then have k: "keyed_by ln_id m" by (simp add: loans_inv_def)
  then have "map ln_id ls = map fst m" by (simp only: ls keyed_by_ids [OF k])
  with k show ?thesis by (simp add: keyed_by_def)
qed

lemma get_loan_list_new_nonpos:
  assumes "get_loan_list E L doc = Inr ls" and "old_loan_rows doc = []" and "l \<in> set ls"
  shows "dec_nonpos (ln_balance l)"
proof -
  obtain m where ls: "ls = map snd m" and i: "loans_inv (old_loan_rows doc = []) m"
    using get_loan_list_inv [OF assms(1)] by blast
  obtain k where "(k, l) \<in> set m" using assms(3) ls by auto
  with i assms(2) show ?thesis by (auto simp: loans_inv_def)
qed

text \<open>
  A consumer-credit link whose target has no \<^verbatim>\<open>CREDITCONSO&\<close> id leaves the local
  \<^verbatim>\<open>account\<close> of \<^verbatim>\<open>go_loans_conso\<close> unbound.
\<close>

lemma go_loans_conso_unbound:
  assumes "concat (map (child_elems ''a'') (child_elems ''td'' tr)) = [l]" and "sublist ''IdaCreditPerm'' (attr_or_empty ''id'' l)"
    and "attr_of ''href'' l = Some h" and "conso_id h = None" and "get_form_main L = Inr ()"
  shows "go_loans_conso L tr = Inl (PyExc UnboundLocalError)"
  using assms by (simp add: go_loans_conso_def py_index_def)

lemma revolving_details_401:
  "go_loans_conso L tr = Inl (ClientError 401) \<Longrightarrow> revolving_details L tr acc = Inl (ActionNeeded action_needed_msg)"
  by (simp add: revolving_details_def)

end
