(* ===== verification/CaisseLife.thy ===== *)
theory CaisseLife
  imports PyNumbers BankCaps
begin

text \<open>
  The JSON pages of the life insurances of \<^verbatim>\<open>src/modules/caissedepargne/pages.py\<close>:
  the history and the investments of a contract of the bank's own insurer
  (\<^verbatim>\<open>LifeInsuranceHistory\<close>, \<^verbatim>\<open>LifeInsuranceInvestments\<close>) and of Natixis
  (\<^verbatim>\<open>NatixisLIHis\<close>, \<^verbatim>\<open>NatixisLIInv\<close>). Each \<^verbatim>\<open>DictElement\<close> is a loop over the
  elements it finds, each \<^verbatim>\<open>ItemElement\<close> a function of an element giving the object
  or the exception that ends the list. woob evaluates the attributes of an item as its
  metaclass orders them: the constants, then the filters in the order they are written,
  then the \<^verbatim>\<open>obj_\<close> methods in the order they are written; the model does the same.
\<close>

section \<open>Library\<close>

text \<open>
  What the pages call and the model does not compute: \<^verbatim>\<open>datetime.fromtimestamp(v / 1000)\<close>
  (which reads the local time zone), the patterns of \<^verbatim>\<open>Transaction.Raw\<close> on a cleaned
  label (giving the type and the label), \<^verbatim>\<open>is_isin_valid\<close>, and the filter \<^verbatim>\<open>Date\<close>
  with the default \<^verbatim>\<open>NotAvailable\<close> and without default.
\<close>

record life_env =
  fromtimestamp_ms :: "json \<Rightarrow> auth_exc + date"
  raw_parse :: "string \<Rightarrow> tx_type \<times> string"
  isin_valid :: "string \<Rightarrow> bool"
  date_or_na :: "json \<Rightarrow> date option"
  date_req :: "json \<Rightarrow> auth_exc + date"

text \<open>
  \<^verbatim>\<open>IsinCode(CleanText(Dict('codeIsin', default='')), default=NotAvailable)\<close> and
  \<^verbatim>\<open>IsinType\<close> of the same text: the code when it is a valid ISIN.
\<close>

definition isin_code :: "life_env \<Rightarrow> json \<Rightarrow> auth_exc + string option" where
  "isin_code V el =
     ebind (dict_or ''codeIsin'' (JStr []) el) (\<lambda>v. ebind (clean_json v) (\<lambda>s.
       Inr (if isin_valid V s then Some s else None)))"

text \<open>\<^verbatim>\<open>float_to_decimal(x) / 100\<close>.\<close>

definition f2d_percent :: "json \<Rightarrow> auth_exc + decimal" where
  "f2d_percent x = ebind (float_to_decimal x) dec_div100"

text \<open>
  The pattern \<^verbatim>\<open>if test: return f(Dict(q)(self))\<close>, else \<^verbatim>\<open>NotAvailable\<close> (\<open>None\<close>).
\<close>

definition test_then :: "auth_exc + json \<Rightarrow> string \<Rightarrow> json \<Rightarrow> (json \<Rightarrow> auth_exc + 'a) \<Rightarrow> auth_exc + 'a option" where
  "test_then t q el f =
     ebind t (\<lambda>v. if truthy v then ebind (dict_req q el) (\<lambda>w. ebind (f w) (\<lambda>x. Inr (Some x))) else Inr None)"

text \<open>A timestamp in milliseconds read as a date when it is truthy.\<close>

definition ms_date_or_na :: "life_env \<Rightarrow> string \<Rightarrow> json \<Rightarrow> auth_exc + date option" where
  "ms_date_or_na V k el =
     ebind (dict_req k el) (\<lambda>d. if truthy d then ebind (fromtimestamp_ms V d) (\<lambda>x. Inr (Some x)) else Inr None)"

text \<open>The attributes these pages set on a \<^verbatim>\<open>Transaction\<close>.\<close>

record li_tx =
  lt_raw :: string
  lt_type :: tx_type
  lt_label :: "string option"
  lt_amount :: decimal
  lt_date :: "date option"
  lt_rdate :: "date option"
  lt_vdate :: "date option"

text \<open>The attributes these pages set on an \<^verbatim>\<open>Investment\<close>.\<close>

record li_inv =
  iv_label :: string
  iv_valuation :: decimal
  iv_code :: "string option"
  iv_code_isin :: bool
  iv_portfolio_share :: "decimal option"
  iv_vdate :: "date option"
  iv_quantity :: "decimal option"
  iv_unitvalue :: "decimal option"
  iv_diff :: "decimal option"
  iv_diff_ratio :: "decimal option"

section \<open>The insurer's own contracts\<close>

text \<open>
  \<^verbatim>\<open>LifeInsuranceHistory.build_doc\<close> (lines 1890--1894): an empty answer is an empty
  dict; the model takes the decoded answer, \<open>None\<close> for an empty text.
\<close>

definition li_build_doc :: "json option \<Rightarrow> json" where
  "li_build_doc t = (case t of None \<Rightarrow> JObj [] | Some d \<Rightarrow> d)"

text \<open>
  An item of \<^verbatim>\<open>LifeInsuranceHistory.iter_history\<close> (lines 1901--1924): skipped when it
  has no amount (\<open>None\<close>); the raw label through the patterns, the amount, and the
  dates of processing (also the \<^verbatim>\<open>rdate\<close>) and of effect.
\<close>

definition li_history_item :: "life_env \<Rightarrow> json \<Rightarrow> auth_exc + li_tx option" where
  "li_history_item V el =
     ebind (dict_req ''montantBrut'' el) (\<lambda>c.
       if \<not> truthy c then Inr None
       else
         ebind (dict_req ''type/libelleLong'' el) (\<lambda>r. ebind (clean_json r) (\<lambda>raw.
         ebind (dict_req ''montantBrut/valeur'' el) (\<lambda>a. ebind (float_to_decimal a) (\<lambda>amount.
         ebind (ms_date_or_na V ''dateTraitement'' el) (\<lambda>d.
         ebind (ms_date_or_na V ''dateTraitement'' el) (\<lambda>rd.
         ebind (ms_date_or_na V ''dateEffet'' el) (\<lambda>vd.
           Inr (Some \<lparr>lt_raw = raw, lt_type = fst (raw_parse V raw), lt_label = Some (snd (raw_parse V raw)),
                      lt_amount = amount, lt_date = d, lt_rdate = rd, lt_vdate = vd\<rparr>)))))))))"

text \<open>
  \<^verbatim>\<open>LifeInsuranceHistory.iter_history\<close> (lines 1896--1924): the elements of the
  document, none when it is falsy (\<^verbatim>\<open>null\<close>).
\<close>

definition li_iter_history :: "life_env \<Rightarrow> json \<Rightarrow> auth_exc + li_tx list" where
  "li_iter_history V doc =
     ebind (if truthy doc then py_iter doc else Inr []) (\<lambda>els.
       efold (\<lambda>out el. ebind (li_history_item V el) (\<lambda>r. Inr (out @ (case r of Some t \<Rightarrow> [t] | None \<Rightarrow> [])))) els [])"

text \<open>
  An item of \<^verbatim>\<open>LifeInsuranceInvestments.iter_investment\<close> (lines 1933--1974): the
  filters (label without its dots, valuation, ISIN code and type), then the methods.
\<close>

definition li_investment_item :: "life_env \<Rightarrow> json \<Rightarrow> auth_exc + li_inv" where
  "li_investment_item V el =
     ebind (dict_req ''libelleSupport'' el) (\<lambda>l. ebind (clean_json l) (\<lambda>label.
     ebind (dict_req ''montantBrutInvesti/valeur'' el) (\<lambda>v. ebind (float_to_decimal v) (\<lambda>valuation.
     ebind (isin_code V el) (\<lambda>code.
     ebind (isin_code V el) (\<lambda>code_type.
     ebind (dict_or ''pourcentageInvesti'' JNull el) (\<lambda>p.
     ebind (if truthy p then ebind (f2d_percent p) (\<lambda>x. Inr (Some x)) else Inr None) (\<lambda>share.
     ebind (ms_date_or_na V ''cotation/date'' el) (\<lambda>vdate.
     ebind (test_then (dict_req ''nombreParts'' el) ''nombreParts'' el float_to_decimal) (\<lambda>quantity.
     ebind (test_then (dict_or ''montantPlusValue/valeur'' JNull el) ''montantPlusValue/valeur'' el float_to_decimal) (\<lambda>diff.
     ebind (test_then (dict_req ''tauxPlusValue'' el) ''tauxPlusValue'' el f2d_percent) (\<lambda>ratio.
     ebind (test_then (dict_req ''cotation/montant'' el) ''cotation/montant/valeur'' el float_to_decimal) (\<lambda>unitvalue.
       Inr \<lparr>iv_label = filter (\<lambda>c. c \<noteq> CHR ''.'') label, iv_valuation = valuation, iv_code = code,
            iv_code_isin = (code_type \<noteq> None), iv_portfolio_share = share, iv_vdate = vdate,
            iv_quantity = quantity, iv_unitvalue = unitvalue, iv_diff = diff, iv_diff_ratio = ratio\<rparr>)))))))))))))"

text \<open>
  \<^verbatim>\<open>LifeInsuranceInvestments.iter_investment\<close> (lines 1928--1974): the supports of the
  distribution, none when they are \<^verbatim>\<open>null\<close>.
\<close>

definition li_iter_investment :: "life_env \<Rightarrow> json \<Rightarrow> auth_exc + li_inv list" where
  "li_iter_investment V doc =
     ebind (py_item ''repartition'' doc) (\<lambda>r. ebind (py_item ''supports'' r) (\<lambda>s.
       ebind (if truthy s then py_iter s else Inr []) (\<lambda>els. py_mapM (li_investment_item V) els)))"

text \<open>\<^verbatim>\<open>LifeInsuranceInvestments.is_contract_closed\<close> (lines 1976--1977).\<close>

definition is_contract_closed :: "json \<Rightarrow> auth_exc + bool" where
  "is_contract_closed doc = ebind (dict_req ''etatContrat/code'' doc) (\<lambda>c. Inr (c = JStr ''01''))"

section \<open>Natixis contracts\<close>

text \<open>
  An item of \<^verbatim>\<open>NatixisLIHis.get_history\<close> (lines 1985--1996): the type and the empty
  investments first, then amount, raw label and dates; kept when it has a raw label
  and a date (\<^verbatim>\<open>validate\<close>).
\<close>

definition natixis_history_item :: "life_env \<Rightarrow> json \<Rightarrow> auth_exc + li_tx option" where
  "natixis_history_item V el =
     ebind (dict_req ''montantNet'' el) (\<lambda>a. ebind (float_to_decimal a) (\<lambda>amount.
     ebind (dict_or ''libelle'' (JStr []) el) (\<lambda>l. ebind (clean_json l) (\<lambda>raw.
     ebind (dict_path ''dateValeur'' el) (\<lambda>dv.
     ebind (dict_path ''dateEffet'' el) (\<lambda>de.
       let vdate = (case dv of Some v \<Rightarrow> date_or_na V v | None \<Rightarrow> None);
           date = (case de of Some v \<Rightarrow> date_or_na V v | None \<Rightarrow> None) in
       Inr (if raw \<noteq> [] \<and> date \<noteq> None
            then Some \<lparr>lt_raw = raw, lt_type = TxBank, lt_label = None, lt_amount = amount,
                       lt_date = date, lt_rdate = None, lt_vdate = vdate\<rparr>
            else None)))))))"

text \<open>\<^verbatim>\<open>NatixisLIHis.get_history\<close> (lines 1980--1996): the elements of the document.\<close>

definition natixis_get_history :: "life_env \<Rightarrow> json \<Rightarrow> auth_exc + li_tx list" where
  "natixis_get_history V doc =
     ebind (py_iter doc) (\<lambda>els.
       efold (\<lambda>out el. ebind (natixis_history_item V el) (\<lambda>r. Inr (out @ (case r of Some t \<Rightarrow> [t] | None \<Rightarrow> [])))) els [])"

text \<open>
  An item of \<^verbatim>\<open>NatixisLIInv.get_investments\<close> (lines 2005--2037): the value date of
  the support, else that of the valuation of the contract.
\<close>

definition natixis_investment_item :: "life_env \<Rightarrow> json \<Rightarrow> json \<Rightarrow> auth_exc + li_inv" where
  "natixis_investment_item V doc el =
     ebind (dict_req ''nom'' el) (\<lambda>l. ebind (clean_json l) (\<lambda>label.
     ebind (isin_code V el) (\<lambda>code.
     ebind (isin_code V el) (\<lambda>code_type.
     ebind (dict_req ''montant'' el) (\<lambda>v. ebind (float_to_decimal v) (\<lambda>valuation.
     ebind (dict_req ''nombreUnitesCompte'' el) (\<lambda>q. ebind (float_to_decimal q) (\<lambda>quantity.
     ebind (dict_req ''valeurUniteCompte'' el) (\<lambda>u. ebind (float_to_decimal u) (\<lambda>unitvalue.
     ebind (dict_or ''dateValeurUniteCompte'' JNull el) (\<lambda>dt.
     ebind (if dt = JNull
            then ebind (py_item ''detailContratVie'' doc) (\<lambda>d. ebind (py_item ''valorisation'' d) (py_item ''date''))
            else Inr dt) (\<lambda>dt.
     ebind (date_req V dt) (\<lambda>vdate.
     ebind (dict_or ''capitalGainView/pvLatentInEuroOrigin'' JNull el) (\<lambda>d.
     ebind (if d \<noteq> JNull then ebind (float_to_decimal d) (\<lambda>x. Inr (Some x)) else Inr None) (\<lambda>diff.
     ebind (dict_or ''capitalGainView/pvLatentInPorcentOrigin'' JNull el) (\<lambda>r.
     ebind (if r \<noteq> JNull then ebind (f2d_percent r) (\<lambda>x. Inr (Some x)) else Inr None) (\<lambda>ratio.
     ebind (dict_or ''repartition'' JNull el) (\<lambda>p.
     ebind (if truthy p then ebind (f2d_percent p) (\<lambda>x. Inr (Some x)) else Inr None) (\<lambda>share.
       Inr \<lparr>iv_label = label, iv_valuation = valuation, iv_code = code, iv_code_isin = (code_type \<noteq> None),
            iv_portfolio_share = share, iv_vdate = Some vdate, iv_quantity = Some quantity,
            iv_unitvalue = Some unitvalue, iv_diff = diff, iv_diff_ratio = ratio\<rparr>)))))))))))))))))))"

text \<open>
  \<^verbatim>\<open>NatixisLIInv.get_investments\<close> (lines 1999--2037): the supports under
  \<^verbatim>\<open>detailContratVie/valorisation/supports\<close>, the path read with \<^verbatim>\<open>[]\<close>.
\<close>

definition natixis_get_investments :: "life_env \<Rightarrow> json \<Rightarrow> auth_exc + li_inv list" where
  "natixis_get_investments V doc =
     ebind (py_item ''detailContratVie'' doc) (\<lambda>d. ebind (py_item ''valorisation'' d) (\<lambda>v.
       ebind (py_item ''supports'' v) (\<lambda>s. ebind (py_iter s) (py_mapM (natixis_investment_item V doc)))))"

text \<open>\<^verbatim>\<open>NatixisLIInv.has_history\<close> (lines 2039--2069).\<close>

definition has_history :: "json \<Rightarrow> auth_exc + bool" where
  "has_history doc = ebind (py_item ''peri'' doc) (\<lambda>p. Inr (\<not> truthy p))"

text \<open>An environment and a Natixis history for the examples: one operation without label.\<close>

definition sample_life_env :: life_env where
  "sample_life_env =
     \<lparr>fromtimestamp_ms = (\<lambda>_. Inr (2024, 1, 1)), raw_parse = (\<lambda>s. (TxBank, s)), isin_valid = (\<lambda>_. False),
      date_or_na = (\<lambda>v. if v = JNull then None else Some (2024, 1, 1)), date_req = (\<lambda>_. Inr (2024, 1, 1))\<rparr>"

definition sample_natixis_history :: json where
  "sample_natixis_history =
     JList [JObj [(''montantNet'', JInt 100), (''libelle'', JStr ''Versement''), (''dateEffet'', JStr ''2024-01-01'')],
            JObj [(''montantNet'', JInt 5), (''dateEffet'', JStr ''2024-02-01'')]]"

section \<open>Properties\<close>

text \<open>An empty answer gives an empty history.\<close>

lemma li_iter_history_empty: "li_iter_history V (li_build_doc None) = Inr []"
  by (simp add: li_iter_history_def li_build_doc_def)

lemma natixis_history_item_valid:
  "natixis_history_item V el = Inr (Some t) \<Longrightarrow> lt_raw t \<noteq> [] \<and> lt_date t \<noteq> None \<and> lt_type t = TxBank"
  by (auto simp: natixis_history_item_def ebind_eq_Inr Let_def split: if_splits)

text \<open>
  C26. Every transaction of the Natixis life insurance history has a label and a date,
  and is a bank transaction: \<^verbatim>\<open>NatixisLIHis.get_history\<close> skips the operations
  without label or without effective date instead of yielding them.
\<close>

theorem natixis_get_history_valid:
  assumes "natixis_get_history V doc = Inr ts"
  shows "\<forall>t \<in> set ts. lt_raw t \<noteq> [] \<and> lt_date t \<noteq> None \<and> lt_type t = TxBank"
proof -
  from assms obtain els where
    run: "efold (\<lambda>out el. ebind (natixis_history_item V el) (\<lambda>r. Inr (out @ (case r of Some t \<Rightarrow> [t] | None \<Rightarrow> [])))) els [] = Inr ts"
    by (auto simp: natixis_get_history_def ebind_eq_Inr)
  show ?thesis
  proof (rule efold_inv [where P = "\<lambda>ts. \<forall>t \<in> set ts. lt_raw t \<noteq> [] \<and> lt_date t \<noteq> None \<and> lt_type t = TxBank", OF run])
    fix out el out'
    assume inv: "\<forall>t \<in> set out. lt_raw t \<noteq> [] \<and> lt_date t \<noteq> None \<and> lt_type t = TxBank"
      and st: "ebind (natixis_history_item V el) (\<lambda>r. Inr (out @ (case r of Some t \<Rightarrow> [t] | None \<Rightarrow> []))) = Inr out'"
    then obtain r where r: "natixis_history_item V el = Inr r" and o: "out' = out @ (case r of Some t \<Rightarrow> [t] | None \<Rightarrow> [])"
      by (auto simp: ebind_eq_Inr)
    show "\<forall>t \<in> set out'. lt_raw t \<noteq> [] \<and> lt_date t \<noteq> None \<and> lt_type t = TxBank"
      using inv natixis_history_item_valid [of V el] r by (auto simp: o split: option.splits)
  qed simp
qed

theorem natixis_get_history_valid_witness:
  "\<exists>ts. natixis_get_history sample_life_env sample_natixis_history = Inr ts \<and> length ts = 1 \<and>
        (\<forall>t \<in> set ts. lt_raw t \<noteq> [] \<and> lt_date t \<noteq> None \<and> lt_type t = TxBank)"
proof -
  have c: "(case natixis_get_history sample_life_env sample_natixis_history of Inr ts \<Rightarrow> length ts = 1 | Inl _ \<Rightarrow> False)"
    by code_simp
  then obtain ts where e: "natixis_get_history sample_life_env sample_natixis_history = Inr ts" and l: "length ts = 1"
    by (cases "natixis_get_history sample_life_env sample_natixis_history") auto
  show ?thesis using natixis_get_history_valid [OF e] e l by blast
qed

text \<open>The portfolio share is the percentage of the page divided by 100.\<close>

lemma li_investment_item_share:
  assumes "li_investment_item V el = Inr i" "iv_portfolio_share i = Some p"
  shows "\<exists>x d. dict_or ''pourcentageInvesti'' JNull el = Inr x \<and> float_to_decimal x = Inr d \<and> dec_div100 d = Inr p"
  using assms by (auto simp: li_investment_item_def f2d_percent_def ebind_eq_Inr split: if_splits)

text \<open>One investment per support.\<close>

lemma li_iter_investment_length:
  assumes "li_iter_investment V doc = Inr xs" "py_item ''repartition'' doc = Inr r" "py_item ''supports'' r = Inr s"
    and "truthy s" "py_iter s = Inr els"
  shows "length xs = length els"
  using assms by (auto simp: li_iter_investment_def dest!: py_mapM_Inr_D list_all2_lengthD)

text \<open>
  The comment of line 1936 says some labels start with a dot; the code removes every dot,
  so \<^verbatim>\<open>S.C.P.I. 1.5\<close> becomes \<^verbatim>\<open>SCPI 15\<close>.
\<close>

lemma li_investment_label_dots:
  "li_investment_item V (JObj [(''libelleSupport'', JStr ''S.C.P.I. 1.5''), (''montantBrutInvesti'', JObj [(''valeur'', JInt 1)]),
      (''cotation'', JObj [(''date'', JNull), (''montant'', JNull)]), (''nombreParts'', JNull), (''tauxPlusValue'', JNull)]) =
   Inr \<lparr>iv_label = ''SCPI 15'', iv_valuation = Finite False 1 0, iv_code = (if isin_valid V [] then Some [] else None),
        iv_code_isin = isin_valid V [], iv_portfolio_share = None, iv_vdate = None, iv_quantity = None,
        iv_unitvalue = None, iv_diff = None, iv_diff_ratio = None\<rparr>"
  by code_simp simp

text \<open>
  A support without quotation, as the comment of line 1946 expects of a euro fund,
  raises \<^verbatim>\<open>ItemNotFound\<close> in \<^verbatim>\<open>obj_vdate\<close> (line 1948), which reads
  \<^verbatim>\<open>Dict('cotation/date')\<close> without default.
\<close>

lemma li_investment_no_cotation:
  "li_investment_item V (JObj [(''libelleSupport'', JStr ''Fonds euros''), (''montantBrutInvesti'', JObj [(''valeur'', JInt 1)])]) =
   Inl ItemNotFound"
  by code_simp

end
