(* ===== verification/WoobElements.thy ===== *)
theory WoobElements
  imports PyNumbers
begin

text \<open>
  The elements of woob (\<^verbatim>\<open>woob.browser.elements\<close>) and the filters on decoded JSON
  that the JSON pages build their lists with, modelled from the library's
  documentation: the elements a \<^verbatim>\<open>DictElement\<close> finds under its \<^verbatim>\<open>item_xpath\<close>,
  the store of a \<^verbatim>\<open>ListElement\<close>, which refuses a repeated id, and \<^verbatim>\<open>Map\<close>.
\<close>

section \<open>Finding and storing elements\<close>

text \<open>
  \<^verbatim>\<open>DictElement.find_elements\<close>: the path is split at \<open>/\<close>; \<open>*\<close> takes every
  element of a list or every value of a dict, another key indexes a list through
  \<^verbatim>\<open>int(key)\<close> or a dict with \<^verbatim>\<open>[key]\<close>; the elements are those of each list found,
  or the keys of each dict found.
\<close>

definition jvalues :: "(string \<times> json) list \<Rightarrow> json list" where
  "jvalues kvs = map (\<lambda>k. the (jlookup kvs k)) (jkeys kvs)"

definition de_key :: "string \<Rightarrow> json \<Rightarrow> auth_exc + json list" where
  "de_key key el =
     (if key = ''*'' then
        (case el of JList xs \<Rightarrow> Inr xs | JObj kvs \<Rightarrow> Inr (jvalues kvs) | _ \<Rightarrow> Inl (PyExc AttributeError))
      else case el of
        JList xs \<Rightarrow> (case py_int_key key of None \<Rightarrow> Inl (PyExc ValueError) | Some i \<Rightarrow> ebind (py_index xs i) (\<lambda>v. Inr [v]))
      | _ \<Rightarrow> ebind (json_getitem el (JStr key)) (\<lambda>v. Inr [v]))"

definition dict_elements :: "string option \<Rightarrow> json \<Rightarrow> auth_exc + json list" where
  "dict_elements p el =
     ebind (efold (\<lambda>bases key. ebind (py_mapM (de_key key) bases) (\<lambda>r. Inr (concat r)))
              (case p of None \<Rightarrow> [] | Some s \<Rightarrow> py_split CHR ''/'' s) [el])
       (\<lambda>bases. ebind (py_mapM py_iter bases) (\<lambda>r. Inr (concat r)))"

text \<open>
  \<^verbatim>\<open>ListElement.store\<close> of woob: an item whose non-empty id was already stored raises
  \<^verbatim>\<open>DataError\<close>; the items are yielded in order.
\<close>

definition store_item :: "('a \<Rightarrow> string) \<Rightarrow> 'a list \<Rightarrow> 'a \<Rightarrow> auth_exc + 'a list" where
  "store_item f xs x =
     (if f x \<noteq> [] \<and> f x \<in> set (map f xs) then Inl (DataError (''There are two objects with the same ID! '' @ f x))
      else Inr (xs @ [x]))"

text \<open>A filter with the default \<^verbatim>\<open>NotAvailable\<close> on a \<^verbatim>\<open>Dict\<close> with that default.\<close>

definition opt_filter :: "(json \<Rightarrow> auth_exc + 'a) \<Rightarrow> string \<Rightarrow> json \<Rightarrow> auth_exc + 'a option" where
  "opt_filter f p d = ebind (dict_path p d) (\<lambda>r. Inr (case r of None \<Rightarrow> None | Some v \<Rightarrow> (case f v of Inr x \<Rightarrow> Some x | Inl _ \<Rightarrow> None)))"

definition req_filter :: "(json \<Rightarrow> auth_exc + 'a) \<Rightarrow> string \<Rightarrow> json \<Rightarrow> auth_exc + 'a" where
  "req_filter f p d = ebind (dict_req p d) f"

text \<open>
  \<^verbatim>\<open>ListElement.store\<close> with the id as the page gives it: a truthy id already stored
  raises \<^verbatim>\<open>DataError\<close>; an unhashable one raises \<^verbatim>\<open>TypeError\<close>. (Python also
  identifies \<open>1\<close>, \<open>1.0\<close> and \<open>True\<close> as keys; the model compares decoded values.)
\<close>

definition store_json :: "('a \<Rightarrow> json) \<Rightarrow> 'a list \<Rightarrow> 'a \<Rightarrow> auth_exc + 'a list" where
  "store_json f xs x =
     (if \<not> truthy (f x) then Inr (xs @ [x])
      else if \<not> hashable (f x) then Inl (PyExc TypeError)
      else if f x \<in> set (map f xs) then Inl (DataError ''There are two objects with the same ID!'')
      else Inr (xs @ [x]))"

text \<open>
  \<^verbatim>\<open>Map(value, table, default)\<close>: the entry of a string key, else the default; an
  unhashable value raises \<^verbatim>\<open>TypeError\<close>.
\<close>

definition json_map_filter :: "(string \<times> 'a) list \<Rightarrow> 'a \<Rightarrow> json \<Rightarrow> auth_exc + 'a" where
  "json_map_filter tbl d v =
     (if \<not> hashable v then Inl (PyExc TypeError)
      else Inr (case v of JStr k \<Rightarrow> (case map_of tbl k of Some t \<Rightarrow> t | None \<Rightarrow> d) | _ \<Rightarrow> d))"

section \<open>Properties\<close>

lemma store_item_Inr: "store_item f xs x = Inr ys \<longleftrightarrow> ys = xs @ [x] \<and> (f x = [] \<or> f x \<notin> set (map f xs))"
  by (auto simp: store_item_def)

lemma store_item_dup:
  assumes "f x \<noteq> []" "f y = f x" "y \<in> set xs"
  shows "\<exists>m. store_item f xs x = Inl (DataError m)"
proof -
  have "f x \<in> set (map f xs)" using assms(2,3) by (metis image_eqI list.set_map)
  then show ?thesis using assms(1) by (simp add: store_item_def)
qed

lemma store_json_Inr:
  "store_json f xs x = Inr ys \<Longrightarrow> ys = xs @ [x] \<and> (truthy (f x) \<longrightarrow> f x \<notin> set (map f xs))"
  by (auto simp: store_json_def split: if_splits)

text \<open>The truthy ids of a list built by \<open>store_json\<close> are distinct.\<close>

lemma store_json_distinct:
  "store_json f xs x = Inr ys \<Longrightarrow> distinct (filter truthy (map f xs)) \<Longrightarrow> distinct (filter truthy (map f ys))"
  by (auto simp: store_json_def split: if_splits)

end
