(* ===== verification/Bred.thy ===== *)
theory Bred
  imports WoobElements HtmlDoc BankCaps
begin

text \<open>
  The pages of the Bred module, \<^verbatim>\<open>src/modules/bred/bred/pages.py\<close>: the JSON pages of the
  login and of the universes, the accounts (\<^verbatim>\<open>AccountsPage.iter_accounts\<close>), the
  loans, the life insurances, the history (\<^verbatim>\<open>SearchPage\<close>), the profile and the error
  pages. A JSON page's \<^verbatim>\<open>self.doc\<close> is the decoded document; each method is a function
  of it returning its value or the exception it raises; a generator is the list of what
  it yields, or the exception that ends it.

  The woob library is a parameter where the code calls it on values the model does not
  compute (\<^verbatim>\<open>CleanDecimal\<close> of a number, \<^verbatim>\<open>Currency\<close>, \<^verbatim>\<open>FromTimestamp\<close>,
  \<^verbatim>\<open>FrenchTransaction.parse\<close>, \<^verbatim>\<open>is_isin_valid\<close>, \<^verbatim>\<open>parse_french_date\<close>) and so is
  \<^verbatim>\<open>date.fromtimestamp\<close>, which reads the local time zone.
\<close>

section \<open>Text\<close>

text \<open>
  \<^verbatim>\<open>re.sub(r'\s+', ' ', s)\<close> (Python 3: \<open>\s\<close> is the Unicode whitespace, \<open>py_space\<close> on
  Latin-1) followed by \<^verbatim>\<open>.replace('\x00', '')\<close>.
\<close>

definition collapse_py_space :: "string \<Rightarrow> string" where
  "collapse_py_space s = collapse_acc False s"

definition clean_op_text :: "json \<Rightarrow> auth_exc + string" where
  "clean_op_text v =
     (case v of JStr s \<Rightarrow> Inr (filter (\<lambda>c. c \<noteq> CHR 0x00) (collapse_py_space s)) | _ \<Rightarrow> Inl (PyExc TypeError))"

section \<open>Login and universe pages\<close>

text \<open>\<^verbatim>\<open>MyJsonPage.get_content\<close> (lines 63--65).\<close>

definition get_content :: "json \<Rightarrow> auth_exc + json" where
  "get_content doc = py_get ''content'' (JObj []) doc"

text \<open>\<^verbatim>\<open>InitAuthentPage.get_authent_id\<close> and \<^verbatim>\<open>AuthentResultPage\<close> (lines 80--91).\<close>

definition get_authent_id :: "json \<Rightarrow> auth_exc + json" where
  "get_authent_id doc = dict_req ''content'' doc"

definition get_status :: "json \<Rightarrow> auth_exc + json" where
  "get_status doc = dict_or ''content/status'' JNull doc"

definition authent_logged :: "json \<Rightarrow> auth_exc + bool" where
  "authent_logged doc = ebind (get_status doc) (\<lambda>s. Inr (s = JStr ''AUTHORISED''))"

text \<open>\<^verbatim>\<open>TrustedDevicesPage.get_error\<close> and \<^verbatim>\<open>CheckOtpPage.logged\<close> (lines 98--108).\<close>

definition get_error :: "json \<Rightarrow> auth_exc + string option" where
  "get_error doc =
     ebind (dict_req ''erreur/libelle'' doc) (\<lambda>v. ebind (clean_json v) (\<lambda>e. Inr (if e \<noteq> ''OK'' then Some e else None)))"

definition otp_logged :: "json \<Rightarrow> auth_exc + bool" where
  "otp_logged doc = ebind (dict_req ''erreur/libelle'' doc) (\<lambda>v. ebind (clean_json v) (\<lambda>e. Inr (e = ''OK'')))"

text \<open>
  \<^verbatim>\<open>UniversePage.get_universes\<close> (lines 112--119): the universe of the page, then those
  of its menus, in a dict from key to title (the title is read before the key, as
  Python evaluates \<^verbatim>\<open>d[k] = v\<close>). A dict is an association list in insertion order;
  a key of a decoded value is any hashable value.
\<close>

definition universe_entry :: "(json \<times> json) list \<Rightarrow> json \<Rightarrow> auth_exc + (json \<times> json) list" where
  "universe_entry m u =
     ebind (py_item ''title'' u) (\<lambda>t. ebind (py_item ''universKey'' u) (\<lambda>k.
       if hashable k then Inr (od_set m k t) else Inl (PyExc TypeError)))"

definition get_universes :: "json \<Rightarrow> auth_exc + (json \<times> json) list" where
  "get_universes doc =
     ebind (get_content doc) (\<lambda>data.
       ebind (universe_entry [] data) (\<lambda>m.
         ebind (py_get ''menus'' (JObj []) data) (\<lambda>menus.
           ebind (py_iter menus) (\<lambda>us. efold universe_entry us m))))"

section \<open>Accounts\<close>

text \<open>\<^verbatim>\<open>AccountsPage.ACCOUNT_TYPES\<close> (lines 192--218).\<close>

definition bred_account_types :: "(string \<times> acct_type) list" where
  "bred_account_types =
     [(''000'', TChecking), (''001'', TSavings), (''002'', TSavings), (''003'', TSavings),
      (''004'', TSavings), (''005'', TSavings), (''006'', TSavings), (''011'', TCard),
      (''013'', TLoan), (''020'', TSavings), (''021'', TSavings), (''022'', TSavings),
      (''023'', TSavings), (''025'', TSavings), (''027'', TSavings), (''037'', TSavings),
      (''070'', TSavings), (''077'', TSavings), (''078'', TSavings), (''080'', TSavings),
      (''081'', TSavings), (''086'', TSavings), (''097'', TChecking), (''730'', TDeposit),
      (''999'', TMarket)]"

text \<open>\<^verbatim>\<open>ACCOUNT_TYPES.get(code, TYPE_UNKNOWN)\<close>: the keys are strings; an unhashable code raises.\<close>

definition bred_type_of :: "json \<Rightarrow> auth_exc + acct_type" where
  "bred_type_of code =
     (if \<not> hashable code then Inl (PyExc TypeError)
      else case code of
        JStr k \<Rightarrow> Inr (case map_of bred_account_types k of Some t \<Rightarrow> t | None \<Rightarrow> TUnknown)
      | _ \<Rightarrow> Inr TUnknown)"

text \<open>The attributes \<^verbatim>\<open>iter_accounts\<close> sets on an \<^verbatim>\<open>Account\<close>.\<close>

record bred_account =
  ba_number :: json
  ba_nature :: json
  ba_code_sous_poste :: "json option"
  ba_consultable :: json
  ba_univers :: json
  ba_parent_number :: "json option"
  ba_id :: string
  ba_type :: acct_type
  ba_file_number :: "json option"
  ba_label :: string
  ba_balance :: "decimal option"
  ba_currency :: "string option"

text \<open>The account of a \<^verbatim>\<open>poste\<close> before its label and balance (lines 227--248).\<close>

definition base_account :: "json \<Rightarrow> json \<Rightarrow> json \<Rightarrow> auth_exc + bred_account" where
  "base_account univers content poste =
     ebind (py_item ''numeroLong'' content) (\<lambda>number.
     ebind (py_item ''codeNature'' poste) (\<lambda>nature.
     ebind (py_in ''codeSousPoste'' poste) (\<lambda>has_csp.
     ebind (if has_csp then ebind (py_item ''codeSousPoste'' poste) (\<lambda>v. Inr (Some v)) else Inr None) (\<lambda>csp.
     ebind (py_item ''consultable'' poste) (\<lambda>consultable.
     ebind (py_str number) (\<lambda>sn. ebind (py_str nature) (\<lambda>sk.
     ebind (py_item ''comptePEA'' content) (\<lambda>pea.
     ebind (if truthy pea then Inr TPea else ebind (py_item ''codeNature'' poste) bred_type_of) (\<lambda>ty.
     ebind (py_in ''numeroDossier'' poste) (\<lambda>has_nd.
     ebind (if has_nd then ebind (py_item ''numeroDossier'' poste) (\<lambda>nd.
              if truthy nd then ebind (py_str nd) (\<lambda>s. Inr (Some nd, ''.'' @ s)) else Inr (None, []))
            else Inr (None, [])) (\<lambda>(file, suffix).
       Inr \<lparr>ba_number = number, ba_nature = nature, ba_code_sous_poste = csp, ba_consultable = consultable,
            ba_univers = univers, ba_parent_number = (if ty \<noteq> TChecking then Some number else None),
            ba_id = sn @ ''.'' @ sk @ suffix, ba_type = ty, ba_file_number = file, ba_label = [],
            ba_balance = None, ba_currency = None\<rparr>)))))))))))"

text \<open>
  A securities portfolio (lines 250--257): yielded unless its balance and currency are
  empty and it has no date, and never checked against the ids already seen.
\<close>

definition portfolio_account :: "json \<Rightarrow> json \<Rightarrow> bred_account \<Rightarrow> auth_exc + bred_account option" where
  "portfolio_account content poste a =
     ebind (py_item ''intitule'' content) (\<lambda>i. ebind (json_strip i) (\<lambda>title.
     ebind (py_item ''montantTitres'' poste) (\<lambda>mt.
     ebind (py_item ''valeur'' mt) (\<lambda>v. ebind (decimal_str v) (\<lambda>balance.
     ebind (py_item ''monnaie'' mt) (\<lambda>mo. ebind (py_item ''code'' mo) (\<lambda>c. ebind (json_strip c) (\<lambda>currency.
     ebind (py_in ''dateTitres'' poste) (\<lambda>has_date.
       if \<not> dec_truthy balance \<and> currency = [] \<and> \<not> has_date then Inr None
       else Inr (Some (a\<lparr>ba_label := title @ '' Portefeuille Titres'', ba_balance := Some balance,
                          ba_currency := Some currency\<rparr>)))))))))))"

text \<open>
  Any other \<^verbatim>\<open>poste\<close> with a label (lines 259--270): the label is the account's title
  and the poste's label, with the file number when there is one; a balance in another
  currency than the euro gets the SWIFT code of its currency appended to its id.
\<close>

definition regular_account :: "json \<Rightarrow> json \<Rightarrow> bred_account \<Rightarrow> auth_exc + bred_account" where
  "regular_account content poste a =
     ebind (py_item ''intitule'' content) (\<lambda>i. ebind (json_strip i) (\<lambda>title.
     ebind (py_item ''libelle'' poste) (\<lambda>l. ebind (json_strip l) (\<lambda>lib.
     ebind (py_item ''numeroDossier'' poste) (\<lambda>nd.
     ebind (if truthy nd then ebind (py_str nd) (\<lambda>s. Inr (title @ '' '' @ lib @ '' n'' @ [CHR 0xB0] @ s))
            else Inr (title @ '' '' @ lib)) (\<lambda>label.
     ebind (py_item ''solde'' poste) (\<lambda>so.
     ebind (py_item ''valeur'' so) (\<lambda>v. ebind (decimal_str v) (\<lambda>balance.
     ebind (py_item ''monnaie'' so) (\<lambda>mo. ebind (py_item ''code'' mo) (\<lambda>c. ebind (json_strip c) (\<lambda>currency.
     ebind (if sublist ''Solde en devises'' label \<and> currency \<noteq> ''EUR''
            then ebind (py_item ''monnaie'' poste) (\<lambda>m. ebind (py_item ''codeSwift'' m) py_str)
            else Inr []) (\<lambda>swift.
       Inr (a\<lparr>ba_id := ba_id a @ swift, ba_label := label, ba_balance := Some balance,
              ba_currency := Some currency\<rparr>))))))))))))))"

text \<open>
  The state of the generator: the set \<^verbatim>\<open>seen\<close> of the ids of the accounts yielded by
  the second branch, and what was yielded, each item tagged with whether it came from
  the portfolio branch (the tag is not a value of the program; it names the branch).
\<close>

type_synonym accounts_state = "string list \<times> (bool \<times> bred_account) list"

text \<open>One \<^verbatim>\<open>poste\<close> of a \<^verbatim>\<open>content\<close> (lines 226--279).\<close>

definition poste_step :: "json \<Rightarrow> json \<Rightarrow> accounts_state \<Rightarrow> json \<Rightarrow> auth_exc + accounts_state" where
  "poste_step univers content st poste =
     (let (seen, out) = st in
      ebind (base_account univers content poste) (\<lambda>a.
      ebind (py_item ''postePortefeuille'' poste) (\<lambda>pp.
        if truthy pp then
          ebind (portfolio_account content poste a) (\<lambda>r.
            Inr (case r of None \<Rightarrow> st | Some a \<Rightarrow> (seen, out @ [(True, a)])))
        else
          ebind (py_in ''libelle'' poste) (\<lambda>has_lib.
            if \<not> has_lib then Inr st
            else ebind (regular_account content poste a) (\<lambda>a.
              if ba_id a \<in> set seen then Inr st
              else Inr (seen @ [ba_id a], out @ [(False, a)]))))))"

text \<open>One \<^verbatim>\<open>content\<close> of the page: skipped unless it is the account asked for (lines 223--226).\<close>

definition content_step :: "json \<Rightarrow> string \<Rightarrow> accounts_state \<Rightarrow> json \<Rightarrow> auth_exc + accounts_state" where
  "content_step univers accnum st content =
     ebind (if accnum \<noteq> ''00000000000'' then ebind (py_item ''numero'' content) (\<lambda>n. Inr (n \<noteq> JStr accnum))
            else Inr False) (\<lambda>skip.
       if skip then Inr st
       else ebind (py_item ''postes'' content) (\<lambda>ps. ebind (py_iter ps) (\<lambda>ps. efold (poste_step univers content) ps st)))"

text \<open>\<^verbatim>\<open>AccountsPage.iter_accounts(accnum, current_univers)\<close> (lines 220--279).\<close>

definition iter_accounts_tagged :: "json \<Rightarrow> string \<Rightarrow> json \<Rightarrow> auth_exc + (bool \<times> bred_account) list" where
  "iter_accounts_tagged doc accnum univers =
     ebind (get_content doc) (\<lambda>c. ebind (py_iter c) (\<lambda>contents.
       ebind (efold (content_step univers accnum) contents ([], [])) (\<lambda>st. Inr (snd st))))"

definition iter_accounts :: "json \<Rightarrow> string \<Rightarrow> json \<Rightarrow> auth_exc + bred_account list" where
  "iter_accounts doc accnum univers = ebind (iter_accounts_tagged doc accnum univers) (\<lambda>out. Inr (map snd out))"

section \<open>IBAN and Linebourse\<close>

text \<open>
  \<^verbatim>\<open>CleanText(Dict(p, default=None), default=NotAvailable)\<close>: a missing value is the
  filter's default (\<open>None\<close>).
\<close>

definition clean_or_na :: "string \<Rightarrow> json \<Rightarrow> auth_exc + string option" where
  "clean_or_na p d =
     ebind (dict_path p d) (\<lambda>r. case r of
       None \<Rightarrow> Inr None
     | Some JNull \<Rightarrow> Inr None
     | Some v \<Rightarrow> ebind (clean_json v) (\<lambda>s. Inr (Some s)))"

text \<open>\<^verbatim>\<open>IbanPage.set_iban\<close> (lines 283--285): the IBAN given to the account.\<close>

definition set_iban :: "json \<Rightarrow> bred_account \<Rightarrow> auth_exc + string option" where
  "set_iban doc account = ebind (get_content doc) (clean_or_na ''iban'')"

text \<open>\<^verbatim>\<open>LinebourseLoginPage\<close> (lines 288--293).\<close>

definition get_linebourse_url :: "json \<Rightarrow> auth_exc + json" where
  "get_linebourse_url doc = dict_or ''content/url'' JNull doc"

definition get_linebourse_token :: "json \<Rightarrow> auth_exc + json" where
  "get_linebourse_token doc = dict_or ''content/token'' JNull doc"

section \<open>The woob library as a parameter\<close>

text \<open>
  \<^verbatim>\<open>CleanDecimal\<close> (plain, \<^verbatim>\<open>.SI\<close>, and with \<^verbatim>\<open>sign='-'\<close>), \<^verbatim>\<open>Currency\<close> and
  \<^verbatim>\<open>FromTimestamp(millis=True)\<close> of a selected value; \<^verbatim>\<open>date.fromtimestamp(v / 1000)\<close>;
  \<^verbatim>\<open>Transaction.parse(date, raw, vdate)\<close> with the patterns of lines 44--60, given the
  \<^verbatim>\<open>rdate\<close> set before it and giving the type, the date and the \<^verbatim>\<open>rdate\<close>;
  \<^verbatim>\<open>is_isin_valid\<close>; \<^verbatim>\<open>parse_french_date(s).date()\<close>; \<^verbatim>\<open>QueryValue(None, k)\<close> of a URL.
\<close>

record bred_env =
  clean_decimal :: "json \<Rightarrow> auth_exc + decimal"
  clean_decimal_si :: "json \<Rightarrow> auth_exc + decimal"
  clean_decimal_neg :: "json \<Rightarrow> auth_exc + decimal"
  currency_of :: "json \<Rightarrow> auth_exc + string option"
  from_timestamp_ms :: "json \<Rightarrow> auth_exc + date"
  date_of_ms :: "json \<Rightarrow> auth_exc + date"
  tx_parse :: "date option \<Rightarrow> date \<Rightarrow> string \<Rightarrow> date \<Rightarrow> tx_type \<times> date \<times> date"
  is_isin_valid :: "string \<Rightarrow> bool"
  parse_french_date :: "json \<Rightarrow> auth_exc + date"
  query_value :: "string \<Rightarrow> string \<Rightarrow> auth_exc + string option"

section \<open>Life insurances\<close>

text \<open>
  \<^verbatim>\<open>LifeInsurancesPage.check_error\<close> (lines 297--305). The code \<^verbatim>\<open>'90000'\<close> is compared
  as a string after the code was read as a number.
\<close>

definition check_error :: "json \<Rightarrow> auth_exc + unit" where
  "check_error doc =
     ebind (dict_or ''erreur/code'' JNull doc) (\<lambda>code.
       if \<not> truthy code then Inr ()
       else ebind (py_int code) (\<lambda>n.
         if n = 0 then Inr ()
         else ebind (dict_or ''erreur/libelle'' JNull doc) (\<lambda>message.
           if code = JStr ''90000'' then Inl (BrowserUnavailable JNull)
           else Inl (AssertionError ''Unhandled error {}: {}'' [code, message]))))"

record bred_investment =
  bi_label :: string
  bi_valuation :: decimal
  bi_code_isin :: bool
  bi_code :: "string option"

record bred_life =
  bl_balance :: decimal
  bl_type :: acct_type
  bl_currency :: string
  bl_univers :: json
  bl_id :: string
  bl_label :: string
  bl_parent_number :: string
  bl_investments :: "bred_investment list"
  bl_number :: string

text \<open>An allocation of a contract (lines 343--358).\<close>

definition investment_item :: "bred_env \<Rightarrow> json \<Rightarrow> auth_exc + bred_investment" where
  "investment_item E el =
     ebind (req_filter clean_json ''libelle'' el) (\<lambda>label.
     ebind (req_filter (clean_decimal E) ''montant'' el) (\<lambda>valuation.
     ebind (req_filter clean_json ''code'' el) (\<lambda>code.
       Inr \<lparr>bi_label = label, bi_valuation = valuation, bi_code_isin = is_isin_valid E code,
            bi_code = (if is_isin_valid E code then Some code else None)\<rparr>)))"

text \<open>\<^verbatim>\<open>rstrip('0')\<close>.\<close>

definition rstrip_zeros :: "string \<Rightarrow> string" where
  "rstrip_zeros s = rev (dropWhile (\<lambda>c. c = CHR ''0'') (rev s))"

text \<open>A contract of a content element, whose holder is its \<^verbatim>\<open>titulaire\<close> (lines 317--340).\<close>

definition life_item :: "bred_env \<Rightarrow> json \<Rightarrow> json \<Rightarrow> json \<Rightarrow> auth_exc + bred_life" where
  "life_item E univers parent el =
     ebind (req_filter (clean_decimal E) ''valorisation'' el) (\<lambda>balance.
     ebind (req_filter py_str ''numero'' el) (\<lambda>i.
     ebind (req_filter clean_json ''libelleProduit'' el) (\<lambda>prod.
     ebind (req_filter clean_json ''titulaire'' parent) (\<lambda>owner.
     ebind (req_filter clean_json ''cptRattachement'' el) (\<lambda>cpt.
     ebind (dict_path ''allocations'' el) (\<lambda>al.
     ebind (case al of Some v \<Rightarrow> py_iter v | None \<Rightarrow> Inr []) (\<lambda>allocs.
     ebind (py_mapM (investment_item E) allocs) (\<lambda>invs.
       Inr \<lparr>bl_balance = balance, bl_type = TLifeInsurance, bl_currency = ''EUR'', bl_univers = univers,
            bl_id = i, bl_label = prod @ '' - '' @ owner, bl_parent_number = rstrip_zeros cpt,
            bl_investments = invs, bl_number = i\<rparr>))))))))"

text \<open>
  \<^verbatim>\<open>iter_lifeinsurances\<close> (lines 307--340): nothing without \<^verbatim>\<open>content\<close>; else the contracts
  \<^verbatim>\<open>avoirs/contrats\<close> of each content element, each list stored by id.
\<close>

definition iter_lifeinsurances :: "bred_env \<Rightarrow> json \<Rightarrow> json \<Rightarrow> auth_exc + bred_life list" where
  "iter_lifeinsurances E univers doc =
     ebind (py_in ''content'' doc) (\<lambda>has.
       if \<not> has then Inr []
       else ebind (dict_path ''content'' doc) (\<lambda>c.
         ebind (case c of Some v \<Rightarrow> py_iter v | None \<Rightarrow> Inr []) (\<lambda>contents.
           efold (\<lambda>out parent.
             ebind (dict_path ''avoirs/contrats'' parent) (\<lambda>cs.
               ebind (case cs of Some v \<Rightarrow> py_iter v | None \<Rightarrow> Inr []) (\<lambda>els.
                 ebind (efold (\<lambda>xs el. ebind (life_item E univers parent el) (store_item bl_id xs)) els [])
                   (\<lambda>items. Inr (out @ items)))))
             contents [])))"

section \<open>Loans\<close>

record bred_loan =
  ln_id :: string
  ln_label :: string
  ln_balance :: decimal
  ln_currency :: "string option"
  ln_next_payment_amount :: "decimal option"
  ln_next_payment_date :: "date option"
  ln_last_payment_amount :: "decimal option"
  ln_duration :: "int option"
  ln_type :: acct_type
  ln_rate :: decimal
  ln_total_amount :: decimal
  ln_maturity_date :: date
  ln_insurance_amount :: decimal
  ln_univers :: json
  ln_number :: string

text \<open>\<^verbatim>\<open>Type(CleanText(Dict('dureePret', default=None), default=NotAvailable), type=int, default=NotAvailable)\<close>.\<close>

definition loan_duration :: "json \<Rightarrow> auth_exc + int option" where
  "loan_duration el =
     ebind (clean_or_na ''dureePret'' el) (\<lambda>s. Inr (case s of
       None \<Rightarrow> None
     | Some t \<Rightarrow> (case py_int (JStr t) of Inr n \<Rightarrow> Some n | Inl _ \<Rightarrow> None)))"

text \<open>A loan (lines 140--188).\<close>

definition loan_item :: "bred_env \<Rightarrow> json \<Rightarrow> json \<Rightarrow> auth_exc + bred_loan" where
  "loan_item E univers el =
     ebind (req_filter clean_json ''comptePrets'' el) (\<lambda>cp.
     ebind (req_filter clean_json ''numeroDossier'' el) (\<lambda>nd.
     ebind (req_filter clean_json ''intitule'' el) (\<lambda>it.
     ebind (req_filter clean_json ''libellePrets'' el) (\<lambda>lp.
     ebind (req_filter (clean_decimal_neg E) ''montantCapitalDu/valeur'' el) (\<lambda>balance.
     ebind (req_filter (currency_of E) ''montantCapitalDu/monnaie/code'' el) (\<lambda>cur.
     ebind (opt_filter (clean_decimal_si E) ''montantProchaineEcheance/valeur'' el) (\<lambda>npa.
     ebind (opt_filter (from_timestamp_ms E) ''dateProchaineEcheance'' el) (\<lambda>npd.
     ebind (opt_filter (clean_decimal_si E) ''montantEcheancePrecedent/valeur'' el) (\<lambda>lpa.
     ebind (loan_duration el) (\<lambda>dur.
     ebind (req_filter (clean_decimal_si E) ''tauxNominal'' el) (\<lambda>rate.
     ebind (req_filter (clean_decimal_si E) ''montantInitial/valeur'' el) (\<lambda>total.
     ebind (req_filter (from_timestamp_ms E) ''dateFinPret'' el) (\<lambda>mat.
     ebind (req_filter (clean_decimal_si E) ''montantPartAssurance/valeur'' el) (\<lambda>ins.
       Inr \<lparr>ln_id = cp @ ''.'' @ nd, ln_label = it @ '' '' @ lp, ln_balance = balance, ln_currency = cur,
            ln_next_payment_amount = npa, ln_next_payment_date = npd, ln_last_payment_amount = lpa,
            ln_duration = dur, ln_type = TLoan, ln_rate = rate, ln_total_amount = total,
            ln_maturity_date = mat, ln_insurance_amount = ins, ln_univers = univers,
            ln_number = cp @ ''.'' @ nd\<rparr>))))))))))))))"

text \<open>\<^verbatim>\<open>LoansPage.iter_loans\<close> (lines 134--188): the elements of \<^verbatim>\<open>content\<close>, stored by id.\<close>

definition iter_loans :: "bred_env \<Rightarrow> json \<Rightarrow> json \<Rightarrow> auth_exc + bred_loan list" where
  "iter_loans E univers doc =
     ebind (py_get ''content'' (JList []) doc) (\<lambda>c. ebind (py_iter c) (\<lambda>els.
       efold (\<lambda>xs el. ebind (loan_item E univers el) (store_item ln_id xs)) els []))"

section \<open>History\<close>

text \<open>\<^verbatim>\<open>SearchPage.get_transaction_list\<close> (lines 362--367).\<close>

definition get_transaction_list :: "json \<Rightarrow> auth_exc + json" where
  "get_transaction_list doc =
     ebind (py_item ''erreur'' doc) (\<lambda>e. ebind (py_item ''code'' e) (\<lambda>c. ebind (py_int c) (\<lambda>n.
       if n \<noteq> 0 then Inl (BrowserUnavailable (JStr ''API sent back an error code''))
       else ebind (py_item ''content'' doc) (py_item ''operations''))))"

text \<open>\<^verbatim>\<open>re_uuid.match(s)\<close> (line 371): a UUID at the start of \<open>s\<close>.\<close>

definition hex_char :: "char \<Rightarrow> bool" where
  "hex_char c \<longleftrightarrow> py_digit c \<or> c \<in> set ''abcdefABCDEF''"

definition uuid_match :: "string \<Rightarrow> bool" where
  "uuid_match s \<longleftrightarrow>
     36 \<le> length s \<and>
     (\<forall>i \<in> set [0..<36]. if i \<in> {8, 13, 18, 23} then s ! i = CHR ''-'' else hex_char (s ! i))"

text \<open>\<^verbatim>\<open>x | b\<close> for the flag \<^verbatim>\<open>_coming\<close>: a bool or an int; anything else raises.\<close>

definition py_or_bool :: "json \<Rightarrow> bool \<Rightarrow> auth_exc + json" where
  "py_or_bool x b =
     (case x of
        JBool a \<Rightarrow> Inr (JBool (a \<or> b))
      | JInt i \<Rightarrow> Inr (JInt (if b \<and> even i then i + 1 else i))
      | _ \<Rightarrow> Inl (PyExc TypeError))"

text \<open>The attributes \<^verbatim>\<open>iter_history\<close> sets on a \<^verbatim>\<open>Transaction\<close>.\<close>

record bred_tx =
  tx_id :: string
  tx_date :: date
  tx_rdate :: date
  tx_vdate :: date
  tx_kind :: tx_type
  tx_raw :: string
  tx_amount :: decimal
  tx_category :: "json option"
  tx_label :: string
  tx_coming :: json

text \<open>\<^verbatim>\<open>date.fromtimestamp(op.get(k1, op.get(k2)) / 1000)\<close>, the inner \<^verbatim>\<open>get\<close> first.\<close>

definition op_date :: "bred_env \<Rightarrow> json \<Rightarrow> string \<Rightarrow> string \<Rightarrow> auth_exc + date" where
  "op_date E op k1 k2 = ebind (py_get k2 JNull op) (\<lambda>d2. ebind (py_get k1 d2 op) (date_of_ms E))"

text \<open>
  The dates of an operation (lines 383--388): for a card or a checking account the
  operation date, else the debit date with the operation date as \<^verbatim>\<open>rdate\<close>; the value
  date falls back on the debit date, then the operation date.
\<close>

definition op_dates :: "bred_env \<Rightarrow> acct_type \<Rightarrow> json \<Rightarrow> auth_exc + date \<times> date option \<times> date" where
  "op_dates E ty op =
     ebind (if ty \<in> {TCard, TChecking}
            then ebind (py_get ''dateOperation'' JNull op) (\<lambda>x. ebind (date_of_ms E x) (\<lambda>d. Inr (d, None)))
            else ebind (op_date E op ''dateDebit'' ''dateOperation'') (\<lambda>d.
                   ebind (op_date E op ''dateOperation'' ''dateDebit'') (\<lambda>r. Inr (d, Some r)))) (\<lambda>(d, r).
       ebind (py_get ''dateOperation'' JNull op) (\<lambda>dop.
       ebind (py_get ''dateDebit'' dop op) (\<lambda>db.
       ebind (py_get ''dateValeur'' db op) (\<lambda>dv.
       ebind (date_of_ms E dv) (\<lambda>v. Inr (d, r, v))))))"

text \<open>
  The transaction of an operation (lines 389--408): the label and the details with
  their blanks collapsed and NUL characters removed, the parse of the raw text, the
  \<^verbatim>\<open>rdate\<close> of a checking or card account, the amount, the category, and the coming flag.
\<close>

definition op_transaction :: "bred_env \<Rightarrow> acct_type \<Rightarrow> date \<Rightarrow> string \<Rightarrow> json \<Rightarrow> auth_exc + bred_tx" where
  "op_transaction E ty today tid op =
     ebind (op_dates E ty op) (\<lambda>(d, r0, vdate).
     ebind (py_item ''details'' op) (\<lambda>ds. ebind (py_iter ds) (\<lambda>xs.
     ebind (py_mapM clean_op_text (filter truthy xs)) (\<lambda>details.
     ebind (py_item ''libelle'' op) (\<lambda>l. ebind (clean_op_text l) (\<lambda>label.
     let raw = py_join '' '' (label # details); (kind, date, rdate) = tx_parse E r0 d raw vdate in
     ebind (if ty = TChecking then op_date E op ''dateValeur'' ''dateOperation''
            else if ty = TCard then op_date E op ''dateDebit'' ''dateOperation'' else Inr rdate) (\<lambda>rdate.
     ebind (py_item ''montant'' op) (\<lambda>m. ebind (decimal_str m) (\<lambda>amount.
     ebind (py_in ''categorie'' op) (\<lambda>has_cat.
     ebind (if has_cat then ebind (py_item ''categorie'' op) (\<lambda>c. Inr (Some c)) else Inr None) (\<lambda>category.
     ebind (py_item ''intraday'' op) (\<lambda>intraday.
     ebind (py_or_bool intraday (date_less today date)) (\<lambda>coming.
       Inr \<lparr>tx_id = (if truthy intraday then [] else tid), tx_date = date, tx_rdate = rdate, tx_vdate = vdate,
            tx_kind = (if kind = TxCard \<and> ty = TCard then TxDeferredCard else kind), tx_raw = raw,
            tx_amount = amount, tx_category = category, tx_label = label, tx_coming = coming\<rparr>)))))))))))))"

text \<open>
  One operation (lines 373--418). The test \<^verbatim>\<open>op['id'] in seen\<close> looks up the id as the
  page gives it, while \<^verbatim>\<open>seen\<close> receives \<^verbatim>\<open>t.id\<close>, a string (empty for a UUID); the
  debug message of a skipped operation reads its label. An unhashable id raises on the
  membership test; its \<^verbatim>\<open>str\<close> before has no effect, so the model tests it first.
\<close>

definition op_step :: "bred_env \<Rightarrow> acct_type \<Rightarrow> date \<Rightarrow> string list \<times> bred_tx list \<Rightarrow> json \<Rightarrow>
                       auth_exc + string list \<times> bred_tx list" where
  "op_step E ty today st op =
     (let (seen, txs) = st in
      ebind (py_item ''id'' op) (\<lambda>oid.
        if \<not> hashable oid then Inl (PyExc TypeError) else
        ebind (py_str oid) (\<lambda>sid.
        let tid = (if uuid_match sid then [] else sid) in
        if (\<exists>s \<in> set seen. oid = JStr s) then ebind (py_item ''libelle'' op) (\<lambda>_. Inr st)
        else
          (let seen = (if tid \<in> set seen then seen else seen @ [tid]) in
           ebind (op_transaction E ty today tid op) (\<lambda>t.
             Inr (seen, if \<bar>int (fst (tx_rdate t)) - int (fst (tx_date t))\<bar> < 2 then txs @ [t] else txs))))))"

text \<open>
  \<^verbatim>\<open>SearchPage.iter_history(account, operation_list, seen, today, coming)\<close> (lines
  369--419): the operations from the last, the set \<^verbatim>\<open>seen\<close> of the caller updated.
\<close>

definition iter_history :: "bred_env \<Rightarrow> acct_type \<Rightarrow> json list \<Rightarrow> string list \<Rightarrow> date \<Rightarrow>
                            auth_exc + bred_tx list \<times> string list" where
  "iter_history E ty ops seen today =
     ebind (efold (op_step E ty today) (rev ops) (seen, [])) (\<lambda>(seen, txs). Inr (txs, seen))"

section \<open>Profile and error pages\<close>

text \<open>\<^verbatim>\<open>x + ' '\<close> and \<^verbatim>\<open>s + y\<close> with a decoded value: only a string adds to a string.\<close>

definition str_plus_l :: "json \<Rightarrow> string \<Rightarrow> auth_exc + string" where
  "str_plus_l x s = (case x of JStr a \<Rightarrow> Inr (a @ s) | _ \<Rightarrow> Inl (PyExc TypeError))"

definition str_plus_r :: "string \<Rightarrow> json \<Rightarrow> auth_exc + string" where
  "str_plus_r s y = (case y of JStr b \<Rightarrow> Inr (s @ b) | _ \<Rightarrow> Inl (PyExc TypeError))"

record bred_person =
  pr_name :: string
  pr_address :: string
  pr_country :: json
  pr_birth_date :: date

text \<open>\<^verbatim>\<open>ProfilePage.get_profile\<close> (lines 423--433), the sums from the left.\<close>

definition get_profile :: "bred_env \<Rightarrow> json \<Rightarrow> auth_exc + bred_person" where
  "get_profile E doc =
     ebind (get_content doc) (\<lambda>c.
     ebind (py_item ''prenom'' c) (\<lambda>p. ebind (str_plus_l p '' '') (\<lambda>a.
     ebind (py_item ''nom'' c) (\<lambda>n. ebind (str_plus_r a n) (\<lambda>name.
     ebind (py_item ''adresse'' c) (\<lambda>ad. ebind (str_plus_l ad '' '') (\<lambda>a1.
     ebind (py_item ''codePostal'' c) (\<lambda>cp. ebind (str_plus_r a1 cp) (\<lambda>a2.
     ebind (py_item ''ville'' c) (\<lambda>v. ebind (str_plus_r (a2 @ '' '') v) (\<lambda>address.
     ebind (py_item ''pays'' c) (\<lambda>country.
     ebind (py_item ''dateNaissance'' c) (\<lambda>bd. ebind (parse_french_date E bd) (\<lambda>birth.
       Inr \<lparr>pr_name = name, pr_address = address, pr_country = country, pr_birth_date = birth\<rparr>))))))))))))))"

definition msg_deactivated :: string where
  "msg_deactivated = ''Votre compte a '' @ [CHR 0xE9] @ ''t'' @ [CHR 0xE9] @ '' d'' @ [CHR 0xE9] @ ''sactiv'' @ [CHR 0xE9]"

definition msg_two_steps :: string where
  "msg_two_steps = ''Impossible de se connecter au compte car l'' @ [CHR 0x27] @ ''identification en 2 '' @
                   [CHR 0xE9] @ ''tapes a '' @ [CHR 0xE9] @ ''t'' @ [CHR 0xE9] @ '' activ'' @ [CHR 0xE9] @ ''e''"

text \<open>\<^verbatim>\<open>ErrorPage.on_load\<close> (lines 437--448): the error the URL names, or none.\<close>

definition error_on_load :: "string \<Rightarrow> node \<Rightarrow> auth_exc + unit" where
  "error_on_load url doc =
     (if sublist ''gestion-des-erreurs/erreur-pwd'' url then Inl (BrowserIncorrectPassword (Some (woob_sel (doc_elems ''h3'' doc))))
      else if sublist ''gestion-des-erreurs/opposition'' url then Inl (BrowserIncorrectPassword (Some msg_deactivated))
      else if sublist ''/pages-gestion-des-erreurs/erreur-technique'' url then Inl (BrowserUnavailable (JStr (woob_sel (doc_elems ''h4'' doc))))
      else if sublist ''/pages-gestion-des-erreurs/message-tiers-oppose'' url then Inl (AuthMethodNotImplemented msg_two_steps)
      else Inr ())"

text \<open>\<^verbatim>\<open>ErrorCodePage.get_code\<close> (lines 452--453).\<close>

definition get_code :: "bred_env \<Rightarrow> string \<Rightarrow> auth_exc + string option" where
  "get_code E url = query_value E ''errorCode'' url"

text \<open>
  \<^verbatim>\<open>CleanText(xpath, default=None)\<close> of a selection: the default when nothing is
  selected. XPath \<^verbatim>\<open>contains(text(), s)\<close> reads the first text child only.
\<close>

definition clean_sel_or_none :: "node list \<Rightarrow> string option" where
  "clean_sel_or_none ns = (if ns = [] then None else Some (woob_sel ns))"

definition first_text_contains :: "string \<Rightarrow> node \<Rightarrow> bool" where
  "first_text_contains s n = (case own_texts n of t # _ \<Rightarrow> sublist s t | [] \<Rightarrow> s = [])"

text \<open>\<^verbatim>\<open>ErrorMsgPage.get_msg\<close> (lines 457--458).\<close>

definition get_msg :: "node \<Rightarrow> string option" where
  "get_msg doc = clean_sel_or_none (filter (\<lambda>n. sublist ''error'' (case attr_of ''class'' n of Some c \<Rightarrow> c | None \<Rightarrow> [])) (doc_elems ''label'' doc))"

text \<open>\<^verbatim>\<open>UnavailablePage\<close> (lines 461--469).\<close>

definition unavailable_is_here :: "node \<Rightarrow> string option" where
  "unavailable_is_here doc = clean_sel_or_none (filter (first_text_contains ''Site en maintenance'') (doc_elems ''h1'' doc))"

definition unavailable_on_load :: "node \<Rightarrow> auth_exc + unit" where
  "unavailable_on_load doc =
     (case clean_sel_or_none (filter (first_text_contains ''intervention technique est en cours'') (doc_elems ''div'' doc)) of
        Some msg \<Rightarrow> if msg \<noteq> [] then Inl (BrowserUnavailable (JStr msg)) else Inl (AssertionError ''Ended up to this error page, message not handled yet.'' [])
      | None \<Rightarrow> Inl (AssertionError ''Ended up to this error page, message not handled yet.'' []))"

text \<open>An environment and a loan page for the examples.\<close>

definition sample_bred_env :: bred_env where
  "sample_bred_env =
     \<lparr>clean_decimal = (\<lambda>_. Inr (Finite False 0 0)), clean_decimal_si = (\<lambda>_. Inr (Finite False 0 0)),
      clean_decimal_neg = (\<lambda>_. Inr (Finite True 0 0)), currency_of = (\<lambda>_. Inr (Some ''EUR'')),
      from_timestamp_ms = (\<lambda>_. Inr (2024, 1, 1)), date_of_ms = (\<lambda>_. Inr (2024, 1, 1)),
      tx_parse = (\<lambda>_ d _ v. (TxBank, d, v)), is_isin_valid = (\<lambda>_. False),
      parse_french_date = (\<lambda>_. Inr (2024, 1, 1)), query_value = (\<lambda>_ _. Inr None)\<rparr>"

definition sample_loan :: "string \<Rightarrow> json" where
  "sample_loan nd =
     JObj [(''comptePrets'', JStr ''001''), (''numeroDossier'', JStr nd), (''intitule'', JStr ''PRET''),
           (''libellePrets'', JStr ''IMMO''),
           (''montantCapitalDu'', JObj [(''valeur'', JInt 1000), (''monnaie'', JObj [(''code'', JStr ''EUR'')])]),
           (''tauxNominal'', JInt 1), (''montantInitial'', JObj [(''valeur'', JInt 2000)]),
           (''dateFinPret'', JInt 0), (''montantPartAssurance'', JObj [(''valeur'', JInt 0)])]"

section \<open>Properties\<close>

subsection \<open>Stored lists\<close>

lemma loan_item_id: "loan_item E u el = Inr l \<Longrightarrow> ln_id l \<noteq> []"
  by (auto simp: loan_item_def ebind_eq_Inr)



text \<open>Two loans with the same id end the list with \<^verbatim>\<open>DataError\<close>.\<close>

lemma iter_loans_dup:
  assumes "loan_item E u el = Inr l"
  shows "\<exists>m. iter_loans E u (JObj [(''content'', JList [el, el])]) = Inl (DataError m)"
  using assms loan_item_id [OF assms]
  by (simp add: iter_loans_def py_get_def jlookup_def py_iter_def store_item_def)

subsection \<open>History\<close>

lemma uuid_match_int_repr: "\<not> uuid_match (int_repr i)"
proof
  assume u: "uuid_match (int_repr i)"
  then have "36 \<le> length (int_repr i)" and h0: "hex_char (int_repr i ! 0)" and d8: "int_repr i ! 8 = CHR ''-''"
    by (auto simp: uuid_match_def)
  show False
  proof (cases "i < 0")
    case True
    with h0 show False by (simp add: int_repr_def hex_char_def py_digit_def)
  next
    case False
    then have s: "int_repr i = digits_of (nat i)" by (simp add: int_repr_def)
    with \<open>36 \<le> length (int_repr i)\<close> have "int_repr i ! 8 \<in> set (digits_of (nat i))" by simp
    with digits_of_digits [of "nat i"] d8 show False by (auto simp: py_digit_def)
  qed
qed

lemma op_transaction_libelle: "op_transaction E ty today tid op = Inr t \<Longrightarrow> \<exists>l. py_item ''libelle'' op = Inr l"
  by (auto simp: op_transaction_def ebind_eq_Inr split: prod.splits)

text \<open>The step on an operation whose string id is in \<^verbatim>\<open>seen\<close> skips it.\<close>

lemma op_step_seen_str:
  assumes "py_item ''id'' op = Inr (JStr s)" "s \<in> set seen" "py_item ''libelle'' op = Inr l"
  shows "op_step E ty today (seen, txs) op = Inr (seen, txs)"
  using assms by (auto simp: op_step_def)

text \<open>\<^verbatim>\<open>seen\<close> only grows and its elements stay distinct.\<close>

lemma op_step_seen:
  assumes "op_step E ty today (seen, txs) op = Inr (seen', txs')"
  shows "set seen \<subseteq> set seen' \<and> (distinct seen \<longrightarrow> distinct seen')"
  using assms by (auto simp: op_step_def ebind_eq_Inr Let_def split: if_splits)

lemma iter_history_seen:
  assumes "iter_history E ty ops seen today = Inr (txs, seen')" "distinct seen"
  shows "set seen \<subseteq> set seen' \<and> distinct seen'"
proof -
  from assms(1) obtain txs0 where run: "efold (op_step E ty today) (rev ops) (seen, []) = Inr (seen', txs0)"
    by (auto simp: iter_history_def ebind_eq_Inr)
  have "set seen \<subseteq> set (fst (seen', txs0)) \<and> distinct (fst (seen', txs0))"
  proof (rule efold_inv [where P = "\<lambda>st. set seen \<subseteq> set (fst st) \<and> distinct (fst st)", OF run])
    fix st x st'
    assume "set seen \<subseteq> set (fst st) \<and> distinct (fst st)" "op_step E ty today st x = Inr st'"
    then show "set seen \<subseteq> set (fst st') \<and> distinct (fst st')"
      using op_step_seen [of E ty today "fst st" "snd st" x "fst st'" "snd st'"] by auto
  qed (use assms(2) in simp)
  then show ?thesis by simp
qed

text \<open>
  An operation given twice with a string id is yielded once; with an integer id it is
  yielded twice, the test \<^verbatim>\<open>op['id'] in seen\<close> comparing the number with strings.
\<close>

lemma iter_history_dup_str:
  assumes "py_item ''id'' op = Inr (JStr s)" "\<not> uuid_match s"
    and "op_transaction E ty today s op = Inr t" "\<bar>int (fst (tx_rdate t)) - int (fst (tx_date t))\<bar> < 2"
  shows "iter_history E ty [op, op] [] today = Inr ([t], [s])"
proof -
  obtain l where "py_item ''libelle'' op = Inr l" using op_transaction_libelle [OF assms(3)] by blast
  with assms show ?thesis by (simp add: iter_history_def op_step_def)
qed

lemma iter_history_dup_int:
  assumes "py_item ''id'' op = Inr (JInt i)"
    and "op_transaction E ty today (int_repr i) op = Inr t" "\<bar>int (fst (tx_rdate t)) - int (fst (tx_date t))\<bar> < 2"
  shows "iter_history E ty [op, op] [] today = Inr ([t, t], [int_repr i])"
  using assms uuid_match_int_repr [of i] by (simp add: iter_history_def op_step_def)

subsection \<open>Accounts\<close>

text \<open>
  The ids \<^verbatim>\<open>seen\<close> holds are those of the accounts of the second branch, in the order
  they were yielded, and they are distinct.
\<close>

definition accounts_inv :: "accounts_state \<Rightarrow> bool" where
  "accounts_inv st \<longleftrightarrow> distinct (fst st) \<and> map (ba_id \<circ> snd) (filter (Not \<circ> fst) (snd st)) = fst st"

lemma poste_step_inv:
  assumes "accounts_inv st" "poste_step u c st p = Inr st'"
  shows "accounts_inv st'"
proof (cases st)
  case (Pair seen out)
  with assms show ?thesis
    by (auto simp: poste_step_def accounts_inv_def ebind_eq_Inr split: if_splits option.splits)
qed

lemma content_step_inv:
  assumes "accounts_inv st" "content_step u n st c = Inr st'"
  shows "accounts_inv st'"
proof -
  from assms(2) have "st' = st \<or> (\<exists>ps. efold (poste_step u c) ps st = Inr st')"
    by (auto simp: content_step_def ebind_eq_Inr split: if_splits)
  then show ?thesis
  proof
    assume "\<exists>ps. efold (poste_step u c) ps st = Inr st'"
    then obtain ps where run: "efold (poste_step u c) ps st = Inr st'" ..
    show ?thesis
    proof (rule efold_inv [where P = accounts_inv, OF run assms(1)])
      fix s x t
      assume "accounts_inv s" "poste_step u c s x = Inr t"
      then show "accounts_inv t" by (rule poste_step_inv)
    qed
  qed (use assms(1) in simp)
qed

text \<open>The accounts of the second branch have distinct ids.\<close>

lemma iter_accounts_regular_distinct:
  assumes "iter_accounts_tagged doc n u = Inr out"
  shows "distinct (map (ba_id \<circ> snd) (filter (Not \<circ> fst) out))"
proof -
  from assms obtain cs st where run: "efold (content_step u n) cs ([], []) = Inr st" and out: "out = snd st"
    by (auto simp: iter_accounts_tagged_def ebind_eq_Inr)
  have "accounts_inv st"
  proof (rule efold_inv [where P = accounts_inv, OF run])
    show "accounts_inv ([], [])" by (simp add: accounts_inv_def)
  next
    fix s x t
    assume "accounts_inv s" "content_step u n s x = Inr t"
    then show "accounts_inv t" by (rule content_step_inv)
  qed
  then show ?thesis by (simp add: accounts_inv_def out)
qed

text \<open>A portfolio \<^verbatim>\<open>poste\<close> given twice is yielded twice: that branch does not look at \<^verbatim>\<open>seen\<close>.\<close>

lemma poste_step_portfolio_twice:
  assumes "base_account u c p = Inr a" "py_item ''postePortefeuille'' p = Inr pp" "truthy pp"
    and "portfolio_account c p a = Inr (Some b)"
  shows "efold (poste_step u c) [p, p] (seen, out) = Inr (seen, out @ [(True, b), (True, b)])"
  using assms by (simp add: poste_step_def)

text \<open>
  A labelled \<^verbatim>\<open>poste\<close> without \<^verbatim>\<open>numeroDossier\<close> raises \<^verbatim>\<open>KeyError\<close> at line 263,
  although line 245 tests that the key may be absent.
\<close>

lemma regular_account_no_file:
  assumes "py_item ''numeroDossier'' p = Inl e" "py_item ''intitule'' c = Inr i" "json_strip i = Inr t"
    and "py_item ''libelle'' p = Inr l" "json_strip l = Inr lb"
  shows "regular_account c p a = Inl e"
  using assms by (simp add: regular_account_def)

subsection \<open>Universes and error pages\<close>

lemma universe_entry_keys: "universe_entry m x = Inr m' \<Longrightarrow> distinct (map fst m) \<Longrightarrow> distinct (map fst m')"
  by (auto simp: universe_entry_def ebind_eq_Inr od_set_keys split: if_splits)

text \<open>The dict of universes has each key once.\<close>

lemma get_universes_keys:
  assumes "get_universes doc = Inr m"
  shows "distinct (map fst m)"
proof -
  from assms obtain data m0 us where m0: "universe_entry [] data = Inr m0" and run: "efold universe_entry us m0 = Inr m"
    by (auto simp: get_universes_def ebind_eq_Inr)
  show ?thesis
    by (rule efold_inv [where P = "\<lambda>m. distinct (map fst m)", OF run])
       (auto intro: universe_entry_keys [OF m0] universe_entry_keys)
qed

text \<open>\<^verbatim>\<open>UnavailablePage.on_load\<close> always raises.\<close>

lemma unavailable_on_load_raises: "\<exists>e. unavailable_on_load doc = Inl e"
  by (simp add: unavailable_on_load_def split: option.splits)

text \<open>
  The code \<^verbatim>\<open>'90000'\<close> of \<^verbatim>\<open>check_error\<close> is recognised only as a string: as a number
  it raises \<^verbatim>\<open>AssertionError\<close>.
\<close>

lemma check_error_90000_str:
  "check_error (JObj [(''erreur'', JObj [(''code'', JStr ''90000''), (''libelle'', JStr ''x'')])]) = Inl (BrowserUnavailable JNull)"
  by (simp add: check_error_def dict_or_def dict_path_def json_getitem_def jlookup_def int_of_string_def
                py_strip_def py_digit_def py_space_def)

lemma check_error_90000_int:
  "check_error (JObj [(''erreur'', JObj [(''code'', JInt 90000), (''libelle'', JStr ''x'')])]) =
     Inl (AssertionError ''Unhandled error {}: {}'' [JInt 90000, JStr ''x''])"
  by (simp add: check_error_def dict_or_def dict_path_def json_getitem_def jlookup_def)

text \<open>A postal code given as a number makes \<^verbatim>\<open>get_profile\<close> raise \<^verbatim>\<open>TypeError\<close>.\<close>

lemma get_profile_int_postcode:
  "get_profile E (JObj [(''content'', JObj [(''prenom'', JStr ''A''), (''nom'', JStr ''B''), (''adresse'', JStr ''C''),
     (''codePostal'', JInt 75001), (''ville'', JStr ''Paris'')])]) = Inl (PyExc TypeError)"
  by (simp add: get_profile_def get_content_def py_get_def py_item_def json_getitem_def jlookup_def str_plus_l_def str_plus_r_def)

end
