(* ===== verification/GanPatrimoine.thy ===== *)
theory GanPatrimoine
  imports WoobElements HtmlDoc BankCaps
begin

text \<open>
  The pages of the Gan Patrimoine module, \<^verbatim>\<open>src/modules/ganpatrimoine/pages.py\<close>: the
  virtual keyboard of the login, the error of the login page, the accounts, the
  details and investments of a contract, and its history, all but the first two read
  off the site's JSON. The attributes of an item are evaluated as woob's
  \<^verbatim>\<open>ItemElement\<close> orders them: constants, then filters in the order they are written,
  then methods.
\<close>

section \<open>Library\<close>

text \<open>
  \<^verbatim>\<open>IsinCode(Dict('codeISIN', default=None), default=NotAvailable)\<close>, \<^verbatim>\<open>IsinType\<close> of
  the same value, and \<^verbatim>\<open>datetime.fromtimestamp(n / 1000)\<close> (the local time zone).
\<close>

record gp_env =
  isin_code_of :: "json \<Rightarrow> auth_exc + string option"
  isin_type_of :: "json \<Rightarrow> auth_exc + bool"
  fromtimestamp_int :: "int \<Rightarrow> auth_exc + date"

text \<open>
  The module's \<^verbatim>\<open>float_to_decimal\<close> (lines 38--41): \<^verbatim>\<open>NotAvailable\<close> (\<open>None\<close>) for
  \<^verbatim>\<open>None\<close>, else \<^verbatim>\<open>Decimal(str(f))\<close>.
\<close>

definition gp_float_to_decimal :: "json \<Rightarrow> auth_exc + decimal option" where
  "gp_float_to_decimal v = (if v = JNull then Inr None else ebind (decimal_str v) (\<lambda>d. Inr (Some d)))"

text \<open>\<^verbatim>\<open>x / 100\<close> and \<^verbatim>\<open>-x\<close> of such a value: \<^verbatim>\<open>NotAvailable\<close> has no arithmetic.\<close>

definition opt_div100 :: "decimal option \<Rightarrow> auth_exc + decimal" where
  "opt_div100 x = (case x of None \<Rightarrow> Inl (PyExc TypeError) | Some d \<Rightarrow> dec_div100 d)"

definition opt_neg :: "decimal option \<Rightarrow> auth_exc + decimal" where
  "opt_neg x = (case x of None \<Rightarrow> Inl (PyExc TypeError) | Some d \<Rightarrow> dec_neg d)"

text \<open>\<^verbatim>\<open>Eval(lambda x: float_to_decimal(x) / 100, v)\<close>.\<close>

definition gp_percent :: "json \<Rightarrow> auth_exc + decimal" where
  "gp_percent v = ebind (gp_float_to_decimal v) opt_div100"

section \<open>Login\<close>

text \<open>
  The keyboard of \<^verbatim>\<open>LoginPage.login\<close> (lines 46--51): the key at index \<open>i\<close> of the
  list \<^verbatim>\<open>clavierAChristian\<close> is the letter \<^verbatim>\<open>chr(ord('A') + i)\<close> (a code point), and a
  number below 10 is the digit it types; a later key overrides an earlier one.
\<close>

fun key_map_from :: "nat \<Rightarrow> int list \<Rightarrow> (int \<rightharpoonup> nat) \<Rightarrow> (int \<rightharpoonup> nat)" where
  "key_map_from i [] m = m"
| "key_map_from i (n # ns) m = key_map_from (Suc i) ns (if n < 10 then m(n \<mapsto> 65 + i) else m)"

text \<open>
  The password the form sends (lines 45--57): each character through \<^verbatim>\<open>int()\<close>, then
  the key map (\<^verbatim>\<open>KeyError\<close> for a digit without key). \<open>None\<close> is a page where the
  pattern of line 46 is not found, whose \<^verbatim>\<open>.group\<close> raises \<^verbatim>\<open>AttributeError\<close>.
\<close>

definition gp_login_password :: "int list option \<Rightarrow> string \<Rightarrow> auth_exc + nat list" where
  "gp_login_password tab password =
     (case tab of
        None \<Rightarrow> Inl (PyExc AttributeError)
      | Some number_list \<Rightarrow>
          (let key_map = key_map_from 0 number_list Map.empty in
           py_mapM (\<lambda>c. ebind (py_int (JStr [c])) (\<lambda>n.
             case key_map n of Some k \<Rightarrow> Inr k | None \<Rightarrow> Inl (PyExc KeyError))) password))"

text \<open>\<^verbatim>\<open>LoginPage.get_error\<close> (lines 58--59).\<close>

definition gp_get_error :: "node \<Rightarrow> string" where
  "gp_get_error doc = woob_sel (filter (\<lambda>n. attr_of ''id'' n = Some ''msg'') (doc_elems ''div'' doc))"

section \<open>Accounts\<close>

text \<open>\<^verbatim>\<open>ACCOUNT_TYPES\<close> (lines 66--72).\<close>

definition gp_account_types :: "(string \<times> acct_type) list" where
  "gp_account_types =
     [(''Compte bancaire'', TChecking), (''Epargne bancaire'', TSavings), (''Cr'' @ [CHR 0xE9] @ ''dit'', TLoan),
      (''Epargne'', TLifeInsurance), (''Retraite'', TMadelin)]"

record gp_account =
  ga_id :: json
  ga_number :: json
  ga_label :: string
  ga_type :: acct_type

text \<open>
  \<^verbatim>\<open>item.condition\<close> (lines 89--97): not cancelled, not replaced, with a detail and not
  an insurance; the \<^verbatim>\<open>or\<close> stops at its first truthy operand.
\<close>

definition gp_condition :: "json \<Rightarrow> auth_exc + bool" where
  "gp_condition el =
     ebind (dict_req ''contrat/resilie'' el) (\<lambda>a. if truthy a then Inr False else
     ebind (dict_req ''contrat/remplace'' el) (\<lambda>b. if truthy b then Inr False else
     ebind (dict_req ''debranchement/hasDetail'' el) (\<lambda>c. if \<not> truthy c then Inr False else
     ebind (dict_req ''contrat/produit/classification/categorie'' el) (\<lambda>d. Inr (d \<noteq> JStr ''ASSURANCE'')))))"

text \<open>The account of an element (lines 86--104); \<^verbatim>\<open>obj_number\<close> is the filter of \<^verbatim>\<open>obj_id\<close>.\<close>

definition gp_account_item :: "json \<Rightarrow> json \<Rightarrow> auth_exc + gp_account" where
  "gp_account_item ty el =
     ebind (dict_req ''contrat/identifiant'' el) (\<lambda>i.
     ebind (dict_req ''contrat/identifiant'' el) (\<lambda>n.
     ebind (dict_req ''contrat/produit/libelle'' el) (\<lambda>l. ebind (clean_json l) (\<lambda>label.
     ebind (json_map_filter gp_account_types TUnknown ty) (\<lambda>t.
       Inr \<lparr>ga_id = i, ga_number = n, ga_label = label, ga_type = t\<rparr>)))))"

text \<open>
  \<^verbatim>\<open>iter_items\<close> (lines 80--104) of an element of \<^verbatim>\<open>entries/*/entries\<close>: \<^verbatim>\<open>parse\<close>
  reads its \<^verbatim>\<open>libelle\<close> as the type of its contracts, then each contract of
  \<^verbatim>\<open>contratItems\<close> that passes the condition is stored.
\<close>

definition gp_iter_items :: "json \<Rightarrow> auth_exc + gp_account list" where
  "gp_iter_items el =
     ebind (dict_req ''libelle'' el) (\<lambda>ty.
     ebind (dict_elements (Some ''contratItems'') el) (\<lambda>els.
       efold (\<lambda>xs c. ebind (gp_condition c) (\<lambda>ok.
                 if ok then ebind (gp_account_item ty c) (store_json ga_id xs) else Inr xs)) els []))"

text \<open>
  \<^verbatim>\<open>AccountsPage.iter_accounts\<close> (lines 76--104): what each \<^verbatim>\<open>iter_items\<close> yields is
  stored again by the outer list, across all its elements.
\<close>

definition gp_iter_accounts :: "json \<Rightarrow> auth_exc + gp_account list" where
  "gp_iter_accounts doc =
     ebind (dict_elements (Some ''entries/*/entries'') doc) (\<lambda>els.
       efold (\<lambda>xs el. ebind (gp_iter_items el) (\<lambda>ys. efold (store_json ga_id) ys xs)) els [])"

section \<open>Details, investments and history\<close>

record gp_details =
  gd_balance :: "decimal option"
  gd_currency :: string
  gd_valuation_diff_ratio :: "decimal option"

text \<open>\<^verbatim>\<open>AccountDetailsPage.fill_account\<close> (lines 108--114).\<close>

definition gp_fill_account :: "json \<Rightarrow> auth_exc + gp_details" where
  "gp_fill_account doc =
     ebind (dict_or ''contrat/montantEpargneContrat'' JNull doc) (\<lambda>b. ebind (gp_float_to_decimal b) (\<lambda>balance.
     ebind (dict_or ''contrat/pourcentagePerformanceContrat'' JNull doc) (\<lambda>r. ebind (gp_float_to_decimal r) (\<lambda>ratio.
       Inr \<lparr>gd_balance = balance, gd_currency = ''EUR'', gd_valuation_diff_ratio = ratio\<rparr>))))"

text \<open>\<^verbatim>\<open>AccountDetailsPage.has_investments\<close> (lines 116--117).\<close>

definition gp_has_investments :: "json \<Rightarrow> auth_exc + json" where
  "gp_has_investments doc = dict_or ''contrat/listeSupports'' JNull doc"

record gp_inv =
  gi_label :: string
  gi_valuation :: "decimal option"
  gi_quantity :: "decimal option"
  gi_unitvalue :: "decimal option"
  gi_portfolio_share :: decimal
  gi_code :: "string option"
  gi_code_isin :: bool
  gi_performance_history :: "(nat \<times> decimal) list"

text \<open>
  \<^verbatim>\<open>obj_performance_history\<close> (lines 134--142): the performance over 1, 3 and 5 years,
  each when it is truthy, divided by 100.
\<close>

definition gp_perf_step :: "json \<Rightarrow> (nat \<times> decimal) list \<Rightarrow> nat \<times> string \<Rightarrow> auth_exc + (nat \<times> decimal) list" where
  "gp_perf_step el perfs kp =
     ebind (dict_or (snd kp) JNull el) (\<lambda>v.
       if truthy v then ebind (dict_req (snd kp) el) (\<lambda>w. ebind (gp_percent w) (\<lambda>x. Inr (perfs @ [(fst kp, x)])))
       else Inr perfs)"

definition gp_performance_history :: "json \<Rightarrow> auth_exc + (nat \<times> decimal) list" where
  "gp_performance_history el =
     efold (gp_perf_step el)
       [(1, ''detailPerformance/perfSupportUnAn''), (3, ''detailPerformance/perfSupportTroisAns''),
        (5, ''detailPerformance/perfSupportCinqAns'')] []"

text \<open>An investment (lines 123--142).\<close>

definition gp_investment_item :: "gp_env \<Rightarrow> json \<Rightarrow> auth_exc + gp_inv" where
  "gp_investment_item G el =
     ebind (dict_req ''libelleSupport'' el) (\<lambda>l. ebind (clean_json l) (\<lambda>label.
     ebind (dict_req ''montantSupport'' el) (\<lambda>v. ebind (gp_float_to_decimal v) (\<lambda>valuation.
     ebind (dict_or ''nbUniteCompte'' JNull el) (\<lambda>q. ebind (gp_float_to_decimal q) (\<lambda>quantity.
     ebind (dict_or ''valeurUniteCompte'' JNull el) (\<lambda>u. ebind (gp_float_to_decimal u) (\<lambda>unitvalue.
     ebind (dict_or ''tauxSupport'' JNull el) (\<lambda>s. ebind (gp_percent s) (\<lambda>share.
     ebind (dict_or ''codeISIN'' JNull el) (\<lambda>c. ebind (isin_code_of G c) (\<lambda>code.
     ebind (dict_or ''codeISIN'' JNull el) (\<lambda>c'. ebind (isin_type_of G c') (\<lambda>code_type.
     ebind (gp_performance_history el) (\<lambda>perfs.
       Inr \<lparr>gi_label = label, gi_valuation = valuation, gi_quantity = quantity, gi_unitvalue = unitvalue,
            gi_portfolio_share = share, gi_code = code, gi_code_isin = code_type,
            gi_performance_history = perfs\<rparr>)))))))))))))))"

text \<open>\<^verbatim>\<open>AccountDetailsPage.iter_investments\<close> (lines 119--142).\<close>

definition gp_iter_investments :: "gp_env \<Rightarrow> json \<Rightarrow> auth_exc + gp_inv list" where
  "gp_iter_investments G doc =
     ebind (dict_elements (Some ''contrat/listeSupports'') doc) (py_mapM (gp_investment_item G))"

record gp_tx =
  gt_label :: string
  gt_date :: date
  gt_rdate :: date
  gt_amount :: "decimal option"

text \<open>
  A transaction of \<^verbatim>\<open>HistoryPage.iter_wealth_history\<close> (lines 150--162): the date
  (the one filter of \<^verbatim>\<open>obj_date\<close> and \<^verbatim>\<open>obj_rdate\<close>) through \<^verbatim>\<open>int()\<close>, and the
  amount negated when \<^verbatim>\<open>negatif\<close> is set.
\<close>

definition gp_tx_date :: "gp_env \<Rightarrow> json \<Rightarrow> auth_exc + date" where
  "gp_tx_date G el = ebind (dict_req ''date'' el) (\<lambda>t. ebind (py_int t) (fromtimestamp_int G))"

definition gp_history_item :: "gp_env \<Rightarrow> json \<Rightarrow> auth_exc + gp_tx" where
  "gp_history_item G el =
     ebind (dict_req ''libelle'' el) (\<lambda>l. ebind (clean_json l) (\<lambda>label.
     ebind (gp_tx_date G el) (\<lambda>date. ebind (gp_tx_date G el) (\<lambda>rdate.
     ebind (dict_req ''montant'' el) (\<lambda>m. ebind (gp_float_to_decimal m) (\<lambda>amount.
     ebind (dict_req ''negatif'' el) (\<lambda>neg.
     ebind (if truthy neg then ebind (opt_neg amount) (\<lambda>x. Inr (Some x)) else Inr amount) (\<lambda>amount.
       Inr \<lparr>gt_label = label, gt_date = date, gt_rdate = rdate, gt_amount = amount\<rparr>))))))))"

text \<open>\<^verbatim>\<open>HistoryPage.iter_wealth_history\<close> (lines 146--162), under \<^verbatim>\<open>*/historiques\<close>.\<close>

definition gp_iter_wealth_history :: "gp_env \<Rightarrow> json \<Rightarrow> auth_exc + gp_tx list" where
  "gp_iter_wealth_history G doc =
     ebind (dict_elements (Some ''*/historiques'') doc) (py_mapM (gp_history_item G))"

text \<open>An account page for the examples: one element with one open contract.\<close>

definition gp_sample_page :: json where
  "gp_sample_page =
     JObj [(''entries'', JList [JObj [(''entries'', JList [JObj [(''libelle'', JStr ''Epargne''),
       (''contratItems'', JList [JObj [
          (''contrat'', JObj [(''identifiant'', JStr ''A1''), (''resilie'', JBool False), (''remplace'', JBool False),
             (''produit'', JObj [(''libelle'', JStr ''Vie''), (''classification'', JObj [(''categorie'', JStr ''EPARGNE'')])])]),
          (''debranchement'', JObj [(''hasDetail'', JBool True)])]])]])]])]"

section \<open>Properties\<close>

lemma key_map_from_notin: "n \<notin> set ns \<Longrightarrow> key_map_from i ns m n = m n"
  by (induction ns arbitrary: i m) auto

lemma key_map_from_nth:
  "distinct ns \<Longrightarrow> j < length ns \<Longrightarrow> ns ! j < 10 \<Longrightarrow> key_map_from i ns m (ns ! j) = Some (65 + i + j)"
proof (induction ns arbitrary: i m j)
  case (Cons a ns)
  show ?case
  proof (cases j)
    case 0
    with Cons.prems show ?thesis by (simp add: key_map_from_notin)
  next
    case (Suc j')
    with Cons.prems Cons.IH [of j' "Suc i"] show ?thesis by simp
  qed
qed simp

lemma int_of_string_digit: "py_digit c \<Longrightarrow> int_of_string [c] = Some (int (of_char c) - 48)"
  by (auto simp: int_of_string_def py_strip_def py_digit_def py_space_def of_nat_diff)

text \<open>
  C20. The Gan Patrimoine login sends the password through its virtual keyboard so that
  the site can read it back: when the digits of the keyboard are distinct and include
  every digit of the password, the letter sent for each character is the one of that
  digit's position (\<^verbatim>\<open>chr(65 + i)\<close>), and reading each letter back as the digit at its
  position gives the password's digits.
\<close>

theorem gp_login_password_roundtrip:
  assumes "distinct nl" "\<forall>c \<in> set pw. py_digit c \<and> int (of_char c) - 48 \<in> set nl"
  shows "\<exists>cs. gp_login_password (Some nl) pw = Inr cs \<and> map (\<lambda>k. nl ! (k - 65)) cs = map (\<lambda>c. int (of_char c) - 48) pw"
proof -
  have "\<exists>cs. py_mapM (\<lambda>c. ebind (py_int (JStr [c])) (\<lambda>n. case key_map_from 0 nl Map.empty n of
                 Some k \<Rightarrow> Inr k | None \<Rightarrow> Inl (PyExc KeyError))) pw = Inr cs \<and>
             map (\<lambda>k. nl ! (k - 65)) cs = map (\<lambda>c. int (of_char c) - 48) pw"
    using assms(2)
  proof (induction pw)
    case (Cons c pw)
    then obtain cs where cs: "py_mapM (\<lambda>c. ebind (py_int (JStr [c])) (\<lambda>n. case key_map_from 0 nl Map.empty n of
                 Some k \<Rightarrow> Inr k | None \<Rightarrow> Inl (PyExc KeyError))) pw = Inr cs"
      and m: "map (\<lambda>k. nl ! (k - 65)) cs = map (\<lambda>c. int (of_char c) - 48) pw" by auto
    from Cons.prems have d: "py_digit c" and "int (of_char c) - 48 \<in> set nl" by auto
    then obtain j where j: "j < length nl" "nl ! j = int (of_char c) - 48" by (metis in_set_conv_nth)
    have "nl ! j < 10" using d j(2) by (simp add: py_digit_def)
    then have k: "key_map_from 0 nl Map.empty (int (of_char c) - 48) = Some (65 + j)"
      using key_map_from_nth [OF assms(1) j(1)] j(2) by simp
    show ?case
      using cs by (intro exI [of _ "(65 + j) # cs"]) (simp add: m k d int_of_string_digit j(2))
  qed simp
  then show ?thesis by (simp add: gp_login_password_def)
qed

theorem gp_login_password_roundtrip_witness:
  "distinct [3, 1, 4 :: int] \<and>
   (\<exists>cs. gp_login_password (Some [3, 1, 4]) ''13'' = Inr cs \<and> map (\<lambda>k. [3, 1, 4 :: int] ! (k - 65)) cs = [1, 3])"
proof -
  have d: "distinct [3, 1, 4 :: int]" by simp
  have h: "\<forall>c \<in> set ''13''. py_digit c \<and> int (of_char c) - 48 \<in> set [3, 1, 4]" by (simp add: py_digit_def)
  have m: "map (\<lambda>c. int (of_char c) - 48) ''13'' = [1, 3]" by simp
  show ?thesis using gp_login_password_roundtrip [OF d h] d h m by simp
qed



text \<open>
  A support without \<^verbatim>\<open>tauxSupport\<close> makes \<^verbatim>\<open>iter_investments\<close> raise \<^verbatim>\<open>TypeError\<close>:
  line 130 divides the \<^verbatim>\<open>NotAvailable\<close> of \<^verbatim>\<open>float_to_decimal(None)\<close> by 100.
\<close>

lemma gp_investment_no_share:
  "gp_iter_investments G (JObj [(''contrat'', JObj [(''listeSupports'',
      JList [JObj [(''libelleSupport'', JStr ''Euro''), (''montantSupport'', JInt 10)]])])]) = Inl (PyExc TypeError)"
  by code_simp

end
