(* ===== verification/Kolb.thy ===== *)
theory Kolb
  imports PyNumbers BankCaps
begin

text \<open>
  The browser of the Kolb bank module, \<^verbatim>\<open>src/modules/kolb/browser.py\<close> (\<^verbatim>\<open>KolbBrowser\<close>).
  Its pages (\<^verbatim>\<open>pages.py\<close>) are not part of the sources: the browser is modelled over a
  site \<open>kolb_site\<close> that gives, for an abstract session \<open>'p\<close> (the current page, the
  cookies), the navigation to each URL of the class, \<^verbatim>\<open>location\<close>, \<^verbatim>\<open>is_here\<close> and the
  page methods the browser calls. The browser's own attributes are the state
  \<open>kolb_state\<close>; \<^verbatim>\<open>account_type\<close> is unset (\<open>None\<close>) until \<^verbatim>\<open>get_accounts_list\<close>
  sets it, and reading it then raises \<^verbatim>\<open>AttributeError\<close>. A generator is the list it
  yields; the page generators are read when they are called.
\<close>

section \<open>Site, state and accounts\<close>

text \<open>The URLs of the class (lines 36--51) the browser navigates to.\<close>

datatype kolb_url =
    KLogin | KMultitypeAV | KAccounts | KSynthesis | KProLoans | KLoans | KMultitypeIban
  | KTransactions | KProTransactions | KAccountTypePage | KProfilePage

text \<open>The attributes of an account the browser reads and sets.\<close>

record kolb_account =
  ka_id :: string
  ka_label :: string
  ka_type :: acct_type
  ka_balance :: "decimal option"
  ka_acc_nb :: string
  ka_link :: string
  ka_args :: "json option"
  ka_inv :: bool
  ka_iban :: "string option"

text \<open>An investment: the liquidity line the browser builds, or one of a page.\<close>

datatype 'i kolb_inv = Liquidity "decimal option" | PageInv 'i

record ('p, 't, 'i, 'r) kolb_site =
  go :: "kolb_url \<Rightarrow> string option \<Rightarrow> 'p \<Rightarrow> auth_exc + 'p"
  location :: "string \<Rightarrow> json option \<Rightarrow> 'p \<Rightarrow> auth_exc + 'p"
  is_here :: "kolb_url \<Rightarrow> 'p \<Rightarrow> bool"
  page_none :: "'p \<Rightarrow> bool"
  page_logged :: "'p \<Rightarrow> bool"
  change_code_banner :: "'p \<Rightarrow> bool"
  page_login :: "string \<Rightarrow> string \<Rightarrow> 'p \<Rightarrow> auth_exc + 'p"
  get_password_expired :: "'p \<Rightarrow> auth_exc + string"
  get_error :: "'p \<Rightarrow> auth_exc + string"
  get_list :: "'p \<Rightarrow> auth_exc + kolb_account list"
  get_av_accounts :: "'p \<Rightarrow> auth_exc + kolb_account list"
  fill_diff_currency :: "kolb_account \<Rightarrow> 'p \<Rightarrow> auth_exc + kolb_account"
  get_account_type :: "'p \<Rightarrow> auth_exc + string"
  iban_go :: "'p \<Rightarrow> auth_exc + string"
  get_iban :: "'p \<Rightarrow> auth_exc + string option"
  page_history :: "acct_type \<Rightarrow> 'p \<Rightarrow> auth_exc + 't list"
  get_next_args :: "json \<Rightarrow> 'p \<Rightarrow> auth_exc + json option"
  can_iter_investments :: "'p \<Rightarrow> bool"
  get_market_investment :: "'p \<Rightarrow> auth_exc + 'i list"
  get_deposit_investment :: "'p \<Rightarrow> auth_exc + 'i list"
  page_profile :: "'p \<Rightarrow> auth_exc + 'r"

record 'p kolb_state =
  kb_session :: 'p
  kb_username :: string
  kb_password :: string
  kb_account_type :: "string option"

definition kb_account_type_of :: "'p kolb_state \<Rightarrow> auth_exc + string" where
  "kb_account_type_of st = (case kb_account_type st of Some a \<Rightarrow> Inr a | None \<Rightarrow> Inl (PyExc AttributeError))"

text \<open>Navigation that updates the session of the state.\<close>

definition kb_nav :: "('p \<Rightarrow> auth_exc + 'p) \<Rightarrow> 'p kolb_state \<Rightarrow> auth_exc + 'p kolb_state" where
  "kb_nav f st = ebind (f (kb_session st)) (\<lambda>p. Inr (st\<lparr>kb_session := p\<rparr>))"

section \<open>Login\<close>

text \<open>\<^verbatim>\<open>is_logged\<close> (lines 58--60); the conjunction stops at its first false operand.\<close>

definition is_logged :: "('p, 't, 'i, 'r) kolb_site \<Rightarrow> 'p \<Rightarrow> bool" where
  "is_logged S p \<longleftrightarrow> \<not> page_none S p \<and> \<not> is_here S KLogin p \<and> \<not> change_code_banner S p"

text \<open>\<^verbatim>\<open>do_login\<close> (lines 72--89).\<close>

definition do_login_k :: "('p, 't, 'i, 'r) kolb_site \<Rightarrow> 'p kolb_state \<Rightarrow> auth_exc + 'p kolb_state" where
  "do_login_k S st =
     ebind (kb_nav (go S KLogin None) st) (\<lambda>st.
     ebind (kb_nav (page_login S (kb_username st) (kb_password st)) st) (\<lambda>st.
     let p = kb_session st in
     ebind (if is_here S KAccounts p
            then ebind (get_password_expired S p) (\<lambda>e. if e \<noteq> [] then Inl (BrowserUnavailable (JStr e)) else Inr ())
            else Inr ()) (\<lambda>_.
     ebind (if is_here S KLogin p
            then ebind (get_error S p) (\<lambda>e.
                   if e \<noteq> [] then Inl (BrowserIncorrectPassword (Some e))
                   else Inl (AssertionError ''Still on login page.'' []))
            else Inr ()) (\<lambda>_.
     if \<not> is_logged S p then Inl (BrowserIncorrectPassword None) else Inr st))))"

text \<open>
  The decorator \<^verbatim>\<open>need_login\<close> of the library: log in when there is no page or the
  page is not a logged one, then run the method.
\<close>

definition need_login :: "('p, 't, 'i, 'r) kolb_site \<Rightarrow> 'p kolb_state \<Rightarrow> auth_exc + 'p kolb_state" where
  "need_login S st =
     (if page_none S (kb_session st) \<or> \<not> page_logged S (kb_session st) then do_login_k S st else Inr st)"

text \<open>\<^verbatim>\<open>home\<close> (lines 62--67) and \<^verbatim>\<open>go_synthesis\<close> (lines 69--70).\<close>

definition home_k :: "('p, 't, 'i, 'r) kolb_site \<Rightarrow> 'p kolb_state \<Rightarrow> auth_exc + 'p kolb_state" where
  "home_k S st =
     (if is_logged S (kb_session st) then
        ebind (kb_nav (location S ''/icd/zco/'' None) st) (\<lambda>st.
          ebind (kb_account_type_of st) (\<lambda>aty. kb_nav (go S KAccounts (Some aty)) st))
      else do_login_k S st)"

definition go_synthesis :: "('p, 't, 'i, 'r) kolb_site \<Rightarrow> 'p kolb_state \<Rightarrow> auth_exc + 'p kolb_state" where
  "go_synthesis S st = ebind (kb_account_type_of st) (\<lambda>aty. kb_nav (go S KSynthesis (Some aty)) st)"

section \<open>Accounts\<close>

text \<open>
  A life insurance of the multi-type page (lines 100--105): its page, its detail page,
  and the currency difference the detail page fills in.
\<close>

definition av_account_step :: "('p, 't, 'i, 'r) kolb_site \<Rightarrow> 'p kolb_state \<times> kolb_account list \<Rightarrow> kolb_account \<Rightarrow>
                               auth_exc + 'p kolb_state \<times> kolb_account list" where
  "av_account_step S acc a =
     (let (st, out) = acc in
      ebind (kb_nav (location S (ka_link a) (ka_args a)) st) (\<lambda>st.
      ebind (kb_nav (location S (py_replace ''_attente'' ''_detail_contrat_rep'' (ka_link a)) (ka_args a)) st) (\<lambda>st.
      ebind (fill_diff_currency S a (kb_session st)) (\<lambda>a. Inr (st, out @ [a])))))"

text \<open>\<^verbatim>\<open>_iter_accounts\<close> (lines 91--109): the loans, the life insurances, the accounts.\<close>

definition iter_accounts_k :: "('p, 't, 'i, 'r) kolb_site \<Rightarrow> 'p kolb_state \<Rightarrow>
                               auth_exc + 'p kolb_state \<times> kolb_account list" where
  "iter_accounts_k S st =
     ebind (kb_account_type_of st) (\<lambda>aty.
     ebind (kb_nav (if aty = ''particuliers'' then go S KLoans None else go S KProLoans (Some aty)) st) (\<lambda>st.
     ebind (get_list S (kb_session st)) (\<lambda>loans.
     ebind (go_synthesis S st) (\<lambda>st.
     ebind (kb_nav (go S KMultitypeAV None) st) (\<lambda>st.
     ebind (if is_here S KMultitypeAV (kb_session st)
            then ebind (get_av_accounts S (kb_session st)) (\<lambda>avs. efold (av_account_step S) avs (st, []))
            else Inr (st, [])) (\<lambda>(st, avs).
     ebind (go_synthesis S st) (\<lambda>st.
     ebind (kb_account_type_of st) (\<lambda>aty.
     ebind (kb_nav (go S KAccounts (Some aty)) st) (\<lambda>st.
     ebind (get_list S (kb_session st)) (\<lambda>accounts. Inr (st, loans @ avs @ accounts)))))))))))"

text \<open>The IBAN of an account with a number (lines 120--122).\<close>

definition iban_step :: "('p, 't, 'i, 'r) kolb_site \<Rightarrow> string \<Rightarrow> 'p kolb_state \<times> kolb_account list \<Rightarrow> kolb_account \<Rightarrow>
                         auth_exc + 'p kolb_state \<times> kolb_account list" where
  "iban_step S link acc a =
     (let (st, out) = acc in
      if ka_acc_nb a = [] then Inr (st, out @ [a])
      else ebind (kb_nav (location S (link @ ka_acc_nb a) None) st) (\<lambda>st.
             ebind (get_iban S (kb_session st)) (\<lambda>iban. Inr (st, out @ [a\<lparr>ka_iban := iban\<rparr>]))))"

text \<open>\<^verbatim>\<open>get_accounts_list\<close> (lines 111--124): the type of the space, the accounts, their IBANs.\<close>

definition get_accounts_list :: "('p, 't, 'i, 'r) kolb_site \<Rightarrow> 'p kolb_state \<Rightarrow>
                                 auth_exc + 'p kolb_state \<times> kolb_account list" where
  "get_accounts_list S st =
     ebind (need_login S st) (\<lambda>st.
     ebind (kb_nav (go S KAccountTypePage None) st) (\<lambda>st.
     ebind (get_account_type S (kb_session st)) (\<lambda>aty.
     let st = st\<lparr>kb_account_type := Some aty\<rparr> in
     ebind (iter_accounts_k S st) (\<lambda>(st, accounts).
     ebind (kb_nav (go S KMultitypeIban None) st) (\<lambda>st.
     ebind (iban_go S (kb_session st)) (\<lambda>link. efold (iban_step S link) accounts (st, [])))))))"

text \<open>\<^verbatim>\<open>find_object(list, id=id)\<close> of the library: the first object with that id, or \<open>None\<close>.\<close>

definition find_object :: "kolb_account list \<Rightarrow> string \<Rightarrow> kolb_account option" where
  "find_object xs i = find (\<lambda>a. ka_id a = i) xs"

text \<open>\<^verbatim>\<open>get_account\<close> (lines 126--128) and \<^verbatim>\<open>get_account_for_history\<close> (lines 130--133).\<close>

definition get_account :: "('p, 't, 'i, 'r) kolb_site \<Rightarrow> 'p kolb_state \<Rightarrow> string \<Rightarrow>
                           auth_exc + 'p kolb_state \<times> kolb_account option" where
  "get_account S st i = ebind (get_accounts_list S st) (\<lambda>(st, l). Inr (st, find_object l i))"

definition get_account_for_history :: "('p, 't, 'i, 'r) kolb_site \<Rightarrow> 'p kolb_state \<Rightarrow> string \<Rightarrow>
                                       auth_exc + 'p kolb_state \<times> kolb_account option" where
  "get_account_for_history S st i =
     ebind (need_login S st) (\<lambda>st. ebind (iter_accounts_k S st) (\<lambda>(st, l). Inr (st, find_object l i)))"

section \<open>History, investments and profile\<close>

text \<open>
  The loop of \<^verbatim>\<open>iter_transactions\<close> (lines 139--145): post the arguments, check the page,
  read its transactions, and take the arguments of the next page, until there are none.
  The site decides whether there is a next page, so the loop may not end: the model
  gives it fuel, one unit per page, and \<open>None\<close> when the fuel runs out.
\<close>

fun history_loop :: "('p, 't, 'i, 'r) kolb_site \<Rightarrow> nat \<Rightarrow> string \<Rightarrow> acct_type \<Rightarrow> json \<Rightarrow> 'p kolb_state \<Rightarrow> 't list \<Rightarrow>
                     (auth_exc + 'p kolb_state \<times> 't list) option" where
  "history_loop S 0 link ty args st out = None"
| "history_loop S (Suc n) link ty args st out =
     (case kb_nav (location S link (Some args)) st of
        Inl e \<Rightarrow> Some (Inl e)
      | Inr st \<Rightarrow>
          if \<not> (is_here S KTransactions (kb_session st) \<or> is_here S KProTransactions (kb_session st))
          then Some (Inl (AssertionError [] []))
          else (case page_history S ty (kb_session st) of
                  Inl e \<Rightarrow> Some (Inl e)
                | Inr trs \<Rightarrow>
                    (case get_next_args S args (kb_session st) of
                       Inl e \<Rightarrow> Some (Inl e)
                     | Inr None \<Rightarrow> Some (Inr (st, out @ trs))
                     | Inr (Some args') \<Rightarrow> history_loop S n link ty args' st (out @ trs))))"

text \<open>\<^verbatim>\<open>iter_transactions(link, args, acc_type)\<close> (lines 135--145).\<close>

definition iter_transactions :: "('p, 't, 'i, 'r) kolb_site \<Rightarrow> nat \<Rightarrow> 'p kolb_state \<Rightarrow> string \<Rightarrow> json option \<Rightarrow> acct_type \<Rightarrow>
                                 (auth_exc + 'p kolb_state \<times> 't list) option" where
  "iter_transactions S n st link args ty =
     (case need_login S st of
        Inl e \<Rightarrow> Some (Inl e)
      | Inr st \<Rightarrow> (case args of None \<Rightarrow> Some (Inr (st, [])) | Some a \<Rightarrow> history_loop S n link ty a st []))"

text \<open>
  \<^verbatim>\<open>get_history(account, coming)\<close> (lines 147--152): nothing for the coming transactions
  of an account other than a card, nor for a loan (\<^verbatim>\<open>and\<close> binds tighter than \<^verbatim>\<open>or\<close>).
\<close>

definition get_history :: "('p, 't, 'i, 'r) kolb_site \<Rightarrow> nat \<Rightarrow> 'p kolb_state \<Rightarrow> kolb_account \<Rightarrow> bool \<Rightarrow>
                           (auth_exc + 'p kolb_state \<times> 't list) option" where
  "get_history S n st a coming =
     (case need_login S st of
        Inl e \<Rightarrow> Some (Inl e)
      | Inr st \<Rightarrow>
          if coming \<and> ka_type a \<noteq> TCard \<or> ka_type a = TLoan then Some (Inr (st, []))
          else iter_transactions S n st (ka_link a) (ka_args a) (ka_type a))"

definition liquidite :: string where
  "liquidite = ''Liquidit'' @ [CHR 0xE9]"

text \<open>
  \<^verbatim>\<open>get_investment(account)\<close> (lines 154--178): a liquidity line for an account whose
  label says so; else the investments of the market or life insurance page, when the
  account has some and the page can list them.
\<close>

definition get_investment :: "('p, 't, 'i, 'r) kolb_site \<Rightarrow> 'p kolb_state \<Rightarrow> kolb_account \<Rightarrow>
                              auth_exc + 'p kolb_state \<times> 'i kolb_inv list" where
  "get_investment S st a =
     ebind (need_login S st) (\<lambda>st.
       if sublist ''LIQUIDIT'' (ka_label a) then Inr (st, [Liquidity (ka_balance a)])
       else if \<not> ka_inv a then Inr (st, [])
       else if ka_type a \<in> {TMarket, TPea} then
         ebind (kb_nav (location S (ka_link a) (ka_args a)) st) (\<lambda>st.
           if can_iter_investments S (kb_session st)
           then ebind (get_market_investment S (kb_session st)) (\<lambda>is. Inr (st, map PageInv is))
           else Inr (st, []))
       else if ka_type a = TLifeInsurance then
         ebind (kb_nav (location S (ka_link a) (ka_args a)) st) (\<lambda>st.
         ebind (kb_nav (location S (py_replace ''_attente'' ''_detail_contrat_rep'' (ka_link a)) (ka_args a)) st) (\<lambda>st.
           if can_iter_investments S (kb_session st)
           then ebind (get_deposit_investment S (kb_session st)) (\<lambda>is. Inr (st, map PageInv is))
           else Inr (st, [])))
       else Inr (st, []))"

text \<open>\<^verbatim>\<open>get_profile\<close> (lines 180--183).\<close>

definition get_profile_k :: "('p, 't, 'i, 'r) kolb_site \<Rightarrow> 'p kolb_state \<Rightarrow> auth_exc + 'p kolb_state \<times> 'r" where
  "get_profile_k S st =
     ebind (need_login S st) (\<lambda>st. ebind (kb_nav (go S KProfilePage None) st) (\<lambda>st.
       ebind (page_profile S (kb_session st)) (\<lambda>r. Inr (st, r))))"

section \<open>Properties\<close>

lemma kb_nav_Inr: "kb_nav f st = Inr st' \<Longrightarrow> \<exists>p. f (kb_session st) = Inr p \<and> st' = st\<lparr>kb_session := p\<rparr>"
  by (auto simp: kb_nav_def ebind_eq_Inr)

lemma kb_nav_account_type: "kb_nav f st = Inr st' \<Longrightarrow> kb_account_type st' = kb_account_type st"
  by (auto dest: kb_nav_Inr)

text \<open>\<^verbatim>\<open>do_login\<close> returns only on a logged page, and keeps the browser's attributes.\<close>

lemma do_login_logged:
  assumes "do_login_k S st = Inr st'"
  shows "is_logged S (kb_session st') \<and> kb_account_type st' = kb_account_type st"
  using assms
  by (auto simp: do_login_k_def ebind_eq_Inr Let_def split: if_splits dest!: kb_nav_account_type)

lemma need_login_account_type: "need_login S st = Inr st' \<Longrightarrow> kb_account_type st' = kb_account_type st"
  by (auto simp: need_login_def split: if_splits dest: do_login_logged)

text \<open>More fuel changes nothing once the loop has ended.\<close>

lemma history_loop_mono:
  "history_loop S n link ty args st out = Some r \<Longrightarrow> history_loop S (n + k) link ty args st out = Some r"
proof (induction n arbitrary: args st out)
  case (Suc n)
  then show ?case by (auto split: sum.splits option.splits if_splits)
qed simp

text \<open>
  The loop ends when the site's arguments decrease: with a rank that every next page
  lowers, \<open>Suc (rank args)\<close> units of fuel are enough.
\<close>

lemma history_loop_terminates:
  assumes "\<And>a a' p. get_next_args S a p = Inr (Some a') \<Longrightarrow> rank a' < rank a"
  shows "history_loop S (Suc (rank args)) link ty args st out \<noteq> None"
proof (induction "rank args" arbitrary: args st out rule: less_induct)
  case less
  show ?case
  proof (cases "kb_nav (location S link (Some args)) st")
    case (Inr st1)
    show ?thesis
    proof (cases "page_history S ty (kb_session st1)")
      case (Inr trs)
      show ?thesis
      proof (cases "get_next_args S args (kb_session st1)")
        case (Inr r)
        show ?thesis
        proof (cases r)
          case (Some a')
          with Inr have lt: "rank a' < rank args" using assms by blast
          then have "history_loop S (Suc (rank a')) link ty a' st1 (out @ trs) \<noteq> None" by (rule less)
          then obtain r' where "history_loop S (Suc (rank a')) link ty a' st1 (out @ trs) = Some r'" by blast
          then have "history_loop S (Suc (rank a') + (rank args - Suc (rank a'))) link ty a' st1 (out @ trs) = Some r'"
            by (rule history_loop_mono)
          with lt have "history_loop S (rank args) link ty a' st1 (out @ trs) = Some r'" by simp
          with \<open>kb_nav (location S link (Some args)) st = Inr st1\<close> \<open>page_history S ty (kb_session st1) = Inr trs\<close> Inr Some
          show ?thesis by simp
        qed (use \<open>kb_nav (location S link (Some args)) st = Inr st1\<close> \<open>page_history S ty (kb_session st1) = Inr trs\<close> Inr in simp)
      qed (use \<open>kb_nav (location S link (Some args)) st = Inr st1\<close> \<open>page_history S ty (kb_session st1) = Inr trs\<close> in simp)
    qed (use Inr in simp)
  qed simp
qed

text \<open>No history is requested for a loan.\<close>

lemma get_history_loan:
  "ka_type a = TLoan \<Longrightarrow> need_login S st = Inr st' \<Longrightarrow> get_history S n st a coming = Some (Inr (st', []))"
  by (simp add: get_history_def)

text \<open>An account labelled as liquidity is its own investment, whatever its type.\<close>

lemma get_investment_liquidity:
  "sublist ''LIQUIDIT'' (ka_label a) \<Longrightarrow> need_login S st = Inr st' \<Longrightarrow>
   get_investment S st a = Inr (st', [Liquidity (ka_balance a)])"
  by (simp add: get_investment_def)

text \<open>
  \<^verbatim>\<open>get_account_for_history\<close> on a browser whose \<^verbatim>\<open>get_accounts_list\<close> has not run
  raises \<^verbatim>\<open>AttributeError\<close>: \<^verbatim>\<open>_iter_accounts\<close> reads \<^verbatim>\<open>self.account_type\<close>, which only
  \<^verbatim>\<open>get_accounts_list\<close> sets.
\<close>

lemma get_account_for_history_unset:
  assumes "kb_account_type st = None" "need_login S st = Inr st'"
  shows "get_account_for_history S st i = Inl (PyExc AttributeError)"
proof -
  have "kb_account_type st' = None" using need_login_account_type [OF assms(2)] assms(1) by simp
  then show ?thesis using assms(2) by (simp add: get_account_for_history_def iter_accounts_k_def kb_account_type_of_def)
qed

lemma iban_step_ids:
  "iban_step S link (st, out) a = Inr (st', out') \<Longrightarrow> map ka_id out' = map ka_id out @ [ka_id a]"
  by (auto simp: iban_step_def ebind_eq_Inr split: if_splits)

text \<open>\<^verbatim>\<open>get_accounts_list\<close> returns the accounts of \<^verbatim>\<open>_iter_accounts\<close>, in order, with their ids.\<close>

lemma get_accounts_list_ids:
  assumes "get_accounts_list S st = Inr (st', accs)"
  shows "\<exists>st1 st2 l. iter_accounts_k S st1 = Inr (st2, l) \<and> map ka_id accs = map ka_id l"
proof -
  from assms obtain st1 st2 l st3 link where
    it: "iter_accounts_k S st1 = Inr (st2, l)" and
    run: "efold (iban_step S link) l (st3, []) = Inr (st', accs)"
    by (auto simp: get_accounts_list_def ebind_eq_Inr Let_def split: prod.splits)
  have "map ka_id (snd (st', accs)) = map ka_id l"
  proof -
    have "\<And>xs s out r. efold (iban_step S link) xs (s, out) = Inr r \<Longrightarrow> map ka_id (snd r) = map ka_id out @ map ka_id xs"
    proof -
      fix xs s out r
      show "efold (iban_step S link) xs (s, out) = Inr r \<Longrightarrow> map ka_id (snd r) = map ka_id out @ map ka_id xs"
      proof (induction xs arbitrary: s out)
        case (Cons x xs)
        then obtain s' out' where st: "iban_step S link (s, out) x = Inr (s', out')"
          and rest: "efold (iban_step S link) xs (s', out') = Inr r"
          by (auto simp: ebind_eq_Inr)
        show ?case using Cons.IH [OF rest] iban_step_ids [OF st] by simp
      qed auto
    qed
    from this [OF run] show ?thesis by simp
  qed
  with it show ?thesis by auto
qed

end
