(* ===== verification/SocGen.thy ===== *)
theory SocGen
  imports PyNumbers BankCaps
begin

text \<open>
  The account list and history pages of the Societe Generale module,
  \<^verbatim>\<open>src/modules/societegenerale/pages/accounts_list.py\<close> (Python 2, lxml): the rows of
  the accounts table, the URL of the history's XML parts in a script, and the loop over
  those parts. The browser's \<^verbatim>\<open>readurl\<close>, \<^verbatim>\<open>get_document\<close> and \<^verbatim>\<open>buildurl\<close>, the
  URL parsing of \<^verbatim>\<open>urlparse\<close> and \<^verbatim>\<open>parse_qs\<close>, and \<^verbatim>\<open>Transaction.parse\<close> and
  \<^verbatim>\<open>set_amount\<close> with the patterns of lines 73--87 are parameters.
\<close>

section \<open>Accounts\<close>

text \<open>The attributes \<^verbatim>\<open>get_list\<close> sets; \<open>None\<close> is an attribute never set.\<close>

record sg_account =
  sa_label :: "string option"
  sa_link_id :: "string option"
  sa_id :: "string option"
  sa_balance :: "decimal option"

definition sg_empty_account :: sg_account where
  "sg_empty_account = \<lparr>sa_label = None, sa_link_id = None, sa_id = None, sa_balance = None\<rparr>"

text \<open>\<^verbatim>\<open>el.find(t)\<close>: the first child element of the tag; \<^verbatim>\<open>el.get(a, d)\<close>.\<close>

definition find_child :: "string \<Rightarrow> node \<Rightarrow> node option" where
  "find_child t n = (case child_elems t n of [] \<Rightarrow> None | x # _ \<Rightarrow> Some x)"

definition attr_get :: "string \<Rightarrow> string \<Rightarrow> node \<Rightarrow> string" where
  "attr_get a d n = (case attr_of a n of Some v \<Rightarrow> v | None \<Rightarrow> d)"

definition nbsp :: char where
  "nbsp = CHR 0xA0"

text \<open>
  One cell of a row (lines 46--65), by its \<^verbatim>\<open>headers\<close>: the label and link of the
  type cell (\<^verbatim>\<open>unicode(None)\<close> is \<^verbatim>\<open>u'None'\<close>), the number without its no-break
  spaces, and the balance with its comma read as a point, zero when the cell has no text.
  A missing child element is \<^verbatim>\<open>None\<close>, whose attributes raise \<^verbatim>\<open>AttributeError\<close>.
\<close>

definition sg_cell :: "sg_account \<Rightarrow> node \<Rightarrow> auth_exc + sg_account" where
  "sg_cell acc td =
     (let h = attr_get ''headers'' [] td in
      if h = ''TypeCompte'' then
        (case find_child ''a'' td of
           None \<Rightarrow> Inl (PyExc AttributeError)
         | Some a \<Rightarrow> (case find_child ''span'' a of
              None \<Rightarrow> Inl (PyExc AttributeError)
            | Some sp \<Rightarrow> Inr (acc\<lparr>sa_label := Some (case el_text sp of Some s \<Rightarrow> s | None \<Rightarrow> ''None''),
                                   sa_link_id := Some (attr_get ''href'' [] a)\<rparr>)))
      else if h = ''NumeroCompte'' then
        (case el_text td of
           None \<Rightarrow> Inl (PyExc AttributeError)
         | Some s \<Rightarrow> Inr (acc\<lparr>sa_id := Some (filter (\<lambda>c. c \<noteq> nbsp) s)\<rparr>))
      else if h = ''Libelle'' then Inr acc
      else if h = ''Solde'' then
        (case find_child ''div'' td of
           None \<Rightarrow> Inl (PyExc AttributeError)
         | Some d \<Rightarrow> (case el_text d of
              Some b \<Rightarrow>
                (case py_Decimal (PStr (map (\<lambda>c. if c = CHR '','' then CHR ''.'' else c) (filter (\<lambda>c. c \<noteq> nbsp) b))) of
                   Inl e \<Rightarrow> Inl (PyExc e)
                 | Inr v \<Rightarrow> Inr (acc\<lparr>sa_balance := Some v\<rparr>))
            | None \<Rightarrow> Inr (acc\<lparr>sa_balance := Some (Finite False 0 0)\<rparr>)))
      else Inr acc)"

text \<open>
  A row of class \<^verbatim>\<open>LGNTableRow\<close> (lines 43--70): its cells in document order, then the
  test of the link, which raises \<^verbatim>\<open>AttributeError\<close> when no type cell set it; a card
  (\<^verbatim>\<open>CARTE_CB\<close>) is skipped.
\<close>

definition sg_row :: "node \<Rightarrow> auth_exc + sg_account option" where
  "sg_row tr =
     ebind (efold sg_cell (doc_elems ''td'' tr) sg_empty_account) (\<lambda>acc.
       case sa_link_id acc of
         None \<Rightarrow> Inl (PyExc AttributeError)
       | Some l \<Rightarrow> Inr (if sublist ''CARTE_CB'' l then None else Some acc))"

text \<open>\<^verbatim>\<open>AccountsList.get_list\<close> (lines 41--70).\<close>

definition sg_get_list :: "node \<Rightarrow> auth_exc + sg_account list" where
  "sg_get_list doc =
     efold (\<lambda>out tr.
        if ''LGNTableRow'' \<in> set (py_words (attr_get ''class'' [] tr))
        then ebind (sg_row tr) (\<lambda>r. Inr (out @ (case r of Some a \<Rightarrow> [a] | None \<Rightarrow> [])))
        else Inr out) (doc_elems ''tr'' doc) []"

section \<open>History\<close>

text \<open>
  \<^verbatim>\<open>re.search('var listeEcrCavXmlUrl="(.*)";', s)\<close>: the first place of the prefix
  from which the line goes on to a \<^verbatim>\<open>";\<close>, and the group up to the last \<^verbatim>\<open>";\<close> of
  that line (\<open>.\<close> does not match a newline; \<open>*\<close> is greedy).
\<close>

definition url_prefix :: string where
  "url_prefix = ''var listeEcrCavXmlUrl=\"''"

definition url_match_at :: "string \<Rightarrow> nat \<Rightarrow> string option" where
  "url_match_at s i =
     (if \<not> prefix url_prefix (drop i s) then None
      else let line = takeWhile (\<lambda>c. c \<noteq> CHR 0x0A) (drop (i + length url_prefix) s);
               ends = filter (\<lambda>j. take 2 (drop j line) = ''\";'') [0..<length line] in
           if ends = [] then None else Some (take (last ends) line))"

definition url_search :: "string \<Rightarrow> string option" where
  "url_search s = first_some (url_match_at s) [0..<Suc (length s)]"

text \<open>\<^verbatim>\<open>AccountHistory.get_part_url\<close> (lines 90--99): the first script that has the URL.\<close>

definition get_part_url :: "node \<Rightarrow> string option" where
  "get_part_url doc =
     first_some (\<lambda>sc. case el_text sc of None \<Rightarrow> None | Some t \<Rightarrow> url_search t) (doc_elems ''script'' doc)"

text \<open>The browser and the library, as the history calls them.\<close>

record 't sg_site =
  readurl_xml :: "string \<Rightarrow> auth_exc + node"
  get_document :: "string \<Rightarrow> auth_exc + node"
  url_path :: "string \<Rightarrow> string"
  url_query :: "string \<Rightarrow> (string \<times> string list) list"
  buildurl :: "string \<Rightarrow> (string \<times> string option) list \<Rightarrow> string"
  tx_parse_sg :: "nat \<Rightarrow> string option \<Rightarrow> string \<Rightarrow> auth_exc + 't"
  tx_set_amount :: "'t \<Rightarrow> string option list \<Rightarrow> auth_exc + 't"

text \<open>
  A row of a part (lines 131--137): the date cell, the title, the amounts of the
  right-aligned cells in reverse order, and whether the cell \<^verbatim>\<open>AVenir\<close> has an image.
\<close>

definition sg_tx :: "'t sg_site \<Rightarrow> nat \<Rightarrow> node \<Rightarrow> auth_exc + 't \<times> bool" where
  "sg_tx W i tr =
     ebind (py_index (filter (\<lambda>td. attr_of ''headers'' td = Some ''Date'') (child_elems ''td'' tr)) 0) (\<lambda>d.
     case attr_of ''title'' tr of
       None \<Rightarrow> Inl (PyExc KeyError)
     | Some title \<Rightarrow>
         ebind (tx_parse_sg W i (el_text d) (py_strip title)) (\<lambda>t.
         ebind (tx_set_amount W t (rev (map el_text (filter (\<lambda>td. attr_of ''class'' td = Some ''right'') (child_elems ''td'' tr))))) (\<lambda>t.
         ebind (py_index (filter (\<lambda>td. attr_of ''headers'' td = Some ''AVenir'') (child_elems ''td'' tr)) 0) (\<lambda>av.
           Inr (t, find_child ''img'' av \<noteq> None)))))"

text \<open>\<^verbatim>\<open>_iter_transactions(doc)\<close> (lines 130--137): the rows numbered from 0.\<close>

definition sg_iter_rows :: "'t sg_site \<Rightarrow> node \<Rightarrow> auth_exc + ('t \<times> bool) list" where
  "sg_iter_rows W doc = py_mapM (\<lambda>(i, tr). sg_tx W i tr) (enumerate 0 (doc_elems ''tr'' doc))"

text \<open>\<^verbatim>\<open>int(el.find(k).text)\<close> and \<^verbatim>\<open>el.find(k).text\<close> of the header of a part.\<close>

definition header_text :: "string \<Rightarrow> node \<Rightarrow> auth_exc + string option" where
  "header_text k el = (case find_child k el of None \<Rightarrow> Inl (PyExc AttributeError) | Some n \<Rightarrow> Inr (el_text n))"

definition header_int :: "string \<Rightarrow> node \<Rightarrow> auth_exc + int" where
  "header_int k el =
     ebind (header_text k el) (\<lambda>t. case t of None \<Rightarrow> Inl (PyExc TypeError) | Some s \<Rightarrow> py_int (JStr s))"

text \<open>\<^verbatim>\<open>parse_qs(url.query)[k][0]\<close>.\<close>

definition query_first :: "'t sg_site \<Rightarrow> string \<Rightarrow> string \<Rightarrow> auth_exc + string option" where
  "query_first W url k =
     (case map_of (url_query W url) k of
        None \<Rightarrow> Inl (PyExc KeyError)
      | Some vs \<Rightarrow> ebind (py_index vs 0) (\<lambda>v. Inr (Some v)))"

text \<open>
  The loop of \<^verbatim>\<open>iter_transactions\<close> (lines 107--127): read the part, its rows, and
  while the header says \<^verbatim>\<open>suite\<close> is 1 build the URL of the next part. The site
  decides when it ends, so the loop has fuel (one unit per part, \<open>None\<close> when out).
\<close>

fun sg_history_loop :: "'t sg_site \<Rightarrow> nat \<Rightarrow> string \<Rightarrow> ('t \<times> bool) list \<Rightarrow> (auth_exc + ('t \<times> bool) list) option" where
  "sg_history_loop W 0 url out = None"
| "sg_history_loop W (Suc n) url out =
     (case ebind (readurl_xml W url) (\<lambda>d.
           ebind (py_index (doc_elems ''dataBody'' d) 0) (\<lambda>body.
           case el_text body of
             None \<Rightarrow> Inl (PyExc TypeError)
           | Some s \<Rightarrow> ebind (get_document W s) (\<lambda>doc.
               ebind (sg_iter_rows W doc) (\<lambda>trs.
               ebind (py_index (doc_elems ''dataHeader'' d) 0) (\<lambda>hd.
               ebind (header_int ''suite'' hd) (\<lambda>suite.
                 if suite \<noteq> 1 then Inr (trs, None)
                 else
                   ebind (header_text ''operationNumber'' hd) (\<lambda>on.
                   ebind (header_text ''operationType'' hd) (\<lambda>ot.
                   ebind (header_text ''pageNumber'' hd) (\<lambda>pn.
                   ebind (query_first W url ''sign'') (\<lambda>sign.
                   ebind (query_first W url ''src'') (\<lambda>src.
                     Inr (trs, Some (buildurl W (url_path W url)
                       [(''n10_nrowcolor'', Some ''0''), (''operationNumberPG'', on), (''operationTypePG'', ot),
                        (''pageNumberPG'', pn), (''sign'', sign), (''src'', src)]))))))))))))) of
        Inl e \<Rightarrow> Some (Inl e)
      | Inr (trs, None) \<Rightarrow> Some (Inr (out @ trs))
      | Inr (trs, Some url') \<Rightarrow> sg_history_loop W n url' (out @ trs))"

text \<open>\<^verbatim>\<open>AccountHistory.iter_transactions\<close> (lines 101--127): nothing without a URL.\<close>

definition sg_iter_transactions :: "'t sg_site \<Rightarrow> nat \<Rightarrow> node \<Rightarrow> (auth_exc + ('t \<times> bool) list) option" where
  "sg_iter_transactions W n doc =
     (case get_part_url doc of None \<Rightarrow> Some (Inr []) | Some url \<Rightarrow> sg_history_loop W n url [])"

text \<open>A list of two rows for the examples: an account and a card.\<close>

definition sg_sample_list :: node where
  "sg_sample_list =
     Elem ''table'' []
       [Elem ''tr'' [(''class'', ''LGNTableRow'')]
          [Elem ''td'' [(''headers'', ''TypeCompte'')] [Elem ''a'' [(''href'', ''/cpt'')] [Elem ''span'' [] [Text ''Compte'']]]],
        Elem ''tr'' [(''class'', ''LGNTableRow'')]
          [Elem ''td'' [(''headers'', ''TypeCompte'')] [Elem ''a'' [(''href'', ''/CARTE_CB'')] [Elem ''span'' [] [Text ''Carte'']]]]]"

section \<open>Properties\<close>

lemma url_match_at_sound:
  assumes "url_match_at s i = Some g"
  shows "sublist (url_prefix @ g @ ''\";'') s \<and> CHR 0x0A \<notin> set g"
proof -
  define L where "L = takeWhile (\<lambda>c. c \<noteq> CHR 0x0A) (drop (i + length url_prefix) s)"
  define E where "E = filter (\<lambda>j. take 2 (drop j L) = ''\";'') [0..<length L]"
  from assms have p: "prefix url_prefix (drop i s)" and ne: "E \<noteq> []" and g: "g = take (last E) L"
    by (auto simp: url_match_at_def Let_def L_def E_def split: if_splits)
  define j where "j = last E"
  have "j \<in> set E" using ne by (simp add: j_def)
  then have e: "take 2 (drop j L) = ''\";''" by (simp add: E_def)
  have "take (j + 2) L = take j L @ take 2 (drop j L)" by (rule take_add)
  then have "g @ ''\";'' = take (j + 2) L" using g e by (simp add: j_def)
  then have T: "prefix (g @ ''\";'') L" by (simp add: take_is_prefix)
  have "prefix L (drop (i + length url_prefix) s)" by (simp add: L_def takeWhile_is_prefix)
  with T have "prefix (g @ ''\";'') (drop (i + length url_prefix) s)" by (rule prefix_order.trans)
  moreover from p obtain r where r: "drop i s = url_prefix @ r" by (auto simp: prefix_def)
  then have "r = drop (i + length url_prefix) s" by (metis add.commute append_eq_conv_conj drop_drop)
  ultimately have "prefix (url_prefix @ g @ ''\";'') (drop i s)" using r by simp
  then have "sublist (url_prefix @ g @ ''\";'') (drop i s)" by (rule prefix_imp_sublist)
  moreover have "sublist (drop i s) s" by (rule suffix_imp_sublist) (simp add: suffix_drop)
  ultimately have "sublist (url_prefix @ g @ ''\";'') s" by (rule sublist_order.order.trans)
  moreover have "CHR 0x0A \<notin> set g"
    using g by (metis L_def in_set_takeD set_takeWhileD)
  ultimately show ?thesis by simp
qed



lemma sg_row_link: "sg_row tr = Inr (Some a) \<Longrightarrow> \<exists>l. sa_link_id a = Some l \<and> \<not> sublist ''CARTE_CB'' l"
  by (auto simp: sg_row_def ebind_eq_Inr split: option.splits if_splits)

text \<open>
  C21. No account of the Societe Generale account list is a card: every account that
  \<^verbatim>\<open>AccountsList.get_list\<close> returns has the link of its type cell, and that link is not
  a card's (\<^verbatim>\<open>CARTE_CB\<close>).
\<close>

theorem sg_get_list_no_cards:
  assumes "sg_get_list doc = Inr accs"
  shows "\<forall>a \<in> set accs. \<exists>l. sa_link_id a = Some l \<and> \<not> sublist ''CARTE_CB'' l"
proof (rule efold_inv [where P = "\<lambda>accs. \<forall>a \<in> set accs. \<exists>l. sa_link_id a = Some l \<and> \<not> sublist ''CARTE_CB'' l"])
  show "efold (\<lambda>out tr. if ''LGNTableRow'' \<in> set (py_words (attr_get ''class'' [] tr))
          then ebind (sg_row tr) (\<lambda>r. Inr (out @ (case r of Some a \<Rightarrow> [a] | None \<Rightarrow> []))) else Inr out)
          (doc_elems ''tr'' doc) [] = Inr accs"
    using assms by (simp add: sg_get_list_def)
next
  fix out tr out'
  assume inv: "\<forall>a \<in> set out. \<exists>l. sa_link_id a = Some l \<and> \<not> sublist ''CARTE_CB'' l"
    and st: "(if ''LGNTableRow'' \<in> set (py_words (attr_get ''class'' [] tr))
              then ebind (sg_row tr) (\<lambda>r. Inr (out @ (case r of Some a \<Rightarrow> [a] | None \<Rightarrow> []))) else Inr out) = Inr out'"
  show "\<forall>a \<in> set out'. \<exists>l. sa_link_id a = Some l \<and> \<not> sublist ''CARTE_CB'' l"
    using inv st sg_row_link by (auto simp: ebind_eq_Inr split: if_splits option.splits)
qed simp

theorem sg_get_list_no_cards_witness:
  "\<exists>accs. sg_get_list sg_sample_list = Inr accs \<and> length accs = 1 \<and>
     (\<forall>a \<in> set accs. \<exists>l. sa_link_id a = Some l \<and> \<not> sublist ''CARTE_CB'' l)"
proof -
  have c: "(case sg_get_list sg_sample_list of Inr accs \<Rightarrow> length accs = 1 | Inl _ \<Rightarrow> False)" by code_simp
  then obtain accs where e: "sg_get_list sg_sample_list = Inr accs" and l: "length accs = 1"
    by (cases "sg_get_list sg_sample_list") auto
  show ?thesis using sg_get_list_no_cards [OF e] e l by blast
qed

text \<open>
  A row of the table without a type cell ends the list with \<^verbatim>\<open>AttributeError\<close>:
  \<^verbatim>\<open>account._link_id\<close> (line 67) is only set by that cell.
\<close>

lemma sg_get_list_no_type_cell:
  "sg_get_list (Elem ''tr'' [(''class'', ''LGNTableRow'')] [Elem ''td'' [(''headers'', ''NumeroCompte'')] [Text ''9'']]) =
   Inl (PyExc AttributeError)"
  by code_simp

lemma sg_history_loop_mono:
  "sg_history_loop W n url out = Some r \<Longrightarrow> sg_history_loop W (n + k) url out = Some r"
proof (induction n arbitrary: url out)
  case (Suc n)
  then show ?case by (auto split: sum.splits option.splits prod.splits)
qed simp

end
