(* ===== verification/BanquePopulaire.thy ===== *)
theory BanquePopulaire
  imports PyNumbers BankCaps "HOL-Library.Product_Lexorder" "HOL-Library.Multiset"
begin

text \<open>
  The browser of the Banque Populaire module, \<^verbatim>\<open>src/modules/banquepopulaire/browser.py\<close>
  (\<^verbatim>\<open>BanquePopulaire\<close>), from the list of accounts to the history and the investments.
  Its pages (\<^verbatim>\<open>pages.py\<close>, \<^verbatim>\<open>linebourse_browser.py\<close>) are not part of the sources: the
  browser is modelled over a site \<open>bp_site\<close> that gives, for an abstract session \<open>'p\<close>,
  \<^verbatim>\<open>location\<close>, \<^verbatim>\<open>is_here\<close> of the URL classes, the forms and the page methods the browser
  calls, and for the Linebourse browser \<open>'l\<close> its methods. The browser's attributes are the
  state \<open>bp_state\<close>. The login (\<^verbatim>\<open>do_login\<close> and its many steps) is the site's
  \<open>bp_do_login\<close>; \<^verbatim>\<open>get_account\<close>, which runs \<^verbatim>\<open>iter_accounts\<close> lazily until the account
  is found, is the site's \<open>bp_get_account\<close>. The decorators \<^verbatim>\<open>retry\<close> are the theory
  \<open>BankRetry\<close>; the methods here are the decorated bodies.

  A Python dict is a JSON object, \<^verbatim>\<open>None\<close> is \<open>JNull\<close>; a form is its URL and its
  fields; a URL made by \<^verbatim>\<open>absurl(path, base=True)\<close> is \<open>Base path\<close>, a path given to
  \<^verbatim>\<open>location\<close> as it is is \<open>Rel path\<close>. A generator is the list it yields.
\<close>

section \<open>Accounts and their ownership\<close>

text \<open>
  The attributes of an account the browser reads and sets. The parent of an account is
  another account object: the accounts are a store, a list, and \<^verbatim>\<open>account.parent\<close> is an
  address in it. The parameter dicts are \<open>JNull\<close> when the page left them \<^verbatim>\<open>None\<close>.
\<close>

record bp_account =
  ba_id :: string
  ba_label :: string
  ba_type :: acct_type
  ba_balance :: "decimal option"
  ba_parent :: "nat option"
  ba_ownership :: "ownership option"
  ba_params :: json
  ba_coming_params :: json
  ba_invest_params :: json
  ba_coming_start :: int
  ba_coming_count :: int

text \<open>
  The pattern of \<^verbatim>\<open>set_account_ownership\<close> (line 1076),
  \<^verbatim>\<open>(m|mr|me|mme|mlle|mle|ml)\.? (.*)\bou (m|mr|me|mme|mlle|mle|ml)\b(.*)\<close>, searched with
  \<^verbatim>\<open>re.IGNORECASE\<close>: a title anywhere, an optional dot, a space that is not optional, a run
  of characters other than a line break, and at a word boundary \<^verbatim>\<open>ou \<close> and a title that
  ends at a word boundary.
\<close>

definition bp_co_owner_pattern :: "string \<Rightarrow> bool" where
  "bp_co_owner_pattern s \<longleftrightarrow>
     (\<exists>i \<in> set [0..<Suc (length s)]. \<exists>t1 \<in> set titles. \<exists>p \<in> set [t1 @ '' '', t1 @ ''. ''].
        ci_prefix p (drop i s) \<and>
        (\<exists>j \<in> set [i + length p..<Suc (length s)]. \<exists>t2 \<in> set titles.
           CHR ''\<newline>'' \<notin> set (take (j - (i + length p)) (drop (i + length p) s)) \<and>
           word_boundary s j \<and> ci_prefix (''ou '' @ t2) (drop j s) \<and> word_boundary s (j + 3 + length t2)))"

text \<open>
  \<^verbatim>\<open>set_account_ownership(account, owner_name)\<close> (lines 1066--1085) on the account at
  address \<open>i\<close> of the store. An account whose parent has no ownership first gives one to
  its parent, recursively, and then takes the parent's. Python's recursion has a depth
  limit; the model has fuel and \<open>None\<close> when it runs out, and a parent address outside
  the store, which Python's objects cannot have, is \<open>Unmodelled\<close>. \<^verbatim>\<open>owner_name in label\<close>
  raises \<^verbatim>\<open>TypeError\<close> when the owner name is \<^verbatim>\<open>None\<close>.
\<close>

fun set_account_ownership :: "nat \<Rightarrow> string option \<Rightarrow> bp_account list \<Rightarrow> nat \<Rightarrow> (auth_exc + bp_account list) option" where
  "set_account_ownership 0 owner_name store i = None"
| "set_account_ownership (Suc n) owner_name store i =
     (if length store \<le> i then Some (Inl (PyExc Unmodelled))
      else let a = store ! i; label = py_upper (ba_label a) in
      if ba_ownership a \<noteq> None then Some (Inr store)
      else case ba_parent a of
        Some p \<Rightarrow>
          if length store \<le> p then Some (Inl (PyExc Unmodelled))
          else (case (if ba_ownership (store ! p) = None then set_account_ownership n owner_name store p
                      else Some (Inr store)) of
                  None \<Rightarrow> None
                | Some (Inl e) \<Rightarrow> Some (Inl e)
                | Some (Inr st) \<Rightarrow> Some (Inr (st[i := (st ! i)\<lparr>ba_ownership := ba_ownership (st ! p)\<rparr>])))
      | None \<Rightarrow>
          (case owner_name of
             None \<Rightarrow> Some (Inl (PyExc TypeError))
           | Some o_name \<Rightarrow>
               Some (Inr (store[i := a\<lparr>ba_ownership :=
                 Some (if sublist o_name label then (if bp_co_owner_pattern label then CoOwner else Owner)
                       else if sublist ''COMMUN'' label then CoOwner else Attorney)\<rparr>]))))"

text \<open>A store whose every parent is an account stored before it.\<close>

definition parents_before :: "bp_account list \<Rightarrow> bool" where
  "parents_before store \<longleftrightarrow> (\<forall>j < length store. \<forall>p. ba_parent (store ! j) = Some p \<longrightarrow> p < j)"

section \<open>Site and state\<close>

text \<open>The URL classes of the browser whose \<^verbatim>\<open>is_here\<close> it tests.\<close>

datatype bp_page =
    ErrorPage | Etna | NatixisRedirect | NatixisErrorPage | NatixisUnavailablePage
  | TransactionsPage | AccountsFullPage | HomePage | GenericAccountsPage

datatype bp_target = Base string | Rel string

text \<open>The arguments of \<^verbatim>\<open>location\<close>: none, \<^verbatim>\<open>params=\<close> (a query) or \<^verbatim>\<open>data=\<close> (a form post).\<close>

datatype bp_req = NoArgs | Params json | Data json

text \<open>The forms the browser asks for: \<^verbatim>\<open>get_form()\<close> or \<^verbatim>\<open>get_form(nr=0)\<close>, and \<^verbatim>\<open>get_form(id=...)\<close>.\<close>

datatype bp_form_sel = FirstForm | FormId string

text \<open>The URLs of the Natixis space the browser goes to with \<^verbatim>\<open>**params\<close>.\<close>

datatype natixis_url = NatixisInvest | NatixisHistory

text \<open>A transaction: the attributes the browser reads and sets, its date as (year, month, day).\<close>

record bp_tr =
  bt_label :: string
  bt_raw :: string
  bt_has_link :: bool
  bt_ref :: json
  bt_date :: "int \<times> nat \<times> nat"

text \<open>An investment: the liquidity line of \<^verbatim>\<open>create_french_liquidity\<close>, or one of a page.\<close>

datatype 'i bp_inv = FrenchLiquidity "decimal option" | PageInv 'i

text \<open>
  The attributes of the browser: its session, \<^verbatim>\<open>token\<close>, the Linebourse browser, the
  class attribute \<^verbatim>\<open>ACCOUNT_URLS\<close> that \<^verbatim>\<open>go_on_accounts_list\<close> narrows,
  \<^verbatim>\<open>current_subbank\<close>, \<^verbatim>\<open>is_creditmaritime\<close> and \<^verbatim>\<open>BASEURL\<close>.
\<close>

record ('p, 'l) bp_state =
  bs_session :: 'p
  bs_token :: string
  bs_linebourse :: 'l
  bs_account_urls :: "string list"
  bs_current_subbank :: "string option"
  bs_creditmaritime :: bool
  bs_baseurl :: string

text \<open>
  The site. \<open>bp_do_login\<close> and \<open>bp_get_account\<close> are methods of the browser left to the
  site (they set the token, the session and the narrowed \<^verbatim>\<open>ACCOUNT_URLS\<close>); the others
  are the page methods, \<^verbatim>\<open>location\<close> and \<^verbatim>\<open>go\<close> of the URL classes, and the
  Linebourse browser's methods.
\<close>

record ('p, 'l, 'i, 'o, 'r, 'v) bp_site =
  bp_location :: "bp_target \<Rightarrow> bp_req \<Rightarrow> 'p \<Rightarrow> auth_exc + 'p"
  bp_url :: "'p \<Rightarrow> string"
  bp_response_text :: "'p \<Rightarrow> string"
  bp_response_header :: "string \<Rightarrow> 'p \<Rightarrow> string option"
  bp_is_here :: "bp_page \<Rightarrow> 'p \<Rightarrow> bool"
  bp_page_none :: "'p \<Rightarrow> bool"
  bp_logged :: "'p \<Rightarrow> bool"
  bp_do_login :: "('p, 'l) bp_state \<Rightarrow> auth_exc + ('p, 'l) bp_state"
  bp_build_token :: "json \<Rightarrow> 'p \<Rightarrow> auth_exc + json"
  bp_get_form :: "bp_form_sel \<Rightarrow> 'p \<Rightarrow> auth_exc + string \<times> (string \<times> json) list"
  bp_submit :: "string \<Rightarrow> (string \<times> json) list \<Rightarrow> 'p \<Rightarrow> auth_exc + 'p"
  bp_get_params :: "'p \<Rightarrow> auth_exc + json"
  bp_back_button_params :: "'p \<Rightarrow> auth_exc + json"
  bp_is_error :: "'p \<Rightarrow> auth_exc + bool"
  bp_pop_up :: "'p \<Rightarrow> auth_exc + bool"
  bp_is_short_list :: "'p \<Rightarrow> auth_exc + bool"
  bp_need_to_go :: "'p \<Rightarrow> auth_exc + bool"
  bp_go_iban :: "bp_account \<Rightarrow> 'p \<Rightarrow> auth_exc + bool \<times> 'p"
  bp_get_iban :: "string \<Rightarrow> 'p \<Rightarrow> auth_exc + string option"
  bp_fill_loan :: "bp_account \<Rightarrow> 'p \<Rightarrow> auth_exc + bp_account"
  bp_get_account :: "string \<Rightarrow> ('p, 'l) bp_state \<Rightarrow> auth_exc + bp_account option \<times> ('p, 'l) bp_state"
  bp_go_investment :: "'p \<Rightarrow> auth_exc + bool"
  bp_investment_page_params :: "'p \<Rightarrow> auth_exc + string \<times> json"
  bp_get_redirect :: "'p \<Rightarrow> auth_exc + string"
  bp_etna_match :: "string \<Rightarrow> json option"
  bp_etna_params :: "'p \<Rightarrow> auth_exc + json"
  bp_natixis_go :: "natixis_url \<Rightarrow> (string \<times> json) list \<Rightarrow> 'p \<Rightarrow> auth_exc + 'p"
  bp_natixis_pdf_go :: "(string \<times> json) list \<Rightarrow> 'p \<Rightarrow> auth_exc + 'p"
  bp_page_message :: "'p \<Rightarrow> json"
  bp_page_investments :: "'p \<Rightarrow> auth_exc + 'i list"
  bp_page_json_history :: "'p \<Rightarrow> auth_exc + bp_tr list"
  bp_no_operations :: "'p \<Rightarrow> auth_exc + bool"
  bp_has_sort_link :: "'p \<Rightarrow> bool"
  bp_sorted_by_recent :: "'p \<Rightarrow> auth_exc + bool"
  bp_page_history :: "bp_account \<Rightarrow> bool \<Rightarrow> 'p \<Rightarrow> auth_exc + bp_tr list"
  bp_next_params :: "'p \<Rightarrow> auth_exc + json"
  bp_gocardless_strategy :: "bp_tr \<Rightarrow> 'p \<Rightarrow> auth_exc + json"
  bp_table_id :: "json \<Rightarrow> 'p \<Rightarrow> auth_exc + string \<times> json"
  bp_get_reference :: "'p \<Rightarrow> auth_exc + string"
  bp_profile_here :: "'p \<Rightarrow> auth_exc + bool"
  bp_profile_unavailable :: "'p \<Rightarrow> auth_exc + bool"
  bp_page_profile :: "'p \<Rightarrow> auth_exc + 'r"
  bp_profile_type :: "'p \<Rightarrow> auth_exc + json"
  bp_page_owner_type :: "'p \<Rightarrow> auth_exc + owner_type option"
  bp_page_advisor :: "'p \<Rightarrow> auth_exc + 'v option"
  bp_update_agency :: "'v \<Rightarrow> 'p \<Rightarrow> auth_exc + 'v"
  bp_first_login_go :: "bool \<Rightarrow> 'p \<Rightarrow> auth_exc + 'p"
  bp_lb_sync :: "'p \<Rightarrow> 'l \<Rightarrow> 'l"
  bp_lb_investments :: "string \<Rightarrow> 'l \<Rightarrow> auth_exc + 'i list"
  bp_lb_market_orders :: "string \<Rightarrow> 'l \<Rightarrow> auth_exc + 'o list"
  bp_lb_history :: "string \<Rightarrow> 'l \<Rightarrow> auth_exc + bp_tr list"

text \<open>Navigation that updates the session of the state.\<close>

definition bp_nav :: "('p \<Rightarrow> auth_exc + 'p) \<Rightarrow> ('p, 'l) bp_state \<Rightarrow> auth_exc + ('p, 'l) bp_state" where
  "bp_nav f st = ebind (f (bs_session st)) (\<lambda>p. Inr (st\<lparr>bs_session := p\<rparr>))"

definition bp_go :: "('p, 'l, 'i, 'o, 'r, 'v) bp_site \<Rightarrow> bp_target \<Rightarrow> bp_req \<Rightarrow> ('p, 'l) bp_state \<Rightarrow>
                     auth_exc + ('p, 'l) bp_state" where
  "bp_go S u r = bp_nav (bp_location S u r)"

definition bp_here :: "('p, 'l, 'i, 'o, 'r, 'v) bp_site \<Rightarrow> bp_page \<Rightarrow> ('p, 'l) bp_state \<Rightarrow> bool" where
  "bp_here S pg st = bp_is_here S pg (bs_session st)"

text \<open>\<^verbatim>\<open>d[k] = v\<close> and \<^verbatim>\<open>d[k]\<close> on a dict; only a dict has them.\<close>

definition py_setitem :: "string \<Rightarrow> json \<Rightarrow> json \<Rightarrow> auth_exc + json" where
  "py_setitem k v d = (case d of JObj kvs \<Rightarrow> Inr (JObj (od_set kvs k v)) | _ \<Rightarrow> Inl (PyExc TypeError))"

definition form_item :: "string \<Rightarrow> (string \<times> json) list \<Rightarrow> auth_exc + json" where
  "form_item k fs = (case map_of (rev fs) k of Some v \<Rightarrow> Inr v | None \<Rightarrow> Inl (PyExc KeyError))"

text \<open>
  \<^verbatim>\<open>params['token'] = self.page.build_token(params['token'])\<close>, the step the browser makes
  on every dict it posts.
\<close>

definition renew_token :: "('p, 'l, 'i, 'o, 'r, 'v) bp_site \<Rightarrow> ('p, 'l) bp_state \<Rightarrow> json \<Rightarrow> auth_exc + json" where
  "renew_token S st params =
     ebind (json_getitem params (JStr ''token'')) (\<lambda>t.
     ebind (bp_build_token S t (bs_session st)) (\<lambda>t'. py_setitem ''token'' t' params))"

text \<open>\<^verbatim>\<open>f(**kwargs)\<close>: the keyword arguments of a dict, which must be one.\<close>

definition kwargs :: "json \<Rightarrow> auth_exc + (string \<times> json) list" where
  "kwargs d = (case d of JObj kvs \<Rightarrow> Inr kvs | _ \<Rightarrow> Inl (PyExc TypeError))"

text \<open>
  The decorator \<^verbatim>\<open>need_login\<close> of the library: log in when there is no page or the
  page is not a logged one.
\<close>

definition bp_need_login :: "('p, 'l, 'i, 'o, 'r, 'v) bp_site \<Rightarrow> ('p, 'l) bp_state \<Rightarrow> auth_exc + ('p, 'l) bp_state" where
  "bp_need_login S st =
     (if bp_page_none S (bs_session st) \<or> \<not> bp_logged S (bs_session st) then bp_do_login S st else Inr st)"

text \<open>\<^verbatim>\<open>follow_back_button_if_any()\<close> (lines 366--378), with the page's own parameters.\<close>

definition follow_back_button_if_any :: "('p, 'l, 'i, 'o, 'r, 'v) bp_site \<Rightarrow> ('p, 'l) bp_state \<Rightarrow>
                                         auth_exc + ('p, 'l) bp_state" where
  "follow_back_button_if_any S st =
     (if bp_page_none S (bs_session st) then Inr st
      else ebind (bp_back_button_params S (bs_session st)) (\<lambda>d.
        if truthy d then bp_go S (Rel ''/cyber/internet/ContinueTask.do'') (Data d) st else Inr st))"

text \<open>\<^verbatim>\<open>except ServerError\<close>.\<close>

fun is_server_error :: "auth_exc \<Rightarrow> bool" where
  "is_server_error (ServerError _ _) = True"
| "is_server_error _ = False"

text \<open>\<^verbatim>\<open>form.get(k, default)\<close>.\<close>

definition form_get :: "string \<Rightarrow> (string \<times> json) list \<Rightarrow> json \<Rightarrow> json" where
  "form_get k fs d = (case map_of (rev fs) k of Some v \<Rightarrow> v | None \<Rightarrow> d)"

text \<open>
  \<^verbatim>\<open>xs.sort(reverse=True, key=f)\<close>: Python's sort is stable also in reverse, so elements
  with the same key keep their order.
\<close>

definition sort_desc :: "('a \<Rightarrow> 'k::linorder) \<Rightarrow> 'a list \<Rightarrow> 'a list" where
  "sort_desc f xs = rev (sort_key f (rev xs))"

section \<open>Subbank, IBAN and the list of accounts\<close>

text \<open>
  The search of \<^verbatim>\<open>icgauth.(?P<domaine>[\.a-z]*).fr\<close> in \<^verbatim>\<open>get_current_subbank\<close>
  (lines 1518--1523): at a position, \<^verbatim>\<open>icgauth\<close>, any character but a line break, the
  longest run of dots and small letters that is followed by any character but a line
  break and \<^verbatim>\<open>fr\<close> (the greedy star gives back characters one at a time); the leftmost
  position that matches.
\<close>

definition subbank_char :: "char \<Rightarrow> bool" where
  "subbank_char c \<longleftrightarrow> c = CHR ''.'' \<or> (97 \<le> (of_char c :: nat) \<and> (of_char c :: nat) \<le> 122)"

definition icgauth_at :: "string \<Rightarrow> string option" where
  "icgauth_at s =
     (if take 7 s = ''icgauth'' \<and> 7 < length s \<and> s ! 7 \<noteq> CHR ''\<newline>'' then
        (let r = drop 8 s; n = length (takeWhile subbank_char r) in
         map_option (\<lambda>k. take k r)
           (find (\<lambda>k. k < length r \<and> r ! k \<noteq> CHR ''\<newline>'' \<and> take 2 (drop (Suc k) r) = ''fr'') (rev [0..<Suc n])))
      else None)"

fun subbank_search :: "string \<Rightarrow> string option" where
  "subbank_search [] = icgauth_at []"
| "subbank_search (c # cs) = (case icgauth_at (c # cs) of Some d \<Rightarrow> Some d | None \<Rightarrow> subbank_search cs)"

definition get_current_subbank :: "('p, 'l, 'i, 'o, 'r, 'v) bp_site \<Rightarrow> ('p, 'l) bp_state \<Rightarrow> ('p, 'l) bp_state" where
  "get_current_subbank S st =
     st\<lparr>bs_current_subbank := Some (case subbank_search (bp_url S (bs_session st)) of
                                     Some d \<Rightarrow> d | None \<Rightarrow> ''banquepopulaire'')\<rparr>"

text \<open>
  \<^verbatim>\<open>get_iban_number(account)\<close> (lines 1087--1107): \<open>None\<close> is \<^verbatim>\<open>NotAvailable\<close>. A
  \<^verbatim>\<open>ServerError\<close> 500 whose text says the subscription has no IBAN gives none; a life
  insurance or a market account has none; a page that needs to go to the account and
  cannot gives none.
\<close>

definition no_iban_msg :: string where
  "no_iban_msg = ''Votre abonnement ne vous permet pas''"

definition get_iban_number :: "('p, 'l, 'i, 'o, 'r, 'v) bp_site \<Rightarrow> ('p, 'l) bp_state \<Rightarrow> bp_account \<Rightarrow>
                               auth_exc + ('p, 'l) bp_state \<times> string option" where
  "get_iban_number S st a =
     ebind (bp_need_login S st) (\<lambda>st.
     ebind (bp_build_token S (JStr (bs_token st)) (bs_session st)) (\<lambda>t.
     ebind (py_str t) (\<lambda>ts.
     case bp_go S (Base (''/cyber/internet/StartTask.do?taskInfoOID=cyberIBAN&token='' @ ts)) NoArgs st of
       Inl (ServerError c txt) \<Rightarrow>
         if c = 500 \<and> sublist no_iban_msg txt then Inr (st, None) else Inl (ServerError c txt)
     | Inl e \<Rightarrow> Inl e
     | Inr st \<Rightarrow>
         if ba_type a \<in> {TLifeInsurance, TMarket} then Inr (st, None)
         else ebind (bp_need_to_go S (bs_session st)) (\<lambda>ntg.
              ebind (if ntg then ebind (bp_go_iban S a (bs_session st)) (\<lambda>(ok, p). Inr (ok, st\<lparr>bs_session := p\<rparr>))
                     else Inr (True, st)) (\<lambda>(ok, st).
              if \<not> ok then Inr (st, None)
              else ebind (bp_get_iban S (ba_id a) (bs_session st)) (\<lambda>ib. Inr (st, ib)))))))"

definition retry_later_msg :: string where
  "retry_later_msg = ''votre demande ult'' @ [CHR 0xE9] @ ''rieurement''"

text \<open>
  The loop of \<^verbatim>\<open>go_on_accounts_list\<close> (lines 903--930) over \<^verbatim>\<open>ACCOUNT_URLS\<close>: a URL whose
  page is temporarily unavailable, under maintenance or an error page is skipped; the first
  one that works becomes the only one; when none works, \<^verbatim>\<open>BrokenPageError\<close>.
\<close>

fun accounts_list_loop :: "('p, 'l, 'i, 'o, 'r, 'v) bp_site \<Rightarrow> string list \<Rightarrow> ('p, 'l) bp_state \<Rightarrow>
                          auth_exc + ('p, 'l) bp_state" where
  "accounts_list_loop S [] st = Inl (BrokenPageError ''Unable to go on the accounts list page'')"
| "accounts_list_loop S (t # ts) st =
     (let data = JObj [(''taskInfoOID'', JStr t), (''token'', JStr (bs_token st))] in
      case bp_go S (Base ''/cyber/internet/StartTask.do'') (Params data) st of
        Inl (ServerError c txt) \<Rightarrow>
          if c = 500 \<and> sublist retry_later_msg txt then accounts_list_loop S ts st else Inl (ServerError c txt)
      | Inl e \<Rightarrow> Inl e
      | Inr st \<Rightarrow>
          if sublist ''indisponible pour cause de maintenance.'' (bp_response_text S (bs_session st))
          then accounts_list_loop S ts st
          else ebind (bp_is_error S (bs_session st)) (\<lambda>err.
               if err then accounts_list_loop S ts st
               else ebind (bp_pop_up S (bs_session st)) (\<lambda>pop.
                    ebind (if pop then bp_go S (Rel ''/cyber/internet/StartTask.do'') (Params data) st else Inr st) (\<lambda>st.
                    Inr (st\<lparr>bs_account_urls := [t]\<rparr>)))))"

text \<open>\<^verbatim>\<open>go_on_accounts_list()\<close> (lines 900--941): then the full list, then back.\<close>

definition go_on_accounts_list :: "('p, 'l, 'i, 'o, 'r, 'v) bp_site \<Rightarrow> ('p, 'l) bp_state \<Rightarrow> auth_exc + ('p, 'l) bp_state" where
  "go_on_accounts_list S st =
     ebind (bp_need_login S st) (\<lambda>st.
     ebind (accounts_list_loop S (bs_account_urls st) st) (\<lambda>st.
     ebind (bp_is_short_list S (bs_session st)) (\<lambda>short.
     ebind (if short then
              ebind (bp_get_form S FirstForm (bs_session st)) (\<lambda>(u, fs).
              let fs = od_set fs ''dialogActionPerformed'' (JStr ''EQUIPEMENT_COMPLET'') in
              ebind (form_item ''token'' fs) (\<lambda>t.
              ebind (bp_build_token S t (bs_session st)) (\<lambda>t'.
              bp_nav (bp_submit S u (od_set fs ''token'' t')) st)))
            else Inr st) (\<lambda>st.
     follow_back_button_if_any S st))))"

text \<open>
  \<^verbatim>\<open>get_loan_from_account(account)\<close> (lines 943--968): the loan is a copy of the account
  with the same attributes; its details are filled in from the form of the account list
  when its investment parameters lead to \<^verbatim>\<open>mesComptes\<close> and it is not a leasing.
  \<^verbatim>\<open>form.update(d)\<close> sets the keys of \<open>d\<close> in order.
\<close>

definition get_loan_from_account :: "('p, 'l, 'i, 'o, 'r, 'v) bp_site \<Rightarrow> ('p, 'l) bp_state \<Rightarrow> bp_account \<Rightarrow>
                                     auth_exc + ('p, 'l) bp_state \<times> bp_account" where
  "get_loan_from_account S st a =
     (let ip = ba_invest_params a in
      ebind (if truthy ip then ebind (json_getitem ip (JStr ''taskInfoOID'')) (py_in ''mesComptes'') else Inr False) (\<lambda>c.
      if c \<and> \<not> sublist ''Credit Bail'' (ba_label a) then
        ebind (bp_get_form S (FormId ''myForm'') (bs_session st)) (\<lambda>(u, fs).
        ebind (kwargs ip) (\<lambda>kvs.
        let fs = foldl (\<lambda>f (k, v). od_set f k v) fs kvs in
        ebind (bp_get_params S (bs_session st)) (\<lambda>prm.
        ebind (json_getitem prm (JStr ''token'')) (\<lambda>t.
        ebind (bp_nav (bp_submit S u (od_set fs ''token'' t)) st) (\<lambda>st.
        ebind (bp_fill_loan S a (bs_session st)) (\<lambda>loan.
        ebind (follow_back_button_if_any S st) (\<lambda>st. Inr (st, loan))))))))
      else Inr (st, a)))"

section \<open>Investments\<close>

text \<open>
  \<^verbatim>\<open>re.match(r'https://www.assurances.natixis.fr/etna-ihs-bp/#/equipement;codeEtab=\d+\?windowId=[a-f0-9]+$', url)\<close>
  (lines 1256--1258): the dots of the pattern are not escaped and match any character but a
  line break; \<^verbatim>\<open>\d\<close> matches the ASCII digits only on this range; \<^verbatim>\<open>$\<close> matches at
  the end or before a final line break.
\<close>

definition re_dots :: "string \<Rightarrow> string \<Rightarrow> bool" where
  "re_dots p s \<longleftrightarrow>
     length p \<le> length s \<and>
     list_all2 (\<lambda>pc c. if pc = CHR ''.'' then c \<noteq> CHR ''\<newline>'' else c = pc) p (take (length p) s)"

definition ascii_digit :: "char \<Rightarrow> bool" where
  "ascii_digit c \<longleftrightarrow> 48 \<le> (of_char c :: nat) \<and> (of_char c :: nat) \<le> 57"

definition hex_low :: "char \<Rightarrow> bool" where
  "hex_low c \<longleftrightarrow> ascii_digit c \<or> (97 \<le> (of_char c :: nat) \<and> (of_char c :: nat) \<le> 102)"

definition equipement_prefix :: string where
  "equipement_prefix = ''https://www.assurances.natixis.fr/etna-ihs-bp/#/equipement;codeEtab=''"

definition natixis_no_contract_url :: "string \<Rightarrow> bool" where
  "natixis_no_contract_url u \<longleftrightarrow>
     re_dots equipement_prefix u \<and>
     (let r = drop (length equipement_prefix) u; d = takeWhile ascii_digit r; r2 = drop (length d) r;
          h = takeWhile hex_low (drop 10 r2); rest = drop (length h) (drop 10 r2) in
      d \<noteq> [] \<and> take 10 r2 = ''?windowId='' \<and> h \<noteq> [] \<and> (rest = [] \<or> rest = ''\<newline>''))"

text \<open>
  The first part of \<^verbatim>\<open>go_investments\<close> (lines 1209--1231): from an account with
  parameters, the market order task, passing the form that asks the user's details; from
  one with investment parameters, their page, where \<^verbatim>\<open>BrowserUnavailable\<close> makes the
  method return \<open>False\<close> (\<open>None\<close> here). The token set in \<^verbatim>\<open>account._invest_params\<close> is
  set in the dict of the account, which the caller does not read again.
\<close>

definition invest_entry :: "('p, 'l, 'i, 'o, 'r, 'v) bp_site \<Rightarrow> ('p, 'l) bp_state \<Rightarrow> bp_account \<Rightarrow>
                            auth_exc + ('p, 'l) bp_state option" where
  "invest_entry S st a =
     (if truthy (ba_params a) then
        ebind (json_getitem (ba_params a) (JStr ''token'')) (\<lambda>t.
        ebind (bp_build_token S t (bs_session st)) (\<lambda>t'.
        let params = JObj [(''taskInfoOID'', JStr ''ordreBourseCTJ2''), (''controlPanelTaskAction'', JStr ''true''),
                           (''token'', t')] in
        ebind (bp_go S (Base ''/cyber/internet/StartTask.do'') (Params params) st) (\<lambda>st.
        case bp_get_form S FirstForm (bs_session st) of
          Inl FormNotFound \<Rightarrow> Inr (Some st)
        | Inl e \<Rightarrow> Inl e
        | Inr (u, fs) \<Rightarrow>
            ebind (py_in ''QuestConnCliInt.EcranMessage'' (form_get ''screenName'' fs (JStr []))) (\<lambda>q.
            if q then
              (let fs = od_set (od_set fs ''dialogActionPerformed'' (JStr ''CANCEL'')) ''validationStrategy'' (JStr ''NV'') in
               case bp_nav (bp_submit S u fs) st of
                 Inl FormNotFound \<Rightarrow> Inr (Some st)
               | Inl e \<Rightarrow> Inl e
               | Inr st \<Rightarrow> Inr (Some st))
            else Inr (Some st)))))
      else
        ebind (renew_token S st (ba_invest_params a)) (\<lambda>params.
        case bp_go S (Base ''/cyber/internet/ContinueTask.do'') (Data params) st of
          Inl (BrowserUnavailable _) \<Rightarrow> Inr None
        | Inl e \<Rightarrow> Inl e
        | Inr st \<Rightarrow> Inr (Some st)))"

text \<open>
  The second part of \<^verbatim>\<open>go_investments\<close> (lines 1233--1262): an error page is not
  implemented; the investment page, when the page gives its parameters; the Linebourse
  browser gets the cookies; the Natixis error page, and a Natixis redirection to the
  equipment page, which has no contract, give \<open>False\<close>.
\<close>

definition invest_follow :: "('p, 'l, 'i, 'o, 'r, 'v) bp_site \<Rightarrow> ('p, 'l) bp_state \<Rightarrow>
                             auth_exc + ('p, 'l) bp_state \<times> bool" where
  "invest_follow S st =
     (if bp_here S ErrorPage st then Inl (PyExc NotImplemented)
      else ebind (bp_go_investment S (bs_session st)) (\<lambda>gi.
        if \<not> gi then Inr (st, True)
        else ebind (bp_investment_page_params S (bs_session st)) (\<lambda>(u, prm).
          if \<not> truthy prm then Inr (st, True)
          else case bp_go S (Rel u) (Data prm) st of
            Inl (BrowserUnavailable _) \<Rightarrow> Inr (st, False)
          | Inl e \<Rightarrow> Inl e
          | Inr st \<Rightarrow>
              (let st = (if sublist ''linebourse'' (bp_url S (bs_session st))
                         then st\<lparr>bs_linebourse := bp_lb_sync S (bs_session st) (bs_linebourse st)\<rparr> else st) in
               if bp_here S NatixisErrorPage st then Inr (st, False)
               else if bp_here S NatixisRedirect st
               then ebind (bp_get_redirect S (bs_session st)) (\<lambda>url. Inr (st, \<not> natixis_no_contract_url url))
               else Inr (st, True)))))"

text \<open>
  \<^verbatim>\<open>go_investments(account, get_account=False)\<close> (lines 1202--1262): only an account
  with investment parameters or whose id starts with \<^verbatim>\<open>TIT\<close> or \<^verbatim>\<open>PRV\<close>; with
  \<^verbatim>\<open>get_account\<close>, the account as the list of accounts gives it again, whose absence
  makes \<^verbatim>\<open>account._params\<close> raise \<^verbatim>\<open>AttributeError\<close>.
\<close>

definition go_investments :: "('p, 'l, 'i, 'o, 'r, 'v) bp_site \<Rightarrow> ('p, 'l) bp_state \<Rightarrow> bp_account \<Rightarrow> bool \<Rightarrow>
                              auth_exc + ('p, 'l) bp_state \<times> bool" where
  "go_investments S st a0 get_acc =
     ebind (bp_need_login S st) (\<lambda>st.
     if \<not> truthy (ba_invest_params a0) \<and> \<not> (prefix ''TIT'' (ba_id a0) \<or> prefix ''PRV'' (ba_id a0))
     then Inl (PyExc NotImplemented)
     else ebind (if get_acc then bp_get_account S (ba_id a0) st else Inr (Some a0, st)) (\<lambda>(ao, st).
       case ao of
         None \<Rightarrow> Inl (PyExc AttributeError)
       | Some a \<Rightarrow> ebind (invest_entry S st a) (\<lambda>r.
           case r of None \<Rightarrow> Inr (st, False) | Some st \<Rightarrow> invest_follow S st)))"

text \<open>
  The parameters of the Natixis space (lines 1284--1300 and 1338--1351): those of the
  Etna page, or those the Etna URL pattern reads in the redirection; \<open>None\<close> when the
  page is neither or the redirection is not to Etna.
\<close>

definition natixis_params :: "('p, 'l, 'i, 'o, 'r, 'v) bp_site \<Rightarrow> ('p, 'l) bp_state \<Rightarrow> auth_exc + json option" where
  "natixis_params S st =
     (if bp_here S Etna st then ebind (bp_etna_params S (bs_session st)) (\<lambda>prm. Inr (Some prm))
      else if bp_here S NatixisRedirect st then ebind (bp_get_redirect S (bs_session st)) (\<lambda>u. Inr (bp_etna_match S u))
      else Inr None)"

definition invest_types :: "acct_type set" where
  "invest_types = {TLifeInsurance, TPea, TMarket, TPerp}"

text \<open>\<^verbatim>\<open>iter_investments(account)\<close> (lines 1264--1309).\<close>

definition iter_investments :: "('p, 'l, 'i, 'o, 'r, 'v) bp_site \<Rightarrow> ('p, 'l) bp_state \<Rightarrow> bp_account \<Rightarrow>
                                auth_exc + ('p, 'l) bp_state \<times> 'i bp_inv list" where
  "iter_investments S st a =
     ebind (bp_need_login S st) (\<lambda>st.
     if ba_type a \<notin> invest_types then Inr (st, [])
     else if ba_type a = TPea \<and> prefix ''CPT'' (ba_id a) then Inr (st, [FrenchLiquidity (ba_balance a)])
     else ebind (go_investments S st a True) (\<lambda>(st, ok).
       if \<not> ok then Inr (st, [])
       else if sublist ''linebourse'' (bp_url S (bs_session st))
       then ebind (bp_lb_investments S (drop 3 (ba_id a)) (bs_linebourse st)) (\<lambda>is. Inr (st, map PageInv is))
       else ebind (natixis_params S st) (\<lambda>po.
         case po of
           None \<Rightarrow> Inr (st, [])
         | Some params \<Rightarrow> ebind (kwargs params) (\<lambda>kw.
             case bp_nav (bp_natixis_go S NatixisInvest kw) st of
                Inl e \<Rightarrow> if is_server_error e then Inr (st, []) else Inl e
              | Inr st \<Rightarrow>
                  if bp_here S NatixisUnavailablePage st
                  then Inl (BrowserUnavailable (bp_page_message S (bs_session st)))
                  else ebind (bp_page_investments S (bs_session st)) (\<lambda>is. Inr (st, map PageInv is))))))"

text \<open>\<^verbatim>\<open>iter_market_orders(account)\<close> (lines 1311--1327): only from the Linebourse space.\<close>

definition iter_market_orders :: "('p, 'l, 'i, 'o, 'r, 'v) bp_site \<Rightarrow> ('p, 'l) bp_state \<Rightarrow> bp_account \<Rightarrow>
                                  auth_exc + ('p, 'l) bp_state \<times> 'o list" where
  "iter_market_orders S st a =
     ebind (bp_need_login S st) (\<lambda>st.
     if ba_type a \<notin> {TPea, TMarket} then Inr (st, [])
     else if ba_type a = TPea \<and> prefix ''CPT'' (ba_id a) then Inr (st, [])
     else ebind (go_investments S st a True) (\<lambda>(st, ok).
       if ok \<and> sublist ''linebourse'' (bp_url S (bs_session st))
       then ebind (bp_lb_market_orders S (drop 3 (ba_id a)) (bs_linebourse st)) (\<lambda>os. Inr (st, os))
       else Inr (st, [])))"

section \<open>History\<close>

definition tr_year :: "bp_tr \<Rightarrow> int" where
  "tr_year t = fst (bt_date t)"

text \<open>
  The loop over the years of \<^verbatim>\<open>get_invest_history\<close> (lines 1366--1386): the statement of
  a year when there is one, else the JSON transactions of that year; a \<^verbatim>\<open>ServerError\<close>
  ends the history. \<^verbatim>\<open>go(year=year, **params)\<close> raises \<^verbatim>\<open>TypeError\<close> when the parameters
  also name a year.
\<close>

fun pdf_years :: "('p, 'l, 'i, 'o, 'r, 'v) bp_site \<Rightarrow> (string \<times> json) list \<Rightarrow> bp_tr list \<Rightarrow> ('p, 'l) bp_state \<Rightarrow> int list \<Rightarrow>
                  auth_exc + ('p, 'l) bp_state \<times> bp_tr list" where
  "pdf_years S kw txs st [] = Inr (st, [])"
| "pdf_years S kw txs st (y # ys) =
     (let of_year = filter (\<lambda>t. tr_year t = y) txs in
      if ''year'' \<in> set (map fst kw) then Inl (PyExc TypeError)
      else case bp_nav (bp_natixis_pdf_go S ((''year'', JInt y) # kw)) st of
        Inl e \<Rightarrow>
          if e = ClientError 404 then ebind (pdf_years S kw txs st ys) (\<lambda>(st, out). Inr (st, of_year @ out))
          else if is_server_error e then Inr (st, []) else Inl e
      | Inr st \<Rightarrow>
          if bp_here S NatixisUnavailablePage st
          then ebind (pdf_years S kw txs st ys) (\<lambda>(st, out). Inr (st, of_year @ out))
          else ebind (bp_page_json_history S (bs_session st)) (\<lambda>h.
               ebind (pdf_years S kw txs st ys) (\<lambda>(st, out). Inr (st, sort_desc bt_date h @ out))))"

text \<open>
  \<^verbatim>\<open>get_invest_history(account)\<close> (lines 1329--1386): from Linebourse, with the digits of
  the id; from Natixis, year by year, newest first, after checking that the history is
  available.
\<close>

definition get_invest_history :: "('p, 'l, 'i, 'o, 'r, 'v) bp_site \<Rightarrow> ('p, 'l) bp_state \<Rightarrow> bp_account \<Rightarrow>
                                  auth_exc + ('p, 'l) bp_state \<times> bp_tr list" where
  "get_invest_history S st a =
     ebind (bp_need_login S st) (\<lambda>st.
     ebind (go_investments S st a False) (\<lambda>(st, ok).
     if \<not> ok then Inr (st, [])
     else if sublist ''linebourse'' (bp_url S (bs_session st))
     then ebind (bp_lb_history S (filter ascii_digit (ba_id a)) (bs_linebourse st)) (\<lambda>trs. Inr (st, trs))
     else ebind (natixis_params S st) (\<lambda>po.
       case po of
         None \<Rightarrow> Inr (st, [])
       | Some params \<Rightarrow> ebind (kwargs params) (\<lambda>kw.
           ebind (bp_nav (bp_natixis_go S NatixisHistory kw) st) (\<lambda>st.
           if bp_here S NatixisUnavailablePage st then
             ebind (bp_nav (bp_natixis_go S NatixisInvest kw) st) (\<lambda>st.
               if bp_here S NatixisUnavailablePage st
               then Inl (BrowserUnavailable (bp_page_message S (bs_session st)))
               else Inr (st, []))
           else ebind (bp_page_json_history S (bs_session st)) (\<lambda>h.
             let txs = sort_desc bt_date h in
             pdf_years S kw txs st (rev (sort (remdups (map tr_year txs))))))))))"

text \<open>
  \<^verbatim>\<open>set_gocardless_transaction_details(transaction)\<close> (lines 1114--1128): post the
  detail of the transaction, add its reference to its raw label, and come back.
\<close>

definition set_gocardless_transaction_details :: "('p, 'l, 'i, 'o, 'r, 'v) bp_site \<Rightarrow> ('p, 'l) bp_state \<Rightarrow> bp_tr \<Rightarrow>
                                                 auth_exc + ('p, 'l) bp_state \<times> bp_tr" where
  "set_gocardless_transaction_details S st tr =
     ebind (bp_get_params S (bs_session st)) (\<lambda>data.
     ebind (bp_gocardless_strategy S tr (bs_session st)) (\<lambda>vs.
     ebind (py_setitem ''validationStrategy'' vs data) (\<lambda>data.
     ebind (py_setitem ''dialogActionPerformed'' (JStr ''DETAIL_ECRITURE'') data) (\<lambda>data.
     ebind (bp_table_id S (bt_ref tr) (bs_session st)) (\<lambda>(k, v).
     ebind (py_setitem k v data) (\<lambda>data.
     ebind (renew_token S st data) (\<lambda>data.
     ebind (bp_go S (Base ''/cyber/internet/ContinueTask.do'') (Data data) st) (\<lambda>st.
     ebind (bp_get_reference S (bs_session st)) (\<lambda>ref.
     ebind (follow_back_button_if_any S st) (\<lambda>st.
     Inr (st, tr\<lparr>bt_raw := bt_raw tr @ '' '' @ ref\<rparr>)))))))))))"

text \<open>The transactions of a page, with the details of those paid by GoCardless (lines 1181--1185).\<close>

definition gocardless_step :: "('p, 'l, 'i, 'o, 'r, 'v) bp_site \<Rightarrow> ('p, 'l) bp_state \<times> bp_tr list \<Rightarrow> bp_tr \<Rightarrow>
                               auth_exc + ('p, 'l) bp_state \<times> bp_tr list" where
  "gocardless_step S acc tr =
     (let (st, out) = acc in
      if sublist ''GoCardless'' (bt_label tr) \<and> bt_has_link tr
      then ebind (set_gocardless_transaction_details S st tr) (\<lambda>(st, tr). Inr (st, out @ [tr]))
      else Inr (st, out @ [tr]))"

text \<open>
  The sort of \<^verbatim>\<open>get_history_by_receipt\<close> (lines 1166--1174): at most twice, submit the
  form sorted by operation date until the page is sorted newest first. The token set in
  \<open>params\<close> is not posted: only its computation can fail.
\<close>

definition sort_url :: string where
  "sort_url = ''/cyber/internet/Sort.do?property=tbl1&sortBlocId=blc2&columnName=dateOperation''"

fun sort_loop :: "('p, 'l, 'i, 'o, 'r, 'v) bp_site \<Rightarrow> nat \<Rightarrow> ('p, 'l) bp_state \<Rightarrow> json \<Rightarrow> auth_exc + ('p, 'l) bp_state \<times> json" where
  "sort_loop S 0 st params = Inr (st, params)"
| "sort_loop S (Suc k) st params =
     ebind (bp_get_form S (FormId ''myForm'') (bs_session st)) (\<lambda>(_, fs).
     ebind (renew_token S st params) (\<lambda>params.
     ebind (bp_nav (bp_submit S sort_url fs) st) (\<lambda>st.
     ebind (bp_sorted_by_recent S (bs_session st)) (\<lambda>ok.
       if ok then Inr (st, params) else sort_loop S k st params))))"

text \<open>What \<^verbatim>\<open>get_history_by_receipt\<close> does before its pages: it is done, or it reads pages.\<close>

datatype receipt = ReceiptDone "bp_tr list" | ReceiptPages bp_account

text \<open>
  \<^verbatim>\<open>get_history_by_receipt(account, coming, sel_tbl1)\<close> up to its pages (lines 1133--1172):
  the account again from the list, the investment history for an investment account,
  nothing without parameters, the first page, its sort.
\<close>

definition receipt_start :: "('p, 'l, 'i, 'o, 'r, 'v) bp_site \<Rightarrow> ('p, 'l) bp_state \<Rightarrow> bp_account \<Rightarrow> bool \<Rightarrow> int option \<Rightarrow>
                             auth_exc + ('p, 'l) bp_state \<times> receipt" where
  "receipt_start S st a0 coming sel =
     ebind (bp_get_account S (ba_id a0) st) (\<lambda>(ao, st).
     case ao of
       None \<Rightarrow> Inl (BrowserUnavailable JNull)
     | Some a \<Rightarrow>
         if truthy (ba_invest_params a) \<or> (prefix ''TIT'' (ba_id a) \<and> truthy (ba_params a)) then
           (if \<not> coming then ebind (get_invest_history S st a) (\<lambda>(st, trs). Inr (st, ReceiptDone trs))
            else Inr (st, ReceiptDone []))
         else
           (let params = (if coming then ba_coming_params a else ba_params a) in
            if params = JNull then Inr (st, ReceiptDone [])
            else ebind (renew_token S st params) (\<lambda>params.
              ebind (case sel of None \<Rightarrow> Inr params
                     | Some i \<Rightarrow> py_setitem ''attribute($SEL_$tbl1)'' (JStr (int_repr i)) params) (\<lambda>params.
              ebind (bp_go S (Base ''/cyber/internet/ContinueTask.do'') (Data params) st) (\<lambda>st.
              if bp_page_none S (bs_session st) \<or> bp_here S ErrorPage st then Inr (st, ReceiptDone [])
              else ebind (bp_no_operations S (bs_session st)) (\<lambda>no.
                if no then Inr (st, ReceiptDone [])
                else ebind (if bp_has_sort_link S (bs_session st) then sort_loop S 2 st params else Inr (st, params))
                       (\<lambda>(st, _). Inr (st, ReceiptPages a))))))))"

text \<open>
  The pages of \<^verbatim>\<open>get_history_by_receipt\<close> (lines 1174--1192). The site decides whether
  there is a next page: the loop has fuel, one unit per page, and \<open>None\<close> when it runs out.
  The next parameters are read on the page the GoCardless details came back to.
\<close>

fun pages_loop :: "('p, 'l, 'i, 'o, 'r, 'v) bp_site \<Rightarrow> nat \<Rightarrow> ('p, 'l) bp_state \<Rightarrow> bp_account \<Rightarrow> bool \<Rightarrow> bp_tr list \<Rightarrow>
                   (auth_exc + ('p, 'l) bp_state \<times> bp_tr list) option" where
  "pages_loop S 0 st a coming out = None"
| "pages_loop S (Suc n) st a coming out =
     (if \<not> bp_here S TransactionsPage st then Some (Inl (AssertionError [] []))
      else case bp_page_history S a coming (bs_session st) of
        Inl e \<Rightarrow> Some (Inl e)
      | Inr trs \<Rightarrow>
          (case efold (gocardless_step S) trs (st, []) of
             Inl e \<Rightarrow> Some (Inl e)
           | Inr (st, trs) \<Rightarrow>
               (case bp_next_params S (bs_session st) of
                  Inl e \<Rightarrow> Some (Inl e)
                | Inr np \<Rightarrow>
                    if np = JNull then Some (Inr (st, out @ trs))
                    else case bp_go S (Rel ''/cyber/internet/Page.do'') (Params np) st of
                      Inl e \<Rightarrow> Some (Inl e)
                    | Inr st \<Rightarrow> pages_loop S n st a coming (out @ trs))))"

definition history_by_receipt :: "('p, 'l, 'i, 'o, 'r, 'v) bp_site \<Rightarrow> nat \<Rightarrow> ('p, 'l) bp_state \<Rightarrow> bp_account \<Rightarrow> bool \<Rightarrow>
                                  int option \<Rightarrow> (auth_exc + ('p, 'l) bp_state \<times> bp_tr list) option" where
  "history_by_receipt S n st a coming sel =
     (case receipt_start S st a coming sel of
        Inl e \<Rightarrow> Some (Inl e)
      | Inr (st, ReceiptDone trs) \<Rightarrow> Some (Inr (st, trs))
      | Inr (st, ReceiptPages a') \<Rightarrow> pages_loop S n st a' coming [])"

text \<open>The coming transactions of the receipts \<^verbatim>\<open>range(start, start + count)\<close> (lines 1194--1197).\<close>

fun receipts :: "('p, 'l, 'i, 'o, 'r, 'v) bp_site \<Rightarrow> nat \<Rightarrow> ('p, 'l) bp_state \<Rightarrow> bp_account \<Rightarrow> int list \<Rightarrow> bp_tr list \<Rightarrow>
                 (auth_exc + ('p, 'l) bp_state \<times> bp_tr list) option" where
  "receipts S n st a [] out = Some (Inr (st, out))"
| "receipts S n st a (i # is) out =
     (case history_by_receipt S n st a True (Some i) of
        None \<Rightarrow> None
      | Some (Inl e) \<Rightarrow> Some (Inl e)
      | Some (Inr (st, trs)) \<Rightarrow> receipts S n st a is (out @ trs))"

text \<open>\<^verbatim>\<open>iter_history(account, coming=False)\<close> (lines 1130--1200).\<close>

definition bp_iter_history :: "('p, 'l, 'i, 'o, 'r, 'v) bp_site \<Rightarrow> nat \<Rightarrow> ('p, 'l) bp_state \<Rightarrow> bp_account \<Rightarrow> bool \<Rightarrow>
                            (auth_exc + ('p, 'l) bp_state \<times> bp_tr list) option" where
  "bp_iter_history S n st a coming =
     (case bp_need_login S st of
        Inl e \<Rightarrow> Some (Inl e)
      | Inr st \<Rightarrow>
          if coming \<and> ba_coming_count a \<noteq> 0
          then receipts S n st a [ba_coming_start a..ba_coming_start a + ba_coming_count a - 1] []
          else history_by_receipt S n st a coming None)"

section \<open>Profile, advisor and owner type\<close>

text \<open>\<^verbatim>\<open>new_front_start_profile()\<close> (lines 1409--1419).\<close>

definition new_front_start_profile :: "('p, 'l, 'i, 'o, 'r, 'v) bp_site \<Rightarrow> ('p, 'l) bp_state \<Rightarrow> auth_exc + ('p, 'l) bp_state" where
  "new_front_start_profile S st =
     (let data = [(''integrationMode'', JStr ''INTERNET_89C3''), (''realOrigin'', JStr (bs_baseurl st))] in
      ebind (if \<not> bp_here S HomePage st then bp_go S (Rel ''/cyber/internet/Login.do'') (Data (JObj data)) st else Inr st) (\<lambda>st.
      ebind (bp_profile_type S (bs_session st)) (\<lambda>tid.
      bp_go S (Rel ''/cyber/internet/Login.do'') (Data (JObj (od_set data ''taskId'' tid))) st)))"

text \<open>
  \<^verbatim>\<open>get_profile()\<close> (lines 1390--1407): the old way, else the new one; \<open>None\<close> when the
  profile is not accessible to the user.
\<close>

definition accueil_url :: "string \<Rightarrow> bp_target" where
  "accueil_url t = Base (''/cyber/internet/StartTask.do?taskInfoOID=accueil&token='' @ t)"

definition bp_get_profile :: "('p, 'l, 'i, 'o, 'r, 'v) bp_site \<Rightarrow> ('p, 'l) bp_state \<Rightarrow> auth_exc + ('p, 'l) bp_state \<times> 'r option" where
  "bp_get_profile S st =
     ebind (bp_need_login S st) (\<lambda>st.
     ebind (bp_go S (accueil_url (bs_token st)) NoArgs st) (\<lambda>st.
     ebind (if bs_token st = [] \<or>
               (case bp_response_header S ''ate-taskInfoOID'' (bs_session st) of Some v \<Rightarrow> v | None \<Rightarrow> []) \<noteq> ''accueil''
            then ebind (new_front_start_profile S st) (bp_go S (accueil_url (bs_token st)) NoArgs)
            else Inr st) (\<lambda>st.
     ebind (bp_profile_here S (bs_session st)) (\<lambda>here.
     if \<not> here then Inl (BrowserUnavailable JNull)
     else ebind (bp_profile_unavailable S (bs_session st)) (\<lambda>unav.
       if unav then Inr (st, None)
       else ebind (bp_page_profile S (bs_session st)) (\<lambda>r. Inr (st, Some r)))))))"

text \<open>
  \<^verbatim>\<open>get_advisor()\<close> (lines 1421--1433): the advisor of the home task, completed by the
  agency of the contact task; the one item is \<open>None\<close> when there is no advisor.
\<close>

definition advisor_task :: "string \<Rightarrow> ('p, 'l) bp_state \<Rightarrow> bp_req" where
  "advisor_task t st = Params (JObj [(''taskInfoOID'', JStr t), (''token'', JStr (bs_token st))])"

definition get_advisor :: "('p, 'l, 'i, 'o, 'r, 'v) bp_site \<Rightarrow> ('p, 'l) bp_state \<Rightarrow> auth_exc + ('p, 'l) bp_state \<times> 'v option list" where
  "get_advisor S st =
     ebind (bp_need_login S st) (\<lambda>st.
     ebind (bp_go S (Base ''/cyber/internet/StartTask.do'') (advisor_task ''accueil'' st) st) (\<lambda>st.
     ebind (bp_page_advisor S (bs_session st)) (\<lambda>adv.
     case adv of
       None \<Rightarrow> Inr (st, [None])
     | Some v \<Rightarrow>
         ebind (bp_go S (Base ''/cyber/internet/StartTask.do'') (advisor_task ''contacter'' st) st) (\<lambda>st.
         ebind (bp_update_agency S v (bs_session st)) (\<lambda>v. Inr (st, [Some v]))))))"

text \<open>\<^verbatim>\<open>get_owner_type()\<close> (lines 1525--1536): \<open>None\<close> when the home page is not reached.\<close>

definition bp_get_owner_type :: "('p, 'l, 'i, 'o, 'r, 'v) bp_site \<Rightarrow> ('p, 'l) bp_state \<Rightarrow>
                              auth_exc + ('p, 'l) bp_state \<times> owner_type option" where
  "bp_get_owner_type S st =
     ebind (bp_need_login S st) (\<lambda>st.
     ebind (bp_nav (bp_first_login_go S (bs_creditmaritime st)) st) (\<lambda>st.
     ebind (if \<not> bp_here S HomePage st then new_front_start_profile S st else Inr st) (\<lambda>st.
     if bp_here S HomePage st then ebind (bp_page_owner_type S (bs_session st)) (\<lambda>ot. Inr (st, ot))
     else Inr (st, None))))"

text \<open>
  A store for the examples: a joint account and a card whose parent it is, neither with an
  ownership yet.
\<close>

definition joint_card_store :: "bp_account list" where
  "joint_card_store =
     [\<lparr>ba_id = ''CPT1'', ba_label = ''Compte commun'', ba_type = TChecking, ba_balance = None, ba_parent = None,
       ba_ownership = None, ba_params = JNull, ba_coming_params = JNull, ba_invest_params = JNull,
       ba_coming_start = 0, ba_coming_count = 0\<rparr>,
      \<lparr>ba_id = ''CB1'', ba_label = ''Carte'', ba_type = TCard, ba_balance = None, ba_parent = Some 0,
       ba_ownership = None, ba_params = JNull, ba_coming_params = JNull, ba_invest_params = JNull,
       ba_coming_start = 0, ba_coming_count = 0\<rparr>]"

text \<open>
  A site for the examples: every navigation moves to the next page (a counter), the first
  page reached is an error page, and the pages answer as a plain account list does.
\<close>

definition bp_demo_site :: "(nat, unit, unit, unit, unit, unit) bp_site" where
  "bp_demo_site =
     \<lparr>bp_location = (\<lambda>_ _ p. Inr (Suc p)),
      bp_url = (\<lambda>_. ''https://www.banquepopulaire.fr/cyber/internet/StartTask.do''),
      bp_response_text = (\<lambda>_. []),
      bp_response_header = (\<lambda>_ _. None),
      bp_is_here = (\<lambda>_ _. False),
      bp_page_none = (\<lambda>_. False),
      bp_logged = (\<lambda>_. True),
      bp_do_login = (Inr),
      bp_build_token = (\<lambda>t _. Inr t),
      bp_get_form = (\<lambda>_ _. Inl FormNotFound),
      bp_submit = (\<lambda>_ _ p. Inr (Suc p)),
      bp_get_params = (\<lambda>_. Inr (JObj [(''token'', JStr ''t'')])),
      bp_back_button_params = (\<lambda>_. Inr JNull),
      bp_is_error = (\<lambda>p. Inr (p = 1)),
      bp_pop_up = (\<lambda>_. Inr False),
      bp_is_short_list = (\<lambda>_. Inr False),
      bp_need_to_go = (\<lambda>_. Inr False),
      bp_go_iban = (\<lambda>_ p. Inr (True, p)),
      bp_get_iban = (\<lambda>_ _. Inr (Some ''FR7600000000000000000000000'')),
      bp_fill_loan = (\<lambda>a _. Inr a),
      bp_get_account = (\<lambda>_ st. Inr (None, st)),
      bp_go_investment = (\<lambda>_. Inr False),
      bp_investment_page_params = (\<lambda>_. Inr ([], JNull)),
      bp_get_redirect = (\<lambda>_. Inr []),
      bp_etna_match = (\<lambda>_. None),
      bp_etna_params = (\<lambda>_. Inr JNull),
      bp_natixis_go = (\<lambda>_ _ p. Inr (Suc p)),
      bp_natixis_pdf_go = (\<lambda>_ p. Inr (Suc p)),
      bp_page_message = (\<lambda>_. JNull),
      bp_page_investments = (\<lambda>_. Inr []),
      bp_page_json_history = (\<lambda>_. Inr []),
      bp_no_operations = (\<lambda>_. Inr True),
      bp_has_sort_link = (\<lambda>_. False),
      bp_sorted_by_recent = (\<lambda>_. Inr True),
      bp_page_history = (\<lambda>_ _ _. Inr []),
      bp_next_params = (\<lambda>_. Inr JNull),
      bp_gocardless_strategy = (\<lambda>_ _. Inr JNull),
      bp_table_id = (\<lambda>_ _. Inr ([], JNull)),
      bp_get_reference = (\<lambda>_. Inr []),
      bp_profile_here = (\<lambda>_. Inr True),
      bp_profile_unavailable = (\<lambda>_. Inr True),
      bp_page_profile = (\<lambda>_. Inr ()),
      bp_profile_type = (\<lambda>_. Inr JNull),
      bp_page_owner_type = (\<lambda>_. Inr None),
      bp_page_advisor = (\<lambda>_. Inr None),
      bp_update_agency = (\<lambda>v _. Inr v),
      bp_first_login_go = (\<lambda>_ p. Inr (Suc p)),
      bp_lb_sync = (\<lambda>_ l. l),
      bp_lb_investments = (\<lambda>_ _. Inr []),
      bp_lb_market_orders = (\<lambda>_ _. Inr []),
      bp_lb_history = (\<lambda>_ _. Inr [])\<rparr>"

definition bp_demo_state :: "(nat, unit) bp_state" where
  "bp_demo_state =
     \<lparr>bs_session = 0, bs_token = ''t'', bs_linebourse = (), bs_account_urls = [''mesComptes'', ''mesComptesPRO''],
      bs_current_subbank = None, bs_creditmaritime = False, bs_baseurl = ''https://www.banquepopulaire.fr''\<rparr>"

section \<open>Properties\<close>

subsection \<open>Navigation\<close>

lemma bp_nav_Inr: "bp_nav f st = Inr st' \<Longrightarrow> \<exists>p. f (bs_session st) = Inr p \<and> st' = st\<lparr>bs_session := p\<rparr>"
  by (auto simp: bp_nav_def ebind_eq_Inr)

lemma bp_go_Inr: "bp_go S u r st = Inr st' \<Longrightarrow> \<exists>p. bp_location S u r (bs_session st) = Inr p \<and> st' = st\<lparr>bs_session := p\<rparr>"
  by (simp add: bp_go_def bp_nav_Inr)

lemma bp_go_urls: "bp_go S u r st = Inr st' \<Longrightarrow> bs_account_urls st' = bs_account_urls st \<and> bs_token st' = bs_token st"
  by (auto dest: bp_go_Inr)

subsection \<open>Ownership\<close>

text \<open>
  What \<^verbatim>\<open>set_account_ownership\<close> does to the store: the same accounts, with ownerships
  set where there were none.
\<close>

definition own_update :: "bp_account list \<Rightarrow> bp_account list \<Rightarrow> bool" where
  "own_update store st' \<longleftrightarrow>
     length st' = length store \<and>
     (\<forall>j < length store. st' ! j = (store ! j)\<lparr>ba_ownership := ba_ownership (st' ! j)\<rparr> \<and>
        (ba_ownership (store ! j) \<noteq> None \<longrightarrow> ba_ownership (st' ! j) = ba_ownership (store ! j)))"

lemma own_update_refl: "own_update store store"
  by (simp add: own_update_def)

lemma own_update_set:
  assumes "own_update store st" "i < length store" "ba_ownership (store ! i) = None"
  shows "own_update store (st[i := (st ! i)\<lparr>ba_ownership := x\<rparr>])"
proof -
  obtain y where y: "st ! i = (store ! i)\<lparr>ba_ownership := y\<rparr>"
    using assms(1,2) unfolding own_update_def by blast
  have len: "length st = length store" using assms(1) by (simp add: own_update_def)
  show ?thesis
    unfolding own_update_def
  proof (intro conjI allI impI)
    fix j assume j: "j < length store"
    show "st[i := (st ! i)\<lparr>ba_ownership := x\<rparr>] ! j =
          (store ! j)\<lparr>ba_ownership := ba_ownership (st[i := (st ! i)\<lparr>ba_ownership := x\<rparr>] ! j)\<rparr>"
    proof (cases "j = i")
      case False
      with j len assms(1) show ?thesis by (simp add: own_update_def)
    qed (use y len j in simp)
    assume "ba_ownership (store ! j) \<noteq> None"
    with assms(1,3) j len show "ba_ownership (st[i := (st ! i)\<lparr>ba_ownership := x\<rparr>] ! j) = ba_ownership (store ! j)"
      by (cases "j = i") (auto simp: own_update_def)
  qed (use len in simp)
qed

lemma own_update_set_store:
  assumes "i < length store" "ba_ownership (store ! i) = None"
  shows "own_update store (store[i := (store ! i)\<lparr>ba_ownership := x\<rparr>])"
  using own_update_set [OF own_update_refl assms] .

lemma set_account_ownership_update:
  "set_account_ownership n owner store i = Some (Inr st') \<Longrightarrow> own_update store st'"
proof (induction n arbitrary: i st')
  case (Suc n)
  then have i: "i < length store" by (auto split: if_splits)
  show ?case
  proof (cases "ba_ownership (store ! i) = None")
    case own: True
    show ?thesis
    proof (cases "ba_parent (store ! i)")
      case None
      with Suc.prems i own show ?thesis
        by (auto simp: Let_def own_update_set_store split: option.splits)
    next
      case (Some p)
      with Suc.prems i own obtain st where p: "p < length store"
        and rec: "(if ba_ownership (store ! p) = None then set_account_ownership n owner store p else Some (Inr store)) = Some (Inr st)"
        and st': "st' = st[i := (st ! i)\<lparr>ba_ownership := ba_ownership (st ! p)\<rparr>]"
        by (auto simp: Let_def split: if_splits option.splits sum.splits)
      from rec have "own_update store st" by (auto simp: own_update_refl split: if_splits intro: Suc.IH)
      with st' i own show ?thesis by (simp add: own_update_set)
    qed
  qed (use Suc.prems i own_update_refl in auto)
qed simp

text \<open>
  C6. On a store where every account's parent comes before it, \<^verbatim>\<open>set_account_ownership\<close>
  with an owner name returns (with fuel above the account's address: the recursion up the
  parents ends), and the account then has an ownership.
\<close>

theorem set_account_ownership_total:
  assumes "parents_before store" "i < length store" "i < n"
  shows "\<exists>st'. set_account_ownership n (Some o_name) store i = Some (Inr st') \<and> ba_ownership (st' ! i) \<noteq> None"
  using assms(2,3)
proof (induction n arbitrary: i)
  case (Suc n)
  show ?case
  proof (cases "ba_ownership (store ! i) = None")
    case own: True
    show ?thesis
    proof (cases "ba_parent (store ! i)")
      case None
      with Suc.prems own show ?thesis by (simp add: Let_def)
    next
      case (Some p)
      with assms(1) Suc.prems have p: "p < i" by (simp add: parents_before_def)
      obtain st where rec: "(if ba_ownership (store ! p) = None then set_account_ownership n (Some o_name) store p
                              else Some (Inr store)) = Some (Inr st)" and stp: "ba_ownership (st ! p) \<noteq> None"
      proof (cases "ba_ownership (store ! p) = None")
        case True
        with Suc.IH [of p] p Suc.prems that show ?thesis by auto
      qed (use that in auto)
      from rec have "own_update store st"
        by (auto simp: own_update_refl split: if_splits dest: set_account_ownership_update)
      then have "i < length st" using Suc.prems by (simp add: own_update_def)
      with rec stp p Suc.prems own Some show ?thesis by (simp add: Let_def)
    qed
  qed (use Suc.prems in simp)
qed simp

text \<open>
  C7. An account without ownership that has a parent ends with exactly its parent's
  ownership, which the call first gives the parent when it has none.
\<close>

theorem set_account_ownership_inherits:
  assumes "set_account_ownership n owner store i = Some (Inr st')"
    and "ba_ownership (store ! i) = None" "ba_parent (store ! i) = Some p"
  shows "ba_ownership (st' ! i) = ba_ownership (st' ! p)"
proof -
  obtain m where n: "n = Suc m" using assms(1) by (cases n) auto
  from assms n obtain st where i: "i < length store" and p: "p < length store"
    and rec: "(if ba_ownership (store ! p) = None then set_account_ownership m owner store p else Some (Inr store)) = Some (Inr st)"
    and st': "st' = st[i := (st ! i)\<lparr>ba_ownership := ba_ownership (st ! p)\<rparr>]"
    by (auto simp: Let_def split: if_splits option.splits sum.splits)
  from rec have "length st = length store"
    by (auto split: if_splits dest: set_account_ownership_update simp: own_update_def)
  with i st' show ?thesis by (cases "p = i") auto
qed

theorem set_account_ownership_total_witness:
  "parents_before joint_card_store \<and> 1 < length joint_card_store \<and> (1::nat) < 2 \<and>
   (\<exists>st'. set_account_ownership 2 (Some ''DUPONT'') joint_card_store 1 = Some (Inr st') \<and> ba_ownership (st' ! 1) \<noteq> None)"
proof -
  have p: "parents_before joint_card_store"
    by (auto simp: parents_before_def joint_card_store_def less_Suc_eq)
  have l: "1 < length joint_card_store" by (simp add: joint_card_store_def)
  show ?thesis using set_account_ownership_total [OF p l, of 2 "''DUPONT''"] p l by simp
qed

theorem set_account_ownership_inherits_witness:
  "ba_ownership (joint_card_store ! 1) = None \<and> ba_parent (joint_card_store ! 1) = Some 0 \<and>
   set_account_ownership 2 (Some ''DUPONT'') joint_card_store 1 =
     Some (Inr (map (\<lambda>a. a\<lparr>ba_ownership := Some CoOwner\<rparr>) joint_card_store)) \<and>
   ba_ownership (map (\<lambda>a. a\<lparr>ba_ownership := Some CoOwner\<rparr>) joint_card_store ! 1) =
   ba_ownership (map (\<lambda>a. a\<lparr>ba_ownership := Some CoOwner\<rparr>) joint_card_store ! 0)"
proof -
  have e: "set_account_ownership 2 (Some ''DUPONT'') joint_card_store 1 =
             Some (Inr (map (\<lambda>a. a\<lparr>ba_ownership := Some CoOwner\<rparr>) joint_card_store))"
    by code_simp
  have o: "ba_ownership (joint_card_store ! 1) = None" and p: "ba_parent (joint_card_store ! 1) = Some 0"
    by (simp_all add: joint_card_store_def)
  show ?thesis using set_account_ownership_inherits [OF e o p] e o p by simp
qed

text \<open>
  Without an owner name, a parentless account without ownership makes
  \<^verbatim>\<open>owner_name in label\<close> raise \<^verbatim>\<open>TypeError\<close> (the call of line 1048 has no guard).
\<close>

lemma set_account_ownership_no_owner_name:
  "i < length store \<Longrightarrow> ba_ownership (store ! i) = None \<Longrightarrow> ba_parent (store ! i) = None \<Longrightarrow>
   set_account_ownership (Suc n) None store i = Some (Inl (PyExc TypeError))"
  by (simp add: Let_def)

subsection \<open>Helpers and patterns\<close>

lemma mset_sort_desc: "mset (sort_desc f xs) = mset xs"
  by (simp add: sort_desc_def)

text \<open>The reverse sort is stable: the elements with the same key keep their order.\<close>

lemma sort_desc_stable: "filter (\<lambda>y. f y = k) (sort_desc f xs) = filter (\<lambda>y. f y = k) xs"
  by (simp add: sort_desc_def rev_filter [symmetric] sort_key_stable)

lemma sorted_sort_desc: "sorted (rev (map f (sort_desc f xs)))"
  by (simp add: sort_desc_def rev_map)

text \<open>
  The co-owner pattern of this module needs the space after the title: a label whose
  title is followed by a dot and the name is not a co-ownership.
\<close>

lemma bp_co_owner_pattern_examples:
  "bp_co_owner_pattern ''M. A OU MME B''"
  "\<not> bp_co_owner_pattern ''MR.A OU M B''"
  by code_simp+

text \<open>The subbank of a URL; a domain with a dash is not recognised.\<close>

lemma subbank_search_examples:
  "subbank_search ''https://www.icgauth.banquepopulaire.fr/cyber/'' = Some ''banquepopulaire''"
  "subbank_search ''https://www.icgauth.credit-maritime.fr/'' = None"
  by (simp add: icgauth_at_def subbank_char_def upt_rec)+

lemma natixis_no_contract_url_examples:
  "natixis_no_contract_url ''https://www.assurances.natixis.fr/etna-ihs-bp/#/equipement;codeEtab=13807?windowId=0af3''"
  "\<not> natixis_no_contract_url ''https://www.assurances.natixis.fr/etna-ihs-bp/#/equipement;codeEtab=13807?windowId=0af3&x=1''"
  by code_simp+

subsection \<open>Accounts list and IBAN\<close>



text \<open>
  C35. \<^verbatim>\<open>get_iban_number\<close> never gives an IBAN to a life insurance or a market account,
  whatever the site answers.
\<close>

theorem get_iban_number_types:
  "ba_type a \<in> {TLifeInsurance, TMarket} \<Longrightarrow> get_iban_number S st a \<noteq> Inr (st', Some ib)"
  by (auto simp: get_iban_number_def ebind_eq_Inr split: sum.splits auth_exc.splits if_splits)

theorem get_iban_number_types_witness:
  "ba_type ((joint_card_store ! 0)\<lparr>ba_type := TMarket\<rparr>) \<in> {TLifeInsurance, TMarket} \<and>
   get_iban_number bp_demo_site bp_demo_state ((joint_card_store ! 0)\<lparr>ba_type := TMarket\<rparr>) \<noteq>
     Inr (bp_demo_state\<lparr>bs_session := 1\<rparr>, Some ''FR7600000000000000000000000'') \<and>
   get_iban_number bp_demo_site bp_demo_state (joint_card_store ! 0) =
     Inr (bp_demo_state\<lparr>bs_session := 1\<rparr>, Some ''FR7600000000000000000000000'')"
proof -
  have h: "ba_type ((joint_card_store ! 0)\<lparr>ba_type := TMarket\<rparr>) \<in> {TLifeInsurance, TMarket}" by simp
  have g: "get_iban_number bp_demo_site bp_demo_state (joint_card_store ! 0) =
             Inr (bp_demo_state\<lparr>bs_session := 1\<rparr>, Some ''FR7600000000000000000000000'')"
    by (simp add: get_iban_number_def joint_card_store_def bp_demo_site_def bp_demo_state_def bp_need_login_def
                  bp_go_def bp_nav_def)
  show ?thesis using get_iban_number_types [OF h] h g by blast
qed

text \<open>A subscription without IBAN answers a server error 500, and the account gets none.\<close>

lemma get_iban_number_no_subscription:
  assumes "bp_need_login S st = Inr st1" "bp_build_token S (JStr (bs_token st1)) (bs_session st1) = Inr t"
    "py_str t = Inr ts"
    "bp_location S (Base (''/cyber/internet/StartTask.do?taskInfoOID=cyberIBAN&token='' @ ts)) NoArgs (bs_session st1)
       = Inl (ServerError 500 txt)"
    "sublist no_iban_msg txt"
  shows "get_iban_number S st a = Inr (st1, None)"
  using assms by (simp add: get_iban_number_def bp_go_def bp_nav_def)

subsection \<open>Investments\<close>

lemma go_investments_not_implemented:
  "bp_need_login S st = Inr st1 \<Longrightarrow> \<not> truthy (ba_invest_params a) \<Longrightarrow>
   \<not> prefix ''TIT'' (ba_id a) \<Longrightarrow> \<not> prefix ''PRV'' (ba_id a) \<Longrightarrow>
   go_investments S st a g = Inl (PyExc NotImplemented)"
  by (simp add: go_investments_def)

text \<open>A liquidity PEA gives its liquidity line, without navigating.\<close>

lemma iter_investments_pea_liquidity:
  "bp_need_login S st = Inr st1 \<Longrightarrow> ba_type a = TPea \<Longrightarrow> prefix ''CPT'' (ba_id a) \<Longrightarrow>
   iter_investments S st a = Inr (st1, [FrenchLiquidity (ba_balance a)])"
  by (simp add: iter_investments_def invest_types_def)

lemma iter_investments_other_types:
  "bp_need_login S st = Inr st1 \<Longrightarrow> ba_type a \<notin> invest_types \<Longrightarrow> iter_investments S st a = Inr (st1, [])"
  by (simp add: iter_investments_def)

text \<open>Market orders come only from the Linebourse space, for a market account or a PEA that is not a liquidity one.\<close>

lemma iter_market_orders_linebourse:
  assumes "iter_market_orders S st a = Inr (st', os)" "os \<noteq> []"
  shows "ba_type a \<in> {TPea, TMarket} \<and> \<not> (ba_type a = TPea \<and> prefix ''CPT'' (ba_id a)) \<and>
         sublist ''linebourse'' (bp_url S (bs_session st'))"
  using assms by (auto simp: iter_market_orders_def ebind_eq_Inr split: if_splits prod.splits)

subsection \<open>History and advisor\<close>

text \<open>More fuel changes nothing once the pages have ended.\<close>

lemma pages_loop_mono:
  "pages_loop S n st a coming out = Some r \<Longrightarrow> pages_loop S (n + k) st a coming out = Some r"
proof (induction n arbitrary: st out)
  case (Suc n)
  then show ?case by (auto split: sum.splits if_splits prod.splits)
qed simp

lemma receipts_mono:
  "receipts S n st a is out = Some r \<Longrightarrow> receipts S (n + k) st a is out = Some r"
proof (induction "is" arbitrary: st out)
  case (Cons i "is")
  have hb: "history_by_receipt S n st a True (Some i) = Some x \<Longrightarrow>
            history_by_receipt S (n + k) st a True (Some i) = Some x" for x
    by (auto simp: history_by_receipt_def split: sum.splits receipt.splits intro: pages_loop_mono)
  from Cons show ?case by (auto split: option.splits sum.splits prod.splits dest: hb)
qed simp

lemma get_advisor_single: "get_advisor S st = Inr (st', l) \<Longrightarrow> length l = 1"
  by (auto simp: get_advisor_def ebind_eq_Inr split: option.splits)

end
