(* ===== verification/Backend.thy ===== *)
theory Backend
  imports Prelude
begin

text \<open>
  \<^verbatim>\<open>src/weboob/tools/backend.py\<close>: the base class of every site backend. Its
  constructor checks and converts the user's configuration against the class's
  \<^verbatim>\<open>CONFIG\<close> fields; \<^verbatim>\<open>create_browser\<close> chooses the proxy; the \<^verbatim>\<open>browser\<close> property
  creates the browser once; \<^verbatim>\<open>has_caps\<close> tests the capabilities; \<^verbatim>\<open>fillobj\<close>
  finds the fields of an object still to be loaded and calls the backend's filler.

  Configuration values are strings, booleans, integers, floats or \<^verbatim>\<open>None\<close>; the
  float conversions of Python and \<^verbatim>\<open>re.match\<close> are parameters. \<^verbatim>\<open>CONFIG\<close> and the
  user's \<^verbatim>\<open>config\<close> are dicts, iterated in their iteration order, which Python 2 leaves
  unspecified: the model takes the order as given. The lock, \<^verbatim>\<open>__repr__\<close> and the
  storage object behind \<^verbatim>\<open>BackendStorage\<close> are not modelled.
\<close>

section \<open>Configuration values and fields\<close>

datatype 'f cval = CStr string | CBool bool | CInt int | CFloat 'f | CNone

record 'f float_ops =
  float_of_str :: "string \<Rightarrow> 'f option"
  float_of_int :: "int \<Rightarrow> 'f"
  int_of_float :: "'f \<Rightarrow> int"
  str_of_float :: "'f \<Rightarrow> string"
  re_match :: "string \<Rightarrow> string \<Rightarrow> bool"

text \<open>\<^verbatim>\<open>BaseBackend.ConfigField\<close>.\<close>

record 'f config_field =
  cf_default :: "'f cval"
  cf_is_masked :: bool
  cf_regexp :: "string option"
  cf_description :: "string option"

datatype 'f backend_error = ConfigError string | PyErr py_error

text \<open>\<^verbatim>\<open>str(value)\<close>.\<close>

fun nat_str :: "nat \<Rightarrow> string" where
  "nat_str n = (if n < 10 then [char_of (48 + n)] else nat_str (n div 10) @ [char_of (48 + n mod 10)])"

declare nat_str.simps [simp del]

definition int_str :: "int \<Rightarrow> string" where
  "int_str i = (if i < 0 then CHR ''-'' # nat_str (nat (- i)) else nat_str (nat i))"

definition cval_str :: "'f float_ops \<Rightarrow> 'f cval \<Rightarrow> string" where
  "cval_str F v =
     (case v of CStr s \<Rightarrow> s | CBool b \<Rightarrow> (if b then ''True'' else ''False'') | CInt i \<Rightarrow> int_str i
      | CFloat f \<Rightarrow> str_of_float F f | CNone \<Rightarrow> ''None'')"

text \<open>\<^verbatim>\<open>int(s)\<close> on a string: blanks around, an optional sign and decimal digits.\<close>

definition int_of_str :: "string \<Rightarrow> int option" where
  "int_of_str s =
     (let t = py_strip s;
          (neg, ds) = (case t of c # r \<Rightarrow> if c = CHR ''-'' then (True, r) else if c = CHR ''+'' then (False, r) else (False, t)
                       | [] \<Rightarrow> (False, []));
          n = int (foldl (\<lambda>n c. 10 * n + (of_char c - 48)) 0 ds) in
      if ds \<noteq> [] \<and> list_all py_digit ds then Some (if neg then - n else n) else None)"

text \<open>\<^verbatim>\<open>value.lower() in ('1', 'true', 'on', 'yes')\<close>, for ASCII letters.\<close>

definition ascii_lower :: "char \<Rightarrow> char" where
  "ascii_lower c = (if 65 \<le> (of_char c :: nat) \<and> (of_char c :: nat) \<le> 90 then char_of (of_char c + (32 :: nat)) else c)"

definition truthy_word :: "string \<Rightarrow> bool" where
  "truthy_word s \<longleftrightarrow> map ascii_lower s \<in> {''1'', ''true'', ''on'', ''yes''}"

text \<open>
  The conversion of lines 123--129: only when the field has a default, to the type of
  the default. A boolean is an \<^verbatim>\<open>int\<close> in Python, so an integer field keeps a boolean.
\<close>

definition convert_value :: "'f float_ops \<Rightarrow> 'f cval \<Rightarrow> 'f cval \<Rightarrow> 'f backend_error + 'f cval" where
  "convert_value F dflt v =
     (case dflt of
        CBool _ \<Rightarrow> (case v of CBool b \<Rightarrow> Inr v | CStr s \<Rightarrow> Inr (CBool (truthy_word s)) | _ \<Rightarrow> Inl (PyErr AttributeError))
      | CInt _ \<Rightarrow>
          (case v of CInt _ \<Rightarrow> Inr v | CBool _ \<Rightarrow> Inr v
           | CStr s \<Rightarrow> (case int_of_str s of Some i \<Rightarrow> Inr (CInt i) | None \<Rightarrow> Inl (PyErr ValueError))
           | CFloat f \<Rightarrow> Inr (CInt (int_of_float F f))
           | CNone \<Rightarrow> Inl (PyErr TypeError))
      | CFloat _ \<Rightarrow>
          (case v of CFloat _ \<Rightarrow> Inr v
           | CStr s \<Rightarrow> (case float_of_str F s of Some f \<Rightarrow> Inr (CFloat f) | None \<Rightarrow> Inl (PyErr ValueError))
           | CInt i \<Rightarrow> Inr (CFloat (float_of_int F i))
           | CBool b \<Rightarrow> Inr (CFloat (float_of_int F (if b then 1 else 0)))
           | CNone \<Rightarrow> Inl (PyErr TypeError))
      | _ \<Rightarrow> Inr v)"

text \<open>One field of the loop of lines 114--130.\<close>

definition config_one :: "'f float_ops \<Rightarrow> (string \<times> 'f cval) list \<Rightarrow> string \<Rightarrow> 'f config_field \<Rightarrow> 'f backend_error + 'f cval" where
  "config_one F config name field =
     (let value = (case map_of config name of Some v \<Rightarrow> v | None \<Rightarrow> cf_default field) in
      if value = CNone then
        Inl (ConfigError (''Missing parameter '' @ [CHR 0x22] @ name @ [CHR 0x22] @ '' ('' @
                          (case cf_description field of Some d \<Rightarrow> d | None \<Rightarrow> ''None'') @ '')''))
      else case cf_regexp field of
        Some r \<Rightarrow>
          if r \<noteq> [] \<and> \<not> re_match F r (cval_str F value) then
            Inl (ConfigError (''Value of '' @ [CHR 0x22] @ name @ [CHR 0x22] @ '' does not match regexp '' @ [CHR 0x22] @ r @ [CHR 0x22]))
          else if cf_default field \<noteq> CNone then convert_value F (cf_default field) value else Inr value
      | None \<Rightarrow> if cf_default field \<noteq> CNone then convert_value F (cf_default field) value else Inr value)"

text \<open>\<^verbatim>\<open>BaseBackend.__init__\<close> (lines 104--132): the private fields and the configuration.\<close>

record 'f backend =
  be_name :: string
  be_private_config :: "(string \<times> 'f cval) list"
  be_config :: "(string \<times> 'f cval) list"
  be_browser :: "'f cval option option option"

fun config_loop :: "'f float_ops \<Rightarrow> (string \<times> 'f cval) list \<Rightarrow> (string \<times> 'f config_field) list \<Rightarrow>
                    'f backend_error + (string \<times> 'f cval) list" where
  "config_loop F config [] = Inr []"
| "config_loop F config ((name, field) # fs) =
     ebind (config_one F config name field) (\<lambda>v.
     ebind (config_loop F config fs) (\<lambda>rest. Inr ((name, v) # rest)))"

definition backend_init :: "'f float_ops \<Rightarrow> (string \<times> 'f config_field) list \<Rightarrow> string \<Rightarrow> (string \<times> 'f cval) list \<Rightarrow>
                            'f backend_error + 'f backend" where
  "backend_init F CONFIG name config =
     ebind (config_loop F config CONFIG) (\<lambda>cfg.
       Inr \<lparr>be_name = name, be_private_config = filter (\<lambda>(k, v). prefix ''_'' k) config,
            be_config = cfg, be_browser = None\<rparr>)"

section \<open>The browser\<close>

text \<open>
  \<^verbatim>\<open>create_browser\<close> (lines 159--172): no browser without a \<^verbatim>\<open>BROWSER\<close> class; the
  proxy is the private field \<^verbatim>\<open>_proxy\<close>, else the environment's \<^verbatim>\<open>HTTP_PROXY\<close>. The
  browser is represented by the proxy it was given (\<open>None\<close>: no \<^verbatim>\<open>proxy\<close> argument).
\<close>

definition create_browser :: "bool \<Rightarrow> (string \<Rightarrow> string option) \<Rightarrow> 'f backend \<Rightarrow> 'f cval option option" where
  "create_browser has_class environ b =
     (if \<not> has_class then None
      else case map_of (be_private_config b) ''_proxy'' of
        Some p \<Rightarrow> Some (Some p)
      | None \<Rightarrow> Some (map_option CStr (environ ''HTTP_PROXY'')))"

text \<open>
  The property \<^verbatim>\<open>browser\<close> (lines 140--150): created by \<^verbatim>\<open>create_default_browser\<close> at
  the first access and kept in \<^verbatim>\<open>_browser\<close>, even when it is \<^verbatim>\<open>None\<close>.
\<close>

definition browser_prop :: "bool \<Rightarrow> (string \<Rightarrow> string option) \<Rightarrow> 'f backend \<Rightarrow> 'f cval option option \<times> 'f backend" where
  "browser_prop has_class environ b =
     (case be_browser b of
        Some br \<Rightarrow> (br, b)
      | None \<Rightarrow> (let br = create_browser has_class environ b in (br, b\<lparr>be_browser := Some br\<rparr>)))"

section \<open>Capabilities\<close>

text \<open>
  A capability asked for is a name or a class. \<^verbatim>\<open>iter_caps\<close> yields the bases of the
  backend's class that are capabilities other than \<^verbatim>\<open>ICap\<close>; \<open>isinst\<close> is
  \<^verbatim>\<open>isinstance(self, c)\<close> for a class.
\<close>

datatype cap_arg = CapName string | CapClass string

definition iter_caps :: "(string \<Rightarrow> bool) \<Rightarrow> string list \<Rightarrow> string list" where
  "iter_caps is_cap bases = filter (\<lambda>c. is_cap c \<and> c \<noteq> ''ICap'') bases"

text \<open>
  \<^verbatim>\<open>has_caps\<close> (lines 179--184): for a name the test \<^verbatim>\<open>isinstance(self, c)\<close> after
  the \<^verbatim>\<open>or\<close> is evaluated with a string, which raises \<^verbatim>\<open>TypeError\<close>.
\<close>

fun has_caps :: "(string \<Rightarrow> bool) \<Rightarrow> string list \<Rightarrow> (string \<Rightarrow> bool) \<Rightarrow> cap_arg list \<Rightarrow> 'f backend_error + bool" where
  "has_caps is_cap bases isinst [] = Inr False"
| "has_caps is_cap bases isinst (CapName c # cs) =
     (if c \<in> set (iter_caps is_cap bases) then Inr True else Inl (PyErr TypeError))"
| "has_caps is_cap bases isinst (CapClass c # cs) =
     (if isinst c then Inr True else has_caps is_cap bases isinst cs)"

section \<open>Filling objects\<close>

text \<open>
  The value of a field of an object: an object with \<^verbatim>\<open>__iscomplete__\<close> (its truth value
  and whether it is complete), any other value (its truth value), a list or tuple, a
  dict (its values).
\<close>

datatype ovalue = OObj bool bool | OPlain bool | OList "ovalue list" | ODict "ovalue list"

fun incomplete_obj :: "ovalue \<Rightarrow> bool" where
  "incomplete_obj (OObj t c) = (\<not> c)"
| "incomplete_obj _ = False"

text \<open>The test of lines 198--210 on one field.\<close>

fun field_missing :: "ovalue \<Rightarrow> bool" where
  "field_missing (ODict vs) = (\<exists>v \<in> set vs. incomplete_obj v)"
| "field_missing (OList vs) = (\<exists>v \<in> set vs. incomplete_obj v)"
| "field_missing (OObj t c) = (\<not> t \<or> \<not> c)"
| "field_missing (OPlain t) = (\<not> t)"

text \<open>
  \<^verbatim>\<open>fillobj\<close> (lines 191--220): the fields asked for that the object has and that are
  missing, in the order asked, then the filler of the first class of \<^verbatim>\<open>OBJECTS\<close> the object
  is an instance of; a filler returning \<open>None\<close> (the false value it returns) leaves the
  object as it is.
\<close>

datatype fill_error = ObjectNotSupported

definition missing_fields :: "(string \<Rightarrow> ovalue option) \<Rightarrow> string list \<Rightarrow> string list" where
  "missing_fields getf fs = filter (\<lambda>f. case getf f of Some v \<Rightarrow> field_missing v | None \<Rightarrow> False) fs"

definition fillobj :: "(string \<times> ('o \<Rightarrow> string list \<Rightarrow> 'o option)) list \<Rightarrow> ('o \<Rightarrow> string \<Rightarrow> bool) \<Rightarrow>
                       ('o \<Rightarrow> string \<Rightarrow> ovalue option) \<Rightarrow> 'o \<Rightarrow> string list \<Rightarrow> fill_error + 'o" where
  "fillobj OBJECTS isinst getf obj fs =
     (let missing = missing_fields (getf obj) fs in
      case [fill. (cls, fill) \<leftarrow> OBJECTS, isinst obj cls] of
        [] \<Rightarrow> Inl ObjectNotSupported
      | fill # _ \<Rightarrow> Inr (case fill obj missing of Some obj' \<Rightarrow> obj' | None \<Rightarrow> obj))"

section \<open>Properties of the configuration\<close>

text \<open>A successful constructor configures every field of \<^verbatim>\<open>CONFIG\<close>, in its order.\<close>

lemma config_loop_keys: "config_loop F config CONFIG = Inr cfg \<Longrightarrow> map fst cfg = map fst CONFIG"
  by (induction F config CONFIG arbitrary: cfg rule: config_loop.induct) (auto simp: ebind_eq_Inr)

lemma config_loop_values:
  "config_loop F config CONFIG = Inr cfg \<Longrightarrow>
     list_all2 (\<lambda>(n, f) (n', v). n' = n \<and> config_one F config n f = Inr v) CONFIG cfg"
  by (induction F config CONFIG arbitrary: cfg rule: config_loop.induct) (auto simp: ebind_eq_Inr)

text \<open>A field without value and without default stops the constructor.\<close>

lemma config_one_missing:
  "map_of config name = None \<Longrightarrow> cf_default field = CNone \<Longrightarrow> \<exists>msg. config_one F config name field = Inl (ConfigError msg)"
  by (simp add: config_one_def)

text \<open>A field with a boolean default always ends as a boolean, and one with an integer default as an integer or a boolean.\<close>

lemma convert_bool: "convert_value F (CBool b) v = Inr w \<Longrightarrow> \<exists>b'. w = CBool b'"
  by (cases v) (auto simp: convert_value_def)

lemma convert_int: "convert_value F (CInt i) v = Inr w \<Longrightarrow> (\<exists>i'. w = CInt i') \<or> (\<exists>b. w = CBool b)"
  by (cases v) (auto simp: convert_value_def split: option.splits)

lemma config_one_bool:
  "cf_default field = CBool b \<Longrightarrow> config_one F config name field = Inr w \<Longrightarrow> \<exists>b'. w = CBool b'"
  by (auto simp: config_one_def Let_def split: if_splits option.splits dest: convert_bool)

lemma config_one_regexp:
  "cf_regexp field = Some r \<Longrightarrow> r \<noteq> [] \<Longrightarrow> config_one F config name field = Inr w \<Longrightarrow>
     re_match F r (cval_str F (case map_of config name of Some v \<Rightarrow> v | None \<Rightarrow> cf_default field))"
  by (auto simp: config_one_def Let_def split: if_splits)

text \<open>The private configuration holds exactly the user's fields whose name starts with an underscore.\<close>

lemma backend_init_private:
  "backend_init F CONFIG name config = Inr b \<Longrightarrow>
     set (be_private_config b) = {(k, v) \<in> set config. prefix ''_'' k} \<and> be_config b \<noteq> [] \<longleftrightarrow> CONFIG \<noteq> []"
  by (auto simp: backend_init_def ebind_eq_Inr dest!: config_loop_keys)

section \<open>Properties of the browser and the capabilities\<close>

text \<open>The private \<^verbatim>\<open>_proxy\<close> takes precedence over the environment.\<close>

lemma create_browser_private_proxy:
  "map_of (be_private_config b) ''_proxy'' = Some p \<Longrightarrow> create_browser True environ b = Some (Some p)"
  by (simp add: create_browser_def)

text \<open>The browser is created once: a second access returns it and changes nothing.\<close>

lemma browser_prop_cached:
  "browser_prop h e b = (br, b') \<Longrightarrow> browser_prop h e b' = (br, b')"
  by (auto simp: browser_prop_def Let_def split: option.splits)

text \<open>
  \<^verbatim>\<open>has_caps\<close> with the name of a capability the backend does not have raises
  \<^verbatim>\<open>TypeError\<close> instead of going on with the other capabilities or returning
  \<^verbatim>\<open>False\<close>.
\<close>

lemma has_caps_unknown_name:
  "c \<notin> set (iter_caps is_cap bases) \<Longrightarrow> has_caps is_cap bases isinst (CapName c # cs) = Inl (PyErr TypeError)"
  by simp

lemma has_caps_classes:
  "has_caps is_cap bases isinst (map CapClass cs) = Inr (\<exists>c \<in> set cs. isinst c)"
  by (induction cs) auto

section \<open>Properties of fillobj\<close>

text \<open>
  The missing fields are those asked for, in the order asked; an empty list or dict
  field is never missing, and a plain value is missing when it is false.
\<close>

lemma missing_fields_subseq: "subseq (missing_fields getf fs) fs"
  by (simp add: missing_fields_def)

lemma field_missing_empty: "\<not> field_missing (OList []) \<and> \<not> field_missing (ODict [])"
  by simp

lemma fillobj_unsupported:
  "\<forall>(cls, fill) \<in> set OBJECTS. \<not> isinst obj cls \<Longrightarrow> fillobj OBJECTS isinst getf obj fs = Inl ObjectNotSupported"
proof -
  assume h: "\<forall>(cls, fill) \<in> set OBJECTS. \<not> isinst obj cls"
  have e: "[fill. (cls, fill) \<leftarrow> OBJECTS, isinst obj cls] = []"
    using h by (induction OBJECTS) auto
  show ?thesis unfolding fillobj_def Let_def e by simp
qed

end
