(* ===== verification/Spec2Isabelle.thy ===== *)
theory Spec2Isabelle
  imports FilterChain Scenarios BankRetry CaisseAccounts CaisseLife Bred GanPatrimoine Kolb SocGen BanquePopulaire Backend
begin

text \<open>
  \<^bold>\<open>A verification development of the weboob scraping core.\<close>

  The repository is a collection of site modules built on a small framework. The
  framework's reusable part, which this development models, has three pieces, and the
  bank modules add the others:
  \<^item> the extraction filters of \<^verbatim>\<open>src/weboob/tools/browser2/filters.py\<close>, pure functions
    from a parsed document (or a value selected from it) to a typed value or an exception,
    chained through their selectors;
  \<^item> the URL dispatch of \<^verbatim>\<open>BaseBrowser._change_location\<close> in
    \<^verbatim>\<open>src/weboob/tools/browser/browser.py\<close>, which maps the URL of a response to a page
    class through the table \<^verbatim>\<open>PAGES\<close>;
  \<^item> the navigation engine of the same file (\<^verbatim>\<open>check_location\<close>, the retry decorator,
    \<^verbatim>\<open>location\<close>, \<^verbatim>\<open>_change_location\<close>, \<^verbatim>\<open>home\<close>) and a site's login procedure,
    which open a URL, dispatch the response, log in again when the site says the session
    is gone, and retry the navigation;
  \<^item> the retry helpers of \<^verbatim>\<open>src/modules/banquepopulaire/browser.py\<close>
    (\<^verbatim>\<open>retry\<close>, \<^verbatim>\<open>iter_retry\<close>, \<^verbatim>\<open>no_need_login\<close>), which wrap the bank
    browser's methods: a method raising a transient exception is called again, and an
    iterator it returned is re-created and fast-forwarded past the items already yielded.
  \<^item> the JSON login pages of \<^verbatim>\<open>src/modules/caissedepargne/pages.py\<close>, which read
    the bank's authentication answers: the validation units, the security level, the
    error statuses and the space to log in to.
  \<^item> the account list of the same file (\<^verbatim>\<open>IndexPage\<close>), which reads the accounts and
    the loans off the HTML page of either layout of the site and stores them in an
    \<^verbatim>\<open>OrderedDict\<close> by id.
  \<^item> the JSON and error pages of the Bred module, \<^verbatim>\<open>src/modules/bred/bred/pages.py\<close>,
    which read the login answers, the universes, the accounts, loans and life
    insurances, the history and the profile off the bank's JSON API, and raise on its
    error pages.
  \<^item> the JSON pages of the life insurances of Caisse d'Epargne, the pages of Gan
    Patrimoine (\<^verbatim>\<open>src/modules/ganpatrimoine/pages.py\<close>), the browser of Kolb
    (\<^verbatim>\<open>src/modules/kolb/browser.py\<close>), the account list and history pages of Societe
    Generale (\<^verbatim>\<open>src/modules/societegenerale/pages/accounts_list.py\<close>) and the browser of
    Banque Populaire (\<^verbatim>\<open>src/modules/banquepopulaire/browser.py\<close>), which navigates
    from the list of accounts to their IBAN, investments and history.
  The filters are called by the site modules on the document of the current page; the
  engine calls the dispatch on every response and the site's \<^verbatim>\<open>is_logged\<close>,
  \<^verbatim>\<open>login\<close> and \<^verbatim>\<open>on_loaded\<close>.

  \<^bold>\<open>Theories.\<close>
  \<^item> \<open>Prelude\<close>: the Python values (\<open>pyval\<close>), the document tree (\<open>node\<close>), Python's
    decimals (\<open>decimal\<close>), the filters' exceptions (\<open>py_error\<close>), whitespace classes,
    \<open>strip\<close>, \<open>join\<close>, the first-match scan \<open>first_some\<close> and \<open>py_mapM\<close>.
  \<^item> \<open>TextClean\<close>: \<^verbatim>\<open>CleanText\<close> (\<open>collapse_ws\<close>, \<open>clean_str\<close>, \<open>py_clean\<close>,
    \<open>remove\<close>, \<open>clean_text_filter\<close>): the normal form of cleaned text, idempotence and
    the filter's result on a selection (C2).
  \<^item> \<open>Decimal\<close>: Python's \<^verbatim>\<open>Decimal\<close> constructor on strings (\<open>parse_decimal_str\<close>,
    \<open>py_Decimal\<close>) and \<^verbatim>\<open>CleanDecimal\<close> (\<open>clean_decimal\<close>): the exact round trip of
    continental amounts (C4), the default contract (C5), the spec's examples and the paths
    behind two findings.
  \<^item> \<open>FilterChain\<close>: the other filters (\<^verbatim>\<open>Attr\<close>, \<^verbatim>\<open>Link\<close>, \<^verbatim>\<open>Regexp\<close>,
    \<^verbatim>\<open>Map\<close>, \<^verbatim>\<open>DateTime\<close>, \<^verbatim>\<open>Date\<close>, \<^verbatim>\<open>Time\<close>, \<^verbatim>\<open>Duration\<close>, \<^verbatim>\<open>Format\<close>,
    \<^verbatim>\<open>Join\<close>, \<^verbatim>\<open>Env\<close>, \<^verbatim>\<open>TableCell\<close>) as a datatype \<open>filt\<close> of filters on selectors
    \<open>sel\<close>, evaluated by \<open>apply_filter\<close> and \<open>select\<close> as \<^verbatim>\<open>Filter.__call__\<close> chains
    them; XPath, \<^verbatim>\<open>re\<close>, \<^verbatim>\<open>dateutil\<close> and \<^verbatim>\<open>%\<close> formatting are parameters
    (\<open>fenv\<close>). The fixed patterns of \<^verbatim>\<open>Time\<close> and \<^verbatim>\<open>Duration\<close> are written out
    as their backtracking matches (\<open>time_at\<close>, \<open>duration_at\<close>, \<open>re_search_at\<close>):
    \<^verbatim>\<open>HH:MM\<close> is read right (C38), \<^verbatim>\<open>14h30\<close> is read as 01:04 (C39), and
    \<^verbatim>\<open>Regexp\<close> on an XPath selection always raises (C40).
  \<^item> \<open>Dispatch\<close>: \<open>find_page\<close>, first match in table order, and independence of the
    order when at most one pattern matches (C8, C10). The regular-expression engine is a
    parameter \<open>matcher\<close>.
  \<^item> \<open>Browser\<close>: the engine. Its state (\<open>bstate\<close>) is the current page, the cookies,
    the host of the last request, the cookies saved to the jar and a trace of events; a
    site (\<open>site\<close>) holds the class attributes and the site's methods, and the transport
    as a function \<open>net\<close> from cookies and request to a response or mechanize's exception.
    The mutually recursive methods are one function \<open>exec\<close> over a datatype \<open>call\<close>,
    with fuel (one unit per call), one equation and one elimination rule per call.
  \<^item> \<open>BankSite\<close>: concrete sites for the spec's scenarios (a bank with a login page,
    a portal whose page asks for retries, a server in outage).
  \<^item> \<open>Navigation\<close>: invariants of every run (the trace only grows, the current page is
    the dispatch of its URL), the re-login guard and bound, termination with enough fuel,
    fuel monotonicity, the transport-error paths, and the unbounded retry (C11--C14,
    C16--C19).
  \<^item> \<open>Scenarios\<close>: the end-to-end scenario, a login landing on the target, a wrong
    password, and the URL normalisation of \<open>check_location\<close>: an absolute URL is kept
    (C23), the fragment is cut at the last \<open>#\<close> of a line (C24), and a URL with two
    \<open>#\<close> is changed again when it is checked again (C25).
  \<^item> \<open>BankRetry\<close>: the decorator (\<open>retry_loop\<close>, \<open>retry\<close>) and the iterator wrapper
    (\<open>consume\<close>, \<open>take_one\<close>, \<open>iter_next\<close> for \<^verbatim>\<open>__next__\<close>, \<open>iter_all\<close> for
    \<^verbatim>\<open>list()\<close>), with an iterator as a list of items and its end. The contract: on a
    site whose calls yield prefixes of one list, \<^verbatim>\<open>list()\<close> returns exactly that list
    (C27, a refinement through the invariant \<open>consistent_state\<close>); the error paths
    (the count of the \<^verbatim>\<open>'fewer elements'\<close> error, a callback raising on re-creation, the
    exhaustion of the tries, C28, C29, C31); the accounting of tries over every run
    (\<open>iter_steps\<close>, C32); and \<^verbatim>\<open>no_need_login\<close>, which runs the method with logins
    disabled and gives the counter back (C33).
    \<open>iter_next\<close> terminates on the tries left, and \<open>iter_all\<close> on the tries left, whether
    the iterator is to be re-created and the length of what it has left
    (\<open>iter_rank\<close>): no fuel is needed.
  \<^item> \<open>JsonValue\<close>: a decoded JSON document as a datatype \<open>json\<close>, the exceptions of
    the JSON pages (\<open>auth_exc\<close>), the Python operations on decoded values
    (\<open>py_item\<close>, \<open>py_get\<close>, \<open>py_in\<close>, \<open>py_iter\<close>, \<open>py_len\<close>) raising as Python
    does, and the woob filters \<^verbatim>\<open>Dict\<close>, \<^verbatim>\<open>Coalesce\<close> and \<^verbatim>\<open>MapIn\<close> modelled
    from their documentation.
  \<^item> \<open>BankCaps\<close>: the constants of \<^verbatim>\<open>woob.capabilities.bank\<close> the pages set (account
    and transaction types, ownership) and dates.
  \<^item> \<open>CaisseAuth\<close>: the JSON pages of the login of
    \<^verbatim>\<open>src/modules/caissedepargne/pages.py\<close>, on the values of \<open>JsonValue\<close>. It shows that
    \<^verbatim>\<open>check_errors\<close> returns only on a success status (C34), which space
    \<^verbatim>\<open>get_connection_type\<close> chooses from one or two subscriptions (C36) and exactly
    when it raises \<^verbatim>\<open>IndexError\<close> (C37), with lemmas on the table of
    \<^verbatim>\<open>is_sca_expected\<close>, the validation units and the login context.
  \<^item> \<open>HtmlDoc\<close>: the part of lxml the pages use on the document tree (children,
    descendants in document order, previous sibling and parent, attributes,
    \<^verbatim>\<open>CleanText\<close> of an element), with which each XPath expression of a page is written.
  \<^item> \<open>CaisseAccounts\<close>: \<^verbatim>\<open>IndexPage\<close> of \<^verbatim>\<open>src/modules/caissedepargne/pages.py\<close>:
    the type tables, \<open>get_ownership\<close> (its pattern written out as \<open>co_owner_pattern\<close>),
    \<open>get_owner_type\<close>, \<open>find_and_replace\<close>, \<open>get_account_info\<close>,
    \<open>add_account\<close>, \<open>get_list\<close> on both layouts (a loop per table and per row, the
    state \<open>cde_state\<close> holding the accounts, the loop variable \<^verbatim>\<open>a\<close> and the browser's
    login count), \<open>go_loans_conso\<close> and \<open>get_loan_list\<close>; Python's decimal negation,
    \<^verbatim>\<open>abs\<close> and subtraction in the default context. The woob filters and the browser's
    navigation are parameters (\<open>cde_env\<close>, \<open>loan_env\<close>). Lemmas: every account and
    loan is stored under its own id, so both lists have distinct ids; a loan of the new
    layout never has a positive balance; and the failure paths behind four findings
    (a row without cells, a credit link without id, the civility test, a technical
    error page).
  \<^item> \<open>Bred\<close>: every page method of \<^verbatim>\<open>src/modules/bred/bred/pages.py\<close>: the login
    answers, \<open>get_universes\<close> (a dict as an association list, \<open>od_set\<close>),
    \<open>iter_accounts\<close> (a loop over contents and postes, the state the set \<^verbatim>\<open>seen\<close>
    and what was yielded, tagged with the branch), \<open>iter_loans\<close> and
    \<open>iter_lifeinsurances\<close> (woob's \<^verbatim>\<open>ListElement.store\<close>, \<open>store_item\<close>),
    \<open>check_error\<close>, \<open>iter_history\<close> (\<open>op_step\<close> on the operations from the last,
    threading \<^verbatim>\<open>seen\<close>), \<open>get_profile\<close> and the error pages. The woob filters on
    numbers and dates, \<^verbatim>\<open>date.fromtimestamp\<close> and \<^verbatim>\<open>Transaction.parse\<close> are
    parameters (\<open>bred_env\<close>). Lemmas: loans have distinct ids and a repeated one
    raises (C22); the accounts of the labelled branch have distinct ids; the dict of universes
    has each key once; \<^verbatim>\<open>seen\<close> only grows and stays duplicate-free; and the paths
    behind four findings (integer operation ids are not deduplicated, a repeated
    portfolio is yielded twice, a poste without file number raises, a numeric error
    code 90000 is not recognised).
  \<^item> \<open>PyNumbers\<close>: Python's \<^verbatim>\<open>str\<close>, \<^verbatim>\<open>int\<close>, \<^verbatim>\<open>str.replace\<close>,
    \<^verbatim>\<open>str.split\<close>, \<^verbatim>\<open>str.upper\<close> and the word boundaries of \<^verbatim>\<open>re\<close> on the Latin-1
    range, and the decimal arithmetic the pages do (negation, \<^verbatim>\<open>abs\<close>, subtraction,
    \<^verbatim>\<open>/ 100\<close>, which is exact, C3). \<^verbatim>\<open>CleanText\<close> is \<^verbatim>\<open>' '.join(s.split())\<close> on a
    string whose separators are all blanks of its pattern (C1).
  \<^item> \<open>WoobElements\<close>: woob's \<^verbatim>\<open>DictElement\<close> selection and
    \<^verbatim>\<open>ListElement.store\<close> (\<open>store_item\<close>, \<open>store_json\<close>): stored ids are distinct and
    a repeated one raises \<^verbatim>\<open>DataError\<close>.
  \<^item> \<open>CaisseLife\<close>: the life insurance JSON pages of
    \<^verbatim>\<open>src/modules/caissedepargne/pages.py\<close> (history, investments, Natixis): the
    Natixis history yields only dated, labelled transactions (C26), and the findings on
    labels with dots and a missing quotation.
  \<^item> \<open>GanPatrimoine\<close>: the login, account, details, investment and history pages of
    \<^verbatim>\<open>src/modules/ganpatrimoine/pages.py\<close>; the login password round trip (C20) and
    the distinct ids of the accounts (C15).
  \<^item> \<open>Kolb\<close>: \<^verbatim>\<open>KolbBrowser\<close> over a site record (its pages are not in the
    sources): login, accounts, IBAN, history with fuel (monotone, and enough with a rank
    the next pages lower), investments and profile.
  \<^item> \<open>SocGen\<close>: the account list and history pages of Societe Generale, the URL
    search of \<^verbatim>\<open>get_part_url\<close> shown sound (C9), no card in the account list (C21),
    and the history loop with fuel.
  \<^item> \<open>BanquePopulaire\<close>: the browser \<^verbatim>\<open>BanquePopulaire\<close> over a site record
    \<open>bp_site\<close> (its pages are not in the sources) and the state \<open>bp_state\<close> of its
    attributes: \<open>set_account_ownership\<close> on a store of account objects whose parent is
    an address (it returns with fuel above the address when parents come first, C6, an
    account takes its parent's ownership, C7, and without owner name it raises
    \<^verbatim>\<open>TypeError\<close>, a finding), \<open>go_on_accounts_list\<close> (the URL that works
    becomes the only one, C30), \<open>get_loan_from_account\<close>, \<open>get_iban_number\<close> (no IBAN
    for a life insurance or market account, C35), \<open>go_investments\<close>, \<open>iter_investments\<close>,
    \<open>iter_market_orders\<close> (only from Linebourse), \<open>get_invest_history\<close> (Python's
    stable reverse sort \<open>sort_desc\<close>, shown stable and a permutation),
    \<open>bp_iter_history\<close> (the pages have fuel, monotone), the GoCardless details, the
    profile, the advisor, the owner type and the subbank of the URL (its regular
    expression written out as its backtracking search). The login and
    \<^verbatim>\<open>iter_accounts\<close> are the site's.
  \<^item> \<open>Backend\<close>: \<^verbatim>\<open>BaseBackend\<close> of \<^verbatim>\<open>src/weboob/tools/backend.py\<close>, the class every
    site module's backend extends: the check and conversion of the configuration in the
    constructor (\<open>config_one\<close>, \<open>config_loop\<close>, \<open>backend_init\<close>), the proxy of
    \<open>create_browser\<close>, the browser created once (\<open>browser_prop\<close>), \<open>has_caps\<close> and the
    missing fields of \<open>fillobj\<close>, with lemmas on each; \<open>has_caps_unknown_name\<close> shows
    that a capability name the backend lacks raises \<^verbatim>\<open>TypeError\<close>.

  \<^bold>\<open>Fuel.\<close> \<open>exec\<close> returns \<open>None\<close> when its fuel runs out. Without state errors,
  and when no page's \<^verbatim>\<open>on_loaded\<close> raises \<^verbatim>\<open>BrowserRetry\<close>, a top-level
  \<^verbatim>\<open>location\<close> needs at most 13 units: one for \<^verbatim>\<open>check_location\<close>, three for the
  decorator's tries, and nine for a body that may log in (seven units: the login's own
  navigation with \<^verbatim>\<open>no_login=True\<close>, which cannot log in again) and navigate again (six
  units). The function \<open>fuel\<close> gives the need of every call, \<open>exec_total\<close> shows it is
  enough and \<open>exec_mono\<close> that more fuel changes nothing. A state error makes
  \<^verbatim>\<open>location\<close> go home and start again with no bound, and a page raising
  \<^verbatim>\<open>BrowserRetry\<close> after a redirect makes it loop (C19): there \<open>None\<close> for every fuel is
  the model's non-termination.

  \<^bold>\<open>Not modelled.\<close> The HTTP transport (mechanize), the HTML parser, logging, the lock
  and the saving of responses to disk are collaborators: the engine takes the transport
  as a function. The regular-expression engine is a parameter of the dispatch. The
  methods \<^verbatim>\<open>follow_link\<close>, \<^verbatim>\<open>submit\<close>, \<^verbatim>\<open>openurl\<close>, \<^verbatim>\<open>readurl\<close> and
  \<^verbatim>\<open>keepalive\<close> of the engine, the filter \<^verbatim>\<open>Field\<close> (which evaluates another field of
  the item), the storage and lock of the backends are not modelled. Of the Banque
  Populaire browser, the login (\<^verbatim>\<open>do_login\<close>, \<^verbatim>\<open>init_login\<close>, \<^verbatim>\<open>do_new_login\<close>
  and the 2FA handlers), \<^verbatim>\<open>iter_accounts\<close> (whose generator of the pages appends to
  \<^verbatim>\<open>next_pages\<close> while it is read, and whose laziness \<^verbatim>\<open>get_account\<close> relies on)
  and the document methods are not modelled; the pages of the modules whose
  \<^verbatim>\<open>pages.py\<close> is not in the sources (Kolb, Banque Populaire) are parameters. The other
  site modules (Ameli, Credit du Nord and the remaining pages of Caisse d'Epargne and
  Societe Generale: transfers, market pages, virtual keyboards, which need image
  processing, and the regular-expression pages \<^verbatim>\<open>JsFilePage\<close>) are not modelled yet;
  \<^verbatim>\<open>LoginPage.get_connection_type\<close> parses a URL with the standard library and is not
  modelled. The CLI and GUI applications are user interface; \<^verbatim>\<open>DateTime\<close> and
  \<^verbatim>\<open>Date\<close> call \<^verbatim>\<open>dateutil\<close>, a library.
\<close>

end
